(* ===== verification/Prelude.thy ===== *)
theory Prelude
  imports Main "HOL-Library.Word" "HOL-Library.AList" "HOL-Library.Sublist"
begin

text \<open>
  Shared ground of the development: machine integers with the saturating operations of
  Rust's standard library, results as sums, hash maps as association lists with distinct
  keys, and byte strings (a Rust \<open>str\<close> is its UTF-8 byte sequence, one \<open>char\<close> per byte)
  with the few \<open>str\<close> methods the program calls.
\<close>

named_theorems store_simps "reading a record of the model's state after a write to it"
named_theorems guard_simps "unfolding the permission and option guards of the handlers"

section \<open>Machine integers\<close>

type_synonym u8 = "8 word"
type_synonym u16 = "16 word"
type_synonym u32 = "32 word"
type_synonym u64 = "64 word"
type_synonym u128 = "128 word"

definition sat_add :: "'a::len word \<Rightarrow> 'a word \<Rightarrow> 'a word" where
  "sat_add a b = (if unat a + unat b < 2 ^ LENGTH('a) then a + b else - 1)"

definition sat_sub :: "'a::len word \<Rightarrow> 'a word \<Rightarrow> 'a word" where
  "sat_sub a b = (if b \<le> a then a - b else 0)"

definition sat_mul :: "'a::len word \<Rightarrow> 'a word \<Rightarrow> 'a word" where
  "sat_mul a b = (if unat a * unat b < 2 ^ LENGTH('a) then a * b else - 1)"

lemma unat_max_word: "unat (- 1 :: 'a::len word) = 2 ^ LENGTH('a) - 1"
  by (simp add: unsigned_minus_1_eq_mask mask_eq_exp_minus_1)

lemma unat_sat_add: "unat (sat_add a b) = min (unat a + unat b) (2 ^ LENGTH('a) - 1)"
  for a b :: "'a::len word"
  by (auto simp: sat_add_def unat_max_word unat_word_ariths min_def)

lemma unat_sat_sub: "unat (sat_sub a b) = unat a - unat b"
  for a b :: "'a::len word"
  by (auto simp: sat_sub_def unat_sub word_le_nat_alt)

lemma unat_sat_mul: "unat (sat_mul a b) = min (unat a * unat b) (2 ^ LENGTH('a) - 1)"
  for a b :: "'a::len word"
proof (cases "unat a * unat b < 2 ^ LENGTH('a)")
  case True
  then show ?thesis by (simp add: sat_mul_def unat_word_ariths)
next
  case False
  then have "2 ^ LENGTH('a) - 1 \<le> unat a * unat b" by linarith
  with False show ?thesis by (simp add: sat_mul_def unat_max_word min_absorb2)
qed

lemma unat_lt64: "unat (w :: u64) < 2 ^ 64"
  using unsigned_less [of w] by simp

section \<open>Results and options\<close>

definition ok_or :: "'e \<Rightarrow> 'a option \<Rightarrow> 'e + 'a" where
  "ok_or e x = (case x of None \<Rightarrow> Inl e | Some v \<Rightarrow> Inr v)"

definition opt_filter :: "('a \<Rightarrow> bool) \<Rightarrow> 'a option \<Rightarrow> 'a option" where
  "opt_filter P x = (case x of None \<Rightarrow> None | Some v \<Rightarrow> if P v then Some v else None)"

definition unwrap_or :: "'a \<Rightarrow> 'a option \<Rightarrow> 'a" where
  "unwrap_or d x = (case x of None \<Rightarrow> d | Some v \<Rightarrow> v)"

definition is_ok :: "'e + 'a \<Rightarrow> bool" where
  "is_ok r = (case r of Inl _ \<Rightarrow> False | Inr _ \<Rightarrow> True)"

lemma ok_or_simps [simp]: "ok_or e None = Inl e" "ok_or e (Some v) = Inr v"
  by (simp_all add: ok_or_def)

lemma opt_filter_simps [simp]:
  "opt_filter P None = None"
  "opt_filter P (Some v) = (if P v then Some v else None)"
  by (simp_all add: opt_filter_def)

lemma unwrap_or_simps [simp]: "unwrap_or d None = d" "unwrap_or d (Some v) = v"
  by (simp_all add: unwrap_or_def)

lemma is_ok_simps [simp]: "\<not> is_ok (Inl e)" "is_ok (Inr v)"
  by (simp_all add: is_ok_def)

lemma opt_filter_SomeD: "opt_filter P x = Some v \<Longrightarrow> x = Some v \<and> P v"
  by (cases x) (auto split: if_splits)

section \<open>Hash maps\<close>

text \<open>
  A \<open>HashMap\<close> is an association list with distinct keys: the order of the list stands for
  the unspecified iteration order, and every lookup and update is the one of the map.
\<close>

type_synonym ('k, 'v) hmap = "('k \<times> 'v) list"

definition hm_ok :: "('k, 'v) hmap \<Rightarrow> bool" where
  "hm_ok m \<longleftrightarrow> distinct (map fst m)"

definition hm_get :: "('k, 'v) hmap \<Rightarrow> 'k \<Rightarrow> 'v option" where
  "hm_get m k = map_of m k"

definition hm_insert :: "'k \<Rightarrow> 'v \<Rightarrow> ('k, 'v) hmap \<Rightarrow> ('k, 'v) hmap" where
  "hm_insert k v m = AList.update k v m"

definition hm_remove :: "'k \<Rightarrow> ('k, 'v) hmap \<Rightarrow> ('k, 'v) hmap" where
  "hm_remove k m = AList.delete k m"

definition hm_keys :: "('k, 'v) hmap \<Rightarrow> 'k list" where
  "hm_keys m = map fst m"

lemma hm_get_empty [simp]: "hm_get [] k = None"
  by (simp add: hm_get_def)

lemma hm_get_insert [simp, store_simps]:
  "hm_get (hm_insert k v m) k' = (if k' = k then Some v else hm_get m k')"
  by (simp add: hm_get_def hm_insert_def update_conv')

lemma hm_get_remove [simp, store_simps]:
  "hm_get (hm_remove k m) k' = (if k' = k then None else hm_get m k')"
  by (simp add: hm_get_def hm_remove_def delete_conv')

lemma hm_ok_empty [simp]: "hm_ok []"
  by (simp add: hm_ok_def)

lemma hm_ok_insert [simp, intro]: "hm_ok m \<Longrightarrow> hm_ok (hm_insert k v m)"
  by (simp add: hm_ok_def hm_insert_def distinct_update)

lemma hm_ok_remove [simp, intro]: "hm_ok m \<Longrightarrow> hm_ok (hm_remove k m)"
  by (simp add: hm_ok_def hm_remove_def distinct_delete)

lemma hm_insert_keys: "set (hm_keys (hm_insert k v m)) = insert k (set (hm_keys m))"
  by (auto simp add: hm_keys_def hm_insert_def update_keys simp del: set_map)

lemma hm_get_None_iff: "hm_get m k = None \<longleftrightarrow> k \<notin> set (hm_keys m)"
  by (simp add: hm_get_def hm_keys_def map_of_eq_None_iff)

lemma hm_get_SomeD: "hm_get m k = Some v \<Longrightarrow> (k, v) \<in> set m"
  by (simp add: hm_get_def map_of_SomeD)

lemma hm_get_iff: "hm_ok m \<Longrightarrow> hm_get m k = Some v \<longleftrightarrow> (k, v) \<in> set m"
  by (simp add: hm_get_def hm_ok_def)

section \<open>Byte strings\<close>

text \<open>
  \<open>ws_front\<close> is the length in bytes of a Unicode \<open>White_Space\<close> character at the front of a
  UTF-8 string, 0 when there is none; \<open>ws_back\<close> reads the reversed string. \<open>trim\<close>,
  \<open>trim_start\<close> and \<open>trim_end\<close> are \<open>str\<close>'s methods of these names.
\<close>

definition byte_in :: "nat \<Rightarrow> nat \<Rightarrow> char \<Rightarrow> bool" where
  "byte_in lo hi c \<longleftrightarrow> lo \<le> (of_char c :: nat) \<and> (of_char c :: nat) \<le> hi"

definition ws_ascii :: "char \<Rightarrow> bool" where
  "ws_ascii c \<longleftrightarrow> byte_in 9 13 c \<or> c = CHR '' ''"

definition ws2 :: "char \<Rightarrow> char \<Rightarrow> bool" where
  "ws2 a b \<longleftrightarrow> a = CHR 0xC2 \<and> (b = CHR 0x85 \<or> b = CHR 0xA0)"

definition ws3 :: "char \<Rightarrow> char \<Rightarrow> char \<Rightarrow> bool" where
  "ws3 a b c \<longleftrightarrow>
     (a = CHR 0xE1 \<and> b = CHR 0x9A \<and> c = CHR 0x80) \<or>
     (a = CHR 0xE2 \<and> b = CHR 0x80 \<and>
        (byte_in 128 138 c \<or> c = CHR 0xA8 \<or> c = CHR 0xA9 \<or> c = CHR 0xAF)) \<or>
     (a = CHR 0xE2 \<and> b = CHR 0x81 \<and> c = CHR 0x9F) \<or>
     (a = CHR 0xE3 \<and> b = CHR 0x80 \<and> c = CHR 0x80)"

fun ws_front :: "string \<Rightarrow> nat" where
  "ws_front s =
     (case s of
        [] \<Rightarrow> 0
      | a # r \<Rightarrow>
          if ws_ascii a then 1
          else (case r of
             [] \<Rightarrow> 0
           | b # r' \<Rightarrow>
               if ws2 a b then 2
               else (case r' of [] \<Rightarrow> 0 | c # _ \<Rightarrow> if ws3 a b c then 3 else 0)))"

fun ws_back :: "string \<Rightarrow> nat" where
  "ws_back s =
     (case s of
        [] \<Rightarrow> 0
      | a # r \<Rightarrow>
          if ws_ascii a then 1
          else (case r of
             [] \<Rightarrow> 0
           | b # r' \<Rightarrow>
               if ws2 b a then 2
               else (case r' of [] \<Rightarrow> 0 | c # _ \<Rightarrow> if ws3 c b a then 3 else 0)))"

declare ws_front.simps [simp del] ws_back.simps [simp del]

function trim_start :: "string \<Rightarrow> string" where
  "trim_start s = (if s = [] \<or> ws_front s = 0 then s else trim_start (drop (ws_front s) s))"
  by pat_completeness auto
termination
  by (relation "measure length") auto

function trim_rev :: "string \<Rightarrow> string" where
  "trim_rev s = (if s = [] \<or> ws_back s = 0 then s else trim_rev (drop (ws_back s) s))"
  by pat_completeness auto
termination
  by (relation "measure length") auto

declare trim_start.simps [simp del] trim_rev.simps [simp del]

definition trim_end :: "string \<Rightarrow> string" where
  "trim_end s = rev (trim_rev (rev s))"

definition trim :: "string \<Rightarrow> string" where
  "trim s = trim_end (trim_start s)"

lemma trim_start_Nil [simp]: "trim_start [] = []"
  by (simp add: trim_start.simps)

lemma trim_start_front: "ws_front (trim_start s) = 0"
  by (induction s rule: trim_start.induct)
    (subst trim_start.simps, auto simp: ws_front.simps)

lemma trim_rev_back: "ws_back (trim_rev s) = 0"
  by (induction s rule: trim_rev.induct)
    (subst trim_rev.simps, auto simp: ws_back.simps)

lemma trim_start_suffix: "suffix (trim_start s) s"
proof (induction s rule: trim_start.induct)
  case (1 s)
  then show ?case
    by (subst trim_start.simps) (auto intro: suffix_order.trans suffix_drop)
qed

lemma trim_start_id: "ws_front s = 0 \<Longrightarrow> trim_start s = s"
  by (subst trim_start.simps) simp

lemma trim_rev_id: "ws_back s = 0 \<Longrightarrow> trim_rev s = s"
  by (subst trim_rev.simps) simp

lemma trim_id: "ws_front s = 0 \<Longrightarrow> ws_back (rev s) = 0 \<Longrightarrow> trim s = s"
  by (simp add: trim_def trim_end_def trim_start_id trim_rev_id)

text \<open>
  \<open>split_once\<close> at a pattern: the text before its first occurrence and the text after it.
\<close>

fun split_once :: "string \<Rightarrow> string \<Rightarrow> (string \<times> string) option" where
  "split_once pat s =
     (if prefix pat s then Some ([], drop (length pat) s)
      else (case s of
         [] \<Rightarrow> None
       | c # r \<Rightarrow> map_option (\<lambda>(a, b). (c # a, b)) (split_once pat r)))"

declare split_once.simps [simp del]

lemma split_once_Some:
  "split_once pat s = Some (a, b) \<Longrightarrow> s = a @ pat @ b"
proof (induction pat s arbitrary: a b rule: split_once.induct)
  case (1 pat s)
  show ?case
  proof (cases "prefix pat s")
    case True
    with "1.prems" show ?thesis
      by (subst (asm) split_once.simps) (auto simp: prefix_def)
  next
    case False
    with "1.prems" obtain c r a' where "s = c # r" "split_once pat r = Some (a', b)" "a = c # a'"
      by (subst (asm) split_once.simps) (auto split: list.splits)
    with "1.IH" False show ?thesis by simp
  qed
qed

definition contains_char :: "char \<Rightarrow> string \<Rightarrow> bool" where
  "contains_char c s \<longleftrightarrow> c \<in> set s"

lemma split_once_char:
  "c \<notin> set a \<Longrightarrow> split_once [c] (a @ c # b) = Some (a, b)"
  by (induction a) (subst split_once.simps; auto)+

text \<open>Slicing a \<open>str\<close> panics off a character boundary; a UTF-8 continuation byte is no boundary.\<close>

definition is_char_boundary :: "string \<Rightarrow> nat \<Rightarrow> bool" where
  "is_char_boundary s n \<longleftrightarrow>
     n = 0 \<or> n = length s \<or> (n < length s \<and> \<not> byte_in 128 191 (s ! n))"

definition slice_to :: "string \<Rightarrow> nat \<Rightarrow> string option" where
  "slice_to s n = (if is_char_boundary s n then Some (take n s) else None)"

definition is_cont :: "char \<Rightarrow> bool" where
  "is_cont c \<longleftrightarrow> byte_in 128 191 c"

text \<open>\<open>str::from_utf8\<close>: the byte sequences of Table 3-7 of the Unicode standard.\<close>

fun utf8_valid :: "string \<Rightarrow> bool" where
  "utf8_valid [] = True"
| "utf8_valid (a # s) =
     (if byte_in 0 127 a then utf8_valid s
      else (case s of
         [] \<Rightarrow> False
       | b # s1 \<Rightarrow>
           if byte_in 194 223 a then is_cont b \<and> utf8_valid s1
           else (case s1 of
              [] \<Rightarrow> False
            | c # s2 \<Rightarrow>
                if byte_in 224 239 a then
                  is_cont b \<and> is_cont c \<and> (a = CHR 0xE0 \<longrightarrow> byte_in 160 191 b) \<and>
                  (a = CHR 0xED \<longrightarrow> byte_in 128 159 b) \<and> utf8_valid s2
                else (case s2 of
                   [] \<Rightarrow> False
                 | d # s3 \<Rightarrow>
                     byte_in 240 244 a \<and> is_cont b \<and> is_cont c \<and> is_cont d \<and>
                     (a = CHR 0xF0 \<longrightarrow> byte_in 144 191 b) \<and>
                     (a = CHR 0xF4 \<longrightarrow> byte_in 128 143 b) \<and> utf8_valid s3))))"

text \<open>
  \<open>String::from_utf8_lossy\<close>: each maximal invalid part becomes U+FFFD.  \<open>utf8_span\<close> is the length of
  the first character or invalid part, and whether it is a character.
\<close>

definition utf8_width :: "char \<Rightarrow> nat" where
  "utf8_width a =
     (if byte_in 0 127 a then 1 else if byte_in 194 223 a then 2
      else if byte_in 224 239 a then 3 else if byte_in 240 244 a then 4 else 0)"

definition utf8_second :: "char \<Rightarrow> char \<Rightarrow> bool" where
  "utf8_second a b \<longleftrightarrow> is_cont b \<and>
     (a = CHR 0xE0 \<longrightarrow> byte_in 160 191 b) \<and> (a = CHR 0xED \<longrightarrow> byte_in 128 159 b) \<and>
     (a = CHR 0xF0 \<longrightarrow> byte_in 144 191 b) \<and> (a = CHR 0xF4 \<longrightarrow> byte_in 128 143 b)"

definition utf8_span :: "char \<Rightarrow> string \<Rightarrow> nat \<times> bool" where
  "utf8_span a s =
     (if utf8_width a \<le> 1 then (1, utf8_width a = 1)
      else if s = [] \<or> \<not> utf8_second a (hd s) then (1, False)
      else if utf8_width a = 2 then (2, True)
      else if length s < 2 \<or> \<not> is_cont (s ! 1) then (2, False)
      else if utf8_width a = 3 then (3, True)
      else if length s < 3 \<or> \<not> is_cont (s ! 2) then (3, False)
      else (4, True))"

lemma utf8_span_pos: "0 < fst (utf8_span a s)"
  by (simp add: utf8_span_def)

function utf8_lossy :: "string \<Rightarrow> string" where
  "utf8_lossy [] = []"
| "utf8_lossy (a # s) =
     (if snd (utf8_span a s) then take (fst (utf8_span a s)) (a # s) else [CHR 0xEF, CHR 0xBF, CHR 0xBD]) @
     utf8_lossy (drop (fst (utf8_span a s) - 1) s)"
  by pat_completeness auto
termination
  by (relation "measure length") auto

lemma utf8_width_cases:
  "byte_in 0 127 a \<Longrightarrow> utf8_width a = 1"
  "byte_in 194 223 a \<Longrightarrow> utf8_width a = 2 \<and> \<not> byte_in 0 127 a"
  "byte_in 224 239 a \<Longrightarrow> utf8_width a = 3 \<and> \<not> byte_in 0 127 a \<and> \<not> byte_in 194 223 a \<and> a \<noteq> CHR 0xF0 \<and> a \<noteq> CHR 0xF4"
  "byte_in 240 244 a \<Longrightarrow> utf8_width a = 4 \<and> \<not> byte_in 0 127 a \<and> \<not> byte_in 194 223 a \<and> \<not> byte_in 224 239 a \<and>
    a \<noteq> CHR 0xE0 \<and> a \<noteq> CHR 0xED"
  by (auto simp: utf8_width_def byte_in_def)

lemma utf8_second_2: "byte_in 194 223 a \<Longrightarrow> is_cont b \<Longrightarrow> utf8_second a b"
  by (auto simp: utf8_second_def byte_in_def)

lemma utf8_valid_lead:
  assumes "utf8_valid (a # s)"
  shows "byte_in 0 127 a \<or> byte_in 194 223 a \<or> byte_in 224 239 a \<or> byte_in 240 244 a"
proof (rule ccontr)
  assume "\<not> ?thesis"
  with assms show False
    by (cases s; cases "tl s"; cases "tl (tl s)") simp_all
qed

lemma utf8_lossy_valid: "utf8_valid s \<Longrightarrow> utf8_lossy s = s"
proof (induction s rule: utf8_valid.induct)
  case (2 a s)
  consider "byte_in 0 127 a" | "byte_in 194 223 a" | "byte_in 224 239 a" | "byte_in 240 244 a"
    using utf8_valid_lead [OF "2.prems"] by blast
  then show ?case
  proof cases
    case 1
    with 2 utf8_width_cases(1) [OF 1] show ?thesis by (simp add: utf8_span_def)
  next
    case w: 2
    note ws = utf8_width_cases(2) [OF w]
    obtain b s1 where s: "s = b # s1" using "2.prems" w ws by (cases s) simp_all
    with "2.prems" w ws have "is_cont b" "utf8_valid s1" by simp_all
    moreover have "utf8_lossy s1 = s1" by (rule "2.IH"(2) [OF _ s]) (use w ws calculation in simp_all)
    ultimately show ?thesis using s ws utf8_second_2 [OF w, of b] by (simp add: utf8_span_def)
  next
    case w: 3
    note ws = utf8_width_cases(3) [OF w]
    obtain b c s2 where s: "s = b # c # s2"
      using "2.prems" w ws by (cases s; cases "tl s") simp_all
    with "2.prems" w ws have "utf8_second a b" "is_cont c" "utf8_valid s2"
      by (simp_all add: utf8_second_def)
    moreover have "utf8_lossy s2 = s2"
      by (rule "2.IH"(3) [OF _ s]) (use w ws calculation in simp_all)
    ultimately show ?thesis using s ws by (simp add: utf8_span_def numeral_eq_Suc)
  next
    case w: 4
    note ws = utf8_width_cases(4) [OF w]
    obtain b c d s3 where s: "s = b # c # d # s3"
      using "2.prems" w ws by (cases s; cases "tl s"; cases "tl (tl s)") simp_all
    with "2.prems" w ws have "utf8_second a b" "is_cont c" "is_cont d" "utf8_valid s3"
      by (simp_all add: utf8_second_def)
    moreover have "utf8_lossy s3 = s3"
      by (rule "2.IH"(4) [OF _ s]) (use w ws calculation in simp_all)
    ultimately show ?thesis using s ws by (simp add: utf8_span_def numeral_eq_Suc)
  qed
qed simp

definition is_digit :: "char \<Rightarrow> bool" where
  "is_digit c \<longleftrightarrow> byte_in 48 57 c"

definition is_alnum :: "char \<Rightarrow> bool" where
  "is_alnum c \<longleftrightarrow> is_digit c \<or> byte_in 65 90 c \<or> byte_in 97 122 c"

definition ascii_lower :: "char \<Rightarrow> char" where
  "ascii_lower c = (if byte_in 65 90 c then char_of (of_char c + 32 :: nat) else c)"

fun join_str :: "string \<Rightarrow> string list \<Rightarrow> string" where
  "join_str sep [] = []"
| "join_str sep [x] = x"
| "join_str sep (x # y # xs) = x @ sep @ join_str sep (y # xs)"

text \<open>Lower-case hexadecimal and decimal printing (\<open>{:x}\<close> and \<open>{}\<close>) of naturals.\<close>

definition hex_digit :: "nat \<Rightarrow> char" where
  "hex_digit d = (if d < 10 then char_of (48 + d) else char_of (87 + d))"

fun digits_of :: "nat \<Rightarrow> nat \<Rightarrow> nat list" where
  "digits_of b n = (if b < 2 \<or> n < b then [n] else digits_of b (n div b) @ [n mod b])"

declare digits_of.simps [simp del]

definition show_hex :: "nat \<Rightarrow> string" where
  "show_hex n = map hex_digit (digits_of 16 n)"

definition show_dec :: "nat \<Rightarrow> string" where
  "show_dec n = map hex_digit (digits_of 10 n)"

fun undigits :: "nat \<Rightarrow> nat list \<Rightarrow> nat" where
  "undigits b ds = foldl (\<lambda>a d. a * b + d) 0 ds"

lemma undigits_digits: "2 \<le> b \<Longrightarrow> undigits b (digits_of b n) = n"
  by (induction b n rule: digits_of.induct) (subst digits_of.simps, auto)

lemma digits_of_lt: "2 \<le> b \<Longrightarrow> \<forall>d \<in> set (digits_of b n). d < b"
  by (induction b n rule: digits_of.induct) (subst digits_of.simps, auto)

lemma digits_of_inject: "2 \<le> b \<Longrightarrow> digits_of b m = digits_of b n \<Longrightarrow> m = n"
  by (metis undigits_digits)

lemma of_char_hex_digit:
  "d < 16 \<Longrightarrow> of_char (hex_digit d) = (if d < 10 then 48 + d else 87 + d)"
  by (simp add: hex_digit_def)

lemma hex_digit_inj:
  assumes "a < 16" "b < 16" "hex_digit a = hex_digit b"
  shows "a = b"
proof -
  have "(if a < 10 then 48 + a else 87 + a) = (if b < 10 then 48 + b else 87 + b)"
    using assms of_char_hex_digit [of a] of_char_hex_digit [of b] by metis
  then show ?thesis using assms(1,2) by (auto split: if_splits)
qed

lemma show_hex_inject: "show_hex m = show_hex n \<longleftrightarrow> m = n"
proof
  assume "show_hex m = show_hex n"
  then have "map hex_digit (digits_of 16 m) = map hex_digit (digits_of 16 n)"
    by (simp add: show_hex_def)
  moreover have "inj_on hex_digit (set (digits_of 16 m) \<union> set (digits_of 16 n))"
    using digits_of_lt [of 16 m] digits_of_lt [of 16 n]
    by (intro inj_onI) (auto intro!: hex_digit_inj)
  ultimately have "digits_of 16 m = digits_of 16 n"
    by (simp add: inj_on_map_eq_map)
  then show "m = n" by (rule digits_of_inject [rotated]) simp
qed simp

end
