(* ===== verification/RustPath.thy ===== *)
theory RustPath
  imports Prelude
begin

text \<open>
  \<open>std::path\<close>: a path is the list of its components, which is what \<open>Path\<close>'s equality,
  \<open>strip_prefix\<close>, \<open>starts_with\<close> and the kernel's lookup look at; redundant separators
  and inner \<open>.\<close> parts of the spelling are not kept, as \<open>Path::components\<close> drops them.
\<close>

datatype comp = RootDir | CurDir | ParentDir | Normal string

type_synonym path = "comp list"

fun split_slash :: "string \<Rightarrow> string list" where
  "split_slash [] = [[]]"
| "split_slash (c # s) =
     (if c = CHR ''/'' then [] # split_slash s
      else (case split_slash s of [] \<Rightarrow> [[c]] | w # ws \<Rightarrow> (c # w) # ws))"

definition comp_of :: "string \<Rightarrow> comp list" where
  "comp_of w = (if w = [] \<or> w = ''.'' then [] else if w = ''..'' then [ParentDir] else [Normal w])"

definition path_of :: "string \<Rightarrow> path" where
  "path_of s =
     (let ws = split_slash s in
      if prefix ''/'' s then RootDir # concat (map comp_of ws)
      else if hd ws = ''.'' then CurDir # concat (map comp_of (tl ws))
      else concat (map comp_of ws))"

fun comp_string :: "comp \<Rightarrow> string" where
  "comp_string RootDir = []"
| "comp_string CurDir = ''.''"
| "comp_string ParentDir = ''..''"
| "comp_string (Normal n) = n"

definition path_string :: "path \<Rightarrow> string" where
  "path_string p =
     (if p = [RootDir] then ''/'' else join_str ''/'' (map comp_string p))"

definition is_absolute :: "path \<Rightarrow> bool" where
  "is_absolute p \<longleftrightarrow> p \<noteq> [] \<and> hd p = RootDir"

definition path_join :: "path \<Rightarrow> path \<Rightarrow> path" where
  "path_join p q =
     (if is_absolute q \<or> p = [] then q
      else p @ (if q \<noteq> [] \<and> hd q = CurDir then tl q else q))"

definition push_seg :: "path \<Rightarrow> string \<Rightarrow> path" where
  "push_seg p seg = p @ [Normal seg]"

definition path_parent :: "path \<Rightarrow> path option" where
  "path_parent p = (if p = [] \<or> last p = RootDir then None else Some (butlast p))"

definition path_pop :: "path \<Rightarrow> path" where
  "path_pop p = unwrap_or p (path_parent p)"

definition strip_prefix :: "path \<Rightarrow> path \<Rightarrow> path option" where
  "strip_prefix p base = (if prefix base p then Some (drop (length base) p) else None)"

definition starts_with_path :: "path \<Rightarrow> path \<Rightarrow> bool" where
  "starts_with_path p base \<longleftrightarrow> prefix base p"

definition file_name :: "path \<Rightarrow> string option" where
  "file_name p = (if p = [] then None else case last p of Normal n \<Rightarrow> Some n | _ \<Rightarrow> None)"

text \<open>The name split at its last dot, a leading dot not counted (\<open>rsplit_file_at_dot\<close>).\<close>

definition split_ext :: "string \<Rightarrow> string \<times> string option" where
  "split_ext n =
     (case split_once ''.'' (rev n) of
        None \<Rightarrow> (n, None)
      | Some (e, b) \<Rightarrow> if b = [] then (n, None) else (rev b, Some (rev e)))"

definition file_stem :: "path \<Rightarrow> string option" where
  "file_stem p = map_option (fst \<circ> split_ext) (file_name p)"

definition extension :: "path \<Rightarrow> string option" where
  "extension p = Option.bind (file_name p) (snd \<circ> split_ext)"

definition with_extension :: "path \<Rightarrow> string \<Rightarrow> path" where
  "with_extension p e =
     (case file_stem p of
        None \<Rightarrow> p
      | Some st \<Rightarrow> butlast p @ [Normal (if e = [] then st else st @ ''.'' @ e)])"

definition dir_path :: "string list \<Rightarrow> path" where
  "dir_path ns = RootDir # map Normal ns"

text \<open>Names a directory entry can have.\<close>

definition name_ok :: "string \<Rightarrow> bool" where
  "name_ok n \<longleftrightarrow> n \<noteq> [] \<and> n \<noteq> ''.'' \<and> n \<noteq> ''..'' \<and> CHR ''/'' \<notin> set n"

section \<open>Facts about components\<close>

lemma split_slash_ne [simp]: "split_slash s \<noteq> []"
  by (induction s) (auto split: list.splits)

lemma split_slash_no_slash: "w \<in> set (split_slash s) \<Longrightarrow> CHR ''/'' \<notin> set w"
  by (induction s arbitrary: w) (auto split: list.splits if_splits)

lemma split_slash_word: "CHR ''/'' \<notin> set w \<Longrightarrow> split_slash w = [w]"
  by (induction w) auto

lemma split_slash_append:
  "CHR ''/'' \<notin> set w \<Longrightarrow> split_slash (w @ CHR ''/'' # s) = w # split_slash s"
  by (induction w) auto

lemma split_slash_join:
  "ws \<noteq> [] \<Longrightarrow> \<forall>w \<in> set ws. CHR ''/'' \<notin> set w \<Longrightarrow> split_slash (join_str ''/'' ws) = ws"
  by (induction "''/''" ws rule: join_str.induct)
    (simp_all add: split_slash_word split_slash_append)

lemma comp_of_name: "name_ok n \<Longrightarrow> comp_of n = [Normal n]"
  by (simp add: comp_of_def name_ok_def)

lemma comp_of_simps [simp]:
  "comp_of [] = []" "comp_of ''.'' = []" "comp_of ''..'' = [ParentDir]"
  by (simp_all add: comp_of_def)

lemma comp_of_cases: "c \<in> set (comp_of w) \<Longrightarrow> c = ParentDir \<or> (c = Normal w \<and> w \<noteq> [] \<and> w \<noteq> ''.'' \<and> w \<noteq> ''..'')"
  by (auto simp: comp_of_def split: if_splits)

text \<open>
  The components after the first are names or \<open>..\<close>: \<open>RootDir\<close> and \<open>CurDir\<close> only start a path.
\<close>

definition rel_comp :: "comp \<Rightarrow> bool" where
  "rel_comp c \<longleftrightarrow> c = ParentDir \<or> (\<exists>n. c = Normal n \<and> name_ok n)"

lemma comp_of_rel: "CHR ''/'' \<notin> set w \<Longrightarrow> c \<in> set (comp_of w) \<Longrightarrow> rel_comp c"
  using comp_of_cases [of c w] by (auto simp: rel_comp_def name_ok_def)

lemma split_comps_rel:
  "ws = split_slash s \<or> ws = tl (split_slash s) \<Longrightarrow>
    c \<in> set (concat (map comp_of ws)) \<Longrightarrow> rel_comp c"
  by (auto dest!: list.set_sel(2) [rotated] intro!: comp_of_rel split_slash_no_slash)

lemma path_of_cases:
  obtains (abs) cs where "path_of s = RootDir # cs" "\<forall>c \<in> set cs. rel_comp c"
  | (cur) cs where "path_of s = CurDir # cs" "\<forall>c \<in> set cs. rel_comp c"
  | (rel) "\<forall>c \<in> set (path_of s). rel_comp c"
proof -
  let ?ws = "split_slash s"
  have all: "\<forall>c \<in> set (concat (map comp_of ?ws)). rel_comp c"
    and tl: "\<forall>c \<in> set (concat (map comp_of (tl ?ws))). rel_comp c"
    using split_comps_rel [of _ s] by blast+
  consider "prefix ''/'' s" | "\<not> prefix ''/'' s" "hd ?ws = ''.''" | "\<not> prefix ''/'' s" "hd ?ws \<noteq> ''.''"
    by blast
  then show ?thesis
  proof cases
    case 1
    with all that(1) show ?thesis by (simp add: path_of_def)
  next
    case 2
    with tl that(2) show ?thesis by (simp add: path_of_def)
  next
    case 3
    with all that(3) show ?thesis by (simp add: path_of_def)
  qed
qed

lemma path_of_dir:
  assumes "\<forall>n \<in> set ns. name_ok n"
  shows "path_of (path_string (dir_path ns)) = dir_path ns"
proof (cases ns)
  case Nil
  then show ?thesis by (simp add: dir_path_def path_string_def path_of_def)
next
  case (Cons n ms)
  let ?s = "path_string (dir_path ns)"
  have s: "?s = CHR ''/'' # join_str ''/'' ns"
    using Cons by (simp add: dir_path_def path_string_def comp_def)
  have "split_slash (join_str ''/'' ns) = ns"
    using assms Cons by (intro split_slash_join) (auto simp: name_ok_def)
  moreover have "concat (map comp_of ns) = map Normal ns"
    using assms by (induction ns) (auto simp: comp_of_name)
  ultimately show ?thesis
    unfolding s by (simp add: path_of_def dir_path_def Let_def)
qed

lemma path_of_name: "name_ok n \<Longrightarrow> path_of n = [Normal n]"
  by (cases n) (auto simp: path_of_def Let_def name_ok_def split_slash_word comp_of_def)

lemma strip_prefix_append [simp]: "strip_prefix (b @ r) b = Some r"
  by (simp add: strip_prefix_def)

lemma strip_prefix_Some: "strip_prefix p b = Some r \<longleftrightarrow> p = b @ r"
  by (auto simp: strip_prefix_def prefix_def)

lemma path_join_rel:
  "p \<noteq> [] \<Longrightarrow> \<forall>c \<in> set q. rel_comp c \<Longrightarrow> path_join p q = p @ q"
  by (cases q) (auto simp: path_join_def is_absolute_def rel_comp_def)

lemma path_pop_push [simp]: "path_pop (push_seg p s) = p"
  by (simp add: path_pop_def path_parent_def push_seg_def)

lemma dir_path_append: "dir_path (a @ b) = dir_path a @ map Normal b"
  by (simp add: dir_path_def)

lemma dir_path_inject [simp]: "dir_path a = dir_path b \<longleftrightarrow> a = b"
  by (auto simp: dir_path_def inj_map_eq_map inj_def)

lemma dir_path_ne [simp]: "dir_path a \<noteq> []" "[] \<noteq> dir_path a"
  by (simp_all add: dir_path_def)

lemma path_pop_dir: "ns \<noteq> [] \<Longrightarrow> path_pop (dir_path ns) = dir_path (butlast ns)"
  by (auto simp: path_pop_def path_parent_def dir_path_def map_butlast last_map)

lemma file_name_dir [simp]: "file_name (p @ [Normal n]) = Some n"
  by (simp add: file_name_def)

end
