(* ===== verification/FsModel.thy ===== *)
theory FsModel
  imports RustPath
begin

text \<open>
  \<open>std::fs\<close> over a Unix file system: directories, files and symbolic links at physical
  locations (lists of names from the root), file contents in inodes so that an open handle
  outlives a rename or an unlink of its name. \<open>namei\<close> is the kernel's path walk, following
  symbolic links up to the limit of 40. A field \<open>faults\<close> gives the calls that the environment
  makes fail (access rights, full disk, hardware): a failing call changes nothing.
\<close>

datatype io_error =
    NotFound | PermissionDeniedIo | AlreadyExists | InvalidInput | NotADirectory
  | IsADirectory | DirectoryNotEmpty | FilesystemLoop | InvalidData | OtherIo

datatype fs_call =
    CStat | CLstat | COpen | CRead | CWrite | CFlush | CSetLen | CMkdir | CUnlink | CRmTree
  | CRename | CSymlink | CReadlink | CCanon | CChmod | CReadDir | CNextEntry

record attr =
  a_mode :: u32
  a_uid :: u32
  a_gid :: u32
  a_atime :: int
  a_mtime :: int

datatype node = NFile nat | NDir attr | NLink string attr

record inode =
  content :: string
  iattr :: attr

record fs =
  entries :: "(string list, node) hmap"
  inodes :: "(nat, inode) hmap"
  next_ino :: nat
  cwd :: "string list"
  new_attr :: attr
  dir_len :: u64
  faults :: "fs_call \<Rightarrow> path \<Rightarrow> io_error option"

datatype file_kind = KDir | KFile | KLink

record meta =
  m_kind :: file_kind
  m_len :: u64
  m_attr :: attr

section \<open>Lookup\<close>

definition fs_node :: "fs \<Rightarrow> string list \<Rightarrow> node option" where
  "fs_node fs l = (if l = [] then Some (NDir (new_attr fs)) else hm_get (entries fs) l)"

definition is_link_node :: "node option \<Rightarrow> bool" where
  "is_link_node x = (case x of Some (NLink _ _) \<Rightarrow> True | _ \<Rightarrow> False)"

definition is_dir_node :: "node option \<Rightarrow> bool" where
  "is_dir_node x = (case x of Some (NDir _) \<Rightarrow> True | _ \<Rightarrow> False)"

function namei :: "fs \<Rightarrow> bool \<Rightarrow> nat \<Rightarrow> string list \<Rightarrow> path \<Rightarrow> io_error + string list" where
  "namei fs fl k cur [] = Inr cur"
| "namei fs fl k cur (RootDir # cs) = namei fs fl k [] cs"
| "namei fs fl k cur (CurDir # cs) = namei fs fl k cur cs"
| "namei fs fl k cur (ParentDir # cs) = namei fs fl k (butlast cur) cs"
| "namei fs fl k cur (Normal n # cs) =
     (case fs_node fs (cur @ [n]) of
        None \<Rightarrow> if cs = [] then Inr (cur @ [n]) else Inl NotFound
      | Some (NDir _) \<Rightarrow> namei fs fl k (cur @ [n]) cs
      | Some (NFile _) \<Rightarrow> if cs = [] then Inr (cur @ [n]) else Inl NotADirectory
      | Some (NLink t _) \<Rightarrow>
          if cs = [] \<and> \<not> fl then Inr (cur @ [n])
          else (case k of
                  0 \<Rightarrow> Inl FilesystemLoop
                | Suc k' \<Rightarrow> namei fs fl k' cur (path_of t @ cs)))"
  by pat_completeness auto
termination
  by (relation "measures [\<lambda>(fs, fl, k, cur, cs). k, \<lambda>(fs, fl, k, cur, cs). length cs]") auto

definition max_links :: nat where
  "max_links = 40"

definition locate :: "fs \<Rightarrow> bool \<Rightarrow> path \<Rightarrow> io_error + string list" where
  "locate fs fl p = (if p = [] then Inl NotFound else namei fs fl max_links (cwd fs) p)"

definition guarded :: "fs \<Rightarrow> fs_call \<Rightarrow> path \<Rightarrow> io_error + 'a \<Rightarrow> io_error + 'a" where
  "guarded fs c p r = (case faults fs c p of Some e \<Rightarrow> Inl e | None \<Rightarrow> r)"

definition node_meta :: "fs \<Rightarrow> node \<Rightarrow> meta" where
  "node_meta fs nd =
     (case nd of
        NDir a \<Rightarrow> \<lparr>m_kind = KDir, m_len = dir_len fs, m_attr = a\<rparr>
      | NLink t a \<Rightarrow> \<lparr>m_kind = KLink, m_len = of_nat (length t), m_attr = a\<rparr>
      | NFile i \<Rightarrow>
          (case hm_get (inodes fs) i of
             Some ind \<Rightarrow> \<lparr>m_kind = KFile, m_len = of_nat (length (content ind)), m_attr = iattr ind\<rparr>
           | None \<Rightarrow> \<lparr>m_kind = KFile, m_len = 0, m_attr = new_attr fs\<rparr>))"

definition stat_at :: "fs \<Rightarrow> bool \<Rightarrow> fs_call \<Rightarrow> path \<Rightarrow> io_error + meta" where
  "stat_at fs fl c p =
     guarded fs c p
       (case locate fs fl p of
          Inl e \<Rightarrow> Inl e
        | Inr l \<Rightarrow> (case fs_node fs l of None \<Rightarrow> Inl NotFound | Some nd \<Rightarrow> Inr (node_meta fs nd)))"

definition fs_metadata :: "fs \<Rightarrow> path \<Rightarrow> io_error + meta" where
  "fs_metadata fs p = stat_at fs True CStat p"

definition fs_symlink_metadata :: "fs \<Rightarrow> path \<Rightarrow> io_error + meta" where
  "fs_symlink_metadata fs p = stat_at fs False CLstat p"

definition fs_exists :: "fs \<Rightarrow> path \<Rightarrow> bool" where
  "fs_exists fs p = is_ok (fs_metadata fs p)"

definition fs_kind_is :: "file_kind \<Rightarrow> fs \<Rightarrow> path \<Rightarrow> bool" where
  "fs_kind_is k fs p = (case fs_metadata fs p of Inl _ \<Rightarrow> False | Inr m \<Rightarrow> m_kind m = k)"

abbreviation fs_is_dir :: "fs \<Rightarrow> path \<Rightarrow> bool" where
  "fs_is_dir \<equiv> fs_kind_is KDir"

abbreviation fs_is_file :: "fs \<Rightarrow> path \<Rightarrow> bool" where
  "fs_is_file \<equiv> fs_kind_is KFile"

definition children :: "fs \<Rightarrow> string list \<Rightarrow> string list" where
  "children fs d = map (last \<circ> fst) (filter (\<lambda>(l, _). l \<noteq> [] \<and> butlast l = d) (entries fs))"

definition fs_read_dir :: "fs \<Rightarrow> path \<Rightarrow> io_error + string list" where
  "fs_read_dir fs p =
     guarded fs CReadDir p
       (case locate fs True p of
          Inl e \<Rightarrow> Inl e
        | Inr l \<Rightarrow>
            (case fs_node fs l of
               None \<Rightarrow> Inl NotFound
             | Some (NDir _) \<Rightarrow> Inr (children fs l)
             | Some _ \<Rightarrow> Inl NotADirectory))"

definition fs_canonicalize :: "fs \<Rightarrow> path \<Rightarrow> io_error + path" where
  "fs_canonicalize fs p =
     guarded fs CCanon p
       (case locate fs True p of
          Inl e \<Rightarrow> Inl e
        | Inr l \<Rightarrow> if fs_node fs l = None then Inl NotFound else Inr (dir_path l))"

definition fs_read_link :: "fs \<Rightarrow> path \<Rightarrow> io_error + string" where
  "fs_read_link fs p =
     guarded fs CReadlink p
       (case locate fs False p of
          Inl e \<Rightarrow> Inl e
        | Inr l \<Rightarrow>
            (case fs_node fs l of
               None \<Rightarrow> Inl NotFound
             | Some (NLink t _) \<Rightarrow> Inr t
             | Some _ \<Rightarrow> Inl InvalidInput))"

section \<open>Changing the tree\<close>

definition add_entry :: "string list \<Rightarrow> node \<Rightarrow> fs \<Rightarrow> fs" where
  "add_entry l nd fs = fs\<lparr>entries := hm_insert l nd (entries fs)\<rparr>"

definition drop_tree :: "string list \<Rightarrow> fs \<Rightarrow> fs" where
  "drop_tree l fs = fs\<lparr>entries := filter (\<lambda>(k, _). \<not> prefix l k) (entries fs)\<rparr>"

definition move_tree :: "string list \<Rightarrow> string list \<Rightarrow> fs \<Rightarrow> fs" where
  "move_tree a b fs =
     fs\<lparr>entries := map (\<lambda>(k, nd). (if prefix a k then b @ drop (length a) k else k, nd))
                       (filter (\<lambda>(k, _). prefix a k \<or> \<not> prefix b k) (entries fs))\<rparr>"

text \<open>The parent directory a new entry needs.\<close>

definition parent_dir_ok :: "fs \<Rightarrow> string list \<Rightarrow> bool" where
  "parent_dir_ok fs l \<longleftrightarrow> l \<noteq> [] \<and> is_dir_node (fs_node fs (butlast l))"

type_synonym 'a fs_result = "(io_error + 'a) \<times> fs"

definition fs_create_dir :: "path \<Rightarrow> fs \<Rightarrow> unit fs_result" where
  "fs_create_dir p fs =
     (case guarded fs CMkdir p (locate fs False p) of
        Inl e \<Rightarrow> (Inl e, fs)
      | Inr l \<Rightarrow>
          if fs_node fs l \<noteq> None then (Inl AlreadyExists, fs)
          else if \<not> parent_dir_ok fs l then (Inl NotFound, fs)
          else (Inr (), add_entry l (NDir (new_attr fs)) fs))"

text \<open>\<open>DirBuilder::create_dir_all\<close>: try, else make the parent and try again.\<close>

function fs_create_dir_all :: "path \<Rightarrow> fs \<Rightarrow> unit fs_result" where
  "fs_create_dir_all p fs =
     (if p = [] then (Inr (), fs)
      else (case fs_create_dir p fs of
         (Inr _, fs1) \<Rightarrow> (Inr (), fs1)
       | (Inl e, _) \<Rightarrow>
           if e \<noteq> NotFound then (if fs_is_dir fs p then (Inr (), fs) else (Inl e, fs))
           else (case path_parent p of
              None \<Rightarrow> (Inl OtherIo, fs)
            | Some q \<Rightarrow>
                (case fs_create_dir_all q fs of
                   (Inl e2, fs2) \<Rightarrow> (Inl e2, fs2)
                 | (Inr _, fs2) \<Rightarrow>
                     (case fs_create_dir p fs2 of
                        (Inr _, fs3) \<Rightarrow> (Inr (), fs3)
                      | (Inl e3, _) \<Rightarrow>
                          if fs_is_dir fs2 p then (Inr (), fs2) else (Inl e3, fs2))))))"
  by pat_completeness auto
termination
  by (relation "measure (\<lambda>(p, fs). length p)") (auto simp: path_parent_def split: if_splits)

declare fs_create_dir_all.simps [simp del]

definition fs_remove_file :: "path \<Rightarrow> fs \<Rightarrow> unit fs_result" where
  "fs_remove_file p fs =
     (case guarded fs CUnlink p (locate fs False p) of
        Inl e \<Rightarrow> (Inl e, fs)
      | Inr l \<Rightarrow>
          (case fs_node fs l of
             None \<Rightarrow> (Inl NotFound, fs)
           | Some (NDir _) \<Rightarrow> (Inl IsADirectory, fs)
           | Some _ \<Rightarrow> (Inr (), drop_tree l fs)))"

definition fs_remove_dir_all :: "path \<Rightarrow> fs \<Rightarrow> unit fs_result" where
  "fs_remove_dir_all p fs =
     (case guarded fs CRmTree p (locate fs False p) of
        Inl e \<Rightarrow> (Inl e, fs)
      | Inr l \<Rightarrow>
          (case fs_node fs l of
             None \<Rightarrow> (Inl NotFound, fs)
           | Some (NFile _) \<Rightarrow> (Inl NotADirectory, fs)
           | Some (NLink _ _) \<Rightarrow> (Inr (), drop_tree l fs)
           | Some (NDir _) \<Rightarrow>
               if l = [] then (Inl PermissionDeniedIo, fs) else (Inr (), drop_tree l fs)))"

definition rename_checks :: "fs \<Rightarrow> string list \<Rightarrow> string list \<Rightarrow> io_error option" where
  "rename_checks fs a b =
     (case fs_node fs a of
        None \<Rightarrow> Some NotFound
      | Some na \<Rightarrow>
          if a = [] \<or> b = [] then Some OtherIo
          else if \<not> parent_dir_ok fs b then Some NotFound
          else if strict_prefix a b then Some InvalidInput
          else (case fs_node fs b of
             None \<Rightarrow> None
           | Some (NDir _) \<Rightarrow>
               if \<not> is_dir_node (Some na) then Some IsADirectory
               else if a \<noteq> b \<and> children fs b \<noteq> [] then Some DirectoryNotEmpty else None
           | Some _ \<Rightarrow> if is_dir_node (Some na) then Some NotADirectory else None))"

definition fs_rename :: "path \<Rightarrow> path \<Rightarrow> fs \<Rightarrow> unit fs_result" where
  "fs_rename p q fs =
     (case guarded fs CRename p (locate fs False p) of
        Inl e \<Rightarrow> (Inl e, fs)
      | Inr a \<Rightarrow>
          (case locate fs False q of
             Inl e \<Rightarrow> (Inl e, fs)
           | Inr b \<Rightarrow>
               (case rename_checks fs a b of
                  Some e \<Rightarrow> (Inl e, fs)
                | None \<Rightarrow> (Inr (), if a = b then fs else move_tree a b fs))))"

definition fs_symlink :: "string \<Rightarrow> path \<Rightarrow> fs \<Rightarrow> unit fs_result" where
  "fs_symlink target p fs =
     (case guarded fs CSymlink p (locate fs False p) of
        Inl e \<Rightarrow> (Inl e, fs)
      | Inr l \<Rightarrow>
          if fs_node fs l \<noteq> None then (Inl AlreadyExists, fs)
          else if \<not> parent_dir_ok fs l \<or> target = [] then (Inl NotFound, fs)
          else (Inr (), add_entry l (NLink target (new_attr fs)) fs))"

definition set_mode :: "u32 \<Rightarrow> attr \<Rightarrow> attr" where
  "set_mode m a = a\<lparr>a_mode := m\<rparr>"

definition fs_set_permissions :: "path \<Rightarrow> u32 \<Rightarrow> fs \<Rightarrow> unit fs_result" where
  "fs_set_permissions p m fs =
     (case guarded fs CChmod p (locate fs True p) of
        Inl e \<Rightarrow> (Inl e, fs)
      | Inr l \<Rightarrow>
          (case fs_node fs l of
             None \<Rightarrow> (Inl NotFound, fs)
           | Some (NDir a) \<Rightarrow>
               if l = [] then (Inl PermissionDeniedIo, fs)
               else (Inr (), add_entry l (NDir (set_mode m a)) fs)
           | Some (NLink _ _) \<Rightarrow> (Inl FilesystemLoop, fs)
           | Some (NFile i) \<Rightarrow>
               (case hm_get (inodes fs) i of
                  None \<Rightarrow> (Inl OtherIo, fs)
                | Some ind \<Rightarrow>
                    (Inr (), fs\<lparr>inodes := hm_insert i (ind\<lparr>iattr := set_mode m (iattr ind)\<rparr>)
                                            (inodes fs)\<rparr>))))"

section \<open>Open files\<close>

record open_opts =
  o_read :: bool
  o_write :: bool
  o_append :: bool
  o_truncate :: bool
  o_create :: bool

definition opts_new :: open_opts where
  "opts_new = \<lparr>o_read = False, o_write = False, o_append = False, o_truncate = False,
               o_create = False\<rparr>"

text \<open>\<open>get_access_mode\<close> and \<open>get_creation_mode\<close> of \<open>std::fs::OpenOptions\<close>.\<close>

definition opts_valid :: "open_opts \<Rightarrow> bool" where
  "opts_valid oo \<longleftrightarrow>
     (o_read oo \<or> o_write oo \<or> o_append oo) \<and>
     (if o_append oo then \<not> o_truncate oo
      else o_write oo \<or> (\<not> o_truncate oo \<and> \<not> o_create oo))"

text \<open>\<open>fh_ino\<close> is \<open>None\<close> for a directory opened for reading.\<close>

record file_handle =
  fh_ino :: "nat option"
  fh_path :: path
  fh_read :: bool
  fh_write :: bool
  fh_append :: bool

definition new_handle :: "nat option \<Rightarrow> path \<Rightarrow> open_opts \<Rightarrow> file_handle" where
  "new_handle i p oo =
     \<lparr>fh_ino = i, fh_path = p, fh_read = o_read oo,
      fh_write = (o_write oo \<or> o_append oo), fh_append = o_append oo\<rparr>"

definition put_content :: "nat \<Rightarrow> string \<Rightarrow> fs \<Rightarrow> fs" where
  "put_content i bs fs =
     (case hm_get (inodes fs) i of
        None \<Rightarrow> fs
      | Some ind \<Rightarrow> fs\<lparr>inodes := hm_insert i (ind\<lparr>content := bs\<rparr>) (inodes fs)\<rparr>)"

definition create_file :: "string list \<Rightarrow> fs \<Rightarrow> fs" where
  "create_file l fs =
     fs\<lparr>entries := hm_insert l (NFile (next_ino fs)) (entries fs),
        inodes := hm_insert (next_ino fs) \<lparr>content = [], iattr = new_attr fs\<rparr> (inodes fs),
        next_ino := Suc (next_ino fs)\<rparr>"

definition fs_open :: "open_opts \<Rightarrow> path \<Rightarrow> fs \<Rightarrow> file_handle fs_result" where
  "fs_open oo p fs =
     (if \<not> opts_valid oo then (Inl InvalidInput, fs)
      else (case guarded fs COpen p (locate fs True p) of
         Inl e \<Rightarrow> (Inl e, fs)
       | Inr l \<Rightarrow>
           (case fs_node fs l of
              None \<Rightarrow>
                if \<not> o_create oo \<or> \<not> parent_dir_ok fs l then (Inl NotFound, fs)
                else (Inr (new_handle (Some (next_ino fs)) p oo), create_file l fs)
            | Some (NDir _) \<Rightarrow>
                if o_write oo \<or> o_append oo \<or> o_create oo then (Inl IsADirectory, fs)
                else (Inr (new_handle None p oo), fs)
            | Some (NLink _ _) \<Rightarrow> (Inl FilesystemLoop, fs)
            | Some (NFile i) \<Rightarrow>
                (Inr (new_handle (Some i) p oo),
                 if o_truncate oo then put_content i [] fs else fs))))"

definition handle_content :: "fs \<Rightarrow> file_handle \<Rightarrow> string" where
  "handle_content fs h =
     (case Option.bind (fh_ino h) (hm_get (inodes fs)) of None \<Rightarrow> [] | Some ind \<Rightarrow> content ind)"

text \<open>Offsets beyond \<open>i64\<close> are negative for \<open>lseek\<close>.\<close>

definition seek_ok :: "u64 \<Rightarrow> bool" where
  "seek_ok off \<longleftrightarrow> unat off < 2 ^ 63"

definition fs_read_at :: "file_handle \<Rightarrow> u64 \<Rightarrow> nat \<Rightarrow> fs \<Rightarrow> io_error + string" where
  "fs_read_at h off n fs =
     (if \<not> seek_ok off then Inl InvalidInput
      else guarded fs CRead (fh_path h)
        (if fh_ino h = None then Inl IsADirectory
         else if \<not> fh_read h then Inl OtherIo
         else Inr (take n (drop (unat off) (handle_content fs h)))))"

definition splice :: "nat \<Rightarrow> string \<Rightarrow> string \<Rightarrow> string" where
  "splice off bs old =
     take off (old @ replicate (off - length old) (CHR 0x00)) @ bs @ drop (off + length bs) old"

definition fs_write_at :: "file_handle \<Rightarrow> u64 \<Rightarrow> string \<Rightarrow> fs \<Rightarrow> unit fs_result" where
  "fs_write_at h off bs fs =
     (if \<not> seek_ok off then (Inl InvalidInput, fs)
      else (case guarded fs CWrite (fh_path h) (ok_or IsADirectory (fh_ino h)) of
         Inl e \<Rightarrow> (Inl e, fs)
       | Inr i \<Rightarrow>
           if \<not> fh_write h \<and> bs \<noteq> [] then (Inl OtherIo, fs)
           else if bs = [] then (Inr (), fs)
           else
             (let old = handle_content fs h in
              (Inr (), put_content i
                 (if fh_append h then old @ bs else splice (unat off) bs old) fs))))"

definition fs_set_len :: "file_handle \<Rightarrow> u64 \<Rightarrow> fs \<Rightarrow> unit fs_result" where
  "fs_set_len h n fs =
     (if \<not> seek_ok n then (Inl InvalidInput, fs)
      else (case guarded fs CSetLen (fh_path h) (ok_or InvalidInput (fh_ino h)) of
         Inl e \<Rightarrow> (Inl e, fs)
       | Inr i \<Rightarrow>
           if \<not> fh_write h then (Inl InvalidInput, fs)
           else
             (let old = handle_content fs h in
              (Inr (), put_content i
                 (take (unat n) (old @ replicate (unat n - length old) (CHR 0x00))) fs))))"

definition handle_metadata :: "fs \<Rightarrow> file_handle \<Rightarrow> io_error + meta" where
  "handle_metadata fs h =
     guarded fs CStat (fh_path h)
       (Inr (node_meta fs (case fh_ino h of Some i \<Rightarrow> NFile i | None \<Rightarrow> NDir (new_attr fs))))"

section \<open>Whole-file helpers of \<open>std::fs\<close>\<close>

definition opts_write_new :: open_opts where
  "opts_write_new = opts_new\<lparr>o_write := True, o_create := True, o_truncate := True\<rparr>"

definition opts_read_only :: open_opts where
  "opts_read_only = opts_new\<lparr>o_read := True\<rparr>"

definition fs_write :: "path \<Rightarrow> string \<Rightarrow> fs \<Rightarrow> unit fs_result" where
  "fs_write p bs fs =
     (case fs_open opts_write_new p fs of
        (Inl e, fs1) \<Rightarrow> (Inl e, fs1)
      | (Inr h, fs1) \<Rightarrow> fs_write_at h 0 bs fs1)"

definition fs_read :: "fs \<Rightarrow> path \<Rightarrow> io_error + string" where
  "fs_read fs p =
     (case fs_open opts_read_only p fs of
        (Inl e, _) \<Rightarrow> Inl e
      | (Inr h, _) \<Rightarrow>
          guarded fs CRead p (if fh_ino h = None then Inl IsADirectory else Inr (handle_content fs h)))"

definition fs_read_to_string :: "fs \<Rightarrow> path \<Rightarrow> io_error + string" where
  "fs_read_to_string fs p =
     (case fs_read fs p of
        Inl e \<Rightarrow> Inl e
      | Inr s \<Rightarrow> if utf8_valid s then Inr s else Inl InvalidData)"

end
