(* ===== verification/FsFacts.thy ===== *)
theory FsFacts
  imports FsModel
begin

text \<open>
  What the file-system model guarantees: the path walk below a directory that has no symbolic
  links, well-formedness of the store (distinct names, one name per inode) and its preservation,
  and for every call the frame fact that only the view below the touched location changes.
\<close>

section \<open>Walking below a directory without links\<close>

definition dirs_to :: "fs \<Rightarrow> string list \<Rightarrow> bool" where
  "dirs_to fs r \<longleftrightarrow> (\<forall>l. prefix l r \<longrightarrow> is_dir_node (fs_node fs l))"

text \<open>No symbolic link on the way to \<open>r\<close> nor below it.\<close>

definition link_free :: "fs \<Rightarrow> string list \<Rightarrow> bool" where
  "link_free fs r \<longleftrightarrow> (\<forall>l. prefix l r \<or> prefix r l \<longrightarrow> \<not> is_link_node (fs_node fs l))"

lemma is_dir_node_iff: "is_dir_node x \<longleftrightarrow> (\<exists>a. x = Some (NDir a))"
  by (auto simp: is_dir_node_def split: option.splits node.splits)

lemma is_link_node_iff: "is_link_node x \<longleftrightarrow> (\<exists>t a. x = Some (NLink t a))"
  by (auto simp: is_link_node_def split: option.splits node.splits)

lemma namei_through_dirs:
  "\<forall>l. prefix l (cur @ ns) \<longrightarrow> is_dir_node (fs_node fs l) \<Longrightarrow>
    namei fs fl k cur (map Normal ns @ cs) = namei fs fl k (cur @ ns) cs"
proof (induction ns arbitrary: cur)
  case (Cons n ns)
  from Cons.prems have "is_dir_node (fs_node fs (cur @ [n]))" by simp
  moreover have "namei fs fl k (cur @ [n]) (map Normal ns @ cs) = namei fs fl k ((cur @ [n]) @ ns) cs"
    by (rule Cons.IH) (use Cons.prems in simp)
  ultimately show ?case by (auto simp: is_dir_node_iff)
qed simp

lemma namei_no_links:
  "\<forall>l. prefix l (cur @ ns) \<longrightarrow> \<not> is_link_node (fs_node fs l) \<Longrightarrow>
    namei fs fl k cur (map Normal ns) = Inr l \<Longrightarrow> l = cur @ ns"
proof (induction ns arbitrary: cur)
  case (Cons n ns)
  from Cons.prems(1) have nolink: "\<not> is_link_node (fs_node fs (cur @ [n]))" by simp
  have IH: "namei fs fl k (cur @ [n]) (map Normal ns) = Inr l \<Longrightarrow> l = (cur @ [n]) @ ns"
    by (rule Cons.IH) (use Cons.prems(1) in simp_all)
  show ?case
    using Cons.prems(2) nolink IH
    by (auto simp: is_link_node_iff split: option.splits node.splits if_splits)
qed simp

lemma link_free_prefix: "link_free fs r \<Longrightarrow> prefix l (r @ ns) \<Longrightarrow> \<not> is_link_node (fs_node fs l)"
  by (auto simp: link_free_def prefix_append)

lemma locate_below:
  assumes "link_free fs r" "locate fs fl (dir_path (r @ ns)) = Inr l"
  shows "l = r @ ns"
proof -
  have "namei fs fl max_links [] (map Normal (r @ ns)) = Inr l"
    using assms(2) by (simp add: locate_def dir_path_def)
  moreover have "\<forall>l. prefix l ([] @ (r @ ns)) \<longrightarrow> \<not> is_link_node (fs_node fs l)"
    using link_free_prefix [OF assms(1)] by simp
  ultimately show ?thesis using namei_no_links [of "[]" "r @ ns" fs] by simp
qed

lemma locate_dirs:
  assumes "dirs_to fs r"
  shows "locate fs fl (dir_path r) = Inr r"
  using namei_through_dirs [of "[]" r fs fl max_links "[]"] assms
  by (simp add: locate_def dir_path_def dirs_to_def)

section \<open>Well-formed stores and views\<close>

definition fs_wf :: "fs \<Rightarrow> bool" where
  "fs_wf fs \<longleftrightarrow>
     hm_ok (entries fs) \<and> [] \<notin> set (hm_keys (entries fs)) \<and>
     (\<forall>l i. hm_get (entries fs) l = Some (NFile i) \<longrightarrow>
        i < next_ino fs \<and> hm_get (inodes fs) i \<noteq> None) \<and>
     (\<forall>l l' i. hm_get (entries fs) l = Some (NFile i) \<longrightarrow>
        hm_get (entries fs) l' = Some (NFile i) \<longrightarrow> l = l')"

datatype view = VDir attr | VLink string attr | VFile "inode option"

definition fs_view :: "fs \<Rightarrow> string list \<Rightarrow> view option" where
  "fs_view fs l =
     (case fs_node fs l of
        None \<Rightarrow> None
      | Some (NDir a) \<Rightarrow> Some (VDir a)
      | Some (NLink t a) \<Rightarrow> Some (VLink t a)
      | Some (NFile i) \<Rightarrow> Some (VFile (hm_get (inodes fs) i)))"

definition same_outside :: "string list \<Rightarrow> fs \<Rightarrow> fs \<Rightarrow> bool" where
  "same_outside r fs fs' \<longleftrightarrow> (\<forall>l. \<not> prefix r l \<longrightarrow> fs_view fs' l = fs_view fs l)"

text \<open>The environment's part of the store, which no call writes.\<close>

definition same_env :: "fs \<Rightarrow> fs \<Rightarrow> bool" where
  "same_env fs fs' \<longleftrightarrow>
     cwd fs' = cwd fs \<and> new_attr fs' = new_attr fs \<and> dir_len fs' = dir_len fs \<and> faults fs' = faults fs"

lemma same_env_refl [simp, intro]: "same_env fs fs"
  by (simp add: same_env_def)

lemma same_env_trans [trans]: "same_env a b \<Longrightarrow> same_env b c \<Longrightarrow> same_env a c"
  by (simp add: same_env_def)

lemma same_outside_refl [simp, intro]: "same_outside r fs fs"
  by (simp add: same_outside_def)

lemma same_outside_trans [trans]:
  "same_outside r a b \<Longrightarrow> same_outside r b c \<Longrightarrow> same_outside r a c"
  by (simp add: same_outside_def)

lemma same_outside_mono: "same_outside r a b \<Longrightarrow> prefix r' r \<Longrightarrow> same_outside r' a b"
  unfolding same_outside_def using prefix_order.trans by blast

lemma fs_wf_file:
  "fs_wf fs \<Longrightarrow> fs_node fs l = Some (NFile i) \<Longrightarrow> i < next_ino fs \<and> hm_get (inodes fs) i \<noteq> None"
  by (auto simp: fs_wf_def fs_node_def split: if_splits)

lemma fs_wf_inj:
  "fs_wf fs \<Longrightarrow> fs_node fs l = Some (NFile i) \<Longrightarrow> fs_node fs l' = Some (NFile i) \<Longrightarrow> l = l'"
  by (auto simp: fs_wf_def fs_node_def split: if_splits)

section \<open>The primitive changes\<close>

lemma fs_node_add [store_simps]:
  "fs_node (add_entry l nd fs) l' = (if l' = l \<and> l \<noteq> [] then Some nd else fs_node fs l')"
  by (simp add: fs_node_def add_entry_def)

lemma fs_node_drop [store_simps]:
  "l \<noteq> [] \<Longrightarrow> fs_node (drop_tree l fs) l' = (if prefix l l' then None else fs_node fs l')"
proof -
  have "map_of (filter (\<lambda>(k, _). \<not> prefix l k) es) l'
      = (if prefix l l' then None else map_of es l')" for es :: "(string list, node) hmap"
    by (induction es) auto
  moreover assume "l \<noteq> []"
  ultimately show ?thesis by (simp add: fs_node_def drop_tree_def hm_get_def)
qed

lemma map_of_move:
  "map_of (map (\<lambda>(k, nd). (if prefix a k then b @ drop (length a) k else k, nd))
            (filter (\<lambda>(k, _). prefix a k \<or> \<not> prefix b k) es)) l =
     (if prefix b l then map_of es (a @ drop (length b) l)
      else if prefix a l then None else map_of es l)"
proof (induction es)
  case (Cons e es)
  obtain k nd where e: "e = (k, nd)" by (cases e)
  consider (moved) k' where "k = a @ k'" | (kept) "\<not> prefix a k" "\<not> prefix b k"
    | (lost) "\<not> prefix a k" "prefix b k"
    by (auto simp: prefix_def)
  then show ?case
  proof cases
    case moved
    show ?thesis
    proof (cases "prefix b l")
      case True
      then obtain l' where "l = b @ l'" by (auto simp: prefix_def)
      with Cons moved show ?thesis by (simp add: e)
    next
      case False
      then have "b @ k' \<noteq> l" by auto
      moreover have "k \<noteq> l" if "\<not> prefix a l" using that moved by auto
      ultimately show ?thesis using Cons moved False by (simp add: e)
    qed
  next
    case kept
    then have "a @ z \<noteq> k" for z by auto
    with Cons kept show ?thesis by (auto simp: e)
  next
    case lost
    then have "a @ z \<noteq> k" for z by auto
    with Cons lost show ?thesis by (auto simp: e)
  qed
qed simp

lemma move_tree_entries:
  "hm_get (entries (move_tree a b fs)) l =
     (if prefix b l then hm_get (entries fs) (a @ drop (length b) l)
      else if prefix a l then None else hm_get (entries fs) l)"
  by (simp add: move_tree_def hm_get_def map_of_move)

lemma fs_node_move [store_simps]:
  assumes "a \<noteq> []" "b \<noteq> []"
  shows "fs_node (move_tree a b fs) l =
    (if prefix b l then fs_node fs (a @ drop (length b) l)
     else if prefix a l then None else fs_node fs l)"
proof -
  have "new_attr (move_tree a b fs) = new_attr fs" by (simp add: move_tree_def)
  with assms show ?thesis by (auto simp: fs_node_def move_tree_entries)
qed

lemma fs_node_put [store_simps]: "fs_node (put_content i bs fs) l = fs_node fs l"
  by (simp add: fs_node_def put_content_def split: option.splits)

lemma fs_node_create [store_simps]:
  "fs_node (create_file l fs) l' =
     (if l' = l \<and> l \<noteq> [] then Some (NFile (next_ino fs)) else fs_node fs l')"
  by (simp add: fs_node_def create_file_def)

lemma inodes_put [store_simps]:
  "hm_get (inodes (put_content i bs fs)) j =
     (if j = i then map_option (\<lambda>ind. ind\<lparr>content := bs\<rparr>) (hm_get (inodes fs) i)
      else hm_get (inodes fs) j)"
  by (simp add: put_content_def split: option.splits)

lemma same_env_prims [simp, intro]:
  "same_env fs (add_entry l nd fs)" "same_env fs (drop_tree l fs)" "same_env fs (move_tree a b fs)"
  "same_env fs (put_content i bs fs)" "same_env fs (create_file l fs)"
  by (simp_all add: same_env_def add_entry_def drop_tree_def move_tree_def put_content_def
      create_file_def split: option.splits)

lemma same_env_inodes [simp, intro]: "same_env fs (fs\<lparr>inodes := x\<rparr>)"
  by (simp add: same_env_def)

lemma fs_wf_add:
  "fs_wf fs \<Longrightarrow> l \<noteq> [] \<Longrightarrow> (\<And>i. nd \<noteq> NFile i) \<Longrightarrow> fs_wf (add_entry l nd fs)"
  by (auto simp: fs_wf_def add_entry_def hm_insert_keys split: if_splits)

lemma fs_wf_create:
  assumes "fs_wf fs" "l \<noteq> []"
  shows "fs_wf (create_file l fs)"
  using assms unfolding fs_wf_def create_file_def
  by (auto simp: hm_insert_keys less_Suc_eq split: if_splits)

lemma fs_wf_put: "fs_wf fs \<Longrightarrow> fs_wf (put_content i bs fs)"
  unfolding fs_wf_def put_content_def by (auto split: option.splits if_splits)

lemma fs_wf_inodes:
  "fs_wf fs \<Longrightarrow> hm_get (inodes fs) i \<noteq> None \<Longrightarrow> fs_wf (fs\<lparr>inodes := hm_insert i x (inodes fs)\<rparr>)"
  unfolding fs_wf_def by (auto split: if_splits)

lemma drop_tree_entries:
  "hm_get (entries (drop_tree l fs)) l' = (if prefix l l' then None else hm_get (entries fs) l')"
proof -
  have "map_of (filter (\<lambda>(k, _). \<not> prefix l k) es) l'
      = (if prefix l l' then None else map_of es l')" for es :: "(string list, node) hmap"
    by (induction es) auto
  then show ?thesis by (simp add: drop_tree_def hm_get_def)
qed

lemma fs_wf_drop:
  assumes "fs_wf fs"
  shows "fs_wf (drop_tree l fs)"
proof -
  have "distinct (map fst (filter P es))" if "distinct (map fst es)"
    for P and es :: "(string list, node) hmap"
    using that by (induction es) auto
  then have "hm_ok (entries (drop_tree l fs))"
    using assms by (simp add: fs_wf_def hm_ok_def drop_tree_def)
  moreover have "[] \<notin> set (hm_keys (entries (drop_tree l fs)))"
    using assms by (auto simp: fs_wf_def drop_tree_def hm_keys_def)
  moreover have "next_ino (drop_tree l fs) = next_ino fs" "inodes (drop_tree l fs) = inodes fs"
    by (simp_all add: drop_tree_def)
  ultimately show ?thesis
    using assms unfolding fs_wf_def by (auto simp: drop_tree_entries split: if_splits)
qed

lemma move_key_inj:
  "inj_on (\<lambda>k. if prefix a k then b @ drop (length a) k else k) {k. prefix a k \<or> \<not> prefix b k}"
  by (rule inj_onI) (auto simp: prefix_def split: if_splits)

lemma fs_wf_move:
  assumes wf: "fs_wf fs" and ne: "a \<noteq> []" "b \<noteq> []"
  shows "fs_wf (move_tree a b fs)"
proof -
  let ?g = "\<lambda>k. if prefix a k then b @ drop (length a) k else k"
  let ?es = "filter (\<lambda>(k, _). prefix a k \<or> \<not> prefix b k) (entries fs)"
  have keys: "map fst (entries (move_tree a b fs)) = map ?g (map fst ?es)"
    by (simp add: move_tree_def split_def comp_def)
  have "distinct (map fst es) \<Longrightarrow> distinct (map fst (filter P es))"
    for P and es :: "(string list, node) hmap"
    by (induction es) auto
  then have "distinct (map fst ?es)" using wf by (simp add: fs_wf_def hm_ok_def)
  moreover have "inj_on ?g (set (map fst ?es))"
    by (rule inj_on_subset [OF move_key_inj]) auto
  ultimately have "hm_ok (entries (move_tree a b fs))"
    unfolding hm_ok_def keys by (rule distinct_map [THEN iffD2, OF conjI])
  moreover have "[] \<notin> set (hm_keys (entries (move_tree a b fs)))"
    using wf ne unfolding hm_keys_def keys by (auto simp: fs_wf_def hm_keys_def split: if_splits)
  moreover have "next_ino (move_tree a b fs) = next_ino fs" "inodes (move_tree a b fs) = inodes fs"
    by (simp_all add: move_tree_def)
  moreover have "l = l'"
    if "hm_get (entries (move_tree a b fs)) l = Some (NFile i)"
      "hm_get (entries (move_tree a b fs)) l' = Some (NFile i)" for l l' i
  proof -
    let ?src = "\<lambda>k. if prefix b k then a @ drop (length b) k else k"
    have src: "hm_get (entries fs) (?src k) = Some nd \<and> (prefix b k \<or> \<not> prefix a k)"
      if "hm_get (entries (move_tree a b fs)) k = Some nd" for k nd
      using that by (simp add: move_tree_entries split: if_splits)
    have "?src l = ?src l'"
      using wf src [OF that(1)] src [OF that(2)] unfolding fs_wf_def by blast
    with src [OF that(1)] src [OF that(2)] show "l = l'"
      by (cases "prefix b l"; cases "prefix b l'") (auto elim!: prefixE)
  qed
  moreover have "\<exists>k. hm_get (entries fs) k = Some nd"
    if "hm_get (entries (move_tree a b fs)) l = Some nd" for l nd
    using that by (auto simp: move_tree_entries split: if_splits)
  ultimately show ?thesis
    using wf unfolding fs_wf_def by metis
qed

section \<open>Staying below a root\<close>

text \<open>
  \<open>root_ok\<close>: the parents of the root are directories and no link is on the way or below.
  \<open>stays_in r fs fs'\<close>: going from \<open>fs\<close> to \<open>fs'\<close> kept the store well formed, changed
  nothing outside \<open>r\<close> (neither what is seen there nor which inode has which name) and made no link
  below it.
\<close>

definition root_ok :: "fs \<Rightarrow> string list \<Rightarrow> bool" where
  "root_ok fs r \<longleftrightarrow> fs_wf fs \<and> r \<noteq> [] \<and> dirs_to fs (butlast r) \<and> link_free fs r"

definition stays_in :: "string list \<Rightarrow> fs \<Rightarrow> fs \<Rightarrow> bool" where
  "stays_in r fs fs' \<longleftrightarrow>
     fs_wf fs' \<and> same_env fs fs' \<and> same_outside r fs fs' \<and>
     (\<forall>l. \<not> prefix r l \<longrightarrow> fs_node fs' l = fs_node fs l) \<and>
     (\<forall>l. prefix r l \<longrightarrow> \<not> is_link_node (fs_node fs' l))"

lemma stays_in_refl: "root_ok fs r \<Longrightarrow> stays_in r fs fs"
  by (simp add: stays_in_def root_ok_def link_free_def)

lemma stays_in_trans: "stays_in r a b \<Longrightarrow> stays_in r b c \<Longrightarrow> stays_in r a c"
  using same_env_trans [of a b c] same_outside_trans [of r a b c] by (simp add: stays_in_def)

lemma fs_view_dir: "fs_view fs' l = fs_view fs l \<Longrightarrow> is_dir_node (fs_node fs' l) = is_dir_node (fs_node fs l)"
  by (auto simp: fs_view_def is_dir_node_def split: option.splits node.splits)

lemma fs_view_link: "fs_view fs' l = fs_view fs l \<Longrightarrow> is_link_node (fs_node fs' l) = is_link_node (fs_node fs l)"
  by (auto simp: fs_view_def is_link_node_def split: option.splits node.splits)

lemma stays_in_root_ok:
  assumes "root_ok fs r" "stays_in r fs fs'"
  shows "root_ok fs' r"
proof -
  have out: "fs_view fs' l = fs_view fs l" if "\<not> prefix r l" for l
    using that assms(2) by (simp add: stays_in_def same_outside_def)
  have links: "\<not> is_link_node (fs_node fs' l)" if "prefix r l" for l
    using that assms(2) by (simp add: stays_in_def)
  have "\<not> prefix r l" if "prefix l (butlast r)" "r \<noteq> []" for l
    using that by (metis append_butlast_last_id not_Cons_self2 prefix_order.antisym
        prefix_order.trans prefixI prefix_length_le append_self_conv)
  then have "dirs_to fs' (butlast r)"
    using assms(1) fs_view_dir [OF out] by (simp add: root_ok_def dirs_to_def)
  moreover have "link_free fs' r"
    using assms(1) links fs_view_link [OF out] unfolding link_free_def root_ok_def by blast
  ultimately show ?thesis using assms by (simp add: root_ok_def stays_in_def)
qed

lemma inodes_prims [simp]:
  "inodes (add_entry l nd fs) = inodes fs" "inodes (drop_tree l fs) = inodes fs"
  "inodes (move_tree a b fs) = inodes fs"
  by (simp_all add: add_entry_def drop_tree_def move_tree_def)

lemma same_outsideI:
  "(\<And>l. \<not> prefix r l \<Longrightarrow> fs_node fs' l = fs_node fs l) \<Longrightarrow> inodes fs' = inodes fs \<Longrightarrow>
    same_outside r fs fs'"
  by (simp add: same_outside_def fs_view_def split: option.split node.split)

lemma same_outside_add: "prefix r l \<Longrightarrow> same_outside r fs (add_entry l nd fs)"
  by (rule same_outsideI) (auto simp: fs_node_add)

lemma same_outside_create:
  assumes "fs_wf fs" "prefix r l" "l \<noteq> []"
  shows "same_outside r fs (create_file l fs)"
proof -
  have "i \<noteq> next_ino fs" if "fs_node fs l' = Some (NFile i)" for l' i
    using fs_wf_file [OF assms(1) that] by simp
  moreover have "inodes (create_file l fs)
      = hm_insert (next_ino fs) \<lparr>content = [], iattr = new_attr fs\<rparr> (inodes fs)"
    by (simp add: create_file_def)
  ultimately show ?thesis
    using assms(2) unfolding same_outside_def fs_view_def fs_node_create
    by (auto split: option.splits node.splits)
qed

lemma same_outside_drop: "prefix r l \<Longrightarrow> l \<noteq> [] \<Longrightarrow> same_outside r fs (drop_tree l fs)"
  by (rule same_outsideI) (auto simp: fs_node_drop dest: prefix_order.trans)

lemma same_outside_move:
  "prefix r a \<Longrightarrow> prefix r b \<Longrightarrow> a \<noteq> [] \<Longrightarrow> b \<noteq> [] \<Longrightarrow> same_outside r fs (move_tree a b fs)"
  by (rule same_outsideI) (auto simp: fs_node_move dest: prefix_order.trans)

lemma same_outside_inode:
  assumes "fs_wf fs" "fs_node fs l = Some (NFile i)" "prefix r l"
    and "\<And>j. j \<noteq> i \<Longrightarrow> hm_get (inodes fs') j = hm_get (inodes fs) j"
    and "\<And>l'. fs_node fs' l' = fs_node fs l'"
  shows "same_outside r fs fs'"
proof -
  have "i' \<noteq> i" if "fs_node fs l' = Some (NFile i')" "\<not> prefix r l'" for l' i'
    using fs_wf_inj [OF assms(1,2), of l'] that assms(3) by auto
  with assms(4,5) show ?thesis
    unfolding same_outside_def fs_view_def by (auto split: option.splits node.splits)
qed

end
