(* ===== verification/FsConfine.thy ===== *)
theory FsConfine
  imports FsFacts
begin

text \<open>
  Every call of the file-system model that is given a path below a root stays below it
  (\<open>stays_in\<close>), whatever it returns. The handlers of the two servers rest on these lemmas.
\<close>

lemma guarded_InrD: "guarded fs c p r = Inr v \<Longrightarrow> r = Inr v"
  by (simp add: guarded_def split: option.splits)

lemma locate_below_guarded:
  "root_ok fs r \<Longrightarrow> guarded fs c p (locate fs fl (dir_path (r @ ns))) = Inr l \<Longrightarrow> l = r @ ns"
  using locate_below [of fs r fl ns l] by (auto simp: root_ok_def dest: guarded_InrD)

lemma stays_in_add_dir:
  assumes "root_ok fs r" "prefix r l"
  shows "stays_in r fs (add_entry l (NDir a) fs)"
proof -
  have "l \<noteq> []" using assms by (auto simp: root_ok_def)
  then show ?thesis
    using assms fs_wf_add [of fs l "NDir a"]
    by (auto simp: stays_in_def root_ok_def same_outside_add fs_node_add link_free_def
        is_link_node_iff)
qed

lemma create_dir_stays:
  assumes "root_ok fs r"
  shows "stays_in r fs (snd (fs_create_dir (dir_path (r @ ns)) fs))"
proof (cases "guarded fs CMkdir (dir_path (r @ ns)) (locate fs False (dir_path (r @ ns)))")
  case (Inl e)
  with assms show ?thesis by (simp add: fs_create_dir_def stays_in_refl)
next
  case (Inr l)
  with locate_below_guarded [OF assms Inr] assms stays_in_add_dir [OF assms, of l] show ?thesis
    by (auto simp: fs_create_dir_def stays_in_refl)
qed

lemma dirs_to_butlast: "dirs_to fs l \<Longrightarrow> dirs_to fs (butlast l)"
  unfolding dirs_to_def
  by (metis append_butlast_last_id prefix_append prefix_order.dual_order.refl butlast.simps(1))

lemma path_parent_dir:
  "path_parent (dir_path l) = (if l = [] then None else Some (dir_path (butlast l)))"
  by (simp add: path_parent_def dir_path_def last_map map_butlast)

lemma create_dir_all_result:
  "snd (fs_create_dir_all p fs) = fs \<or> snd (fs_create_dir_all p fs) = snd (fs_create_dir p fs) \<or>
    (\<exists>q. path_parent p = Some q \<and>
       (snd (fs_create_dir_all p fs) = snd (fs_create_dir_all q fs) \<or>
        snd (fs_create_dir_all p fs) = snd (fs_create_dir p (snd (fs_create_dir_all q fs)))))"
proof -
  obtain r1 fs1 where c1: "fs_create_dir p fs = (r1, fs1)" by (cases "fs_create_dir p fs")
  show ?thesis
  proof (cases "path_parent p")
    case None
    have eq: "fs_create_dir_all p fs =
        (if p = [] then (Inr (), fs)
         else (case r1 of
            Inr _ \<Rightarrow> (Inr (), fs1)
          | Inl e \<Rightarrow>
              if e \<noteq> NotFound then (if fs_is_dir fs p then (Inr (), fs) else (Inl e, fs))
              else (Inl OtherIo, fs)))"
      by (subst fs_create_dir_all.simps) (simp add: c1 None split: sum.split)
    show ?thesis
      unfolding eq by (simp add: c1 None split: sum.split)
  next
    case (Some q)
    obtain r2 fs2 where c2: "fs_create_dir_all q fs = (r2, fs2)" by (cases "fs_create_dir_all q fs")
    obtain r3 fs3 where c3: "fs_create_dir p fs2 = (r3, fs3)" by (cases "fs_create_dir p fs2")
    have eq: "fs_create_dir_all p fs =
        (if p = [] then (Inr (), fs)
         else (case r1 of
            Inr _ \<Rightarrow> (Inr (), fs1)
          | Inl e \<Rightarrow>
              if e \<noteq> NotFound then (if fs_is_dir fs p then (Inr (), fs) else (Inl e, fs))
              else (case r2 of
                 Inl e2 \<Rightarrow> (Inl e2, fs2)
               | Inr _ \<Rightarrow> (case r3 of
                    Inr _ \<Rightarrow> (Inr (), fs3)
                  | Inl e3 \<Rightarrow> if fs_is_dir fs2 p then (Inr (), fs2) else (Inl e3, fs2)))))"
      by (subst fs_create_dir_all.simps) (simp add: c1 c2 c3 Some split: sum.split)
    show ?thesis
      unfolding eq by (simp add: c1 c2 c3 Some split: sum.split)
  qed
qed

text \<open>Nothing to do where every directory of the path exists.\<close>

lemma create_dir_existing: "dirs_to fs l \<Longrightarrow> snd (fs_create_dir (dir_path l) fs) = fs"
  using locate_dirs [of fs l False]
  by (auto simp: fs_create_dir_def guarded_def dirs_to_def is_dir_node_iff
      split: option.splits sum.splits)

lemma create_dir_all_existing:
  "dirs_to fs l \<Longrightarrow> snd (fs_create_dir_all (dir_path l) fs) = fs"
proof (induction l rule: length_induct)
  case (1 l)
  have own: "snd (fs_create_dir (dir_path l) fs) = fs"
    by (rule create_dir_existing [OF "1.prems"])
  have up: "snd (fs_create_dir_all (dir_path (butlast l)) fs) = fs" if "l \<noteq> []"
    using 1 that dirs_to_butlast by simp
  from create_dir_all_result [of "dir_path l" fs] own up show ?case
    by (auto simp: path_parent_dir split: if_splits)
qed

lemma create_dir_all_stays:
  "root_ok fs r \<Longrightarrow> stays_in r fs (snd (fs_create_dir_all (dir_path (r @ ns)) fs))"
proof (induction ns rule: rev_induct)
  case Nil
  have own: "stays_in r fs (snd (fs_create_dir (dir_path r) fs))"
    using create_dir_stays [OF Nil, of "[]"] by simp
  have up: "snd (fs_create_dir_all (dir_path (butlast r)) fs) = fs"
    using Nil by (intro create_dir_all_existing) (simp add: root_ok_def)
  from create_dir_all_result [of "dir_path r" fs] own up stays_in_refl [OF Nil] show ?case
    by (auto simp: path_parent_dir split: if_splits)
next
  case (snoc n ns)
  let ?p = "dir_path (r @ ns @ [n])"
  let ?up = "snd (fs_create_dir_all (dir_path (r @ ns)) fs)"
  have own: "stays_in r fs (snd (fs_create_dir ?p fs))"
    by (rule create_dir_stays [OF snoc.prems])
  have up: "stays_in r fs ?up"
    by (rule snoc.IH [OF snoc.prems])
  have then_own: "stays_in r fs (snd (fs_create_dir ?p ?up))"
    by (rule stays_in_trans [OF up create_dir_stays [OF stays_in_root_ok [OF snoc.prems up]]])
  have par: "path_parent ?p = Some (dir_path (r @ ns))"
    by (simp add: path_parent_dir butlast_append)
  from create_dir_all_result [of ?p fs] par own up then_own stays_in_refl [OF snoc.prems]
  show ?case by auto
qed

lemma stays_in_drop:
  assumes "root_ok fs r" "prefix r l"
  shows "stays_in r fs (drop_tree l fs)"
proof -
  have "l \<noteq> []" using assms by (auto simp: root_ok_def)
  then show ?thesis
    using assms fs_wf_drop [of fs l]
    by (auto simp: stays_in_def root_ok_def same_outside_drop fs_node_drop link_free_def
        is_link_node_def)
qed

lemma remove_file_stays:
  assumes "root_ok fs r"
  shows "stays_in r fs (snd (fs_remove_file (dir_path (r @ ns)) fs))"
proof (cases "guarded fs CUnlink (dir_path (r @ ns)) (locate fs False (dir_path (r @ ns)))")
  case (Inl e)
  with assms show ?thesis by (simp add: fs_remove_file_def stays_in_refl)
next
  case (Inr l)
  with locate_below_guarded [OF assms Inr] assms stays_in_drop [OF assms, of l] show ?thesis
    by (auto simp: fs_remove_file_def stays_in_refl split: option.splits node.splits)
qed

lemma remove_dir_all_stays:
  assumes "root_ok fs r"
  shows "stays_in r fs (snd (fs_remove_dir_all (dir_path (r @ ns)) fs))"
proof (cases "guarded fs CRmTree (dir_path (r @ ns)) (locate fs False (dir_path (r @ ns)))")
  case (Inl e)
  with assms show ?thesis by (simp add: fs_remove_dir_all_def stays_in_refl)
next
  case (Inr l)
  with locate_below_guarded [OF assms Inr] assms stays_in_drop [OF assms, of l] show ?thesis
    by (auto simp: fs_remove_dir_all_def stays_in_refl split: option.splits node.splits)
qed

lemma stays_in_move:
  assumes "root_ok fs r" "prefix r a" "prefix r b"
  shows "stays_in r fs (move_tree a b fs)"
proof -
  have ne: "a \<noteq> []" "b \<noteq> []" using assms by (auto simp: root_ok_def)
  have "\<not> is_link_node (fs_node (move_tree a b fs) l)" if "prefix r l" for l
    using assms that unfolding fs_node_move [OF ne] root_ok_def link_free_def
    by (auto simp: is_link_node_def)
  moreover have "fs_node (move_tree a b fs) l = fs_node fs l" if "\<not> prefix r l" for l
    using that assms(2,3) unfolding fs_node_move [OF ne] by (auto dest: prefix_order.trans)
  ultimately show ?thesis using ne assms
    by (simp add: stays_in_def root_ok_def fs_wf_move same_outside_move)
qed

lemma rename_stays:
  assumes "root_ok fs r"
  shows "stays_in r fs (snd (fs_rename (dir_path (r @ ns)) (dir_path (r @ ms)) fs))"
proof -
  let ?p = "dir_path (r @ ns)" and ?q = "dir_path (r @ ms)"
  have "stays_in r fs (move_tree a b fs)"
    if "guarded fs CRename ?p (locate fs False ?p) = Inr a" "locate fs False ?q = Inr b" for a b
    using locate_below_guarded [OF assms that(1)] locate_below [OF _ that(2)] assms
    by (auto simp: root_ok_def intro: stays_in_move [OF assms])
  with assms show ?thesis
    by (auto simp: fs_rename_def stays_in_refl split: sum.splits option.splits)
qed

lemma put_content_stays:
  assumes "root_ok fs r" "fs_node fs l = Some (NFile i)" "prefix r l"
  shows "stays_in r fs (put_content i bs fs)"
proof -
  have "fs_wf fs" "link_free fs r" using assms(1) by (simp_all add: root_ok_def)
  moreover have "same_outside r fs (put_content i bs fs)"
    by (rule same_outside_inode [OF \<open>fs_wf fs\<close> assms(2,3)]) (simp_all add: fs_node_put inodes_put)
  ultimately show ?thesis
    by (simp add: stays_in_def fs_wf_put fs_node_put link_free_def)
qed

lemma create_file_stays:
  assumes "root_ok fs r" "prefix r l"
  shows "stays_in r fs (create_file l fs)"
proof -
  have "l \<noteq> []" using assms by (auto simp: root_ok_def)
  then show ?thesis
    using assms fs_wf_create [of fs l] same_outside_create [of fs r l]
    by (auto simp: stays_in_def root_ok_def fs_node_create link_free_def is_link_node_iff)
qed

text \<open>An opened file lies below the root: its inode has its name there.\<close>

definition handle_below :: "string list \<Rightarrow> fs \<Rightarrow> file_handle \<Rightarrow> bool" where
  "handle_below r fs h \<longleftrightarrow>
     (case fh_ino h of None \<Rightarrow> True
      | Some i \<Rightarrow> \<forall>l. fs_node fs l = Some (NFile i) \<longrightarrow> prefix r l)"

lemma open_stays:
  assumes "root_ok fs r"
  shows "stays_in r fs (snd (fs_open oo (dir_path (r @ ns)) fs))"
proof (cases "guarded fs COpen (dir_path (r @ ns)) (locate fs True (dir_path (r @ ns)))")
  case (Inl e)
  with assms show ?thesis by (simp add: fs_open_def stays_in_refl)
next
  case (Inr l)
  have l: "l = r @ ns" by (rule locate_below_guarded [OF assms Inr])
  with Inr assms create_file_stays [OF assms, of l] put_content_stays [OF assms, of l] show ?thesis
    by (auto simp: fs_open_def stays_in_refl split: option.splits node.splits)
qed

lemma handle_below_stays: "handle_below r fs h \<Longrightarrow> stays_in r fs fs' \<Longrightarrow> handle_below r fs' h"
  by (auto simp: handle_below_def stays_in_def split: option.splits)

lemma handle_below_mono:
  "handle_below r fs h \<Longrightarrow> (\<And>l. fs_node fs' l = fs_node fs l) \<Longrightarrow> handle_below r fs' h"
  by (simp add: handle_below_def split: option.splits)

lemma open_handle_below:
  assumes "root_ok fs r" "fs_open oo (dir_path (r @ ns)) fs = (Inr h, fs')"
  shows "handle_below r fs' h"
proof -
  obtain l where g: "guarded fs COpen (dir_path (r @ ns)) (locate fs True (dir_path (r @ ns))) = Inr l"
    using assms(2) by (auto simp: fs_open_def split: if_splits sum.splits)
  have l: "l = r @ ns" by (rule locate_below_guarded [OF assms(1) g])
  have wf: "fs_wf fs" using assms(1) by (simp add: root_ok_def)
  have "prefix r l'" if "fs_node fs l = Some (NFile i)" "fs_node fs l' = Some (NFile i)" for l' i
    using fs_wf_inj [OF wf that] l by auto
  moreover have "fs_node fs l' \<noteq> Some (NFile (next_ino fs))" for l'
    using fs_wf_file [OF wf] by fastforce
  ultimately show ?thesis
    using assms(2) g l
    by (auto simp: fs_open_def handle_below_def new_handle_def fs_node_create fs_node_put
        split: option.splits node.splits if_splits)
qed

lemma put_content_id: "hm_get (inodes fs) i = None \<Longrightarrow> put_content i bs fs = fs"
  by (simp add: put_content_def)

lemma put_handle_stays:
  assumes "root_ok fs r" "\<And>l. fs_node fs l = Some (NFile i) \<Longrightarrow> prefix r l"
  shows "stays_in r fs (put_content i bs fs)"
proof (cases "\<exists>l. fs_node fs l = Some (NFile i)")
  case True
  then show ?thesis using assms put_content_stays by blast
next
  case False
  have "same_outside r fs (put_content i bs fs)"
    using False unfolding same_outside_def fs_view_def
    by (auto simp: fs_node_put inodes_put split: option.splits node.splits)
  with assms(1) show ?thesis
    by (simp add: stays_in_def root_ok_def fs_wf_put fs_node_put link_free_def)
qed

lemma write_at_stays:
  assumes "root_ok fs r" "handle_below r fs h"
  shows "stays_in r fs (snd (fs_write_at h off bs fs))"
proof (cases "guarded fs CWrite (fh_path h) (ok_or IsADirectory (fh_ino h))")
  case (Inl e)
  with assms show ?thesis by (simp add: fs_write_at_def stays_in_refl)
next
  case (Inr i)
  then have "fh_ino h = Some i" by (cases "fh_ino h") (auto dest: guarded_InrD)
  with Inr assms put_handle_stays [OF assms(1), of i] show ?thesis
    by (auto simp: fs_write_at_def Let_def stays_in_refl handle_below_def)
qed

lemma write_at_nodes: "fs_node (snd (fs_write_at h off bs fs)) l = fs_node fs l"
  by (simp add: fs_write_at_def Let_def fs_node_put split: sum.splits)

end
