(* ===== verification/AtomicSave.thy ===== *)
theory AtomicSave
  imports FsConfine
begin

text \<open>
  Replacing a file by writing a temporary file beside it and renaming it over the target, as
  \<open>UserManager::save\<close> and \<open>Config::save\<close> do: in a directory reached without links the
  sequence succeeds when no call fails, the target then reads back what was written, and no
  other location changes; when a call fails the target is as before.
\<close>

definition no_faults :: "fs \<Rightarrow> bool" where
  "no_faults fs \<longleftrightarrow> (\<forall>c p. faults fs c p = None)"

text \<open>A place for a plain file: a file or nothing there.\<close>

definition file_slot :: "fs \<Rightarrow> string list \<Rightarrow> bool" where
  "file_slot fs l \<longleftrightarrow> (case fs_node fs l of None \<Rightarrow> True | Some (NFile _) \<Rightarrow> True | _ \<Rightarrow> False)"

lemma guarded_quiet: "faults fs c p = None \<Longrightarrow> guarded fs c p r = r"
  by (simp add: guarded_def)

lemma guarded_no_faults: "no_faults fs \<Longrightarrow> guarded fs c p r = r"
  by (simp add: guarded_def no_faults_def)

lemma no_faults_env: "same_env fs fs' \<Longrightarrow> no_faults fs' = no_faults fs"
  by (simp add: same_env_def no_faults_def)

lemma locate_child:
  assumes "dirs_to fs d" "file_slot fs (d @ [n])"
  shows "locate fs fl (dir_path (d @ [n])) = Inr (d @ [n])"
proof -
  have "namei fs fl max_links [] (map Normal d @ [Normal n]) = namei fs fl max_links d [Normal n]"
    using namei_through_dirs [of "[]" d fs fl max_links "[Normal n]"] assms(1)
    by (simp add: dirs_to_def)
  also have "\<dots> = Inr (d @ [n])"
    using assms(2) by (auto simp: file_slot_def split: option.splits node.splits)
  finally show ?thesis by (simp add: locate_def dir_path_def)
qed

lemma parent_ok_child: "dirs_to fs d \<Longrightarrow> parent_dir_ok fs (d @ [n])"
  by (simp add: parent_dir_ok_def dirs_to_def)

lemma opts_write_new_fields [simp]:
  "o_read opts_write_new = False" "o_write opts_write_new = True"
  "o_append opts_write_new = False" "o_truncate opts_write_new = True"
  "o_create opts_write_new = True"
  by (simp_all add: opts_write_new_def opts_new_def)

lemma opts_read_only_fields [simp]:
  "o_read opts_read_only = True" "o_write opts_read_only = False"
  "o_append opts_read_only = False" "o_truncate opts_read_only = False"
  "o_create opts_read_only = False"
  by (simp_all add: opts_read_only_def opts_new_def)

lemma opts_valid_write_new [simp]: "opts_valid opts_write_new"
  by (simp add: opts_valid_def)

lemma opts_valid_read_only [simp]: "opts_valid opts_read_only"
  by (simp add: opts_valid_def)

lemma splice_zero: "splice 0 bs [] = bs"
  by (simp add: splice_def)

text \<open>Writing a new or existing plain file.\<close>

definition written :: "fs \<Rightarrow> string list \<Rightarrow> string \<Rightarrow> fs" where
  "written fs l s =
     (case fs_node fs l of
        Some (NFile i) \<Rightarrow> put_content i s (put_content i [] fs)
      | _ \<Rightarrow> put_content (next_ino fs) s (create_file l fs))"

lemma put_content_twice: "put_content i s (put_content i t fs) = put_content i s fs"
proof -
  have "AList.update k v (AList.update k w m) = AList.update k v m"
    for k :: nat and v w :: inode and m by (induction m) auto
  then show ?thesis by (simp add: put_content_def hm_insert_def hm_get_def update_conv' split: option.split)
qed

lemma inodes_create:
  "hm_get (inodes (create_file l fs)) i =
     (if i = next_ino fs then Some \<lparr>content = [], iattr = new_attr fs\<rparr> else hm_get (inodes fs) i)"
  by (simp add: create_file_def)

lemma put_content_empty: "hm_get (inodes fs) i = Some ind \<Longrightarrow> content ind = [] \<Longrightarrow> put_content i [] fs = fs"
proof -
  have "map_of m k = Some v \<Longrightarrow> AList.update k v m = m" for k :: nat and v :: inode and m
    by (induction m) auto
  moreover assume "hm_get (inodes fs) i = Some ind" "content ind = []"
  ultimately show ?thesis by (simp add: put_content_def hm_insert_def hm_get_def)
qed

lemma fs_write_quiet:
  assumes "fs_wf fs" "dirs_to fs d" "file_slot fs (d @ [n])"
    and "\<And>p. faults fs COpen p = None" "\<And>p. faults fs CWrite p = None"
  shows "fs_write (dir_path (d @ [n])) s fs = (Inr (), written fs (d @ [n]) s)"
proof (cases "fs_node fs (d @ [n])")
  case None
  let ?fs = "create_file (d @ [n]) fs"
  have ino: "hm_get (inodes ?fs) (next_ino fs) = Some \<lparr>content = [], iattr = new_attr fs\<rparr>"
    by (simp add: inodes_create)
  have nf: "faults ?fs CWrite p = None" for p
    using assms(5) same_env_prims(5) [of fs "d @ [n]"] by (simp add: same_env_def)
  have "fs_open opts_write_new (dir_path (d @ [n])) fs
      = (Inr (new_handle (Some (next_ino fs)) (dir_path (d @ [n])) opts_write_new), ?fs)"
    using None assms parent_ok_child [OF assms(2)]
    by (simp add: fs_open_def guarded_quiet locate_child)
  with None ino nf show ?thesis
    by (simp add: fs_write_def fs_write_at_def seek_ok_def guarded_quiet new_handle_def written_def handle_content_def splice_zero Let_def
        put_content_empty)
next
  case (Some nd)
  then obtain i where i: "nd = NFile i"
    using assms(3) by (auto simp: file_slot_def split: node.splits)
  with Some fs_wf_file [OF assms(1)] obtain ind where ind: "hm_get (inodes fs) i = Some ind" by blast
  let ?fs = "put_content i [] fs"
  have ino: "hm_get (inodes ?fs) i = Some (ind\<lparr>content := []\<rparr>)"
    using ind by (simp add: inodes_put)
  have nf: "faults ?fs CWrite p = None" for p
    using assms(5) same_env_prims(4) [of fs i "[]"] by (simp add: same_env_def)
  have "fs_open opts_write_new (dir_path (d @ [n])) fs
      = (Inr (new_handle (Some i) (dir_path (d @ [n])) opts_write_new), ?fs)"
    using Some i assms
    by (simp add: fs_open_def guarded_quiet locate_child)
  with Some i ino nf show ?thesis
    by (simp add: fs_write_def fs_write_at_def seek_ok_def guarded_quiet new_handle_def written_def handle_content_def splice_zero Let_def
        put_content_twice)
qed

lemma fs_write_file:
  assumes "fs_wf fs" "dirs_to fs d" "file_slot fs (d @ [n])" "no_faults fs"
  shows "fs_write (dir_path (d @ [n])) s fs = (Inr (), written fs (d @ [n]) s)"
  by (rule fs_write_quiet) (use assms in \<open>simp_all add: no_faults_def\<close>)

lemma written_node:
  "fs_node (written fs l s) l' =
     (if l' = l \<and> l \<noteq> [] \<and> (\<forall>i. fs_node fs l \<noteq> Some (NFile i)) then Some (NFile (next_ino fs))
      else fs_node fs l')"
  by (auto simp: written_def fs_node_put fs_node_create split: option.splits node.splits)

lemma written_wf: "fs_wf fs \<Longrightarrow> l \<noteq> [] \<Longrightarrow> fs_wf (written fs l s)"
  by (auto simp: written_def fs_wf_put fs_wf_create split: option.splits node.splits)

lemma written_env: "same_env fs (written fs l s)"
  unfolding written_def
  by (auto split: option.splits node.splits intro: same_env_trans [OF same_env_prims(5) same_env_prims(4)]
      same_env_trans [OF same_env_prims(4) same_env_prims(4)])

lemma written_content:
  assumes "fs_wf fs" "file_slot fs l" "l \<noteq> []"
  shows "\<exists>i ind. fs_node (written fs l s) l = Some (NFile i) \<and>
    hm_get (inodes (written fs l s)) i = Some ind \<and> content ind = s"
proof (cases "fs_node fs l")
  case None
  with assms show ?thesis
    by (auto simp: written_def fs_node_put fs_node_create inodes_put inodes_create)
next
  case (Some nd)
  then obtain i where i: "nd = NFile i"
    using assms(2) by (auto simp: file_slot_def split: node.splits)
  with Some fs_wf_file [OF assms(1)] obtain ind where "hm_get (inodes fs) i = Some ind" by blast
  with Some i show ?thesis
    by (auto simp: written_def fs_node_put inodes_put)
qed

lemma written_elsewhere:
  assumes "fs_wf fs" "file_slot fs l" "l' \<noteq> l" "l \<noteq> []"
  shows "fs_view (written fs l s) l' = fs_view fs l'"
proof (cases "fs_node fs l'")
  case None
  with assms show ?thesis by (simp add: fs_view_def written_node)
next
  case (Some nd)
  show ?thesis
  proof (cases nd)
    case (NFile j)
    have "j < next_ino fs" using fs_wf_file [OF assms(1)] Some NFile by blast
    moreover have "fs_node fs l \<noteq> Some (NFile j)"
      using fs_wf_inj [OF assms(1)] Some NFile assms(3) by blast
    ultimately have "hm_get (inodes (written fs l s)) j = hm_get (inodes fs) j"
      by (auto simp: written_def inodes_put inodes_create split: option.splits node.splits)
    with Some NFile assms show ?thesis by (simp add: fs_view_def written_node)
  qed (use Some assms in \<open>simp_all add: fs_view_def written_node\<close>)
qed

lemma dirs_to_node:
  "dirs_to fs d \<Longrightarrow> (\<And>l. prefix l d \<Longrightarrow> fs_node fs' l = fs_node fs l) \<Longrightarrow> dirs_to fs' d"
  by (simp add: dirs_to_def)

text \<open>The rename of the temporary file over the target.\<close>

lemma rename_over:
  assumes "fs_wf fs" "dirs_to fs d" "no_faults fs" "t \<noteq> n"
    and "fs_node fs (d @ [t]) = Some (NFile i)" "file_slot fs (d @ [n])"
  shows "fs_rename (dir_path (d @ [t])) (dir_path (d @ [n])) fs
    = (Inr (), move_tree (d @ [t]) (d @ [n]) fs)"
proof -
  have slot: "file_slot fs (d @ [t])" using assms(5) by (simp add: file_slot_def)
  have "rename_checks fs (d @ [t]) (d @ [n]) = None"
    using assms parent_ok_child [OF assms(2)]
    by (auto simp: rename_checks_def file_slot_def is_dir_node_def strict_prefix_def
        split: option.splits node.splits)
  with assms locate_child [OF assms(2) slot] locate_child [OF assms(2,6)] show ?thesis
    by (simp add: fs_rename_def guarded_no_faults)
qed

section \<open>The whole sequence\<close>

definition temp_name :: "string \<Rightarrow> string \<Rightarrow> string" where
  "temp_name n e = fst (split_ext n) @ ''.'' @ e"

lemma with_extension_dir:
  "e \<noteq> [] \<Longrightarrow> with_extension (dir_path (d @ [n])) e = dir_path (d @ [temp_name n e])"
  by (simp add: with_extension_def file_stem_def file_name_def dir_path_def temp_name_def
      butlast_append)

lemma path_parent_child [simp]: "path_parent (dir_path (d @ [n])) = Some (dir_path d)"
  by (simp add: path_parent_dir)

lemma create_dir_all_quiet:
  assumes d: "dirs_to fs d" and nf: "\<And>p. faults fs CMkdir p = None" "\<And>p. faults fs CStat p = None"
  shows "fs_create_dir_all (dir_path d) fs = (Inr (), fs)"
proof -
  have loc: "locate fs fl (dir_path d) = Inr d" for fl by (rule locate_dirs [OF d])
  obtain a where a: "fs_node fs d = Some (NDir a)"
    using d by (auto simp: dirs_to_def is_dir_node_iff)
  have "fs_create_dir (dir_path d) fs = (Inl AlreadyExists, fs)"
    using loc a nf by (simp add: fs_create_dir_def guarded_quiet)
  moreover have "fs_is_dir fs (dir_path d)"
    using loc a nf by (simp add: fs_kind_is_def fs_metadata_def stat_at_def guarded_quiet node_meta_def)
  ultimately show ?thesis
    by (subst fs_create_dir_all.simps) simp
qed

lemma create_dir_all_ok: "dirs_to fs d \<Longrightarrow> no_faults fs \<Longrightarrow> fs_create_dir_all (dir_path d) fs = (Inr (), fs)"
  by (rule create_dir_all_quiet) (simp_all add: no_faults_def)

lemma read_written:
  assumes "dirs_to fs d" "no_faults fs" "fs_node fs (d @ [n]) = Some (NFile i)"
    and "hm_get (inodes fs) i = Some ind"
  shows "fs_read fs (dir_path (d @ [n])) = Inr (content ind)"
proof -
  have "file_slot fs (d @ [n])" using assms(3) by (simp add: file_slot_def)
  with assms show ?thesis
    by (simp add: fs_read_def fs_open_def guarded_no_faults locate_child new_handle_def
        handle_content_def)
qed

lemma read_exists: "fs_read fs p = Inr s \<Longrightarrow> no_faults fs \<Longrightarrow> fs_exists fs p"
  by (auto simp: fs_read_def fs_open_def fs_exists_def fs_metadata_def stat_at_def guarded_no_faults
      split: sum.splits option.splits node.splits if_splits)

lemma save_sequence:
  assumes wf: "fs_wf fs" and d: "dirs_to fs d" and nf: "no_faults fs" and tn: "t \<noteq> n"
    and slots: "file_slot fs (d @ [t])" "file_slot fs (d @ [n])"
  obtains fs2 fs3 where
    "fs_write (dir_path (d @ [t])) s fs = (Inr (), fs2)"
    "fs_rename (dir_path (d @ [t])) (dir_path (d @ [n])) fs2 = (Inr (), fs3)"
    "fs_wf fs3" "same_env fs fs3"
    "fs_read fs3 (dir_path (d @ [n])) = Inr s"
    "fs_node fs3 (d @ [t]) = None"
    "\<And>l. \<not> prefix (d @ [t]) l \<Longrightarrow> \<not> prefix (d @ [n]) l \<Longrightarrow> fs_view fs3 l = fs_view fs l"
    "dirs_to fs3 d" "file_slot fs3 (d @ [n])"
proof -
  let ?t = "d @ [t]" and ?n = "d @ [n]"
  let ?fs2 = "written fs ?t s"
  let ?fs3 = "move_tree ?t ?n ?fs2"
  have env2: "same_env fs ?fs2" by (rule written_env)
  have wf2: "fs_wf ?fs2" by (simp add: written_wf wf)
  obtain i ind where i: "fs_node ?fs2 ?t = Some (NFile i)" "hm_get (inodes ?fs2) i = Some ind"
    "content ind = s"
    using written_content [OF wf slots(1), of s] by auto
  have node2: "fs_node ?fs2 l = fs_node fs l" if "l \<noteq> ?t" for l
    using that by (simp add: written_node)
  have d2: "dirs_to ?fs2 d"
    by (rule dirs_to_node [OF d]) (auto intro!: node2)
  have slot2: "file_slot ?fs2 ?n" using slots(2) node2 [of ?n] tn by (simp add: file_slot_def)
  have nf2: "no_faults ?fs2" using nf no_faults_env [OF env2] by simp
  have ren: "fs_rename (dir_path ?t) (dir_path ?n) ?fs2 = (Inr (), ?fs3)"
    by (rule rename_over [OF wf2 d2 nf2 tn i(1) slot2])
  have node3: "fs_node ?fs3 l = (if prefix ?n l then fs_node ?fs2 (?t @ drop (length ?n) l)
      else if prefix ?t l then None else fs_node ?fs2 l)" for l
    by (rule fs_node_move) simp_all
  have nt: "\<not> prefix ?n ?t" using tn by simp
  have env3: "same_env fs ?fs3" using env2 same_env_prims(3) same_env_trans by blast
  have above: "\<not> prefix (d @ [x]) l" if "prefix l d" for l x
    using that by (auto dest!: prefix_length_le)
  have d3: "dirs_to ?fs3 d"
    by (rule dirs_to_node [OF d2]) (simp add: node3 above)
  have at_n: "fs_node ?fs3 ?n = Some (NFile i)" using i(1) by (simp add: node3)
  have "fs_read ?fs3 (dir_path ?n) = Inr s"
    using read_written [OF d3 _ at_n] nf no_faults_env [OF env3] i(2,3) by simp
  moreover have "fs_view ?fs3 l = fs_view fs l" if "\<not> prefix ?t l" "\<not> prefix ?n l" for l
  proof -
    have "fs_view ?fs3 l = fs_view ?fs2 l" using that by (simp add: fs_view_def node3 split: option.split node.split)
    also have "\<dots> = fs_view fs l"
      using that by (intro written_elsewhere [OF wf slots(1)]) auto
    finally show ?thesis .
  qed
  ultimately show ?thesis
    using that [of ?fs2 ?fs3] fs_write_file [OF wf d slots(1) nf] ren env3 fs_wf_move [OF wf2] nt d3 at_n
    by (simp add: node3 file_slot_def)
qed

text \<open>With failing calls: the temporary write and a refused rename leave the target alone.\<close>

lemma view_create:
  "fs_wf fs \<Longrightarrow> l' \<noteq> l \<Longrightarrow> fs_view (create_file l fs) l' = fs_view fs l'"
  using fs_wf_file [of fs l']
  by (auto simp: fs_view_def fs_node_create inodes_create split: option.splits node.splits)

lemma view_put:
  assumes "fs_wf fs" "\<And>l. fs_node fs l = Some (NFile i) \<Longrightarrow> l = l0" "l' \<noteq> l0"
  shows "fs_view (put_content i s fs) l' = fs_view fs l'"
  using assms(2) [of l'] assms(3)
  by (auto simp: fs_view_def fs_node_put inodes_put split: option.splits node.splits)

lemma fs_open_slot:
  assumes "dirs_to fs d" "file_slot fs (d @ [t])" "fs_open oo (dir_path (d @ [t])) fs = (r, fs1)"
  obtains (same) e where "r = Inl e" "fs1 = fs"
    | (new) h where "r = Inr h" "fs1 = create_file (d @ [t]) fs" "fh_ino h = Some (next_ino fs)"
    | (old) i h where "r = Inr h" "fs_node fs (d @ [t]) = Some (NFile i)" "fh_ino h = Some i"
        "fs1 = fs \<or> fs1 = put_content i [] fs"
proof -
  let ?t = "d @ [t]"
  have loc: "locate fs True (dir_path ?t) = Inr ?t" by (rule locate_child [OF assms(1,2)])
  show ?thesis
  proof (cases "opts_valid oo \<and> faults fs COpen (dir_path ?t) = None")
    case False
    with assms(3) loc same show ?thesis
      by (cases "opts_valid oo") (auto simp: fs_open_def guarded_def)
  next
    case True
    then have eq: "guarded fs COpen (dir_path ?t) (locate fs True (dir_path ?t)) = Inr ?t"
      using loc by (simp add: guarded_def)
    show ?thesis
    proof (cases "fs_node fs ?t")
      case None
      with assms(3) eq True same new show ?thesis
        by (auto simp: fs_open_def new_handle_def split: if_splits)
    next
      case (Some nd)
      then obtain i where "nd = NFile i"
        using assms(2) by (auto simp: file_slot_def split: node.splits)
      with Some assms(3) eq True old show ?thesis
        by (auto simp: fs_open_def new_handle_def split: if_splits)
    qed
  qed
qed

lemma view_drop:
  assumes "\<not> prefix l l'"
  shows "fs_view (drop_tree l fs) l' = fs_view fs l'"
proof -
  have "inodes (drop_tree l fs) = inodes fs" by (simp add: drop_tree_def)
  moreover have "l \<noteq> []" using assms by auto
  then have "fs_node (drop_tree l fs) l' = fs_node fs l'" using assms by (simp add: fs_node_drop)
  ultimately show ?thesis by (simp add: fs_view_def split: option.split node.split)
qed

lemma fs_open_view:
  assumes "fs_wf fs" "dirs_to fs d" "file_slot fs (d @ [t])" "l \<noteq> d @ [t]"
    and "fs_open oo (dir_path (d @ [t])) fs = (r, fs1)"
  shows "fs_wf fs1 \<and> fs_view fs1 l = fs_view fs l \<and>
    (\<forall>h i l'. r = Inr h \<longrightarrow> fh_ino h = Some i \<longrightarrow> fs_node fs1 l' = Some (NFile i) \<longrightarrow> l' = d @ [t])"
  using assms(2,3,5)
proof (cases rule: fs_open_slot)
  case (new h)
  have "fs_node fs l' \<noteq> Some (NFile (next_ino fs))" for l'
    using fs_wf_file [OF assms(1)] by fastforce
  with new assms(1,4) show ?thesis
    by (auto simp: fs_wf_create view_create fs_node_create split: if_splits)
next
  case (old i h)
  have only: "l' = d @ [t]" if "fs_node fs l' = Some (NFile i)" for l'
    using fs_wf_inj [OF assms(1) that old(2)] .
  have "fs_view (put_content i [] fs) l = fs_view fs l"
    by (rule view_put [OF assms(1) only assms(4)])
  with old(4) assms(1) have "fs_wf fs1 \<and> fs_view fs1 l = fs_view fs l"
    by (elim disjE) (simp_all add: fs_wf_put)
  moreover have "fs_node fs1 l' = fs_node fs l'" for l'
    using old(4) by (elim disjE) (simp_all add: fs_node_put)
  ultimately show ?thesis using old(1,3) only by force
qed (use assms(1) in auto)

lemma fs_write_at_nodes:
  "fs_node (snd (fs_write_at h off s fs)) l = fs_node fs l \<and> same_env fs (snd (fs_write_at h off s fs))"
  by (simp add: fs_write_at_def Let_def fs_node_put split: sum.split)

lemma fs_write_nodes:
  assumes "dirs_to fs d" "file_slot fs (d @ [t])" "fs_write (dir_path (d @ [t])) s fs = (r, fs2)"
  shows "same_env fs fs2 \<and> (\<forall>l. l \<noteq> d @ [t] \<longrightarrow> fs_node fs2 l = fs_node fs l) \<and>
    (is_ok r \<longrightarrow> (\<exists>i. fs_node fs2 (d @ [t]) = Some (NFile i)))"
proof -
  obtain r1 fs1 where o1: "fs_open opts_write_new (dir_path (d @ [t])) fs = (r1, fs1)"
    by (cases "fs_open opts_write_new (dir_path (d @ [t])) fs")
  have w: "fs_write (dir_path (d @ [t])) s fs =
      (case r1 of Inl e \<Rightarrow> (Inl e, fs1) | Inr h \<Rightarrow> fs_write_at h 0 s fs1)"
    by (simp add: fs_write_def o1)
  have opened: "same_env fs fs1 \<and> (\<forall>l. l \<noteq> d @ [t] \<longrightarrow> fs_node fs1 l = fs_node fs l) \<and>
      (is_ok r1 \<longrightarrow> (\<exists>i. fs_node fs1 (d @ [t]) = Some (NFile i)))"
    using assms(1,2) o1 by (cases rule: fs_open_slot) (auto simp: fs_node_create fs_node_put)
  show ?thesis
  proof (cases r1)
    case (Inl e)
    with w assms(3) opened show ?thesis by simp
  next
    case (Inr h)
    with w assms(3) have "fs_write_at h 0 s fs1 = (r, fs2)" by simp
    with fs_write_at_nodes [of h 0 s fs1] opened Inr same_env_trans show ?thesis by auto
  qed
qed

lemma fs_remove_slot:
  assumes "dirs_to fs d" "fs_node fs (d @ [t]) = Some (NFile i)" "\<And>p. faults fs CUnlink p = None"
  shows "fs_remove_file (dir_path (d @ [t])) fs = (Inr (), drop_tree (d @ [t]) fs)"
proof -
  have "file_slot fs (d @ [t])" using assms(2) by (simp add: file_slot_def)
  then show ?thesis
    using locate_child [OF assms(1), of t False] assms(2,3)
    by (simp add: fs_remove_file_def guarded_def)
qed

lemma fs_write_view:
  assumes "fs_wf fs" "dirs_to fs d" "file_slot fs (d @ [t])" "l \<noteq> d @ [t]"
  shows "fs_view (snd (fs_write (dir_path (d @ [t])) s fs)) l = fs_view fs l"
proof -
  obtain r fs1 where o1: "fs_open opts_write_new (dir_path (d @ [t])) fs = (r, fs1)"
    by (cases "fs_open opts_write_new (dir_path (d @ [t])) fs")
  note v = fs_open_view [OF assms o1]
  show ?thesis
  proof (cases r)
    case (Inl e)
    with o1 v show ?thesis by (simp add: fs_write_def)
  next
    case (Inr h)
    have "fs_view (snd (fs_write_at h 0 s fs1)) l = fs_view fs1 l"
    proof (cases "fh_ino h")
      case None
      then show ?thesis by (simp add: fs_write_at_def guarded_def split: option.split)
    next
      case (Some i)
      have "fs_view (put_content i x fs1) l = fs_view fs1 l" for x
        by (rule view_put [of fs1 i "d @ [t]"]) (use v Inr Some assms(4) in auto)
      with Some show ?thesis
        by (simp add: fs_write_at_def guarded_def Let_def split: option.split)
    qed
    with o1 v Inr show ?thesis by (simp add: fs_write_def)
  qed
qed

lemma fs_rename_failed: "fs_rename p q fs = (Inl e, fs') \<Longrightarrow> fs' = fs"
  by (auto simp: fs_rename_def split: sum.splits option.splits)

end
