(* ===== verification/Runtime.thy ===== *)
theory Runtime
  imports AtomicSave
begin

text \<open>
  The part of \<open>tokio\<close> the servers rely on: a listener task owns a socket, is told to stop by a value on its
  shutdown channel or by the loss of the sender, and at its end clears the running flag of its server and reports
  on its closed channel.  Tasks move on their own (\<open>task_step\<close>), between any two actions of the program.
\<close>

datatype phase = Spawned | Listening | Released | Closed

record task =
  tk_addr :: string
  tk_flag :: nat
  tk_told :: bool
  tk_phase :: phase

text \<open>Flags are the shared booleans \<open>running\<close>, by number; the two channels of a start have the number of its
  task.\<close>

record runtime =
  tasks :: "(nat, task) hmap"
  next_task :: nat
  flags :: "(nat, bool) hmap"
  next_flag :: nat
  rt_disk :: fs

definition flag_set :: "runtime \<Rightarrow> nat \<Rightarrow> bool" where
  "flag_set rt i = unwrap_or False (hm_get (flags rt) i)"

definition set_flag :: "nat \<Rightarrow> bool \<Rightarrow> runtime \<Rightarrow> runtime" where
  "set_flag i b rt = rt\<lparr>flags := hm_insert i b (flags rt)\<rparr>"

definition new_flag :: "runtime \<Rightarrow> nat \<times> runtime" where
  "new_flag rt = (next_flag rt, set_flag (next_flag rt) False (rt\<lparr>next_flag := Suc (next_flag rt)\<rparr>))"

definition new_channels :: "runtime \<Rightarrow> nat \<times> runtime" where
  "new_channels rt = (next_task rt, rt\<lparr>next_task := Suc (next_task rt)\<rparr>)"

definition put_task :: "nat \<Rightarrow> task \<Rightarrow> runtime \<Rightarrow> runtime" where
  "put_task t k rt = rt\<lparr>tasks := hm_insert t k (tasks rt)\<rparr>"

definition spawn_listener :: "nat \<Rightarrow> string \<Rightarrow> nat \<Rightarrow> runtime \<Rightarrow> runtime" where
  "spawn_listener t addr i = put_task t \<lparr>tk_addr = addr, tk_flag = i, tk_told = False, tk_phase = Spawned\<rparr>"

text \<open>Sending on the shutdown channel and dropping its sender have the same effect on the task.\<close>

definition tell :: "nat option \<Rightarrow> runtime \<Rightarrow> runtime" where
  "tell t rt =
     (case t of
        None \<Rightarrow> rt
      | Some n \<Rightarrow>
          (case hm_get (tasks rt) n of None \<Rightarrow> rt | Some k \<Rightarrow> put_task n (k\<lparr>tk_told := True\<rparr>) rt))"

text \<open>A closed channel is ready when its task has reported or was never spawned.\<close>

definition closed_ready :: "runtime \<Rightarrow> nat \<Rightarrow> bool" where
  "closed_ready rt t \<longleftrightarrow> (case hm_get (tasks rt) t of None \<Rightarrow> True | Some k \<Rightarrow> tk_phase k = Closed)"

definition addr_free :: "runtime \<Rightarrow> string \<Rightarrow> bool" where
  "addr_free rt a \<longleftrightarrow>
     list_all (\<lambda>t. case hm_get (tasks rt) t of None \<Rightarrow> True | Some k \<Rightarrow> tk_phase k = Listening \<longrightarrow> tk_addr k \<noteq> a)
       (hm_keys (tasks rt))"

lemma addr_free_iff:
  "addr_free rt a \<longleftrightarrow> (\<forall>t k. hm_get (tasks rt) t = Some k \<longrightarrow> tk_phase k = Listening \<longrightarrow> tk_addr k \<noteq> a)"
proof -
  have "t \<in> set (hm_keys (tasks rt))" if "hm_get (tasks rt) t = Some k" for t k
    using that hm_get_None_iff [of "tasks rt" t] by auto
  then show ?thesis by (auto simp: addr_free_def list_all_iff split: option.splits)
qed

inductive task_step :: "runtime \<Rightarrow> runtime \<Rightarrow> bool" where
  binds: "hm_get (tasks rt) t = Some k \<Longrightarrow> tk_phase k = Spawned \<Longrightarrow> addr_free rt (tk_addr k) \<Longrightarrow>
    task_step rt (put_task t (k\<lparr>tk_phase := Listening\<rparr>) rt)"
| fails: "hm_get (tasks rt) t = Some k \<Longrightarrow> tk_phase k = Spawned \<Longrightarrow>
    task_step rt (put_task t (k\<lparr>tk_phase := Released\<rparr>) rt)"
| ends: "hm_get (tasks rt) t = Some k \<Longrightarrow> tk_phase k = Listening \<Longrightarrow>
    task_step rt (put_task t (k\<lparr>tk_phase := Released\<rparr>) rt)"
| closes: "hm_get (tasks rt) t = Some k \<Longrightarrow> tk_phase k = Released \<Longrightarrow>
    task_step rt (set_flag (tk_flag k) False (put_task t (k\<lparr>tk_phase := Closed\<rparr>) rt))"

abbreviation task_steps :: "runtime \<Rightarrow> runtime \<Rightarrow> bool" where
  "task_steps \<equiv> task_step\<^sup>*\<^sup>*"

lemma flag_simps [simp]:
  "flag_set (set_flag i b rt) j = (if j = i then b else flag_set rt j)" "flag_set (put_task t k rt) j = flag_set rt j"
  "flag_set (tell x rt) j = flag_set rt j" "tasks (set_flag i b rt) = tasks rt"
  "next_task (set_flag i b rt) = next_task rt" "next_task (put_task t k rt) = next_task rt"
  "next_flag (set_flag i b rt) = next_flag rt" "next_flag (put_task t k rt) = next_flag rt"
  "next_task (tell x rt) = next_task rt" "next_flag (tell x rt) = next_flag rt"
  by (auto simp: flag_set_def set_flag_def put_task_def tell_def split: option.splits)

lemma flag_set_next [simp]: "flag_set (rt\<lparr>next_flag := n\<rparr>) j = flag_set rt j" "flag_set (rt\<lparr>next_task := n\<rparr>) j = flag_set rt j"
  "flag_set (rt\<lparr>rt_disk := d\<rparr>) j = flag_set rt j"
  by (simp_all add: flag_set_def)

lemma task_simps [simp]:
  "hm_get (tasks (put_task t k rt)) u = (if u = t then Some k else hm_get (tasks rt) u)"
  by (simp add: put_task_def)

lemma tell_task:
  "hm_get (tasks (tell x rt)) u =
     (if x = Some u then map_option (\<lambda>k. k\<lparr>tk_told := True\<rparr>) (hm_get (tasks rt) u) else hm_get (tasks rt) u)"
  by (auto simp: tell_def split: option.splits)

text \<open>What the program may rely on of a running set of tasks: numbers are fresh, and a set flag has a task that
  has not closed yet.\<close>

definition rt_ok :: "runtime \<Rightarrow> bool" where
  "rt_ok rt \<longleftrightarrow>
     (\<forall>t k. hm_get (tasks rt) t = Some k \<longrightarrow> t < next_task rt \<and> tk_flag k < next_flag rt) \<and>
     (\<forall>i. flag_set rt i \<longrightarrow> i < next_flag rt \<and>
        (\<exists>t k. hm_get (tasks rt) t = Some k \<and> tk_flag k = i \<and> tk_phase k \<noteq> Closed)) \<and>
     (\<forall>t u k l. hm_get (tasks rt) t = Some k \<longrightarrow> hm_get (tasks rt) u = Some l \<longrightarrow> tk_flag k = tk_flag l \<longrightarrow> t = u)"

lemma rt_okD:
  assumes "rt_ok rt"
  shows "hm_get (tasks rt) t = Some k \<Longrightarrow> t < next_task rt \<and> tk_flag k < next_flag rt"
    and "flag_set rt i \<Longrightarrow> i < next_flag rt"
    and "flag_set rt i \<Longrightarrow> \<exists>t k. hm_get (tasks rt) t = Some k \<and> tk_flag k = i \<and> tk_phase k \<noteq> Closed"
    and "hm_get (tasks rt) t = Some k \<Longrightarrow> hm_get (tasks rt) u = Some l \<Longrightarrow> tk_flag k = tk_flag l \<Longrightarrow> t = u"
  using assms unfolding rt_ok_def by blast+

text \<open>Changing one task keeps all of this, when its flag stays and a task that closes has its flag cleared.\<close>

lemma rt_ok_change:
  assumes ok: "rt_ok rt" and t: "hm_get (tasks rt) t = Some k"
    and tasks2: "tasks rtn = tasks (put_task t kn rt)" and flag: "tk_flag kn = tk_flag k"
    and next2: "next_task rtn = next_task rt" "next_flag rtn = next_flag rt"
    and flags2: "\<And>i. flag_set rtn i \<Longrightarrow> flag_set rt i"
    and closed: "tk_phase kn = Closed \<Longrightarrow> tk_phase k = Closed \<or> \<not> flag_set rtn (tk_flag k)"
  shows "rt_ok rtn"
  unfolding rt_ok_def
proof (intro conjI allI impI)
  fix u l assume "hm_get (tasks rtn) u = Some l"
  then show "u < next_task rtn" "tk_flag l < next_flag rtn"
    using rt_okD(1) [OF ok, of u] rt_okD(1) [OF ok t] tasks2 flag next2 by (auto split: if_splits)
next
  fix i assume i: "flag_set rtn i"
  then show "i < next_flag rtn" using rt_okD(2) [OF ok] flags2 next2 by simp
  obtain u l where u: "hm_get (tasks rt) u = Some l" "tk_flag l = i" "tk_phase l \<noteq> Closed"
    using rt_okD(3) [OF ok flags2 [OF i]] by blast
  show "\<exists>u l. hm_get (tasks rtn) u = Some l \<and> tk_flag l = i \<and> tk_phase l \<noteq> Closed"
  proof (cases "u = t")
    case True
    with u t flag closed i tasks2 show ?thesis by (intro exI [of _ t] exI [of _ kn]) auto
  next
    case False
    with u tasks2 show ?thesis by (intro exI [of _ u] exI [of _ l]) simp
  qed
next
  fix u v l m
  assume "hm_get (tasks rtn) u = Some l" "hm_get (tasks rtn) v = Some m" "tk_flag l = tk_flag m"
  then show "u = v"
    using rt_okD(4) [OF ok, of u _ v] rt_okD(4) [OF ok t, of v] rt_okD(4) [OF ok _ t, of u] tasks2 flag
    by (auto split: if_splits)
qed

lemma task_step_ok: "task_step rt rtn \<Longrightarrow> rt_ok rt \<Longrightarrow> rt_ok rtn"
proof (induction rule: task_step.induct)
  case (binds rt t k)
  show ?case by (rule rt_ok_change [OF binds.prems binds.hyps(1), where kn = "k\<lparr>tk_phase := Listening\<rparr>"]) (use binds in simp_all)
next
  case (fails rt t k)
  show ?case by (rule rt_ok_change [OF fails.prems fails.hyps(1), where kn = "k\<lparr>tk_phase := Released\<rparr>"]) (use fails in simp_all)
next
  case (ends rt t k)
  show ?case by (rule rt_ok_change [OF ends.prems ends.hyps(1), where kn = "k\<lparr>tk_phase := Released\<rparr>"]) (use ends in simp_all)
next
  case (closes rt t k)
  show ?case
    by (rule rt_ok_change [OF closes.prems closes.hyps(1), where kn = "k\<lparr>tk_phase := Closed\<rparr>"])
      (use closes in \<open>simp_all split: if_splits\<close>)
qed

lemma task_steps_ok: "task_steps rt rtn \<Longrightarrow> rt_ok rt \<Longrightarrow> rt_ok rtn"
  by (induction rule: rtranclp_induct) (auto intro: task_step_ok)

lemma tell_ok:
  assumes "rt_ok rt"
  shows "rt_ok (tell x rt)"
proof (cases "Option.bind x (hm_get (tasks rt))")
  case None
  then have "tell x rt = rt" by (auto simp: tell_def split: option.splits)
  with assms show ?thesis by simp
next
  case (Some k)
  then obtain n where "x = Some n" "hm_get (tasks rt) n = Some k" by (auto simp: bind_eq_Some_conv)
  with assms show ?thesis
    by - (rule rt_ok_change [where rt = rt and t = n and k = k and kn = "k\<lparr>tk_told := True\<rparr>"], simp_all add: tell_def)
qed

lemma clear_flag_ok: "rt_ok rt \<Longrightarrow> rt_ok (set_flag i False rt)"
  by (auto simp: rt_ok_def)

text \<open>A new server gets a fresh flag, and its start a task of its own.\<close>

lemma new_flag_ok: "rt_ok rt \<Longrightarrow> new_flag rt = (i, rtn) \<Longrightarrow> rt_ok rtn"
  by (auto simp: rt_ok_def new_flag_def less_Suc_eq split: if_splits)

lemma channels_ok: "rt_ok rt \<Longrightarrow> rt_ok (rt\<lparr>next_task := Suc (next_task rt)\<rparr>)"
  by (auto simp: rt_ok_def less_Suc_eq)

lemma spawn_ok:
  assumes ok: "rt_ok rt" and i: "i < next_flag rt"
    and fresh: "\<forall>t k. hm_get (tasks rt) t = Some k \<longrightarrow> tk_flag k \<noteq> i"
  shows "rt_ok (spawn_listener (next_task rt) a i (set_flag i True (rt\<lparr>next_task := Suc (next_task rt)\<rparr>)))"
    (is "rt_ok ?r")
proof -
  let ?k = "\<lparr>tk_addr = a, tk_flag = i, tk_told = False, tk_phase = Spawned\<rparr>"
  have g: "hm_get (tasks ?r) u = (if u = next_task rt then Some ?k else hm_get (tasks rt) u)" for u
    by (simp add: spawn_listener_def)
  have f: "flag_set ?r j \<longleftrightarrow> j = i \<or> flag_set rt j" for j by (simp add: spawn_listener_def)
  have n: "next_task ?r = Suc (next_task rt)" "next_flag ?r = next_flag rt" by (simp_all add: spawn_listener_def)
  have "\<exists>t k. hm_get (tasks ?r) t = Some k \<and> tk_flag k = j \<and> tk_phase k \<noteq> Closed" if j: "flag_set ?r j" for j
  proof (cases "j = i")
    case True
    then show ?thesis by (intro exI [of _ "next_task rt"] exI [of _ ?k]) (simp add: g)
  next
    case False
    with j f obtain t k where t: "hm_get (tasks rt) t = Some k" "tk_flag k = j" "tk_phase k \<noteq> Closed"
      using rt_okD(3) [OF ok] by blast
    with rt_okD(1) [OF ok t(1)] show ?thesis by (intro exI [of _ t] exI [of _ k]) (simp add: g)
  qed
  moreover have "t < next_task ?r \<and> tk_flag k < next_flag ?r" if "hm_get (tasks ?r) t = Some k" for t k
    using that i rt_okD(1) [OF ok, of t k] n by (auto simp: g split: if_splits)
  moreover have "t = u" if "hm_get (tasks ?r) t = Some k" "hm_get (tasks ?r) u = Some l" "tk_flag k = tk_flag l" for t u k l
    using that rt_okD(4) [OF ok, of t k u l] by (auto simp: g dest: fresh [rule_format] split: if_splits)
  moreover have "j < next_flag ?r" if "flag_set ?r j" for j using that f i rt_okD(2) [OF ok] n by auto
  ultimately show ?thesis unfolding rt_ok_def by blast
qed

text \<open>Tasks only clear flags and take no numbers.\<close>

lemma task_step_frame: "task_step rt rtn \<Longrightarrow> next_flag rtn = next_flag rt \<and> (flag_set rtn i \<longrightarrow> flag_set rt i)"
  by (induction rule: task_step.induct) auto

lemma task_steps_frame: "task_steps rt rtn \<Longrightarrow> next_flag rtn = next_flag rt \<and> (flag_set rtn i \<longrightarrow> flag_set rt i)"
  by (induction rule: rtranclp_induct) (auto dest: task_step_frame)

end
