(* ===== verification/Service.thy ===== *)
theory Service
  imports Runtime
begin

text \<open>
  How \<open>wftpd/src/state.rs\<close> holds a server: a slot that is empty or has a server instance, with calls of
  \<open>start\<close> and \<open>stop\<close> that may overlap.  The two kinds of servers are given by their operations (\<open>service\<close>);
  what holds for any server of the contract \<open>service_laws\<close> is proved once.
\<close>

record ('e, 's, 'x) service =
  sv_new :: "runtime \<Rightarrow> 's \<times> runtime"
  sv_start :: "'e \<Rightarrow> 's \<Rightarrow> runtime \<Rightarrow> ('x + unit) \<times> 's \<times> runtime"
  sv_stop_begin :: "'s \<Rightarrow> runtime \<Rightarrow> nat option \<times> 's \<times> runtime"
  sv_stop_end :: "'s \<Rightarrow> runtime \<Rightarrow> runtime"
  sv_running :: "'s \<Rightarrow> runtime \<Rightarrow> bool"
  sv_drop :: "'s \<Rightarrow> runtime \<Rightarrow> runtime"

text \<open>A call between its atomic parts: after the check of the slot, after the start of the new instance, and
  while waiting for a stopped one.\<close>

datatype 's call = StartChecked | StartLaunched 's | Stopping 's "nat option"

record 's slot_state =
  ss_rt :: runtime
  ss_slot :: "'s option"
  ss_calls :: "(nat, 's call) hmap"

definition drop_old :: "('e, 's, 'x) service \<Rightarrow> 's option \<Rightarrow> runtime \<Rightarrow> runtime" where
  "drop_old sv old rt = (case old of None \<Rightarrow> rt | Some s \<Rightarrow> sv_drop sv s rt)"

inductive slot_step :: "('e, 's, 'x) service \<Rightarrow> 's slot_state \<Rightarrow> 's slot_state \<Rightarrow> bool" for sv :: "('e, 's, 'x) service" where
  runs: "task_step (ss_rt st) rt \<Longrightarrow> slot_step sv st (st\<lparr>ss_rt := rt\<rparr>)"
| start_check: "ss_slot st = None \<Longrightarrow> hm_get (ss_calls st) c = None \<Longrightarrow>
    slot_step sv st (st\<lparr>ss_calls := hm_insert c StartChecked (ss_calls st)\<rparr>)"
| start_fail: "hm_get (ss_calls st) c = Some StartChecked \<Longrightarrow> sv_new sv (ss_rt st) = (s, rt) \<Longrightarrow>
    sv_start sv e s rt = (Inl x, s1, rt1) \<Longrightarrow>
    slot_step sv st (st\<lparr>ss_rt := sv_drop sv s1 rt1, ss_calls := hm_remove c (ss_calls st)\<rparr>)"
| start_launch: "hm_get (ss_calls st) c = Some StartChecked \<Longrightarrow> sv_new sv (ss_rt st) = (s, rt) \<Longrightarrow>
    sv_start sv e s rt = (Inr u, s1, rt1) \<Longrightarrow>
    slot_step sv st (st\<lparr>ss_rt := rt1, ss_calls := hm_insert c (StartLaunched s1) (ss_calls st)\<rparr>)"
| start_store: "hm_get (ss_calls st) c = Some (StartLaunched s) \<Longrightarrow>
    slot_step sv st (st\<lparr>ss_rt := drop_old sv (ss_slot st) (ss_rt st), ss_slot := Some s,
                        ss_calls := hm_remove c (ss_calls st)\<rparr>)"
| stop_take: "ss_slot st = Some s \<Longrightarrow> hm_get (ss_calls st) c = None \<Longrightarrow>
    sv_stop_begin sv s (ss_rt st) = (w, s1, rt1) \<Longrightarrow>
    slot_step sv st (st\<lparr>ss_rt := rt1, ss_slot := None, ss_calls := hm_insert c (Stopping s1 w) (ss_calls st)\<rparr>)"
| stop_done: "hm_get (ss_calls st) c = Some (Stopping s w) \<Longrightarrow>
    slot_step sv st (st\<lparr>ss_rt := sv_drop sv s (sv_stop_end sv s (ss_rt st)), ss_calls := hm_remove c (ss_calls st)\<rparr>)"

abbreviation slot_steps :: "('e, 's, 'x) service \<Rightarrow> 's slot_state \<Rightarrow> 's slot_state \<Rightarrow> bool" where
  "slot_steps sv \<equiv> (slot_step sv)\<^sup>*\<^sup>*"

text \<open>Where the daemon begins: no task, an empty slot, no call.\<close>

definition rt_start :: "fs \<Rightarrow> runtime" where
  "rt_start disk = \<lparr>tasks = [], next_task = 0, flags = [], next_flag = 0, rt_disk = disk\<rparr>"

definition slot_idle :: "fs \<Rightarrow> 's slot_state" where
  "slot_idle disk = \<lparr>ss_rt = rt_start disk, ss_slot = None, ss_calls = []\<rparr>"

lemma rt_start_ok [simp]: "rt_ok (rt_start disk)"
  by (simp add: rt_ok_def rt_start_def flag_set_def)

lemma slot_idle_simps [simp]:
  "ss_rt (slot_idle disk) = rt_start disk" "ss_slot (slot_idle disk) = None" "ss_calls (slot_idle disk) = []"
  by (simp_all add: slot_idle_def)

section \<open>One call at a time\<close>

text \<open>The methods of the slot when nothing overlaps; \<open>wait\<close> is what the tasks do until a stop goes on, be it
  that the closed channel reports or that the time limit passes.\<close>

type_synonym 's slot = "'s option \<times> runtime"

definition slot_start :: "('e, 's, 'x) service \<Rightarrow> 'e \<Rightarrow> 's slot \<Rightarrow> ('x + unit) \<times> 's slot" where
  "slot_start sv e sl =
     (case sl of
        (Some s, rt) \<Rightarrow> (Inr (), Some s, rt)
      | (None, rt) \<Rightarrow>
          (case sv_new sv rt of (s, rt1) \<Rightarrow>
            (case sv_start sv e s rt1 of
               (Inl x, s1, rt2) \<Rightarrow> (Inl x, None, sv_drop sv s1 rt2)
             | (Inr _, s1, rt2) \<Rightarrow> (Inr (), Some s1, rt2))))"

definition slot_stop :: "('e, 's, 'x) service \<Rightarrow> (nat option \<Rightarrow> runtime \<Rightarrow> runtime) \<Rightarrow> 's slot \<Rightarrow> 's slot" where
  "slot_stop sv wait sl =
     (case sl of
        (None, rt) \<Rightarrow> (None, rt)
      | (Some s, rt) \<Rightarrow>
          (case sv_stop_begin sv s rt of (w, s1, rt1) \<Rightarrow> (None, sv_drop sv s1 (sv_stop_end sv s1 (wait w rt1)))))"

definition slot_restart ::
  "('e, 's, 'x) service \<Rightarrow> (nat option \<Rightarrow> runtime \<Rightarrow> runtime) \<Rightarrow> 'e \<Rightarrow> 's slot \<Rightarrow> ('x + unit) \<times> 's slot" where
  "slot_restart sv wait e sl = slot_start sv e (slot_stop sv wait sl)"

definition slot_running :: "('e, 's, 'x) service \<Rightarrow> 's slot \<Rightarrow> bool" where
  "slot_running sv sl = (case sl of (None, _) \<Rightarrow> False | (Some s, rt) \<Rightarrow> sv_running sv s rt)"

section \<open>The contract of a server\<close>

definition fresh_task :: "string \<Rightarrow> nat \<Rightarrow> task" where
  "fresh_task a i = \<lparr>tk_addr = a, tk_flag = i, tk_told = False, tk_phase = Spawned\<rparr>"

locale service_laws =
  fixes sv :: "('e, 's, 'x) service" and tx :: "'s \<Rightarrow> nat option" and fl :: "'s \<Rightarrow> nat"
  assumes new_server: "sv_new sv rt = (s, rt1) \<Longrightarrow> (fl s, rt1) = new_flag rt \<and> tx s = None"
    and start_fails: "sv_start sv e s rt = (Inl x, s1, rt1) \<Longrightarrow> tx s = None \<Longrightarrow> \<not> flag_set rt (fl s) \<Longrightarrow> rt_ok rt \<Longrightarrow>
      rt_ok rt1 \<and> tasks rt1 = tasks rt \<and> next_flag rt1 = next_flag rt \<and> (\<forall>i. flag_set rt1 i = flag_set rt i) \<and>
      (\<forall>t. tx s1 = Some t \<longrightarrow> hm_get (tasks rt) t = None)"
    and starts: "sv_start sv e s rt = (Inr u, s1, rt1) \<Longrightarrow> tx s = None \<Longrightarrow> \<not> flag_set rt (fl s) \<Longrightarrow> rt_ok rt \<Longrightarrow>
      fl s < next_flag rt \<Longrightarrow> (\<forall>t k. hm_get (tasks rt) t = Some k \<longrightarrow> tk_flag k \<noteq> fl s) \<Longrightarrow>
      fl s1 = fl s \<and> rt_ok rt1 \<and> flag_set rt1 (fl s) \<and> next_flag rt1 = next_flag rt \<and>
      (\<forall>i. i \<noteq> fl s \<longrightarrow> flag_set rt1 i = flag_set rt i) \<and>
      (\<exists>t a. tx s1 = Some t \<and> hm_get (tasks rt) t = None \<and>
         (\<forall>u. hm_get (tasks rt1) u = (if u = t then Some (fresh_task a (fl s)) else hm_get (tasks rt) u)))"
    and stop_begins: "sv_stop_begin sv s rt = (w, s1, rt1) \<Longrightarrow>
      fl s1 = fl s \<and> tx s1 = None \<and> (rt1 = tell (tx s) rt \<or> rt1 = tell (tx s) (set_flag (fl s) False rt))"
    and stop_ends: "sv_stop_end sv s rt = rt \<or> sv_stop_end sv s rt = set_flag (fl s) False rt"
    and running: "sv_running sv s rt = flag_set rt (fl s)"
    and drops: "sv_drop sv s rt = rt \<or> sv_drop sv s rt = tell (tx s) rt"
begin

lemma drop_ok: "rt_ok rt \<Longrightarrow> rt_ok (sv_drop sv s rt)"
  using drops [of s rt] tell_ok by auto

lemma stop_end_ok: "rt_ok rt \<Longrightarrow> rt_ok (sv_stop_end sv s rt)"
  using stop_ends [of s rt] clear_flag_ok by auto

lemma stop_begin_ok: "sv_stop_begin sv s rt = (w, s1, rt1) \<Longrightarrow> rt_ok rt \<Longrightarrow> rt_ok rt1"
  using stop_begins [of s rt w s1 rt1] tell_ok clear_flag_ok by blast

text \<open>What a new instance starts with, so that the laws of its start apply.\<close>

lemma new_ready:
  assumes n: "sv_new sv rt = (s, rt1)" and ok: "rt_ok rt"
  shows "rt_ok rt1 \<and> tasks rt1 = tasks rt \<and> tx s = None \<and> \<not> flag_set rt1 (fl s) \<and> fl s < next_flag rt1 \<and>
    (\<forall>t k. hm_get (tasks rt1) t = Some k \<longrightarrow> tk_flag k \<noteq> fl s)"
proof -
  from new_server [OF n] have f: "new_flag rt = (fl s, rt1)" "tx s = None" by simp_all
  then have "fl s = next_flag rt" "tasks rt1 = tasks rt" "\<not> flag_set rt1 (fl s)" "fl s < next_flag rt1"
    by (auto simp: new_flag_def)
  with f new_flag_ok [OF ok] rt_okD(1) [OF ok] show ?thesis by fastforce
qed

lemma launch:
  assumes n: "sv_new sv rt = (s, rt1)" and st: "sv_start sv e s rt1 = (Inr u, s1, rt2)" and ok: "rt_ok rt"
  shows "rt_ok rt2 \<and> flag_set rt2 (fl s1) \<and>
    (\<exists>t a. tx s1 = Some t \<and> hm_get (tasks rt) t = None \<and>
      (\<forall>u. hm_get (tasks rt2) u = (if u = t then Some (fresh_task a (fl s1)) else hm_get (tasks rt) u)))"
proof -
  note r = new_ready [OF n ok]
  then have "rt_ok rt1" "tasks rt1 = tasks rt" "tx s = None" "\<not> flag_set rt1 (fl s)" "fl s < next_flag rt1"
    "\<forall>t k. hm_get (tasks rt1) t = Some k \<longrightarrow> tk_flag k \<noteq> fl s" by blast+
  with starts [OF st] show ?thesis by auto
qed

lemma failed:
  assumes n: "sv_new sv rt = (s, rt1)" and st: "sv_start sv e s rt1 = (Inl x, s1, rt2)" and ok: "rt_ok rt"
  shows "rt_ok (sv_drop sv s1 rt2) \<and> tasks (sv_drop sv s1 rt2) = tasks rt"
proof -
  note r = new_ready [OF n ok]
  then have "rt_ok rt1" "tasks rt1 = tasks rt" "tx s = None" "\<not> flag_set rt1 (fl s)" by blast+
  with start_fails [OF st] have f: "rt_ok rt2" "tasks rt2 = tasks rt" "\<And>t. tx s1 = Some t \<Longrightarrow> hm_get (tasks rt) t = None"
    by auto
  then have "tell (tx s1) rt2 = rt2" by (auto simp: tell_def split: option.splits)
  with f drops [of s1 rt2] show ?thesis by auto
qed

text \<open>One start on an empty slot, and one stop, seen from the rest of the flags.\<close>

lemma slot_start_frame:
  assumes st: "slot_start sv e (None, rt) = (r, sl)" and ok: "rt_ok rt"
  shows "rt_ok (snd sl) \<and> next_flag rt < next_flag (snd sl) \<and>
    (\<forall>i < next_flag rt. flag_set (snd sl) i = flag_set rt i) \<and>
    (\<forall>s. fst sl = Some s \<longrightarrow> fl s = next_flag rt \<and> flag_set (snd sl) (fl s)) \<and> (fst sl \<noteq> None \<longleftrightarrow> is_ok r)"
proof -
  obtain s rt1 where n: "sv_new sv rt = (s, rt1)" by fastforce
  note ready = new_ready [OF n ok]
  from new_server [OF n] have f: "fl s = next_flag rt" "next_flag rt1 = Suc (next_flag rt)"
    "\<And>i. i < next_flag rt \<Longrightarrow> flag_set rt1 i = flag_set rt i"
    by (auto simp: new_flag_def)
  obtain x s1 rt2 where l: "sv_start sv e s rt1 = (x, s1, rt2)" by (metis prod_cases3)
  show ?thesis
  proof (cases x)
    case (Inl y)
    have "sl = (None, sv_drop sv s1 rt2)" "r = Inl y" using st n l Inl by (simp_all add: slot_start_def)
    moreover have "sv_drop sv s1 rt2 = rt2 \<or> sv_drop sv s1 rt2 = tell (tx s1) rt2" by (rule drops)
    moreover have "rt_ok rt2 \<and> next_flag rt2 = next_flag rt1 \<and> (\<forall>i. flag_set rt2 i = flag_set rt1 i)"
      using start_fails [OF l [unfolded Inl]] ready by auto
    ultimately show ?thesis using f tell_ok by auto
  next
    case (Inr u)
    have "sl = (Some s1, rt2)" "r = Inr ()" using st n l Inr by (simp_all add: slot_start_def)
    moreover have "fl s1 = fl s \<and> rt_ok rt2 \<and> flag_set rt2 (fl s) \<and> next_flag rt2 = next_flag rt1 \<and>
        (\<forall>i. i \<noteq> fl s \<longrightarrow> flag_set rt2 i = flag_set rt1 i)"
      using starts [OF l [unfolded Inr]] ready by auto
    ultimately show ?thesis using f by auto
  qed
qed

lemma slot_stop_frame:
  assumes ok: "rt_ok rt" and w: "\<And>w rt. task_steps rt (wait w rt)"
  shows "fst (slot_stop sv wait (old, rt)) = None \<and> rt_ok (snd (slot_stop sv wait (old, rt))) \<and>
    next_flag (snd (slot_stop sv wait (old, rt))) = next_flag rt \<and>
    (\<forall>i. flag_set (snd (slot_stop sv wait (old, rt))) i \<longrightarrow> flag_set rt i)"
proof (cases old)
  case None
  with ok show ?thesis by (simp add: slot_stop_def)
next
  case (Some s)
  obtain t s1 rt1 where b: "sv_stop_begin sv s rt = (t, s1, rt1)" by (metis prod_cases3)
  have "rt_ok rt1" by (rule stop_begin_ok [OF b ok])
  then have okw: "rt_ok (wait t rt1)" using task_steps_ok w by blast
  have fr: "next_flag rt1 = next_flag rt \<and> (\<forall>i. flag_set rt1 i \<longrightarrow> flag_set rt i)"
    using stop_begins [OF b] by (auto split: if_splits)
  then have fw: "next_flag (wait t rt1) = next_flag rt \<and> (\<forall>i. flag_set (wait t rt1) i \<longrightarrow> flag_set rt i)"
    using task_steps_frame [OF w] by metis
  let ?e = "sv_stop_end sv s1 (wait t rt1)"
  have fe: "rt_ok ?e \<and> next_flag ?e = next_flag rt \<and> (\<forall>i. flag_set ?e i \<longrightarrow> flag_set rt i)"
    using stop_ends [of s1 "wait t rt1"] stop_end_ok [OF okw] fw by (auto split: if_splits)
  then have "rt_ok (sv_drop sv s1 ?e) \<and> next_flag (sv_drop sv s1 ?e) = next_flag rt \<and>
      (\<forall>i. flag_set (sv_drop sv s1 ?e) i \<longrightarrow> flag_set rt i)"
    using drops [of s1 ?e] tell_ok by auto
  with Some b show ?thesis by (simp add: slot_stop_def)
qed

text \<open>Whatever calls overlap, the shared state stays well formed: a set flag has a task that has not closed.\<close>

lemma slot_step_ok: "slot_step sv st st1 \<Longrightarrow> rt_ok (ss_rt st) \<Longrightarrow> rt_ok (ss_rt st1)"
proof (induction rule: slot_step.induct)
  case (runs st rt)
  then show ?case using task_step_ok by auto
next
  case (start_fail st c s rt e x s1 rt1)
  then show ?case using failed by auto
next
  case (start_launch st c s rt e u s1 rt1)
  then show ?case using launch by auto
next
  case (start_store st c s)
  then show ?case using drop_ok by (auto simp: drop_old_def split: option.splits)
next
  case (stop_take st s c w s1 rt1)
  then show ?case using stop_begin_ok by auto
next
  case (stop_done st c s w)
  then show ?case using drop_ok stop_end_ok by auto
qed simp_all

lemma slot_steps_ok: "slot_steps sv st st1 \<Longrightarrow> rt_ok (ss_rt st) \<Longrightarrow> rt_ok (ss_rt st1)"
  by (induction rule: rtranclp_induct) (auto intro: slot_step_ok)

lemma running_has_task:
  assumes "slot_steps sv st st1" "rt_ok (ss_rt st)" "sv_running sv s (ss_rt st1)"
  shows "\<exists>t k. hm_get (tasks (ss_rt st1)) t = Some k \<and> tk_flag k = fl s \<and> tk_phase k \<noteq> Closed"
  using rt_okD(3) [OF slot_steps_ok [OF assms(1,2)]] assms(3) running by blast

end


section \<open>Who owns a listener\<close>

text \<open>The instances that can still be stopped: the one of the slot and those about to be stored.\<close>

definition holds :: "'s slot_state \<Rightarrow> 's \<Rightarrow> bool" where
  "holds st s \<longleftrightarrow> ss_slot st = Some s \<or> (\<exists>c. hm_get (ss_calls st) c = Some (StartLaunched s))"

definition serving :: "runtime \<Rightarrow> nat \<Rightarrow> bool" where
  "serving rt t \<longleftrightarrow> (\<exists>k. hm_get (tasks rt) t = Some k \<and> \<not> tk_told k \<and> (tk_phase k = Spawned \<or> tk_phase k = Listening))"

definition untold :: "runtime \<Rightarrow> nat \<Rightarrow> bool" where
  "untold rt t \<longleftrightarrow> (\<exists>k. hm_get (tasks rt) t = Some k \<and> \<not> tk_told k)"

lemma holds_keep:
  assumes "holds st x" "hm_get (ss_calls st) c \<noteq> Some (StartLaunched x)"
    and "ss_slot st1 = ss_slot st \<or> ss_slot st \<noteq> Some x"
    and "\<And>d. d \<noteq> c \<Longrightarrow> hm_get (ss_calls st1) d = hm_get (ss_calls st) d"
  shows "holds st1 x"
  using assms unfolding holds_def by metis

text \<open>Relative to the sender each instance has (\<open>tx\<close>).\<close>

definition attended :: "('s \<Rightarrow> nat option) \<Rightarrow> 's slot_state \<Rightarrow> bool" where
  "attended tx st \<longleftrightarrow> (\<forall>t. serving (ss_rt st) t \<longrightarrow> (\<exists>s. holds st s \<and> tx s = Some t))"

definition leaked :: "('s \<Rightarrow> nat option) \<Rightarrow> 's slot_state \<Rightarrow> nat \<Rightarrow> bool" where
  "leaked tx st t \<longleftrightarrow> untold (ss_rt st) t \<and> (\<forall>s. holds st s \<longrightarrow> tx s \<noteq> Some t)"

lemma serving_task_step: "task_step rt rt1 \<Longrightarrow> serving rt1 t \<Longrightarrow> serving rt t"
  by (induction rule: task_step.induct) (auto simp: serving_def split: if_splits)

lemma untold_task_step: "task_step rt rt1 \<Longrightarrow> untold rt1 t = untold rt t"
  by (induction rule: task_step.induct) (auto simp: untold_def split: if_splits)

lemma serving_tell: "serving (tell x rt) t \<Longrightarrow> serving rt t \<and> x \<noteq> Some t"
  by (auto simp: serving_def tell_task split: if_splits)

lemma serving_flag [simp]: "serving (set_flag i b rt) t = serving rt t" "untold (set_flag i b rt) t = untold rt t"
  by (simp_all add: serving_def untold_def)

lemma untold_tell: "untold (tell x rt) t \<longleftrightarrow> untold rt t \<and> x \<noteq> Some t"
  by (auto simp: untold_def tell_task)

context service_laws
begin

lemma serving_stop_end: "serving (sv_stop_end sv s rt) t = serving rt t" "untold (sv_stop_end sv s rt) t = untold rt t"
  using stop_ends [of s rt] by auto

lemma stop_begin_tells:
  assumes "sv_stop_begin sv s rt = (w, s1, rt1)"
  shows "serving rt1 t \<Longrightarrow> serving rt t \<and> tx s \<noteq> Some t" "untold rt1 t = (untold rt t \<and> tx s \<noteq> Some t)"
proof -
  from stop_begins [OF assms] have "rt1 = tell (tx s) rt \<or> rt1 = tell (tx s) (set_flag (fl s) False rt)" by simp
  then show "serving rt1 t \<Longrightarrow> serving rt t \<and> tx s \<noteq> Some t" "untold rt1 t = (untold rt t \<and> tx s \<noteq> Some t)"
    using serving_tell [of "tx s" rt t] serving_tell [of "tx s" "set_flag (fl s) False rt" t]
    by (auto simp: untold_tell)
qed

lemma launch_tasks:
  assumes "sv_new sv rt = (s, rt1)" "sv_start sv e s rt1 = (Inr u, s1, rt2)" "rt_ok rt"
  obtains t where "tx s1 = Some t" "hm_get (tasks rt) t = None"
    "\<And>v. serving rt2 v \<longleftrightarrow> v = t \<or> serving rt v" "\<And>v. untold rt2 v \<longleftrightarrow> v = t \<or> untold rt v"
proof -
  from launch [OF assms] obtain t a where t: "tx s1 = Some t" "hm_get (tasks rt) t = None"
    and u: "\<And>u. hm_get (tasks rt2) u = (if u = t then Some (fresh_task a (fl s1)) else hm_get (tasks rt) u)"
    by blast
  from that [OF t] show thesis using t by (simp add: serving_def untold_def u fresh_task_def)
qed

end

locale dropping_service = service_laws +
  assumes drop_tells: "sv_drop sv s rt = tell (tx s) rt"
begin

text \<open>When dropping an instance tells its task, a task that still serves is always one that can be stopped.\<close>

lemma attended_step: "slot_step sv st st1 \<Longrightarrow> rt_ok (ss_rt st) \<Longrightarrow> attended tx st \<Longrightarrow> attended tx st1"
proof (induction rule: slot_step.induct)
  case (runs st rt)
  then show ?case using serving_task_step by (auto simp: attended_def holds_def)
next
  case (start_check st c)
  have "holds (st\<lparr>ss_calls := hm_insert c StartChecked (ss_calls st)\<rparr>) x" if "holds st x" for x
    by (rule holds_keep [OF that, of c]) (use start_check in simp_all)
  with start_check.prems(2) show ?case unfolding attended_def by fastforce
next
  case (start_fail st c s rt e x s1 rt1)
  have "serving (sv_drop sv s1 rt1) t = serving (ss_rt st) t" for t
    using failed [OF start_fail.hyps(2,3)] start_fail.prems(1) by (simp add: serving_def)
  moreover have "holds (st\<lparr>ss_rt := r, ss_calls := hm_remove c (ss_calls st)\<rparr>) x" if "holds st x" for x r
    by (rule holds_keep [OF that, of c]) (use start_fail in simp_all)
  ultimately show ?case using start_fail.prems(2) unfolding attended_def by fastforce
next
  case (start_launch st c s rt e u s1 rt1)
  from start_launch.hyps(2,3) start_launch.prems(1) obtain t where t: "tx s1 = Some t"
    "\<And>v. serving rt1 v \<longleftrightarrow> v = t \<or> serving (ss_rt st) v" by (rule launch_tasks) blast
  let ?st = "st\<lparr>ss_rt := rt1, ss_calls := hm_insert c (StartLaunched s1) (ss_calls st)\<rparr>"
  have h: "holds ?st s1" by (auto simp: holds_def)
  have "holds ?st x" if "holds st x" for x
    by (rule holds_keep [OF that, of c]) (use start_launch in simp_all)
  with start_launch.prems(2) t h show ?case unfolding attended_def by fastforce
next
  case (start_store st c s)
  let ?st = "st\<lparr>ss_rt := drop_old sv (ss_slot st) (ss_rt st), ss_slot := Some s, ss_calls := hm_remove c (ss_calls st)\<rparr>"
  have h: "holds ?st x \<or> ss_slot st = Some x" if "holds st x" for x
  proof (cases "x = s \<or> ss_slot st = Some x")
    case False
    with that start_store.hyps have "holds ?st x"
      by (intro holds_keep [OF that, of c]) auto
    then show ?thesis ..
  qed (auto simp: holds_def)
  have "\<exists>x. holds ?st x \<and> tx x = Some t" if "serving (drop_old sv (ss_slot st) (ss_rt st)) t" for t
  proof -
    have "serving (ss_rt st) t" "\<And>x. ss_slot st = Some x \<Longrightarrow> tx x \<noteq> Some t"
      using that serving_tell by (auto simp: drop_old_def drop_tells split: option.splits)
    with start_store.prems(2) h show ?thesis unfolding attended_def by blast
  qed
  then show ?case by (simp add: attended_def)
next
  case (stop_take st s c w s1 rt1)
  let ?st = "st\<lparr>ss_rt := rt1, ss_slot := None, ss_calls := hm_insert c (Stopping s1 w) (ss_calls st)\<rparr>"
  have h: "holds ?st x \<or> x = s" if "holds st x" for x
  proof (cases "x = s")
    case False
    have "holds ?st x" by (rule holds_keep [OF that, of c]) (use stop_take False in auto)
    then show ?thesis ..
  qed simp
  have "\<exists>x. holds ?st x \<and> tx x = Some t" if "serving rt1 t" for t
    using stop_begin_tells(1) [OF stop_take.hyps(3) that] stop_take.prems(2) h unfolding attended_def by blast
  then show ?case by (simp add: attended_def)
next
  case (stop_done st c s w)
  have "serving (ss_rt st) t" if "serving (tell (tx s) (sv_stop_end sv s (ss_rt st))) t" for t
    using serving_tell [OF that] by (simp add: serving_stop_end)
  moreover have "holds (st\<lparr>ss_rt := r, ss_calls := hm_remove c (ss_calls st)\<rparr>) x" if "holds st x" for x r
    by (rule holds_keep [OF that, of c]) (use stop_done in simp_all)
  ultimately show ?case using stop_done.prems(2) unfolding attended_def drop_tells by simp blast
qed

lemma attended_steps:
  "slot_steps sv st st1 \<Longrightarrow> rt_ok (ss_rt st) \<Longrightarrow> attended tx st \<Longrightarrow> attended tx st1 \<and> rt_ok (ss_rt st1)"
  by (induction rule: rtranclp_induct) (auto intro: attended_step slot_step_ok)

end

locale keeping_service = service_laws +
  assumes drop_keeps: "sv_drop sv s rt = rt"
begin

text \<open>When dropping an instance tells nobody, a task whose instance was replaced is never told again.\<close>

lemma leaked_step: "slot_step sv st st1 \<Longrightarrow> rt_ok (ss_rt st) \<Longrightarrow> leaked tx st t \<Longrightarrow> leaked tx st1 t"
proof (induction rule: slot_step.induct)
  case (runs st rt)
  then show ?case using untold_task_step by (auto simp: leaked_def holds_def)
next
  case (start_check st c)
  then show ?case by (auto simp: leaked_def holds_def split: if_splits)
next
  case (start_fail st c s rt e x s1 rt1)
  have "untold (sv_drop sv s1 rt1) t = untold (ss_rt st) t"
    using failed [OF start_fail.hyps(2,3)] start_fail.prems(1) by (simp add: untold_def)
  with start_fail show ?case by (auto simp: leaked_def holds_def split: if_splits)
next
  case (start_launch st c s rt e u s1 rt1)
  from start_launch.hyps(2,3) start_launch.prems(1) obtain v where v: "tx s1 = Some v" "hm_get (tasks (ss_rt st)) v = None"
    "untold rt1 t \<longleftrightarrow> t = v \<or> untold (ss_rt st) t" by (rule launch_tasks) blast
  with start_launch.prems(2) have "v \<noteq> t" by (auto simp: leaked_def untold_def)
  with v start_launch.prems(2) show ?case by (auto simp: leaked_def holds_def split: if_splits)
next
  case (start_store st c s)
  then show ?case by (auto simp: leaked_def holds_def drop_old_def drop_keeps split: if_splits option.splits)
next
  case (stop_take st s c w s1 rt1)
  then have "holds st s" by (simp add: holds_def)
  with stop_take.prems(2) have "tx s \<noteq> Some t" by (simp add: leaked_def)
  with stop_begin_tells(2) [OF stop_take.hyps(3)] stop_take.prems(2) show ?case
    by (auto simp: leaked_def holds_def split: if_splits)
next
  case (stop_done st c s w)
  then show ?case by (auto simp: leaked_def holds_def drop_keeps serving_stop_end split: if_splits)
qed

lemma leaked_steps:
  "slot_steps sv st st1 \<Longrightarrow> rt_ok (ss_rt st) \<Longrightarrow> leaked tx st t \<Longrightarrow> leaked tx st1 t \<and> rt_ok (ss_rt st1)"
  by (induction rule: rtranclp_induct) (auto intro: leaked_step slot_step_ok)

text \<open>Two overlapping starts: both see the empty slot, both start, the second listener cannot bind, and its
  instance replaces the first one in the slot.\<close>

lemma overlapping_starts:
  assumes n1: "sv_new sv rt0 = (s, rt1)" and l1: "sv_start sv e s rt1 = (Inr (), sa, rt2)"
    and n2: "sv_new sv rt2 = (s2, rt3)" and l2: "sv_start sv e s2 rt3 = (Inr (), sb, rt4)"
    and ok: "rt_ok rt0" and free: "tasks rt0 = []"
  shows "\<exists>st t k. slot_steps sv \<lparr>ss_rt = rt0, ss_slot = None, ss_calls = []\<rparr> st \<and> rt_ok (ss_rt st) \<and>
    ss_slot st = Some sb \<and> ss_calls st = [] \<and> \<not> sv_running sv sb (ss_rt st) \<and>
    hm_get (tasks (ss_rt st)) t = Some k \<and> tk_phase k = Listening \<and> leaked tx st t"
proof -
  from launch [OF n1 l1 ok] obtain t a where t: "tx sa = Some t" and ok2: "rt_ok rt2"
    and g2: "\<And>u. hm_get (tasks rt2) u = (if u = t then Some (fresh_task a (fl sa)) else hm_get (tasks rt0) u)"
    by blast
  from launch [OF n2 l2 ok2] obtain v b where v: "tx sb = Some v" "hm_get (tasks rt2) v = None" and ok4: "rt_ok rt4"
    and g4: "\<And>u. hm_get (tasks rt4) u = (if u = v then Some (fresh_task b (fl sb)) else hm_get (tasks rt2) u)"
    by blast
  have vt: "v \<noteq> t" using v(2) g2 by auto
  have gt: "hm_get (tasks rt4) t = Some (fresh_task a (fl sa))" and gv: "hm_get (tasks rt4) v = Some (fresh_task b (fl sb))"
    using g2 g4 vt by simp_all
  have "tk_phase k = Spawned" if "hm_get (tasks rt4) u = Some k" for u k
    using that by (auto simp: g4 g2 free fresh_task_def split: if_splits)
  then have af: "addr_free rt4 a" by (auto simp: addr_free_iff)
  let ?ka = "(fresh_task a (fl sa))\<lparr>tk_phase := Listening\<rparr>" and ?kb = "(fresh_task b (fl sb))\<lparr>tk_phase := Released\<rparr>"
  let ?rt5 = "put_task t ?ka rt4"
  let ?rt6 = "put_task v ?kb ?rt5"
  let ?rt7 = "set_flag (fl sb) False (put_task v (?kb\<lparr>tk_phase := Closed\<rparr>) ?rt6)"
  let ?A0 = "\<lparr>ss_rt = rt0, ss_slot = None, ss_calls = []\<rparr>"
  let ?A1 = "?A0\<lparr>ss_calls := hm_insert 0 StartChecked (ss_calls ?A0)\<rparr>"
  let ?A2 = "?A1\<lparr>ss_calls := hm_insert 1 StartChecked (ss_calls ?A1)\<rparr>"
  let ?A3 = "?A2\<lparr>ss_rt := rt2, ss_calls := hm_insert 0 (StartLaunched sa) (ss_calls ?A2)\<rparr>"
  let ?A4 = "?A3\<lparr>ss_rt := rt4, ss_calls := hm_insert 1 (StartLaunched sb) (ss_calls ?A3)\<rparr>"
  let ?A5 = "?A4\<lparr>ss_rt := ?rt5\<rparr>"
  let ?A6 = "?A5\<lparr>ss_rt := ?rt6\<rparr>"
  let ?A7 = "?A6\<lparr>ss_rt := drop_old sv (ss_slot ?A6) (ss_rt ?A6), ss_slot := Some sa, ss_calls := hm_remove 0 (ss_calls ?A6)\<rparr>"
  let ?A8 = "?A7\<lparr>ss_rt := drop_old sv (ss_slot ?A7) (ss_rt ?A7), ss_slot := Some sb, ss_calls := hm_remove 1 (ss_calls ?A7)\<rparr>"
  let ?A9 = "?A8\<lparr>ss_rt := ?rt7\<rparr>"
  have "slot_step sv ?A0 ?A1" "slot_step sv ?A1 ?A2" by (rule slot_step.start_check; simp)+
  moreover have "slot_step sv ?A2 ?A3" by (rule slot_step.start_launch) (use n1 l1 in simp_all)
  moreover have "slot_step sv ?A3 ?A4" by (rule slot_step.start_launch) (use n2 l2 in simp_all)
  moreover have "task_step rt4 ?rt5" by (rule task_step.binds) (use gt af in \<open>simp_all add: fresh_task_def\<close>)
  then have "slot_step sv ?A4 ?A5" by (intro slot_step.runs) simp
  moreover have "task_step ?rt5 ?rt6" by (rule task_step.fails) (use gv vt in \<open>simp_all add: fresh_task_def\<close>)
  then have "slot_step sv ?A5 ?A6" by (intro slot_step.runs) simp
  moreover have "slot_step sv ?A6 ?A7" "slot_step sv ?A7 ?A8" by (rule slot_step.start_store; simp)+
  moreover have "task_step ?rt6 ?rt7"
    using task_step.closes [of ?rt6 v ?kb] by (simp add: fresh_task_def)
  then have "slot_step sv ?A8 ?A9" by (intro slot_step.runs) (simp add: drop_old_def drop_keeps)
  ultimately have steps: "slot_steps sv ?A0 ?A9"
    by (meson rtranclp.rtrancl_into_rtrancl rtranclp.rtrancl_refl)
  have c: "ss_calls ?A9 = []" by (simp add: hm_insert_def hm_remove_def)
  have "holds ?A9 x \<longleftrightarrow> x = sb" for x using c by (auto simp: holds_def)
  moreover have "hm_get (tasks (ss_rt ?A9)) t = Some ?ka" using vt by simp
  moreover have "\<not> tk_told ?ka" by (simp add: fresh_task_def)
  ultimately have "leaked tx ?A9 t" using v(1) vt by (auto simp: leaked_def untold_def)
  moreover have "\<not> sv_running sv sb (ss_rt ?A9)" by (simp add: running)
  ultimately show ?thesis
    using steps slot_steps_ok [OF steps] ok c \<open>hm_get (tasks (ss_rt ?A9)) t = Some ?ka\<close>
    by (intro exI [of _ ?A9] exI [of _ t] exI [of _ ?ka]) simp
qed

end

end
