(* ===== verification/Demo.thy ===== *)
theory Demo
  imports AtomicSave
begin

text \<open>
  Concrete data for the witnesses: a small file system without failing calls, with a home
  directory \<open>/home/al\<close> that holds one file, a configuration directory \<open>/cfg\<close>, and a secret
  outside the home at \<open>/etc/secret\<close>.
\<close>

definition demo_attr :: attr where
  "demo_attr = \<lparr>a_mode = 0x1A4, a_uid = 1000, a_gid = 1000, a_atime = 0, a_mtime = 0\<rparr>"

definition demo_entries :: "(string list, node) hmap" where
  "demo_entries =
     [([''home''], NDir demo_attr),
      ([''home'', ''al''], NDir demo_attr),
      ([''home'', ''al'', ''f''], NFile 0),
      ([''cfg''], NDir demo_attr),
      ([''etc''], NDir demo_attr),
      ([''etc'', ''secret''], NFile 1)]"

definition demo_fs :: fs where
  "demo_fs =
     \<lparr>entries = demo_entries,
      inodes = [(0, \<lparr>content = ''hello'', iattr = demo_attr\<rparr>),
                (1, \<lparr>content = ''top'', iattr = demo_attr\<rparr>)],
      next_ino = 2, cwd = [], new_attr = demo_attr, dir_len = 4096,
      faults = (\<lambda>_ _. None)\<rparr>"

abbreviation demo_home :: "string list" where
  "demo_home \<equiv> [''home'', ''al'']"

lemma demo_no_faults [simp]: "no_faults demo_fs"
  by (simp add: no_faults_def demo_fs_def)

lemma demo_faults [simp]: "faults demo_fs c p = None"
  by (simp add: demo_fs_def)

lemma demo_node:
  "fs_node demo_fs l =
     (if l = [] then Some (NDir demo_attr) else map_of demo_entries l)"
  by (simp add: fs_node_def demo_fs_def hm_get_def)

lemma demo_wf [simp]: "fs_wf demo_fs"
  unfolding fs_wf_def
  by (auto simp: demo_fs_def demo_entries_def hm_ok_def hm_keys_def hm_get_def split: if_splits)

lemma prefix_one: "prefix l [a] \<longleftrightarrow> l = [] \<or> l = [a]"
  by (cases l) auto

lemma prefix_two: "prefix l [a, b] \<longleftrightarrow> l = [] \<or> l = [a] \<or> l = [a, b]"
  by (cases l; cases "tl l") (auto simp: prefix_one)

lemma demo_dirs [simp]: "dirs_to demo_fs [''home'']" "dirs_to demo_fs demo_home" "dirs_to demo_fs [''cfg'']"
  by (auto simp: dirs_to_def prefix_one prefix_two demo_node demo_entries_def is_dir_node_def)

lemma demo_link_free [simp]: "link_free demo_fs r"
  by (auto simp: link_free_def demo_node demo_entries_def is_link_node_def split: if_splits)

lemma demo_root_ok [simp]: "root_ok demo_fs demo_home"
  by (simp add: root_ok_def)

lemma demo_slots [simp]: "file_slot demo_fs [''cfg'', n]"
  by (simp add: file_slot_def demo_node demo_entries_def)

end
