(* ===== verification/Users.thy ===== *)
theory Users
  imports Demo Messages
begin

text \<open>
  \<open>common/src/users.rs\<close>: the user database. The data, every operation of \<open>UserManager\<close> with
  its checks in the order of the code, and loading and saving over the file-system model.
  Argon2 and serde-json are parameters: a hash function of the random salt and the password,
  a check of the stored string, and a printer and parser of the database. \<open>tracing\<close> output is
  dropped, but for the one call whose arguments can panic (the preview in \<open>load\<close> and
  \<open>reload\<close>), evaluated when the error level is enabled.
\<close>

section \<open>Data\<close>

record permissions =
  can_read :: bool
  can_write :: bool
  can_delete :: bool
  can_list :: bool
  can_mkdir :: bool
  can_rmdir :: bool
  can_rename :: bool
  can_append :: bool
  quota_mb :: "u64 option"
  speed_limit_kbps :: "u64 option"

record user =
  u_username :: string
  u_password_hash :: string
  u_home_dir :: string
  u_permissions :: permissions
  u_created_at :: nat
  u_last_login :: "nat option"
  u_enabled :: bool
  u_is_admin :: bool

record user_manager =
  users :: "(string, user) hmap"

definition permissions_full :: permissions where
  "permissions_full =
     \<lparr>can_read = True, can_write = True, can_delete = True, can_list = True, can_mkdir = True,
      can_rmdir = True, can_rename = True, can_append = True, quota_mb = None,
      speed_limit_kbps = None\<rparr>"

definition permissions_default :: permissions where
  "permissions_default =
     \<lparr>can_read = False, can_write = False, can_delete = False, can_list = False,
      can_mkdir = False, can_rmdir = False, can_rename = False, can_append = False,
      quota_mb = None, speed_limit_kbps = None\<rparr>"

definition is_safe_username :: "string \<Rightarrow> bool" where
  "is_safe_username name =
     (if name = [] \<or> length name > 64 then False
      else if \<not> is_alnum (hd name) \<and> hd name \<noteq> CHR ''_'' then False
      else list_all (\<lambda>c. is_alnum c \<or> c = CHR ''_'' \<or> c = CHR ''-'') name)"

definition permissions_display :: "permissions \<Rightarrow> string" where
  "permissions_display p =
     join_str '', ''
       ((if can_read p then [perm_read] else []) @
        (if can_write p then [perm_write] else []) @
        (if can_delete p then [perm_delete] else []) @
        (if can_list p then [perm_list] else []) @
        (if can_mkdir p then [perm_mkdir] else []) @
        (if can_rmdir p then [perm_rmdir] else []) @
        (if can_rename p then [perm_rename] else []) @
        (if can_append p then [perm_append] else []))"

section \<open>Third-party code the manager calls\<close>

record argon =
  argon_hash :: "nat \<Rightarrow> string \<Rightarrow> string option"
  phc_parses :: "string \<Rightarrow> bool"
  argon_verify :: "string \<Rightarrow> string \<Rightarrow> bool"

record 'a codec =
  encode :: "'a \<Rightarrow> string option"
  decode :: "string \<Rightarrow> 'a option"

datatype user_error =
    UsernameEmpty
  | UserExists string
  | HomeEmpty
  | HomeMissing string
  | HomeNotDir string
  | HashFailed
  | UserMissing string

datatype save_error = SaveDir io_error | SaveEncode | SaveWrite io_error | SaveRename io_error

section \<open>Operations\<close>

definition um_new :: user_manager where
  "um_new = \<lparr>users = []\<rparr>"

definition hash_password :: "argon \<Rightarrow> nat \<Rightarrow> string \<Rightarrow> user_error + string" where
  "hash_password ar salt pw = ok_or HashFailed (argon_hash ar salt pw)"

definition verify_password :: "argon \<Rightarrow> string \<Rightarrow> string \<Rightarrow> bool" where
  "verify_password ar pw h = (if phc_parses ar h then argon_verify ar pw h else False)"

definition check_home :: "fs \<Rightarrow> string \<Rightarrow> user_error option" where
  "check_home fs home =
     (if trim home = [] then Some HomeEmpty
      else if \<not> fs_exists fs (path_of home) then Some (HomeMissing home)
      else if \<not> fs_is_dir fs (path_of home) then Some (HomeNotDir home)
      else None)"

definition add_user ::
  "argon \<Rightarrow> nat \<Rightarrow> nat \<Rightarrow> fs \<Rightarrow> string \<Rightarrow> string \<Rightarrow> string \<Rightarrow> permissions \<Rightarrow> bool \<Rightarrow>
   user_manager \<Rightarrow> user_error + user_manager" where
  "add_user ar salt now fs name pw home perms admin m =
     (if name = [] then Inl UsernameEmpty
      else if hm_get (users m) name \<noteq> None then Inl (UserExists name)
      else (case check_home fs home of
         Some e \<Rightarrow> Inl e
       | None \<Rightarrow>
           (case hash_password ar salt pw of
              Inl e \<Rightarrow> Inl e
            | Inr h \<Rightarrow>
                Inr (m\<lparr>users := hm_insert name
                  \<lparr>u_username = name, u_password_hash = h, u_home_dir = home,
                   u_permissions = perms, u_created_at = now, u_last_login = None,
                   u_enabled = True, u_is_admin = admin\<rparr> (users m)\<rparr>))))"

definition remove_user :: "string \<Rightarrow> user_manager \<Rightarrow> user_error + user_manager" where
  "remove_user name m =
     (if hm_get (users m) name = None then Inl (UserMissing name)
      else Inr (m\<lparr>users := hm_remove name (users m)\<rparr>))"

definition with_user ::
  "string \<Rightarrow> (user \<Rightarrow> user_error + user) \<Rightarrow> user_manager \<Rightarrow> user_error + user_manager" where
  "with_user name f m =
     (case hm_get (users m) name of
        None \<Rightarrow> Inl (UserMissing name)
      | Some u \<Rightarrow>
          (case f u of
             Inl e \<Rightarrow> Inl e
           | Inr u' \<Rightarrow> Inr (m\<lparr>users := hm_insert name u' (users m)\<rparr>)))"

definition update_password ::
  "argon \<Rightarrow> nat \<Rightarrow> string \<Rightarrow> string \<Rightarrow> user_manager \<Rightarrow> user_error + user_manager" where
  "update_password ar salt name pw m =
     with_user name
       (\<lambda>u. case hash_password ar salt pw of
              Inl e \<Rightarrow> Inl e | Inr h \<Rightarrow> Inr (u\<lparr>u_password_hash := h\<rparr>)) m"

definition update_home_dir ::
  "fs \<Rightarrow> string \<Rightarrow> string \<Rightarrow> user_manager \<Rightarrow> user_error + user_manager" where
  "update_home_dir fs name home m =
     (case check_home fs home of
        Some e \<Rightarrow> Inl e
      | None \<Rightarrow> with_user name (\<lambda>u. Inr (u\<lparr>u_home_dir := home\<rparr>)) m)"

definition update_permissions ::
  "string \<Rightarrow> permissions \<Rightarrow> user_manager \<Rightarrow> user_error + user_manager" where
  "update_permissions name perms m = with_user name (\<lambda>u. Inr (u\<lparr>u_permissions := perms\<rparr>)) m"

definition set_user_enabled ::
  "string \<Rightarrow> bool \<Rightarrow> user_manager \<Rightarrow> user_error + user_manager" where
  "set_user_enabled name b m = with_user name (\<lambda>u. Inr (u\<lparr>u_enabled := b\<rparr>)) m"

definition get_user :: "user_manager \<Rightarrow> string \<Rightarrow> user option" where
  "get_user m name = hm_get (users m) name"

definition get_all_users :: "user_manager \<Rightarrow> user list" where
  "get_all_users m = map snd (users m)"

definition list_users :: "user_manager \<Rightarrow> (string \<times> user) list" where
  "list_users m = users m"

definition validate_anonymous_home :: "fs \<Rightarrow> string \<Rightarrow> user_error + unit" where
  "validate_anonymous_home fs home =
     (case check_home fs home of Some e \<Rightarrow> Inl e | None \<Rightarrow> Inr ())"

section \<open>Persistence\<close>

definition preview_len :: nat where
  "preview_len = 200"

text \<open>
  \<open>None\<close> is the panic of slicing the content inside a character for the log message; it
  needs the error level enabled, as the arguments of a disabled event are not evaluated.
\<close>

definition parse_users :: "user_manager codec \<Rightarrow> bool \<Rightarrow> string \<Rightarrow> user_manager option" where
  "parse_users js err_on s =
     (case decode js s of
        Some m \<Rightarrow> Some m
      | None \<Rightarrow>
          if err_on \<and> slice_to s (min (length s) preview_len) = None then None
          else Some um_new)"

definition um_load :: "user_manager codec \<Rightarrow> bool \<Rightarrow> path \<Rightarrow> fs \<Rightarrow> user_manager option" where
  "um_load js err_on p fs =
     (if \<not> fs_exists fs p then Some um_new
      else (case fs_read_to_string fs p of
         Inl _ \<Rightarrow> Some um_new
       | Inr s \<Rightarrow> if trim s = [] then Some um_new else parse_users js err_on s))"

definition um_reload ::
  "user_manager codec \<Rightarrow> bool \<Rightarrow> path \<Rightarrow> fs \<Rightarrow> user_manager \<Rightarrow> user_manager option" where
  "um_reload js err_on p fs m =
     (if \<not> fs_exists fs p then Some m
      else (case fs_read_to_string fs p of
         Inl _ \<Rightarrow> Some m
       | Inr s \<Rightarrow>
           if trim s = [] then Some m
           else map_option (\<lambda>d. m\<lparr>users := users d\<rparr>) (parse_users js err_on s)))"

definition create_parent :: "path \<Rightarrow> fs \<Rightarrow> unit fs_result" where
  "create_parent p fs =
     (case path_parent p of None \<Rightarrow> (Inr (), fs) | Some q \<Rightarrow> fs_create_dir_all q fs)"

definition um_save ::
  "user_manager codec \<Rightarrow> path \<Rightarrow> user_manager \<Rightarrow> fs \<Rightarrow> (save_error + unit) \<times> fs" where
  "um_save js p m fs =
     (case create_parent p fs of
        (Inl e, fs1) \<Rightarrow> (Inl (SaveDir e), fs1)
      | (Inr _, fs1) \<Rightarrow>
          (case encode js m of
             None \<Rightarrow> (Inl SaveEncode, fs1)
           | Some s \<Rightarrow>
               (case fs_write (with_extension p ''tmp'') s fs1 of
                  (Inl e, fs2) \<Rightarrow> (Inl (SaveWrite e), fs2)
                | (Inr _, fs2) \<Rightarrow>
                    (case fs_rename (with_extension p ''tmp'') p fs2 of
                       (Inl e, fs3) \<Rightarrow> (Inl (SaveRename e), fs3)
                     | (Inr _, fs3) \<Rightarrow> (Inr (), fs3)))))"

text \<open>A successful login stamps the user and saves; a failed save is only reported.\<close>

definition um_authenticate ::
  "argon \<Rightarrow> user_manager codec \<Rightarrow> path \<Rightarrow> nat \<Rightarrow> string \<Rightarrow> string \<Rightarrow> user_manager \<Rightarrow> fs \<Rightarrow>
   bool \<times> user_manager \<times> fs" where
  "um_authenticate ar js users_p now name pw m fs =
     (case hm_get (users m) name of
        None \<Rightarrow> (False, m, fs)
      | Some u \<Rightarrow>
          if \<not> u_enabled u then (False, m, fs)
          else if verify_password ar pw (u_password_hash u) then
            (let m' = m\<lparr>users := hm_insert name (u\<lparr>u_last_login := Some now\<rparr>) (users m)\<rparr>
             in (True, m', snd (um_save js users_p m' fs)))
          else (False, m, fs))"

section \<open>Account operations\<close>

text \<open>
  Every operation on one account keeps the database well formed (each entry under its own
  user name) and leaves the other accounts alone: the contract \<open>account_op\<close>, met by each.
\<close>

definition um_ok :: "user_manager \<Rightarrow> bool" where
  "um_ok m \<longleftrightarrow> hm_ok (users m) \<and>
     (\<forall>n u. hm_get (users m) n = Some u \<longrightarrow> u_username u = n)"

lemma um_ok_new [simp]: "um_ok um_new"
  by (simp add: um_ok_def um_new_def)

lemma um_ok_insert:
  "um_ok m \<Longrightarrow> u_username u = n \<Longrightarrow> um_ok (m\<lparr>users := hm_insert n u (users m)\<rparr>)"
  by (simp add: um_ok_def)

lemma um_ok_remove: "um_ok m \<Longrightarrow> um_ok (m\<lparr>users := hm_remove n (users m)\<rparr>)"
  by (simp add: um_ok_def)

locale account_op =
  fixes op :: "string \<Rightarrow> user_manager \<Rightarrow> user_error + user_manager"
  assumes op_ok: "um_ok m \<Longrightarrow> op n m = Inr m' \<Longrightarrow> um_ok m'"
    and op_frame: "op n m = Inr m' \<Longrightarrow> n' \<noteq> n \<Longrightarrow> get_user m' n' = get_user m n'"
begin

fun op_all :: "string list \<Rightarrow> user_manager \<Rightarrow> user_error + user_manager" where
  "op_all [] m = Inr m"
| "op_all (n # ns) m = (case op n m of Inl e \<Rightarrow> Inl e | Inr m' \<Rightarrow> op_all ns m')"

lemma op_all_ok: "um_ok m \<Longrightarrow> op_all ns m = Inr m' \<Longrightarrow> um_ok m'"
  by (induction ns arbitrary: m) (auto split: sum.splits dest: op_ok)

lemma op_all_frame: "op_all ns m = Inr m' \<Longrightarrow> n' \<notin> set ns \<Longrightarrow> get_user m' n' = get_user m n'"
  by (induction ns arbitrary: m) (auto split: sum.splits dest: op_frame)

end

lemma with_user_ok:
  "(\<And>u u'. f u = Inr u' \<Longrightarrow> u_username u' = u_username u) \<Longrightarrow>
    um_ok m \<Longrightarrow> with_user n f m = Inr m' \<Longrightarrow> um_ok m'"
  by (auto simp: with_user_def um_ok_def split: option.splits sum.splits if_splits)

lemma with_user_frame:
  "with_user n f m = Inr m' \<Longrightarrow> n' \<noteq> n \<Longrightarrow> get_user m' n' = get_user m n'"
  by (auto simp: with_user_def get_user_def split: option.splits sum.splits)

lemma with_user_get:
  "with_user n f m = Inr m' \<Longrightarrow>
    \<exists>u u'. get_user m n = Some u \<and> f u = Inr u' \<and> get_user m' n = Some u'"
  by (auto simp: with_user_def get_user_def split: option.splits sum.splits)

interpretation add: account_op "\<lambda>n. add_user ar salt now fs n pw home perms admin"
  by unfold_locales
    (auto simp: add_user_def get_user_def um_ok_def split: if_splits option.splits sum.splits)

interpretation remove: account_op remove_user
  by unfold_locales
    (auto simp: remove_user_def get_user_def intro: um_ok_remove split: if_splits)

interpretation passwd: account_op "\<lambda>n. update_password ar salt n pw"
  by unfold_locales
    (auto simp: update_password_def with_user_frame split: sum.splits
      elim!: with_user_ok [rotated 2])

interpretation home: account_op "\<lambda>n. update_home_dir fs n home"
  by unfold_locales
    (auto simp: update_home_dir_def with_user_frame split: option.splits
      elim!: with_user_ok [rotated 2])

interpretation perms: account_op "\<lambda>n. update_permissions n perms"
  by unfold_locales
    (auto simp: update_permissions_def with_user_frame elim!: with_user_ok [rotated 2])

interpretation enable: account_op "\<lambda>n. set_user_enabled n b"
  by unfold_locales
    (auto simp: set_user_enabled_def with_user_frame elim!: with_user_ok [rotated 2])

section \<open>Logging in\<close>

lemma authenticate_iff:
  "fst (um_authenticate ar js p now n pw m fs) \<longleftrightarrow>
     (\<exists>u. get_user m n = Some u \<and> u_enabled u \<and> verify_password ar pw (u_password_hash u))"
  by (auto simp: um_authenticate_def get_user_def Let_def split: option.splits)

lemma authenticate_some:
  "get_user m n = Some u \<Longrightarrow>
    fst (um_authenticate ar js p now n pw m fs) = (u_enabled u \<and> verify_password ar pw (u_password_hash u))"
  by (simp add: authenticate_iff)

lemma authenticate_refused:
  "um_authenticate ar js p now n pw m fs = (False, m', fs') \<Longrightarrow> m' = m \<and> fs' = fs"
  by (auto simp: um_authenticate_def Let_def split: option.splits if_splits)

lemma authenticate_other:
  "um_authenticate ar js p now n pw m fs = (b, m', fs') \<Longrightarrow> n' \<noteq> n \<Longrightarrow>
    get_user m' n' = get_user m n'"
  by (auto simp: um_authenticate_def Let_def get_user_def split: option.splits if_splits)

lemma authenticate_stamp:
  "um_authenticate ar js p now n pw m fs = (True, m', fs') \<Longrightarrow>
    \<exists>u. get_user m n = Some u \<and> get_user m' n = Some (u\<lparr>u_last_login := Some now\<rparr>)"
  by (auto simp: um_authenticate_def Let_def get_user_def split: option.splits if_splits)

lemma authenticate_ok: "um_ok m \<Longrightarrow> um_authenticate ar js p now n pw m fs = (b, m', fs') \<Longrightarrow> um_ok m'"
  by (auto simp: um_authenticate_def Let_def um_ok_def split: option.splits if_splits)

section \<open>Saving and loading\<close>

lemma create_parent_child:
  "dirs_to fs d \<Longrightarrow> snd (create_parent (dir_path (d @ [n])) fs) = fs"
  by (simp add: create_parent_def create_dir_all_existing)

lemma um_save_cases:
  assumes d: "dirs_to fs d"
  shows "(\<exists>e. um_save js (dir_path (d @ [n])) m fs = (Inl e, fs)) \<or>
    (\<exists>s. encode js m = Some s \<and>
       um_save js (dir_path (d @ [n])) m fs =
         (case fs_write (dir_path (d @ [temp_name n ''tmp''])) s fs of
            (Inl e, fs2) \<Rightarrow> (Inl (SaveWrite e), fs2)
          | (Inr _, fs2) \<Rightarrow>
              (case fs_rename (dir_path (d @ [temp_name n ''tmp''])) (dir_path (d @ [n])) fs2 of
                 (Inl e, fs3) \<Rightarrow> (Inl (SaveRename e), fs3)
               | (Inr _, fs3) \<Rightarrow> (Inr (), fs3))))"
proof -
  obtain r where c: "create_parent (dir_path (d @ [n])) fs = (r, fs)"
    using create_parent_child [OF d, of n] by (metis prod.collapse)
  have w: "with_extension (dir_path (d @ [n])) ''tmp'' = dir_path (d @ [temp_name n ''tmp''])"
    by (simp add: with_extension_dir)
  show ?thesis
    unfolding um_save_def w c by (cases r; cases "encode js m") simp_all
qed

lemma um_save_failed:
  assumes "fs_wf fs" "dirs_to fs d" "file_slot fs (d @ [temp_name n ''tmp''])" "temp_name n ''tmp'' \<noteq> n"
    and "um_save js (dir_path (d @ [n])) m fs = (Inl e, fs')"
  shows "fs_view fs' (d @ [n]) = fs_view fs (d @ [n])"
proof -
  let ?t = "d @ [temp_name n ''tmp'']"
  have v: "fs_view (snd (fs_write (dir_path ?t) s fs)) (d @ [n]) = fs_view fs (d @ [n])" for s
    by (rule fs_write_view [OF assms(1-3)]) (use assms(4) in simp)
  from um_save_cases [OF assms(2), of js n m] show ?thesis
  proof (elim disjE exE conjE)
    fix s
    assume "um_save js (dir_path (d @ [n])) m fs =
         (case fs_write (dir_path ?t) s fs of
            (Inl e, fs2) \<Rightarrow> (Inl (SaveWrite e), fs2)
          | (Inr _, fs2) \<Rightarrow>
              (case fs_rename (dir_path ?t) (dir_path (d @ [n])) fs2 of
                 (Inl e, fs3) \<Rightarrow> (Inl (SaveRename e), fs3)
               | (Inr _, fs3) \<Rightarrow> (Inr (), fs3)))"
    with assms(5) v [of s] show ?thesis
      by (auto split: prod.splits sum.splits dest: fs_rename_failed)
  qed (use assms(5) in simp)
qed

lemma um_save_ok:
  assumes "fs_wf fs" "dirs_to fs d" "no_faults fs" "temp_name n ''tmp'' \<noteq> n"
    "file_slot fs (d @ [temp_name n ''tmp''])" "file_slot fs (d @ [n])" "encode js m = Some s"
  obtains fs' where "um_save js (dir_path (d @ [n])) m fs = (Inr (), fs')"
    "fs_wf fs'" "same_env fs fs'" "fs_read fs' (dir_path (d @ [n])) = Inr s"
    "fs_node fs' (d @ [temp_name n ''tmp'']) = None"
    "\<And>l. \<not> prefix (d @ [temp_name n ''tmp'']) l \<Longrightarrow> \<not> prefix (d @ [n]) l \<Longrightarrow> fs_view fs' l = fs_view fs l"
proof (rule save_sequence [OF assms(1-6), of s])
  fix fs2 fs3
  assume w: "fs_write (dir_path (d @ [temp_name n ''tmp''])) s fs = (Inr (), fs2)"
    and r: "fs_rename (dir_path (d @ [temp_name n ''tmp''])) (dir_path (d @ [n])) fs2 = (Inr (), fs3)"
    and rest: "fs_wf fs3" "same_env fs fs3" "fs_read fs3 (dir_path (d @ [n])) = Inr s"
    "fs_node fs3 (d @ [temp_name n ''tmp'']) = None"
    "\<And>l. \<not> prefix (d @ [temp_name n ''tmp'']) l \<Longrightarrow> \<not> prefix (d @ [n]) l \<Longrightarrow> fs_view fs3 l = fs_view fs l"
  have "create_parent (dir_path (d @ [n])) fs = (Inr (), fs)"
    by (simp add: create_parent_def create_dir_all_ok [OF assms(2,3)])
  then have saved: "um_save js (dir_path (d @ [n])) m fs = (Inr (), fs3)"
    by (simp add: um_save_def assms(7) with_extension_dir w r)
  from saved rest show thesis by (rule that)
qed

section \<open>Properties\<close>

datatype account_cmd =
    CmdAdd nat nat fs string string permissions bool
  | CmdRemove
  | CmdPassword nat string
  | CmdHome fs string
  | CmdPermissions permissions
  | CmdEnable bool

text \<open>The manager's operations on one account, as one function of the operation.\<close>

fun run_account :: "argon \<Rightarrow> string \<Rightarrow> account_cmd \<Rightarrow> user_manager \<Rightarrow> user_error + user_manager" where
  "run_account ar n (CmdAdd salt now fs pw home perms admin) m =
     add_user ar salt now fs n pw home perms admin m"
| "run_account ar n CmdRemove m = remove_user n m"
| "run_account ar n (CmdPassword salt pw) m = update_password ar salt n pw m"
| "run_account ar n (CmdHome fs home) m = update_home_dir fs n home m"
| "run_account ar n (CmdPermissions perms) m = update_permissions n perms m"
| "run_account ar n (CmdEnable b) m = set_user_enabled n b m"

definition demo_argon :: argon where
  "demo_argon =
     \<lparr>argon_hash = (\<lambda>salt pw. Some (CHR ''$'' # pw)),
      phc_parses = (\<lambda>h. h \<noteq> []), argon_verify = (\<lambda>pw h. h = CHR ''$'' # pw)\<rparr>"

definition demo_user :: user where
  "demo_user =
     \<lparr>u_username = ''al'', u_password_hash = ''$pw'', u_home_dir = ''/home/al'',
      u_permissions = permissions_full, u_created_at = 5, u_last_login = None,
      u_enabled = True, u_is_admin = False\<rparr>"

definition demo_users :: user_manager where
  "demo_users = \<lparr>users = [(''al'', demo_user)]\<rparr>"

definition demo_json :: "user_manager codec" where
  "demo_json =
     \<lparr>encode = (\<lambda>m. Some ''{al}''), decode = (\<lambda>s. if s = ''{al}'' then Some demo_users else None)\<rparr>"

lemma demo_users_ok [simp]: "um_ok demo_users"
  by (simp add: um_ok_def demo_users_def hm_ok_def hm_get_def demo_user_def)

text \<open>Claim C30: every operation on an account (add, remove, change of password, home, permissions
  or enabled flag) that succeeds keeps the database well formed and changes no other account.\<close>

theorem account_operations_keep_others:
  assumes "um_ok m" "run_account ar n cmd m = Inr m'"
  shows "um_ok m' \<and> (\<forall>n'. n' = n \<or> get_user m' n' = get_user m n')"
  using assms
  by (cases cmd)
    (auto intro: add.op_ok remove.op_ok passwd.op_ok home.op_ok perms.op_ok enable.op_ok
      dest: add.op_frame remove.op_frame passwd.op_frame home.op_frame perms.op_frame
        enable.op_frame)

theorem account_operations_keep_others_witness:
  "um_ok (um_new\<lparr>users := hm_remove ''al'' (users demo_users)\<rparr>)"
proof -
  have "run_account demo_argon ''al'' CmdRemove demo_users
      = Inr (um_new\<lparr>users := hm_remove ''al'' (users demo_users)\<rparr>)"
    by (simp add: remove_user_def demo_users_def hm_get_def um_new_def)
  from account_operations_keep_others [OF demo_users_ok this] show ?thesis by simp
qed

text \<open>adding an account succeeds exactly when the name is new and not empty, the home is a
  directory and the password can be hashed; then the account is enabled, has never logged in and
  holds what was given.\<close>

theorem add_user_result:
  "add_user ar salt now fs n pw home perms admin m = Inr m' \<longleftrightarrow>
     n \<noteq> [] \<and> get_user m n = None \<and> trim home \<noteq> [] \<and> fs_is_dir fs (path_of home) \<and>
     (\<exists>h. argon_hash ar salt pw = Some h \<and>
        m' = m\<lparr>users := hm_insert n
          \<lparr>u_username = n, u_password_hash = h, u_home_dir = home, u_permissions = perms,
           u_created_at = now, u_last_login = None, u_enabled = True, u_is_admin = admin\<rparr>
          (users m)\<rparr>)"
proof -
  have "fs_is_dir fs (path_of home) \<Longrightarrow> fs_exists fs (path_of home)"
    by (simp add: fs_kind_is_def fs_exists_def split: sum.splits)
  then show ?thesis
    by (cases "argon_hash ar salt pw")
      (auto simp: add_user_def check_home_def hash_password_def get_user_def split: if_splits)
qed

text \<open>Claim C29: a login is accepted exactly for an existing, enabled account whose stored hash
  verifies; a refused login changes nothing, an accepted one only stamps that account's last login.\<close>

theorem authenticate_spec:
  "um_authenticate ar js p now n pw m fs = (b, m', fs') \<Longrightarrow>
     (b \<longleftrightarrow> (\<exists>u. get_user m n = Some u \<and> u_enabled u \<and>
             verify_password ar pw (u_password_hash u))) \<and>
     (if b then (\<exists>u. get_user m n = Some u \<and> get_user m' n = Some (u\<lparr>u_last_login := Some now\<rparr>)) \<and>
                (\<forall>n'. n' = n \<or> get_user m' n' = get_user m n')
      else m' = m \<and> fs' = fs)"
proof (cases b)
  case True
  assume run: "um_authenticate ar js p now n pw m fs = (b, m', fs')"
  then show ?thesis
    using authenticate_iff [of ar js p now n pw m fs] authenticate_stamp [of ar js p now n pw m fs]
      authenticate_other [OF run] True by auto
next
  case False
  assume run: "um_authenticate ar js p now n pw m fs = (b, m', fs')"
  then show ?thesis
    using authenticate_iff [of ar js p now n pw m fs] False
      authenticate_refused [of ar js p now n pw m fs m' fs'] by simp
qed

theorem authenticate_spec_witness:
  "fst (um_authenticate demo_argon demo_json [] 9 ''al'' ''no'' demo_users demo_fs) = False"
proof -
  have "um_authenticate demo_argon demo_json [] 9 ''al'' ''no'' demo_users demo_fs
      = (False, demo_users, demo_fs)"
    by (simp add: um_authenticate_def demo_users_def demo_user_def hm_get_def verify_password_def
        demo_argon_def)
  from authenticate_spec [OF this] this show ?thesis by simp
qed

text \<open>an added account logs in with its password, not while it is disabled, and again once
  it is enabled, given that Argon2 accepts the hash it made of that password.\<close>

theorem account_lifecycle:
  assumes argon: "\<And>h. argon_hash ar salt pw = Some h \<Longrightarrow> phc_parses ar h \<and> argon_verify ar pw h"
    and added: "add_user ar salt now fs n pw home perms admin m = Inr m1"
  shows "\<exists>m2 m3. set_user_enabled n False m1 = Inr m2 \<and> set_user_enabled n True m2 = Inr m3 \<and>
    fst (um_authenticate ar js p t n pw m1 fs') \<and>
    \<not> fst (um_authenticate ar js p t n pw m2 fs') \<and>
    fst (um_authenticate ar js p t n pw m3 fs')"
proof -
  obtain u where u: "get_user m1 n = Some u" "u_enabled u" "verify_password ar pw (u_password_hash u)"
    using added argon by (auto simp: add_user_result get_user_def verify_password_def)
  define m2 where "m2 = m1\<lparr>users := hm_insert n (u\<lparr>u_enabled := False\<rparr>) (users m1)\<rparr>"
  define m3 where
    "m3 = m2\<lparr>users := hm_insert n (u\<lparr>u_enabled := False, u_enabled := True\<rparr>) (users m2)\<rparr>"
  have g: "get_user m2 n = Some (u\<lparr>u_enabled := False\<rparr>)"
    "get_user m3 n = Some (u\<lparr>u_enabled := True\<rparr>)"
    by (simp_all add: m2_def m3_def get_user_def)
  have "set_user_enabled n False m1 = Inr m2" "set_user_enabled n True m2 = Inr m3"
    using u(1) g(1) by (simp_all add: set_user_enabled_def with_user_def get_user_def m2_def m3_def)
  with u g show ?thesis by (auto simp: authenticate_some)
qed

theorem account_lifecycle_witness:
  "\<exists>m1. add_user demo_argon 0 1 demo_fs ''al'' ''pw'' ''/home/al'' permissions_full True um_new = Inr m1
     \<and> fst (um_authenticate demo_argon demo_json [] 9 ''al'' ''pw'' m1 demo_fs)"
proof -
  have "path_of ''/home/al'' = dir_path demo_home"
    by (simp add: path_of_def comp_of_def dir_path_def)
  then have "fs_is_dir demo_fs (path_of ''/home/al'')"
    using locate_dirs [of demo_fs demo_home True]
    by (simp add: fs_kind_is_def fs_metadata_def stat_at_def guarded_def demo_node demo_entries_def
        node_meta_def)
  moreover have "trim ''/home/al'' = ''/home/al''"
    by (rule trim_id) (simp_all add: ws_front.simps ws_back.simps ws_ascii_def ws2_def ws3_def byte_in_def)
  ultimately obtain m1 where
    m1: "add_user demo_argon 0 1 demo_fs ''al'' ''pw'' ''/home/al'' permissions_full True um_new = Inr m1"
    by (simp add: add_user_result demo_argon_def get_user_def um_new_def)
  have "phc_parses demo_argon h \<and> argon_verify demo_argon ''pw'' h"
    if "argon_hash demo_argon 0 ''pw'' = Some h" for h
    using that by (auto simp: demo_argon_def)
  from account_lifecycle [OF this m1, of demo_json "[]" 9 demo_fs] m1 show ?thesis by auto
qed

text \<open>Claim C31: saving the user database in a directory reached without links, when no call fails,
  succeeds, leaves no temporary file and changes no other location, and loading it gives the
  same database back, given that the JSON printed for it parses to it.\<close>

theorem users_save_load:
  assumes fs: "fs_wf fs" "dirs_to fs d" "no_faults fs"
    and names: "temp_name n ''tmp'' \<noteq> n" "file_slot fs (d @ [temp_name n ''tmp''])" "file_slot fs (d @ [n])"
    and json: "encode js m = Some s" "decode js s = Some m" "utf8_valid s" "trim s \<noteq> []"
  shows "\<exists>fs'. um_save js (dir_path (d @ [n])) m fs = (Inr (), fs') \<and>
    um_load js err_on (dir_path (d @ [n])) fs' = Some m \<and>
    fs_node fs' (d @ [temp_name n ''tmp'']) = None \<and>
    (\<forall>l. prefix (d @ [temp_name n ''tmp'']) l \<or> prefix (d @ [n]) l \<or> fs_view fs' l = fs_view fs l)"
proof (rule um_save_ok [OF fs(1,2,3) names json(1)])
  fix fs'
  assume save: "um_save js (dir_path (d @ [n])) m fs = (Inr (), fs')"
    and env: "same_env fs fs'" and read: "fs_read fs' (dir_path (d @ [n])) = Inr s"
    and rest: "fs_node fs' (d @ [temp_name n ''tmp'']) = None"
    "\<And>l. \<not> prefix (d @ [temp_name n ''tmp'']) l \<Longrightarrow> \<not> prefix (d @ [n]) l \<Longrightarrow> fs_view fs' l = fs_view fs l"
  have "fs_exists fs' (dir_path (d @ [n]))"
    by (rule read_exists [OF read]) (use env fs(3) no_faults_env in blast)
  with read json have "um_load js err_on (dir_path (d @ [n])) fs' = Some m"
    by (simp add: um_load_def fs_read_to_string_def parse_users_def)
  with save rest show ?thesis by blast
qed

theorem users_save_load_witness:
  "\<exists>fs'. um_save demo_json (dir_path [''cfg'', ''users.json'']) demo_users demo_fs = (Inr (), fs') \<and>
    um_load demo_json True (dir_path [''cfg'', ''users.json'']) fs' = Some demo_users"
proof -
  have t: "temp_name ''users.json'' ''tmp'' = ''users.tmp''"
    by (simp add: temp_name_def split_ext_def split_once.simps)
  have "trim ''{al}'' = ''{al}''"
    by (rule trim_id) (simp_all add: ws_front.simps ws_back.simps ws_ascii_def ws2_def ws3_def byte_in_def)
  then show ?thesis
    using users_save_load [of demo_fs "[''cfg'']" "''users.json''" demo_json demo_users "''{al}''" True] t
    by (auto simp: demo_json_def byte_in_def)
qed

text \<open>a save that fails, at whatever step, leaves the user file as it was: its content
  is replaced only by the final rename.\<close>

theorem users_save_failure_keeps_file:
  assumes "fs_wf fs" "dirs_to fs d" "file_slot fs (d @ [temp_name n ''tmp''])" "temp_name n ''tmp'' \<noteq> n"
    and "um_save js (dir_path (d @ [n])) m fs = (Inl e, fs')"
  shows "fs_view fs' (d @ [n]) = fs_view fs (d @ [n])"
  using assms by (rule um_save_failed)

theorem users_save_failure_keeps_file_witness:
  "fs_view demo_fs [''cfg'', ''users.json''] = None"
proof -
  have t: "temp_name ''users.json'' ''tmp'' = ''users.tmp''"
    by (simp add: temp_name_def split_ext_def split_once.simps)
  let ?js = "\<lparr>encode = (\<lambda>_. None), decode = (\<lambda>_. None)\<rparr> :: user_manager codec"
  have "um_save ?js (dir_path ([''cfg''] @ [''users.json''])) demo_users demo_fs = (Inl SaveEncode, demo_fs)"
    using create_dir_all_ok [of demo_fs "[''cfg'']"] path_parent_child [of "[''cfg'']" "''users.json''"]
    by (simp add: um_save_def create_parent_def del: path_parent_child)
  from users_save_failure_keeps_file [OF _ _ _ _ this] t
  have "fs_view demo_fs ([''cfg''] @ [''users.json'']) = fs_view demo_fs ([''cfg''] @ [''users.json''])"
    by simp
  then show ?thesis by (simp add: fs_view_def demo_node demo_entries_def)
qed

text \<open>loading never fails and falls back to an empty database, with one exception: a
  readable file that is no valid JSON aborts the process when the error level is on and byte 200 of
  the file is inside a character.\<close>

theorem users_load_outcome:
  "um_load js err_on p fs =
     (if \<exists>s. fs_exists fs p \<and> fs_read_to_string fs p = Inr s \<and> trim s \<noteq> [] \<and>
           decode js s = None \<and> err_on \<and> 200 < length s \<and> is_cont (s ! 200)
      then None
      else Some (case fs_read_to_string fs p of
         Inl _ \<Rightarrow> um_new
       | Inr s \<Rightarrow>
           if fs_exists fs p \<and> trim s \<noteq> [] then unwrap_or um_new (decode js s) else um_new))"
  by (auto simp: um_load_def parse_users_def slice_to_def is_char_boundary_def preview_len_def
      is_cont_def min_def split: sum.splits option.splits)

end
