(* ===== verification/IpFilter.thy ===== *)
theory IpFilter
  imports Prelude
begin

text \<open>
  The address filter of \<open>common/src/config.rs\<close>. The parsers of \<open>Ipv4Addr\<close> and \<open>Ipv6Addr\<close> are
  those of the standard library (\<open>core::net::parser\<close>). The networks of the \<open>ipnet\<close> crate are
  parameters: for a CIDR text that parses, the addresses it contains.
\<close>

section \<open>Parsing addresses\<close>

definition digit_val :: "nat \<Rightarrow> char \<Rightarrow> nat option" where
  "digit_val radix c =
     (let n = (of_char c :: nat);
          v = (if byte_in 48 57 c then n - 48
               else if byte_in 97 122 c then n - 87
               else if byte_in 65 90 c then n - 55 else 99)
      in if v < radix then Some v else None)"

text \<open>The digits a number is read from: the value, the count and the rest; \<open>None\<close> when the
  value passes the limit or there are too many digits.\<close>

fun read_digits :: "nat \<Rightarrow> nat \<Rightarrow> nat \<Rightarrow> nat \<Rightarrow> nat \<Rightarrow> string \<Rightarrow> (nat \<times> nat \<times> string) option" where
  "read_digits radix maxd lim acc cnt [] = Some (acc, cnt, [])"
| "read_digits radix maxd lim acc cnt (c # s) =
     (case digit_val radix c of
        None \<Rightarrow> Some (acc, cnt, c # s)
      | Some d \<Rightarrow>
          if acc * radix + d \<ge> lim \<or> Suc cnt > maxd then None
          else read_digits radix maxd lim (acc * radix + d) (Suc cnt) s)"

definition read_number :: "nat \<Rightarrow> nat \<Rightarrow> nat \<Rightarrow> bool \<Rightarrow> string \<Rightarrow> (nat \<times> string) option" where
  "read_number radix maxd lim allow_zero s =
     (case read_digits radix maxd lim 0 0 s of
        None \<Rightarrow> None
      | Some (v, cnt, r) \<Rightarrow>
          if cnt = 0 then None
          else if \<not> allow_zero \<and> hd s = CHR ''0'' \<and> cnt > 1 then None
          else Some (v, r))"

definition read_char :: "char \<Rightarrow> string \<Rightarrow> string option" where
  "read_char c s = (case s of [] \<Rightarrow> None | a # r \<Rightarrow> if a = c then Some r else None)"

definition read_octet :: "string \<Rightarrow> (nat \<times> string) option" where
  "read_octet s = read_number 10 3 256 False s"

definition read_ipv4 :: "string \<Rightarrow> (nat list \<times> string) option" where
  "read_ipv4 s =
     Option.bind (read_octet s) (\<lambda>(a, s1).
     Option.bind (read_char (CHR ''.'') s1) (\<lambda>s2.
     Option.bind (read_octet s2) (\<lambda>(b, s3).
     Option.bind (read_char (CHR ''.'') s3) (\<lambda>s4.
     Option.bind (read_octet s4) (\<lambda>(c, s5).
     Option.bind (read_char (CHR ''.'') s5) (\<lambda>s6.
     Option.bind (read_octet s6) (\<lambda>(d, s7). Some ([a, b, c, d], s7))))))))"

definition parse_ipv4 :: "string \<Rightarrow> nat list option" where
  "parse_ipv4 s =
     (if length s > 15 then None
      else (case read_ipv4 s of Some (os, []) \<Rightarrow> Some os | _ \<Rightarrow> None))"

definition sep_colon :: "nat \<Rightarrow> string \<Rightarrow> string option" where
  "sep_colon i s = (if i = 0 then Some s else read_char (CHR '':'') s)"

text \<open>\<open>read_groups\<close> with \<open>left\<close> slots to fill, the first of index \<open>i\<close>: groups, embedded IPv4, rest.\<close>

fun read_groups :: "nat \<Rightarrow> nat \<Rightarrow> string \<Rightarrow> nat list \<times> bool \<times> string" where
  "read_groups 0 i s = ([], False, s)"
| "read_groups (Suc left) i s =
     (case (if 0 < left then Option.bind (sep_colon i s) read_ipv4 else None) of
        Some ([a, b, c, d], r) \<Rightarrow> ([a * 256 + b, c * 256 + d], True, r)
      | _ \<Rightarrow>
          (case Option.bind (sep_colon i s) (read_number 16 4 65536 True) of
             None \<Rightarrow> ([], False, s)
           | Some (g, r) \<Rightarrow>
               (let (gs, v4, r') = read_groups left (Suc i) r in (g # gs, v4, r'))))"

definition parse_ipv6 :: "string \<Rightarrow> nat list option" where
  "parse_ipv6 s =
     (let (hd_gs, v4, r) = read_groups 8 0 s in
      if length hd_gs = 8 then (if r = [] then Some hd_gs else None)
      else if v4 then None
      else (case Option.bind (read_char (CHR '':'') r) (read_char (CHR '':'')) of
         None \<Rightarrow> None
       | Some r1 \<Rightarrow>
           (let (tl_gs, _, r2) = read_groups (7 - length hd_gs) 0 r1 in
            if r2 = []
            then Some (hd_gs @ replicate (8 - length hd_gs - length tl_gs) 0 @ tl_gs)
            else None)))"

section \<open>The filter\<close>

record ipnet =
  net4 :: "string \<Rightarrow> (nat list \<Rightarrow> bool) option"
  net6 :: "string \<Rightarrow> (nat list \<Rightarrow> bool) option"

definition ip_matches_cidr :: "ipnet \<Rightarrow> string \<Rightarrow> string \<Rightarrow> bool" where
  "ip_matches_cidr nt ip cidr =
     (if cidr = ''0.0.0.0/0'' \<or> cidr = ''::/0'' then True
      else (case (parse_ipv4 ip, net4 nt cidr) of
         (Some a, Some inside) \<Rightarrow> inside a
       | _ \<Rightarrow>
           (case (parse_ipv6 ip, net6 nt cidr) of
              (Some a, Some inside) \<Rightarrow> inside a
            | _ \<Rightarrow> ip = cidr)))"

definition is_ip_allowed_for :: "ipnet \<Rightarrow> string list \<Rightarrow> string list \<Rightarrow> string \<Rightarrow> bool" where
  "is_ip_allowed_for nt allowed denied ip =
     (if list_ex (ip_matches_cidr nt ip) denied then False
      else if allowed = [] then True
      else list_ex (ip_matches_cidr nt ip) allowed)"

section \<open>Printed IPv4 addresses parse\<close>

definition show_ipv4 :: "nat list \<Rightarrow> string" where
  "show_ipv4 os = join_str ''.'' (map show_dec os)"

lemma digit_val_hex_digit: "d < 10 \<Longrightarrow> digit_val 10 (hex_digit d) = Some d"
  by (simp add: digit_val_def byte_in_def of_char_hex_digit)

lemma digit_val_dot: "digit_val 10 (CHR ''.'') = None"
  by (simp add: digit_val_def byte_in_def)

lemma foldl_dec_ge: "x \<le> foldl (\<lambda>a d. a * 10 + d) x es" for x :: nat
proof (induction es arbitrary: x)
  case (Cons e es)
  have "x \<le> x * 10 + e" by simp
  also have "\<dots> \<le> foldl (\<lambda>a d. a * 10 + d) (x * 10 + e) es" by (rule Cons.IH)
  finally show ?case by simp
qed simp

lemma read_digits_run:
  "list_all (\<lambda>d. d < 10) ds \<Longrightarrow> foldl (\<lambda>a d. a * 10 + d) acc ds < 256 \<Longrightarrow> cnt + length ds \<le> 3 \<Longrightarrow>
    (s = [] \<or> digit_val 10 (hd s) = None) \<Longrightarrow>
    read_digits 10 3 256 acc cnt (map hex_digit ds @ s)
      = Some (foldl (\<lambda>a d. a * 10 + d) acc ds, cnt + length ds, s)"
proof (induction ds arbitrary: acc cnt)
  case Nil
  then show ?case by (cases s) auto
next
  case (Cons d ds)
  have "acc * 10 + d < 256"
    using foldl_dec_ge [of "acc * 10 + d" ds] Cons.prems(2) by simp
  with Cons show ?case by (simp add: digit_val_hex_digit)
qed

lemma digits_small: "n < 256 \<Longrightarrow> length (digits_of 10 n) \<le> 3"
  by (simp add: digits_of.simps)

lemma digits_hd: "hd (digits_of 10 n) = 0 \<Longrightarrow> n = 0"
proof (induction "10 :: nat" n rule: digits_of.induct)
  case (1 n)
  have ne: "digits_of 10 k \<noteq> []" for k by (subst digits_of.simps) simp
  show ?case
  proof (cases "n < 10")
    case True
    with 1 show ?thesis by (subst (asm) (2) digits_of.simps) simp
  next
    case False
    with 1 ne [of "n div 10"] have "n div 10 = 0"
      by (subst (asm) (2) digits_of.simps) simp
    with False show ?thesis by simp
  qed
qed

lemma read_octet_shown:
  assumes "n < 256" "s = [] \<or> digit_val 10 (hd s) = None"
  shows "read_octet (show_dec n @ s) = Some (n, s)"
proof -
  let ?ds = "digits_of 10 n"
  have ds: "list_all (\<lambda>d. d < 10) ?ds" "foldl (\<lambda>a d. a * 10 + d) 0 ?ds = n"
    using digits_of_lt [of 10 n] undigits_digits [of 10 n] by (simp_all add: list_all_iff)
  have ne: "?ds \<noteq> []" by (subst digits_of.simps) simp
  have run: "read_digits 10 3 256 0 0 (show_dec n @ s) = Some (n, length ?ds, s)"
    using read_digits_run [of ?ds 0 0 s] ds assms digits_small [of n]
    by (simp add: show_dec_def)
  have "length ?ds = 1" if "hd (show_dec n @ s) = CHR ''0''"
  proof -
    have "hd ?ds < 10" using ne ds(1) by (simp add: list_all_iff)
    moreover have "hex_digit (hd ?ds) = CHR ''0''" using that ne by (simp add: show_dec_def hd_map)
    then have "of_char (hex_digit (hd ?ds)) = (48 :: nat)" by simp
    ultimately have "hd ?ds = 0" by (simp add: of_char_hex_digit)
    then have "n = 0" by (rule digits_hd)
    then show ?thesis by (simp add: digits_of.simps)
  qed
  with run ne show ?thesis
    by (auto simp: read_octet_def read_number_def)
qed

lemma show_dec_len: "n < 256 \<Longrightarrow> length (show_dec n) \<le> 3"
  by (simp add: show_dec_def digits_small)

lemma read_shown_ipv4:
  assumes "a < 256" "b < 256" "c < 256" "d < 256"
  shows "read_ipv4 (show_ipv4 [a, b, c, d]) = Some ([a, b, c, d], [])"
proof -
  have shown: "show_ipv4 [a, b, c, d]
      = show_dec a @ CHR ''.'' # show_dec b @ CHR ''.'' # show_dec c @ CHR ''.'' # show_dec d @ []"
    by (simp add: show_ipv4_def)
  show ?thesis
    unfolding shown read_ipv4_def
    using assms read_octet_shown [of d "[]"]
    by (simp add: read_octet_shown digit_val_dot read_char_def)
qed

text \<open>the address of an IPv4 client, as the server prints it, is read back by the filter's
  parser as the same four octets.\<close>

theorem parse_shown_ipv4:
  assumes "a < 256" "b < 256" "c < 256" "d < 256"
  shows "parse_ipv4 (show_ipv4 [a, b, c, d]) = Some [a, b, c, d]"
proof -
  have shown: "show_ipv4 [a, b, c, d]
      = show_dec a @ CHR ''.'' # show_dec b @ CHR ''.'' # show_dec c @ CHR ''.'' # show_dec d @ []"
    by (simp add: show_ipv4_def)
  have "length (show_ipv4 [a, b, c, d]) \<le> 15"
    using assms show_dec_len [of a] show_dec_len [of b] show_dec_len [of c] show_dec_len [of d]
    unfolding shown by simp
  with read_shown_ipv4 [OF assms] show ?thesis by (simp add: parse_ipv4_def)
qed

theorem parse_shown_ipv4_witness: "parse_ipv4 (show_ipv4 [192, 168, 0, 7]) = Some [192, 168, 0, 7]"
  by (rule parse_shown_ipv4) simp_all

text \<open>the deny list has precedence over the allow list, an empty allow list admits every
  address that is not denied, and the two match-all networks admit or deny everyone.\<close>

theorem ip_filter_rules:
  "is_ip_allowed_for nt allowed denied ip \<longleftrightarrow>
     (\<nexists>c. c \<in> set denied \<and> ip_matches_cidr nt ip c) \<and>
     (allowed = [] \<or> (\<exists>c. c \<in> set allowed \<and> ip_matches_cidr nt ip c))"
  by (auto simp: is_ip_allowed_for_def list_ex_iff)

text \<open>for IPv4 clients an entry that is a network decides by membership alone; an entry
  that is no network matches only the address spelled the same way.\<close>

theorem ipv4_entry_decides:
  assumes "cidr \<noteq> ''0.0.0.0/0''" "cidr \<noteq> ''::/0''" "\<forall>x. x \<in> set os \<longrightarrow> x < 256" "length os = 4"
  shows "ip_matches_cidr nt (show_ipv4 os) cidr \<longleftrightarrow>
    (case net4 nt cidr of Some inside \<Rightarrow> inside os | None \<Rightarrow> show_ipv4 os = cidr)"
proof -
  obtain a b c d where os: "os = [a, b, c, d]"
    using assms(4) by (auto simp: length_Suc_conv numeral_eq_Suc)
  then have read: "read_ipv4 (show_ipv4 os) = Some (os, [])"
    using assms(3) read_shown_ipv4 [of a b c d] by simp
  have len: "length (show_ipv4 os) \<le> 15"
    using assms(3) show_dec_len [of a] show_dec_len [of b] show_dec_len [of c] show_dec_len [of d]
    by (simp add: os show_ipv4_def)
  have v4: "parse_ipv4 (show_ipv4 os) = Some os"
    using read len by (simp add: parse_ipv4_def)
  have "read_groups (Suc 7) 0 (show_ipv4 os) = ([a * 256 + b, c * 256 + d], True, [])"
    by (subst read_groups.simps(2)) (simp add: sep_colon_def read os [symmetric], simp add: os)
  then have "parse_ipv6 (show_ipv4 os) = None"
    by (simp add: parse_ipv6_def)
  with v4 show ?thesis using assms by (simp add: ip_matches_cidr_def split: option.split)
qed

theorem ipv4_entry_decides_witness:
  "ip_matches_cidr \<lparr>net4 = (\<lambda>_. None), net6 = (\<lambda>_. None)\<rparr> (show_ipv4 [10, 0, 0, 7]) (show_ipv4 [10, 0, 0, 7])"
proof -
  have "show_ipv4 [10, 0, 0, 7] = ''10.0.0.7''"
    by code_simp
  then show ?thesis
    using ipv4_entry_decides [of "show_ipv4 [10, 0, 0, 7]" "[10, 0, 0, 7]"
        "\<lparr>net4 = (\<lambda>_. None), net6 = (\<lambda>_. None)\<rparr>"] by simp
qed

end
