(* ===== verification/Paths.thy ===== *)
theory Paths
  imports FsModel
begin

text \<open>
  \<open>common/src/paths.rs\<close>: where the program keeps its files. The process environment (variables,
  user id, executable, write access) is a record; \<open>var_os\<close> is the variable as a string.
\<close>

record process =
  env_var :: "string \<Rightarrow> string option"
  uid :: nat
  current_exe :: "path option"
  writable_dir :: "path \<Rightarrow> bool"

definition set_var :: "process \<Rightarrow> string \<Rightarrow> string option" where
  "set_var pr v = opt_filter (\<lambda>s. s \<noteq> []) (env_var pr v)"

definition home_dir :: "process \<Rightarrow> path" where
  "home_dir pr = (case set_var pr ''HOME'' of None \<Rightarrow> path_of ''/'' | Some v \<Rightarrow> path_of v)"

definition xdg_dir :: "process \<Rightarrow> string \<Rightarrow> string \<Rightarrow> path" where
  "xdg_dir pr v fallback =
     (case set_var pr v of
        None \<Rightarrow> path_join (home_dir pr) (path_of fallback)
      | Some s \<Rightarrow> path_of s)"

definition override_dir :: "process \<Rightarrow> string \<Rightarrow> path option" where
  "override_dir pr v = map_option path_of (set_var pr v)"

definition config_dir :: "process \<Rightarrow> path" where
  "config_dir pr =
     unwrap_or (path_join (xdg_dir pr ''XDG_CONFIG_HOME'' ''.config'') (path_of ''wftpd''))
       (override_dir pr ''WFTPD_CONFIG_DIR'')"

definition config_path :: "process \<Rightarrow> fs \<Rightarrow> path" where
  "config_path pr fs =
     (case override_dir pr ''WFTPD_CONFIG_DIR'' of
        Some d \<Rightarrow> path_join d (path_of ''config.toml'')
      | None \<Rightarrow>
          (case (if uid pr \<noteq> 0 then Option.bind (current_exe pr) path_parent else None) of
             Some exe_dir \<Rightarrow>
               (let candidate = path_join exe_dir (path_of ''config.toml'') in
                if fs_is_file fs candidate \<or> writable_dir pr exe_dir then candidate
                else path_join (config_dir pr) (path_of ''config.toml''))
           | None \<Rightarrow> path_join (config_dir pr) (path_of ''config.toml'')))"

definition state_dir :: "process \<Rightarrow> path" where
  "state_dir pr =
     unwrap_or (path_join (xdg_dir pr ''XDG_STATE_HOME'' ''.local/state'') (path_of ''wftpd''))
       (override_dir pr ''WFTPD_STATE_DIR'')"

definition runtime_dir :: "process \<Rightarrow> path" where
  "runtime_dir pr =
     (case set_var pr ''XDG_RUNTIME_DIR'' of
        Some d \<Rightarrow> path_join (path_of d) (path_of ''wftpd'')
      | None \<Rightarrow> path_of (''/tmp/wftpd-'' @ show_dec (uid pr)))"

definition users_path :: "process \<Rightarrow> path" where
  "users_path pr = path_join (config_dir pr) (path_of ''users.json'')"

definition keys_dir :: "process \<Rightarrow> path" where
  "keys_dir pr = path_join (config_dir pr) (path_of ''keys'')"

definition default_log_dir :: "process \<Rightarrow> path" where
  "default_log_dir pr = path_join (state_dir pr) (path_of ''logs'')"

definition default_host_key_path :: "process \<Rightarrow> path" where
  "default_host_key_path pr =
     path_join (path_join (state_dir pr) (path_of ''ssh'')) (path_of ''ssh_host_ed25519_key'')"

definition socket_path :: "process \<Rightarrow> path" where
  "socket_path pr = path_join (runtime_dir pr) (path_of ''wftpd.sock'')"

definition audit_log_path :: "process \<Rightarrow> path" where
  "audit_log_path pr = path_join (default_log_dir pr) (path_of ''audit.log'')"

section \<open>Where the files are\<close>

lemma path_of_names [simp]:
  "path_of ''config.toml'' = [Normal ''config.toml'']" "path_of ''users.json'' = [Normal ''users.json'']"
  "path_of ''wftpd'' = [Normal ''wftpd'']" "path_of ''keys'' = [Normal ''keys'']"
  "path_of ''logs'' = [Normal ''logs'']" "path_of ''ssh'' = [Normal ''ssh'']"
  "path_of ''ssh_host_ed25519_key'' = [Normal ''ssh_host_ed25519_key'']"
  "path_of ''wftpd.sock'' = [Normal ''wftpd.sock'']" "path_of ''audit.log'' = [Normal ''audit.log'']"
  "path_of ''.config'' = [Normal ''.config'']"
  "path_of ''.local/state'' = [Normal ''.local'', Normal ''state'']" "path_of ''/'' = [RootDir]"
  by (simp_all add: path_of_def comp_of_def)

lemma path_join_name: "path_join p [Normal n] = p @ [Normal n]"
  by (simp add: path_join_def is_absolute_def)

text \<open>with \<open>WFTPD_CONFIG_DIR\<close> set, configuration, users and keys are all in that directory,
  whoever runs the program and wherever its binary is.\<close>

theorem config_dir_override:
  assumes "env_var pr ''WFTPD_CONFIG_DIR'' = Some d" "d \<noteq> []"
  shows "config_path pr fs = path_of d @ [Normal ''config.toml''] \<and>
    users_path pr = path_of d @ [Normal ''users.json''] \<and>
    keys_dir pr = path_of d @ [Normal ''keys'']"
  using assms
  by (simp add: config_path_def users_path_def keys_dir_def config_dir_def override_dir_def
      set_var_def path_join_name)

theorem config_dir_override_witness:
  "users_path \<lparr>env_var = [''WFTPD_CONFIG_DIR'' \<mapsto> ''/t''], uid = 0, current_exe = None,
     writable_dir = (\<lambda>_. False)\<rparr> = [RootDir, Normal ''t'', Normal ''users.json'']"
  using config_dir_override [of "\<lparr>env_var = [''WFTPD_CONFIG_DIR'' \<mapsto> ''/t''], uid = 0,
     current_exe = None, writable_dir = (\<lambda>_. False)\<rparr>" "''/t''"]
  by (simp add: path_of_def comp_of_def)

end
