(* ===== verification/Config.thy ===== *)
theory Config
  imports Users IpFilter Paths
begin

text \<open>
  \<open>common/src/config.rs\<close>: the configuration, its defaults, its validation, and loading and saving
  it as TOML (the printer and parser of the \<open>toml\<close> crate are a parameter, as a codec).
\<close>

record ftp_config =
  ftp_enabled :: bool
  ftp_bind_ip :: string
  ftp_port :: u16
  passive_ports :: "u16 \<times> u16"
  welcome_message :: string
  allow_anonymous :: bool
  anonymous_home :: "string option"
  max_speed_kbps :: u64
  encoding :: string
  data_timeout :: u64
  masquerade_ip :: "string option"

record sftp_config =
  sftp_enabled :: bool
  sftp_bind_ip :: string
  sftp_port :: u16
  host_key_path :: string
  max_auth_attempts :: u32
  auth_timeout :: u64
  sftp_log_level :: string

record security_config =
  allowed_ips :: "string list"
  denied_ips :: "string list"
  max_login_attempts :: u32
  ban_duration :: u64
  require_ssl :: bool
  cert_path :: "string option"
  key_path :: "string option"
  max_connections :: u64
  connection_timeout :: u64
  idle_timeout :: u64

record logging_config =
  log_dir :: string
  log_level :: string
  max_log_size :: u64
  max_log_files :: u64
  enable_json :: bool
  enable_gui_logging :: bool

record config =
  ftp :: ftp_config
  sftp :: sftp_config
  security :: security_config
  logging :: logging_config

definition config_default :: "process \<Rightarrow> config" where
  "config_default pr =
     \<lparr>ftp = \<lparr>ftp_enabled = True, ftp_bind_ip = ''0.0.0.0'', ftp_port = 2121,
             passive_ports = (50000, 51000), welcome_message = ''Welcome to WFTPG FTP Server'',
             allow_anonymous = False, anonymous_home = None, max_speed_kbps = 0,
             encoding = ''UTF-8'', data_timeout = 300, masquerade_ip = None\<rparr>,
      sftp = \<lparr>sftp_enabled = True, sftp_bind_ip = ''0.0.0.0'', sftp_port = 2222,
              host_key_path = path_string (default_host_key_path pr), max_auth_attempts = 3,
              auth_timeout = 60, sftp_log_level = ''info''\<rparr>,
      security = \<lparr>allowed_ips = [''0.0.0.0/0''], denied_ips = [], max_login_attempts = 5,
                  ban_duration = 300, require_ssl = False, cert_path = None, key_path = None,
                  max_connections = 100, connection_timeout = 300, idle_timeout = 600\<rparr>,
      logging = \<lparr>log_dir = path_string (default_log_dir pr), log_level = ''info'',
                 max_log_size = 10 * 1024 * 1024, max_log_files = 10, enable_json = False,
                 enable_gui_logging = True\<rparr>\<rparr>"

datatype config_error =
    ConfigSave save_error
  | ConfigRead io_error
  | ConfigParse
  | AnonymousHomeMissing string
  | AnonymousHomeNotDir string
  | AnonymousHomeUnset

text \<open>The TOML codec: printing, and parsing with the serde defaults of the fields.\<close>

definition config_save ::
  "config codec \<Rightarrow> path \<Rightarrow> config \<Rightarrow> fs \<Rightarrow> (save_error + unit) \<times> fs" where
  "config_save tc p c fs =
     (case create_parent p fs of
        (Inl e, fs1) \<Rightarrow> (Inl (SaveDir e), fs1)
      | (Inr _, fs1) \<Rightarrow>
          (case encode tc c of
             None \<Rightarrow> (Inl SaveEncode, fs1)
           | Some s \<Rightarrow>
               (case fs_write (with_extension p ''tmp'') s fs1 of
                  (Inl e, fs2) \<Rightarrow> (Inl (SaveWrite e), fs2)
                | (Inr _, fs2) \<Rightarrow>
                    (case fs_rename (with_extension p ''tmp'') p fs2 of
                       (Inl e, fs3) \<Rightarrow>
                         (Inl (SaveRename e), snd (fs_remove_file (with_extension p ''tmp'') fs3))
                     | (Inr _, fs3) \<Rightarrow> (Inr (), fs3)))))"

definition config_load ::
  "config codec \<Rightarrow> process \<Rightarrow> path \<Rightarrow> fs \<Rightarrow> (config_error + config) \<times> fs" where
  "config_load tc pr p fs =
     (if \<not> fs_exists fs p then
        (let c = config_default pr in (Inr c, snd (config_save tc p c fs)))
      else (case fs_read_to_string fs p of
         Inl e \<Rightarrow> (Inl (ConfigRead e), fs)
       | Inr s \<Rightarrow>
           (case decode tc s of None \<Rightarrow> (Inl ConfigParse, fs) | Some c \<Rightarrow> (Inr c, fs))))"

text \<open>The missing SFTP host key is only warned about.\<close>

definition config_validate :: "fs \<Rightarrow> config \<Rightarrow> config_error + unit" where
  "config_validate fs c =
     (if ftp_enabled (ftp c) \<and> allow_anonymous (ftp c) then
        (case opt_filter (\<lambda>h. trim h \<noteq> []) (anonymous_home (ftp c)) of
           None \<Rightarrow> Inl AnonymousHomeUnset
         | Some h \<Rightarrow>
             if \<not> fs_exists fs (path_of h) then Inl (AnonymousHomeMissing h)
             else if \<not> fs_is_dir fs (path_of h) then Inl (AnonymousHomeNotDir h)
             else Inr ())
      else Inr ())"

definition is_ip_allowed :: "ipnet \<Rightarrow> config \<Rightarrow> string \<Rightarrow> bool" where
  "is_ip_allowed nt c ip =
     (if list_ex (ip_matches_cidr nt ip) (denied_ips (security c)) then False
      else if allowed_ips (security c) = [] then True
      else list_ex (ip_matches_cidr nt ip) (allowed_ips (security c)))"

section \<open>Properties\<close>

text \<open>the instance filter of a configuration and the static one the FTP server uses agree.\<close>

theorem is_ip_allowed_static:
  "is_ip_allowed nt c ip = is_ip_allowed_for nt (allowed_ips (security c)) (denied_ips (security c)) ip"
  by (simp add: is_ip_allowed_def is_ip_allowed_for_def)

text \<open>a configuration is refused exactly when FTP is enabled with anonymous access and the
  anonymous home is not a directory named by a non-blank text.\<close>

theorem config_validate_ok:
  "config_validate fs c = Inr () \<longleftrightarrow>
     \<not> (ftp_enabled (ftp c) \<and> allow_anonymous (ftp c)) \<or>
     (\<exists>h. anonymous_home (ftp c) = Some h \<and> trim h \<noteq> [] \<and> fs_is_dir fs (path_of h))"
proof -
  have "fs_is_dir fs p \<Longrightarrow> fs_exists fs p" for p
    by (simp add: fs_kind_is_def fs_exists_def split: sum.splits)
  then show ?thesis
    by (cases "anonymous_home (ftp c)") (auto simp: config_validate_def)
qed

theorem config_validate_ok_witness:
  "config_validate demo_fs (config_default \<lparr>env_var = (\<lambda>_. None), uid = 1000, current_exe = None,
     writable_dir = (\<lambda>_. False)\<rparr>) = Inr ()"
  using config_validate_ok by (simp add: config_default_def)

lemma config_save_ok:
  assumes "fs_wf fs" "dirs_to fs d" "no_faults fs" "temp_name n ''tmp'' \<noteq> n"
    "file_slot fs (d @ [temp_name n ''tmp''])" "file_slot fs (d @ [n])" "encode tc c = Some s"
  obtains fs' where "config_save tc (dir_path (d @ [n])) c fs = (Inr (), fs')"
    "fs_wf fs'" "same_env fs fs'" "fs_read fs' (dir_path (d @ [n])) = Inr s"
    "fs_node fs' (d @ [temp_name n ''tmp'']) = None"
    "\<And>l. \<not> prefix (d @ [temp_name n ''tmp'']) l \<Longrightarrow> \<not> prefix (d @ [n]) l \<Longrightarrow> fs_view fs' l = fs_view fs l"
    "dirs_to fs' d" "file_slot fs' (d @ [n])"
proof (rule save_sequence [OF assms(1-6), of s])
  fix fs2 fs3
  assume w: "fs_write (dir_path (d @ [temp_name n ''tmp''])) s fs = (Inr (), fs2)"
    and r: "fs_rename (dir_path (d @ [temp_name n ''tmp''])) (dir_path (d @ [n])) fs2 = (Inr (), fs3)"
    and rest: "fs_wf fs3" "same_env fs fs3" "fs_read fs3 (dir_path (d @ [n])) = Inr s"
    "fs_node fs3 (d @ [temp_name n ''tmp'']) = None"
    "\<And>l. \<not> prefix (d @ [temp_name n ''tmp'']) l \<Longrightarrow> \<not> prefix (d @ [n]) l \<Longrightarrow> fs_view fs3 l = fs_view fs l"
    "dirs_to fs3 d" "file_slot fs3 (d @ [n])"
  have "create_parent (dir_path (d @ [n])) fs = (Inr (), fs)"
    by (simp add: create_parent_def create_dir_all_ok [OF assms(2,3)])
  then have saved: "config_save tc (dir_path (d @ [n])) c fs = (Inr (), fs3)"
    by (simp add: config_save_def assms(7) with_extension_dir w r)
  from saved rest show thesis by (rule that)
qed

text \<open>a saved configuration is loaded back unchanged, with no temporary file left and no
  other location changed, given that the printed TOML parses to it and no call fails.\<close>

theorem config_save_load:
  assumes fs: "fs_wf fs" "dirs_to fs d" "no_faults fs"
    and names: "temp_name n ''tmp'' \<noteq> n" "file_slot fs (d @ [temp_name n ''tmp''])" "file_slot fs (d @ [n])"
    and toml: "encode tc c = Some s" "decode tc s = Some c" "utf8_valid s"
  shows "\<exists>fs'. config_save tc (dir_path (d @ [n])) c fs = (Inr (), fs') \<and>
    config_load tc pr (dir_path (d @ [n])) fs' = (Inr c, fs') \<and>
    fs_node fs' (d @ [temp_name n ''tmp'']) = None \<and>
    (\<forall>l. prefix (d @ [temp_name n ''tmp'']) l \<or> prefix (d @ [n]) l \<or> fs_view fs' l = fs_view fs l)"
proof (rule config_save_ok [OF fs names toml(1)])
  fix fs'
  assume save: "config_save tc (dir_path (d @ [n])) c fs = (Inr (), fs')"
    and env: "same_env fs fs'" and read: "fs_read fs' (dir_path (d @ [n])) = Inr s"
    and rest: "fs_node fs' (d @ [temp_name n ''tmp'']) = None"
    "\<And>l. \<not> prefix (d @ [temp_name n ''tmp'']) l \<Longrightarrow> \<not> prefix (d @ [n]) l \<Longrightarrow> fs_view fs' l = fs_view fs l"
  have "fs_exists fs' (dir_path (d @ [n]))"
    by (rule read_exists [OF read]) (use env fs(3) no_faults_env in blast)
  with read toml have "config_load tc pr (dir_path (d @ [n])) fs' = (Inr c, fs')"
    by (simp add: config_load_def fs_read_to_string_def)
  with save rest show ?thesis by blast
qed

definition demo_process :: process where
  "demo_process = \<lparr>env_var = [''WFTPD_CONFIG_DIR'' \<mapsto> ''/cfg''], uid = 1000, current_exe = None,
     writable_dir = (\<lambda>_. False)\<rparr>"

definition demo_toml :: "config codec" where
  "demo_toml =
     \<lparr>encode = (\<lambda>c. Some ''x''),
      decode = (\<lambda>s. if s = ''x'' then Some (config_default demo_process) else None)\<rparr>"

theorem config_save_load_witness:
  "\<exists>fs'. config_save demo_toml (dir_path [''cfg'', ''config.toml'']) (config_default demo_process) demo_fs = (Inr (), fs') \<and>
    config_load demo_toml demo_process (dir_path [''cfg'', ''config.toml'']) fs' = (Inr (config_default demo_process), fs')"
proof -
  have t: "temp_name ''config.toml'' ''tmp'' = ''config.tmp''"
    by (simp add: temp_name_def split_ext_def split_once.simps)
  then show ?thesis
    using config_save_load [of demo_fs "[''cfg'']" "''config.toml''" demo_toml
        "config_default demo_process" "''x''" demo_process]
    by (auto simp: demo_toml_def byte_in_def)
qed

text \<open>when the final rename is refused, saving a configuration removes its temporary file
  again, if the removal is not refused too, and leaves the configuration file as it was.\<close>

theorem config_save_cleans_up:
  assumes fs: "fs_wf fs" "dirs_to fs d" "file_slot fs (d @ [temp_name n ''tmp''])" "temp_name n ''tmp'' \<noteq> n"
    and failed: "config_save tc (dir_path (d @ [n])) c fs = (Inl (SaveRename e), fs')"
    and removable: "\<And>p. faults fs CUnlink p = None"
  shows "fs_node fs' (d @ [temp_name n ''tmp'']) = None \<and> fs_view fs' (d @ [n]) = fs_view fs (d @ [n])"
proof -
  let ?t = "d @ [temp_name n ''tmp'']" and ?n = "d @ [n]"
  obtain r1 where c: "create_parent (dir_path ?n) fs = (r1, fs)"
    using create_parent_child [OF fs(2), of n] by (metis prod.collapse)
  have w: "with_extension (dir_path ?n) ''tmp'' = dir_path ?t" by (simp add: with_extension_dir)
  obtain s fs2 where wr: "fs_write (dir_path ?t) s fs = (Inr (), fs2)"
    and fs': "fs' = snd (fs_remove_file (dir_path ?t) fs2)"
    using failed unfolding config_save_def c w
    by (auto split: sum.splits option.splits prod.splits dest: fs_rename_failed)
  have eff: "same_env fs fs2" "\<And>l. l \<noteq> ?t \<Longrightarrow> fs_node fs2 l = fs_node fs l"
    "\<exists>i. fs_node fs2 ?t = Some (NFile i)"
    using fs_write_nodes [OF fs(2,3) wr] by auto
  then obtain i where i: "fs_node fs2 ?t = Some (NFile i)" by blast
  have d2: "dirs_to fs2 d" by (rule dirs_to_node [OF fs(2)]) (auto intro!: eff(2))
  have f2: "faults fs2 CUnlink p = None" for p using eff(1) removable by (simp add: same_env_def)
  have drop: "fs' = drop_tree ?t fs2"
    by (simp add: fs' fs_remove_slot [OF d2 i f2])
  have "fs_view fs2 ?n = fs_view fs ?n"
    using fs_write_view [OF fs(1,2,3), of ?n s] wr fs(4) by simp
  moreover have "fs_view (drop_tree ?t fs2) ?n = fs_view fs2 ?n"
    using fs(4) by (simp add: view_drop)
  ultimately show ?thesis by (simp add: drop fs_node_drop)
qed

definition demo_norename :: fs where
  "demo_norename = demo_fs\<lparr>faults := (\<lambda>c p. if c = CRename then Some OtherIo else None)\<rparr>"

theorem config_save_cleans_up_witness:
  "fs_node (snd (config_save demo_toml (dir_path [''cfg'', ''config.toml''])
      (config_default demo_process) demo_norename)) [''cfg'', ''config.tmp''] = None"
proof -
  let ?fs = demo_norename
  have node: "fs_node ?fs l = fs_node demo_fs l" for l
    by (simp add: demo_norename_def fs_node_def)
  have d: "dirs_to ?fs [''cfg'']" using demo_dirs(3) by (simp add: dirs_to_def node)
  have wf: "fs_wf ?fs" using demo_wf by (simp add: fs_wf_def demo_norename_def)
  have t: "temp_name ''config.toml'' ''tmp'' = ''config.tmp''"
    by (simp add: temp_name_def split_ext_def split_once.simps)
  have slot: "file_slot ?fs ([''cfg''] @ [temp_name ''config.toml'' ''tmp''])"
    by (simp add: file_slot_def node demo_node demo_entries_def t)
  let ?r = "config_save demo_toml (dir_path ([''cfg''] @ [''config.toml''])) (config_default demo_process) ?fs"
  have "fs_write (dir_path [''cfg'', ''config.tmp'']) ''x'' ?fs = (Inr (), written ?fs [''cfg'', ''config.tmp''] ''x'')"
    using fs_write_quiet [OF wf d slot, of "''x''"] by (simp add: t demo_norename_def)
  moreover have "create_parent (dir_path ([''cfg''] @ [''config.toml''])) ?fs = (Inr (), ?fs)"
    unfolding create_parent_def path_parent_dir using create_dir_all_quiet [OF d]
    by (simp add: demo_norename_def)
  moreover have "fs_rename p q (written ?fs l s) = (Inl OtherIo, written ?fs l s)" for p q l s
    using written_env [of ?fs l s] by (simp add: fs_rename_def guarded_def same_env_def demo_norename_def)
  moreover have "with_extension (dir_path ([''cfg''] @ [''config.toml''])) ''tmp'' = dir_path [''cfg'', ''config.tmp'']"
    using with_extension_dir [where d = "[''cfg'']" and n = "''config.toml''"] by (simp add: t)
  ultimately have "fst ?r = Inl (SaveRename OtherIo)"
    by (simp add: config_save_def demo_toml_def)
  then obtain fs' where "?r = (Inl (SaveRename OtherIo), fs')" by (metis prod.collapse)
  moreover have "temp_name ''config.toml'' ''tmp'' \<noteq> ''config.toml''" by (simp add: t)
  moreover have "faults ?fs CUnlink p = None" for p by (simp add: demo_norename_def)
  ultimately show ?thesis
    using config_save_cleans_up [OF wf d slot] t by fastforce
qed

end
