(* ===== verification/Quota.thy ===== *)
theory Quota
  imports Demo
begin

text \<open>
  \<open>common/src/server/quota.rs\<close>: the usage of a home, recomputed by walking it at every call (the
  cache only records it).  The walk follows symbolic links to directories, so its recursion is
  bounded by fuel; on a tree without links the depth of the tree is enough.
\<close>

fun add_sizes :: "('a \<Rightarrow> u64 option) \<Rightarrow> 'a list \<Rightarrow> u64 \<Rightarrow> u64 option" where
  "add_sizes f [] acc = Some acc"
| "add_sizes f (x # xs) acc = (case f x of None \<Rightarrow> None | Some n \<Rightarrow> add_sizes f xs (acc + n))"

definition file_size :: "fs \<Rightarrow> path \<Rightarrow> u64" where
  "file_size fs p =
     (if fs_is_file fs p then (case fs_metadata fs p of Inl _ \<Rightarrow> 0 | Inr m \<Rightarrow> m_len m) else 0)"

fun dir_size :: "nat \<Rightarrow> fs \<Rightarrow> path \<Rightarrow> u64 option" where
  "dir_size fuel fs p =
     (if \<not> fs_is_dir fs p then Some (file_size fs p)
      else (case fuel of
         0 \<Rightarrow> None
       | Suc k \<Rightarrow>
           (case fs_read_dir fs p of
              Inl _ \<Rightarrow> Some 0
            | Inr names \<Rightarrow>
                add_sizes (\<lambda>n. if fs_is_dir fs (push_seg p n) then dir_size k fs (push_seg p n)
                               else Some (file_size fs (push_seg p n))) names 0)))"

declare dir_size.simps [simp del]

type_synonym quota_cache = "(string, u64) hmap"

definition calculate_usage_async ::
  "nat \<Rightarrow> fs \<Rightarrow> string \<Rightarrow> quota_cache \<Rightarrow> (u64 \<times> quota_cache) option" where
  "calculate_usage_async fuel fs home qc =
     map_option (\<lambda>u. (u, hm_insert home u qc)) (dir_size fuel fs (path_of home))"

definition quota_invalidate :: "string \<Rightarrow> quota_cache \<Rightarrow> quota_cache" where
  "quota_invalidate home qc = hm_remove home qc"

section \<open>The bytes below a directory\<close>

definition size_at :: "fs \<Rightarrow> string list \<Rightarrow> nat" where
  "size_at fs l =
     (case fs_node fs l of
        Some (NFile i) \<Rightarrow> (case hm_get (inodes fs) i of Some ind \<Rightarrow> length (content ind) | None \<Rightarrow> 0)
      | _ \<Rightarrow> 0)"

definition below :: "fs \<Rightarrow> string list \<Rightarrow> string list set" where
  "below fs d = {l \<in> set (hm_keys (entries fs)). prefix d l}"

definition bytes_below :: "fs \<Rightarrow> string list \<Rightarrow> nat" where
  "bytes_below fs d = (\<Sum>l \<in> below fs d. size_at fs l)"

text \<open>Every entry lies in a directory, and the entries are no deeper than \<open>n\<close>.\<close>

definition fs_tree :: "fs \<Rightarrow> bool" where
  "fs_tree fs \<longleftrightarrow> (\<forall>l \<in> set (hm_keys (entries fs)). l \<noteq> [] \<and> is_dir_node (fs_node fs (butlast l)))"

definition depth_le :: "fs \<Rightarrow> nat \<Rightarrow> bool" where
  "depth_le fs n \<longleftrightarrow> (\<forall>l \<in> set (hm_keys (entries fs)). length l \<le> n)"

lemma finite_below [simp]: "finite (below fs d)"
  by (simp add: below_def)

lemma children_iff: "c \<in> set (children fs d) \<longleftrightarrow> d @ [c] \<in> set (hm_keys (entries fs))"
  by (force simp: children_def hm_keys_def image_iff intro: append_butlast_last_id [symmetric])

lemma distinct_children: "hm_ok (entries fs) \<Longrightarrow> distinct (children fs d)"
proof -
  assume ok: "hm_ok (entries fs)"
  have "inj_on (last \<circ> fst) {x \<in> set (entries fs). fst x \<noteq> [] \<and> butlast (fst x) = d}"
  proof (rule inj_onI)
    fix x y
    assume x: "x \<in> {x \<in> set (entries fs). fst x \<noteq> [] \<and> butlast (fst x) = d}"
      and y: "y \<in> {x \<in> set (entries fs). fst x \<noteq> [] \<and> butlast (fst x) = d}"
      and eq: "(last \<circ> fst) x = (last \<circ> fst) y"
    then have "fst x = fst y" by (metis (mono_tags, lifting) append_butlast_last_id comp_apply mem_Collect_eq)
    moreover have "inj_on fst (set (entries fs))" using ok by (simp add: hm_ok_def distinct_map)
    ultimately show "x = y" using x y by (auto dest: inj_onD)
  qed
  moreover have "distinct (entries fs)" using ok by (simp add: hm_ok_def distinct_map)
  ultimately show ?thesis
    by (simp add: children_def distinct_map case_prod_unfold)
qed

lemma fs_node_key: "l \<noteq> [] \<Longrightarrow> l \<in> set (hm_keys (entries fs)) \<longleftrightarrow> fs_node fs l \<noteq> None"
  by (simp add: fs_node_def hm_get_None_iff)

lemma tree_prefix:
  assumes "fs_tree fs" "l \<in> set (hm_keys (entries fs))" "prefix p l"
  shows "p = [] \<or> p \<in> set (hm_keys (entries fs))"
  using assms
proof (induction l rule: rev_induct)
  case (snoc x l)
  show ?case
  proof (cases "p = l @ [x] \<or> l = []")
    case False
    with snoc.prems(3) have "prefix p l" by (auto simp: prefix_snoc)
    moreover from snoc.prems(1,2) have "is_dir_node (fs_node fs l)"
      unfolding fs_tree_def by fastforce
    with False have "l \<in> set (hm_keys (entries fs))" by (auto simp: fs_node_key is_dir_node_iff)
    ultimately show ?thesis using snoc by blast
  qed (use snoc.prems in \<open>auto simp: prefix_Cons\<close>)
qed auto

lemma below_split:
  assumes "fs_tree fs" "is_dir_node (fs_node fs d)"
  shows "bytes_below fs d = (\<Sum>c \<in> set (children fs d). bytes_below fs (d @ [c]))"
proof -
  have sub: "(\<Union>c \<in> set (children fs d). below fs (d @ [c])) = below fs d - {d}"
  proof (intro equalityI subsetI)
    fix l assume l: "l \<in> below fs d - {d}"
    then obtain r0 where "l = d @ r0" "r0 \<noteq> []" by (auto simp: below_def prefix_def)
    then obtain c r where r: "l = d @ c # r" by (cases r0) auto
    with l tree_prefix [OF assms(1), of l "d @ [c]"] have "c \<in> set (children fs d)"
      by (simp add: children_iff below_def)
    with l r show "l \<in> (\<Union>c \<in> set (children fs d). below fs (d @ [c]))" by (auto simp: below_def)
  qed (auto simp: below_def dest: append_prefixD)
  have dis: "\<forall>a \<in> set (children fs d). \<forall>b \<in> set (children fs d). a \<noteq> b \<longrightarrow>
      below fs (d @ [a]) \<inter> below fs (d @ [b]) = {}"
    by (auto simp: below_def prefix_def)
  have "bytes_below fs d = (\<Sum>l \<in> below fs d - {d}. size_at fs l)"
    unfolding bytes_below_def using assms(2)
    by (cases "d \<in> below fs d") (auto simp: sum.remove [where x = d] size_at_def is_dir_node_iff)
  also have "\<dots> = (\<Sum>c \<in> set (children fs d). bytes_below fs (d @ [c]))"
    unfolding sub [symmetric] bytes_below_def by (rule sum.UNION_disjoint) (use dis in auto)
  finally show ?thesis .
qed

lemma below_leaf:
  assumes "fs_tree fs" "fs_node fs l = Some nd" "\<not> is_dir_node (Some nd)"
  shows "bytes_below fs l = size_at fs l"
proof -
  have "l \<noteq> []" using assms(2,3) by (auto simp: fs_node_def is_dir_node_def)
  then have key: "l \<in> set (hm_keys (entries fs))" using assms(2) by (simp add: fs_node_key)
  have "k = l" if kb: "k \<in> below fs l" for k
  proof (rule ccontr)
    assume "k \<noteq> l"
    moreover obtain r where "k = l @ r" using kb by (auto simp: below_def prefix_def)
    ultimately have k: "k \<in> set (hm_keys (entries fs))" "prefix (l @ [k ! length l]) k"
      using kb by (cases r; auto simp: below_def)+
    with tree_prefix [OF assms(1) k] assms(1) have "is_dir_node (fs_node fs l)"
      unfolding fs_tree_def by fastforce
    with assms(2,3) show False by simp
  qed
  with key have "below fs l = {l}" by (auto simp: below_def)
  then show ?thesis by (simp add: bytes_below_def)
qed

section \<open>What the walk sees\<close>

lemma stat_tree:
  assumes "no_faults fs" "dirs_to fs d" "fs_node fs (d @ [n]) = Some nd" "\<not> is_link_node (Some nd)"
  shows "fs_metadata fs (dir_path (d @ [n])) = Inr (node_meta fs nd)"
proof -
  have "namei fs True max_links [] (map Normal d @ [Normal n]) = namei fs True max_links d [Normal n]"
    using namei_through_dirs [of "[]" d fs True max_links "[Normal n]"] assms(2) by (simp add: dirs_to_def)
  then have "locate fs True (dir_path (d @ [n])) = Inr (d @ [n])"
    using assms(3,4) by (cases nd) (simp_all add: locate_def dir_path_def is_link_node_def)
  with assms show ?thesis
    by (simp add: fs_metadata_def stat_at_def guarded_no_faults)
qed

lemma add_sizes_sum:
  "\<forall>x \<in> set xs. f x = Some (of_nat (g x)) \<Longrightarrow> add_sizes f xs acc = Some (acc + of_nat (\<Sum>x \<leftarrow> xs. g x))"
  by (induction xs arbitrary: acc) (auto simp: add.assoc)

lemma dirs_to_child:
  "dirs_to fs d \<Longrightarrow> is_dir_node (fs_node fs (d @ [c])) \<Longrightarrow> dirs_to fs (d @ [c])"
  by (auto simp: dirs_to_def)

lemma dir_meta:
  assumes "no_faults fs" "dirs_to fs d"
  shows "fs_is_dir fs (dir_path d)" "fs_read_dir fs (dir_path d) = Inr (children fs d)"
proof -
  obtain a where a: "fs_node fs d = Some (NDir a)" using assms(2) by (auto simp: dirs_to_def is_dir_node_iff)
  then show "fs_is_dir fs (dir_path d)" "fs_read_dir fs (dir_path d) = Inr (children fs d)"
    using assms(1) locate_dirs [OF assms(2)]
    by (simp_all add: fs_kind_is_def fs_metadata_def stat_at_def guarded_no_faults node_meta_def fs_read_dir_def)
qed

lemma push_seg_dir: "push_seg (dir_path d) c = dir_path (d @ [c])"
  by (simp add: push_seg_def dir_path_append)

lemma file_meta:
  assumes "no_faults fs" "dirs_to fs d" "fs_node fs (d @ [c]) = Some (NFile i)"
  shows "\<not> fs_is_dir fs (dir_path (d @ [c]))"
    "file_size fs (dir_path (d @ [c])) = of_nat (size_at fs (d @ [c]))"
  using stat_tree [OF assms] assms(3)
  by (auto simp: is_link_node_def fs_kind_is_def file_size_def node_meta_def size_at_def split: option.split)

lemma dir_size_tree:
  assumes "no_faults fs" "hm_ok (entries fs)" "fs_tree fs" "depth_le fs n"
    and "\<forall>l. \<not> is_link_node (fs_node fs l)"
  shows "dirs_to fs d \<Longrightarrow> n < length d + fuel \<Longrightarrow> dir_size fuel fs (dir_path d) = Some (of_nat (bytes_below fs d))"
proof (induction fuel arbitrary: d)
  case 0
  then have "d \<noteq> []" by auto
  moreover have "is_dir_node (fs_node fs d)" using 0 by (simp add: dirs_to_def)
  ultimately have "d \<in> set (hm_keys (entries fs))" by (auto simp: fs_node_key is_dir_node_iff)
  with 0 assms(4) show ?case by (auto simp: depth_le_def)
next
  case (Suc fuel)
  have dir: "is_dir_node (fs_node fs d)" using Suc.prems(1) by (simp add: dirs_to_def)
  let ?f = "\<lambda>c. if fs_is_dir fs (push_seg (dir_path d) c) then dir_size fuel fs (push_seg (dir_path d) c)
                else Some (file_size fs (push_seg (dir_path d) c))"
  have each: "?f c = Some (of_nat (bytes_below fs (d @ [c])))" if c: "c \<in> set (children fs d)" for c
  proof -
    have "fs_node fs (d @ [c]) \<noteq> None" using c by (simp add: children_iff fs_node_key)
    then obtain nd where nd: "fs_node fs (d @ [c]) = Some nd" by blast
    show ?thesis
    proof (cases "is_dir_node (Some nd)")
      case True
      then have "dirs_to fs (d @ [c])" using Suc.prems(1) nd by (simp add: dirs_to_child)
      then show ?thesis using Suc.IH Suc.prems(2) dir_meta(1) [OF assms(1)] by (simp add: push_seg_dir)
    next
      case False
      moreover have "\<not> is_link_node (Some nd)" using assms(5) nd by metis
      ultimately obtain i where "nd = NFile i" by (cases nd) (auto simp: is_dir_node_def is_link_node_def)
      with file_meta [OF assms(1) Suc.prems(1)] nd below_leaf [OF assms(3) nd False] show ?thesis
        by (simp add: push_seg_dir)
    qed
  qed
  have "dir_size (Suc fuel) fs (dir_path d) = add_sizes ?f (children fs d) 0"
    by (subst dir_size.simps) (simp add: dir_meta [OF assms(1) Suc.prems(1)])
  also have "\<dots> = Some (of_nat (\<Sum>c \<leftarrow> children fs d. bytes_below fs (d @ [c])))"
    using add_sizes_sum [of "children fs d" ?f "\<lambda>c. bytes_below fs (d @ [c])" 0] each by simp
  also have "(\<Sum>c \<leftarrow> children fs d. bytes_below fs (d @ [c])) = bytes_below fs d"
    by (simp add: below_split [OF assms(3) dir] sum_list_distinct_conv_sum_set distinct_children assms(2))
  finally show ?case .
qed

section \<open>Properties\<close>

text \<open>Claim C38: the usage of a home is the number of bytes of all files below it (modulo \<open>2 ^ 64\<close>,
  the width of the code's sum), whatever the cache holds, and it is what the cache records: on a file system that is a tree
  without symbolic links and without failing calls, given fuel beyond its depth.\<close>

theorem usage_is_bytes_below:
  assumes "no_faults fs" "hm_ok (entries fs)" "fs_tree fs" "depth_le fs n"
    and "\<forall>l. \<not> is_link_node (fs_node fs l)" "dirs_to fs d" "path_of home = dir_path d" "n < length d + fuel"
  shows "calculate_usage_async fuel fs home qc =
    Some (of_nat (bytes_below fs d), hm_insert home (of_nat (bytes_below fs d)) qc)"
  using dir_size_tree [OF assms(1-5), of d fuel] assms(6-8) by (simp add: calculate_usage_async_def)

lemma demo_tree: "fs_tree demo_fs" "depth_le demo_fs 3" "hm_ok (entries demo_fs)"
  by (simp_all add: fs_tree_def depth_le_def hm_ok_def hm_keys_def demo_fs_def demo_entries_def
      fs_node_def hm_get_def is_dir_node_def)

lemma demo_no_links: "\<not> is_link_node (fs_node demo_fs l)"
  by (simp add: demo_node demo_entries_def is_link_node_def)

theorem usage_is_bytes_below_witness:
  "calculate_usage_async 4 demo_fs ''/home/al'' [] = Some (5, [(''/home/al'', 5)])"
proof -
  have "below demo_fs demo_home = {demo_home, demo_home @ [''f'']}"
    by (auto simp: below_def demo_fs_def demo_entries_def hm_keys_def)
  then have "bytes_below demo_fs demo_home = 5"
    by (simp add: bytes_below_def size_at_def demo_node demo_entries_def) (simp add: demo_fs_def hm_get_def)
  moreover have "path_of ''/home/al'' = dir_path demo_home"
    by (simp add: path_of_def dir_path_def comp_of_def Let_def)
  ultimately show ?thesis
    using usage_is_bytes_below [OF demo_no_faults demo_tree(3,1,2) _ demo_dirs(2), of "''/home/al''" 4 "[]"]
      demo_no_links by (simp add: hm_insert_def)
qed

end
