(* ===== verification/Confinement.thy ===== *)
theory Confinement
  imports FsConfine Quota
begin

text \<open>
  The contract by which a server's session is confined to the home of its user: every request leaves
  the file system as it was outside the home and creates no symbolic link below it, and it keeps what
  the session needs for that (its open handles).  A confined session stays confined for any sequence of
  requests; the FTP and the SFTP session are its instances.
\<close>

locale confined_session =
  fixes step :: "'op \<Rightarrow> 's \<Rightarrow> 's" and disk :: "'s \<Rightarrow> fs" and inv :: "string list \<Rightarrow> 's \<Rightarrow> bool"
    and allowed :: "string list \<Rightarrow> 'op \<Rightarrow> bool"
  assumes step_stays: "inv r s \<Longrightarrow> root_ok (disk s) r \<Longrightarrow> allowed r op \<Longrightarrow> stays_in r (disk s) (disk (step op s))"
    and step_inv: "inv r s \<Longrightarrow> root_ok (disk s) r \<Longrightarrow> allowed r op \<Longrightarrow> inv r (step op s)"
begin

lemma run_stays:
  "inv r s \<Longrightarrow> root_ok (disk s) r \<Longrightarrow> list_all (allowed r) ops \<Longrightarrow>
    stays_in r (disk s) (disk (foldl (\<lambda>s op. step op s) s ops)) \<and> inv r (foldl (\<lambda>s op. step op s) s ops)"
proof (induction ops arbitrary: s)
  case Nil
  then show ?case by (simp add: stays_in_refl)
next
  case (Cons op ops)
  have one: "stays_in r (disk s) (disk (step op s))" "inv r (step op s)"
    using Cons.prems step_stays step_inv by auto
  with Cons.IH [OF one(2) stays_in_root_ok [OF Cons.prems(2) one(1)]] Cons.prems(3) show ?case
    using stays_in_trans by auto
qed

lemma outside_untouched:
  "inv r s \<Longrightarrow> root_ok (disk s) r \<Longrightarrow> list_all (allowed r) ops \<Longrightarrow> \<not> prefix r l \<Longrightarrow>
    fs_view (disk (foldl (\<lambda>s op. step op s) s ops)) l = fs_view (disk s) l"
  using run_stays [of r s ops] by (simp add: stays_in_def same_outside_def)

end

section \<open>The lexical walk\<close>

text \<open>The loop both servers resolve a path with: components pushed onto the root, \<open>..\<close> popped, and
  \<open>err\<close> for a step above the root or a component that is neither (\<open>storage.rs\<close>, \<open>resolve\<close>;
  \<open>ops/mod.rs\<close>, \<open>resolve\<close>; \<open>ops/protocol.rs\<close>, \<open>symlink\<close>).\<close>

fun lexical_walk :: "'e \<Rightarrow> path \<Rightarrow> path \<Rightarrow> path \<Rightarrow> 'e + path" where
  "lexical_walk err root cur [] = Inr cur"
| "lexical_walk err root cur (Normal n # cs) = lexical_walk err root (push_seg cur n) cs"
| "lexical_walk err root cur (CurDir # cs) = lexical_walk err root cur cs"
| "lexical_walk err root cur (ParentDir # cs) =
     (if cur = root then Inl err else lexical_walk err root (path_pop cur) cs)"
| "lexical_walk err root cur (RootDir # cs) = Inl err"

lemma lexical_walk_inside:
  "lexical_walk err root (root @ map Normal ns) cs = Inr q \<Longrightarrow>
    \<exists>ms. q = root @ map Normal ms \<and> set ms \<subseteq> set ns \<union> {n. Normal n \<in> set cs}"
proof (induction cs arbitrary: ns)
  case (Cons c cs)
  show ?case
  proof (cases c)
    case (Normal n)
    with Cons.prems Cons.IH [of "ns @ [n]"] show ?thesis by (fastforce simp: push_seg_def)
  next
    case CurDir
    with Cons.prems Cons.IH [of ns] show ?thesis by auto
  next
    case ParentDir
    with Cons.prems have ne: "ns \<noteq> []" by (auto split: if_splits)
    then have "path_pop (root @ map Normal ns) = root @ map Normal (butlast ns)"
      by (cases ns rule: rev_cases) (auto simp: path_pop_def path_parent_def butlast_append)
    with ParentDir Cons.prems ne have "lexical_walk err root (root @ map Normal (butlast ns)) cs = Inr q" by simp
    from Cons.IH [OF this] ParentDir show ?thesis by (fastforce dest: in_set_butlastD)
  next
    case RootDir
    with Cons.prems show ?thesis by simp
  qed
qed auto

lemma lexical_walk_names:
  "lexical_walk err root cur (map Normal ns) = Inr (cur @ map Normal ns)"
  by (induction ns arbitrary: cur) (simp_all add: push_seg_def)

lemma lexical_walk_err: "lexical_walk err root cur cs = Inl e \<Longrightarrow> e = err"
  by (induction err root cur cs rule: lexical_walk.induct) (auto split: if_splits)

section \<open>Reading below a root\<close>

text \<open>The content read through a path below a root without links is that of the file there.\<close>

lemma open_existing:
  assumes "root_ok fs r" "fs_open oo (dir_path (r @ ns)) fs = (Inr h, fs')" "fh_ino h = Some i"
  shows "fs_node fs' (r @ ns) = Some (NFile i)"
proof -
  obtain l where g: "guarded fs COpen (dir_path (r @ ns)) (locate fs True (dir_path (r @ ns))) = Inr l"
    using assms(2) by (auto simp: fs_open_def split: if_splits sum.splits)
  have l: "l = r @ ns" by (rule locate_below_guarded [OF assms(1) g])
  have "r @ ns \<noteq> []" using assms(1) by (simp add: root_ok_def)
  with assms(2,3) g l show ?thesis
    by (auto simp: fs_open_def new_handle_def fs_node_put fs_node_create split: if_splits option.splits node.splits)
qed

section \<open>Quota arithmetic\<close>

definition quota_bytes :: "u64 \<Rightarrow> u64" where
  "quota_bytes mb = sat_mul mb (1024 * 1024)"

lemma unat_quota_bytes: "unat (quota_bytes mb) = min (unat mb * 1048576) (2 ^ 64 - 1)"
  by (simp add: quota_bytes_def unat_sat_mul)

end
