(* ===== verification/RingBuffer.thy ===== *)
theory RingBuffer
  imports Prelude
begin

text \<open>
  The contract of the bounded in-memory logs (\<open>FileLogger\<close> and \<open>LogBuffer\<close>): a push appends an
  entry and drops the oldest one of a full buffer.  Inside the contract, a buffer is the tail of the
  history of what was pushed.
\<close>

definition ring_push :: "nat \<Rightarrow> 'e \<Rightarrow> 'e list \<Rightarrow> 'e list" where
  "ring_push cap e es = (if cap \<le> length es then tl es else es) @ [e]"

definition last_n :: "nat \<Rightarrow> 'a list \<Rightarrow> 'a list" where
  "last_n n xs = drop (length xs - n) xs"

lemma length_last_n [simp]: "length (last_n n xs) = min n (length xs)"
  by (simp add: last_n_def)

lemma last_n_last_n [simp]: "last_n m (last_n n xs) = last_n (min m n) xs"
proof (cases "n \<le> length xs")
  case True
  then show ?thesis by (simp add: last_n_def min_def)
next
  case False
  then show ?thesis by (simp add: last_n_def min_def)
qed

lemma take_rev_last_n: "take n (rev xs) = rev (last_n n xs)"
  by (simp add: last_n_def take_rev)

lemma ring_push_last_n:
  assumes "0 < cap"
  shows "ring_push cap e (last_n cap xs) = last_n cap (xs @ [e])"
proof (cases "cap \<le> length xs")
  case True
  then have "tl (drop (length xs - cap) xs) = drop (Suc (length xs) - cap) xs"
    by (simp add: tl_drop drop_Suc Suc_diff_le)
  moreover have "Suc 0 - cap = 0" using assms by simp
  ultimately show ?thesis using True by (simp add: ring_push_def last_n_def)
next
  case False
  then show ?thesis by (simp add: ring_push_def last_n_def)
qed

locale bounded_log =
  fixes push :: "'e \<Rightarrow> 'b \<Rightarrow> 'b" and items :: "'b \<Rightarrow> 'e list" and cap :: "'b \<Rightarrow> nat"
  assumes items_push: "items (push e b) = ring_push (cap b) e (items b)"
    and cap_push: "cap (push e b) = cap b"
begin

lemma cap_pushes [simp]: "cap (foldl (\<lambda>b e. push e b) b es) = cap b"
  by (induction es arbitrary: b) (simp_all add: cap_push)

lemma items_pushes:
  assumes "0 < cap b" "items b = last_n (cap b) h"
  shows "items (foldl (\<lambda>b e. push e b) b es) = last_n (cap b) (h @ es)"
  using assms
proof (induction es arbitrary: b h)
  case (Cons e es)
  have "items (push e b) = last_n (cap (push e b)) (h @ [e])"
    using Cons.prems by (simp add: items_push cap_push ring_push_last_n)
  from Cons.IH [OF _ this] Cons.prems(1) show ?case by (simp add: cap_push)
qed simp

lemma items_history:
  "0 < cap b \<Longrightarrow> items b = [] \<Longrightarrow> items (foldl (\<lambda>b e. push e b) b es) = last_n (cap b) es"
  using items_pushes [of b "[]" es] by (simp add: last_n_def)

end

end
