(* ===== verification/FileLogger.thy ===== *)
theory FileLogger
  imports RingBuffer Messages
begin

text \<open>
  \<open>common/src/server/file_logger.rs\<close>: the audit log of file operations.  A local time is its RFC 3339
  text, the only form of it the code shows.  A logger holds the buffer (oldest first), the messages
  sent on the broadcast channel when it has one, and the events given to \<open>tracing\<close> under the target
  \<open>file_ops\<close>, which end up in the audit file.
\<close>

type_synonym datetime = string

record log_entry_json =
  je_timestamp :: datetime
  je_level :: string
  je_source :: string
  je_message :: string
  je_client_ip :: "string option"
  je_username :: "string option"
  je_action :: "string option"

record file_log_info =
  fi_username :: string
  fi_client_ip :: string
  fi_operation :: string
  fi_file_path :: string
  fi_file_size :: u64
  fi_protocol :: string
  fi_success :: bool
  fi_message :: string

record file_log_entry = file_log_info +
  fe_timestamp :: datetime

record file_log_entry_json =
  fj_timestamp :: string
  fj_username :: string
  fj_client_ip :: string
  fj_operation :: string
  fj_file_path :: string
  fj_file_size :: u64
  fj_protocol :: string
  fj_success :: bool
  fj_message :: string

record log_file_entry =
  lf_name :: string
  lf_path :: string

definition file_log_to_json :: "file_log_entry \<Rightarrow> file_log_entry_json" where
  "file_log_to_json e =
     \<lparr>fj_timestamp = fe_timestamp e, fj_username = fi_username e, fj_client_ip = fi_client_ip e,
      fj_operation = fi_operation e, fj_file_path = fi_file_path e, fj_file_size = fi_file_size e,
      fj_protocol = fi_protocol e, fj_success = fi_success e, fj_message = fi_message e\<rparr>"

record file_logger =
  buffer :: "file_log_entry list"
  max_buffer_size :: nat
  log_sender :: "log_entry_json list option"
  audit_events :: "file_log_info list"

definition file_logger_new :: file_logger where
  "file_logger_new = \<lparr>buffer = [], max_buffer_size = 2000, log_sender = None, audit_events = []\<rparr>"

definition file_logger_with_sender :: file_logger where
  "file_logger_with_sender =
     \<lparr>buffer = [], max_buffer_size = 2000, log_sender = Some [], audit_events = []\<rparr>"

definition log_entry :: "datetime \<Rightarrow> file_log_info \<Rightarrow> file_log_entry" where
  "log_entry now i = file_log_info.extend i \<lparr>fe_timestamp = now\<rparr>"

definition log_broadcast :: "file_log_entry \<Rightarrow> log_entry_json" where
  "log_broadcast e =
     \<lparr>je_timestamp = fe_timestamp e, je_level = ''INFO'', je_source = src_file_ops,
      je_message = fi_username e @ '' '' @ fi_operation e @ '' '' @ fi_file_path e,
      je_client_ip = Some (fi_client_ip e), je_username = Some (fi_username e),
      je_action = Some (fi_operation e)\<rparr>"

definition fl_log :: "datetime \<Rightarrow> file_log_info \<Rightarrow> file_logger \<Rightarrow> file_logger" where
  "fl_log now i fl =
     (let e = log_entry now i in
      fl\<lparr>log_sender := map_option (\<lambda>sent. sent @ [log_broadcast e]) (log_sender fl),
         buffer := ring_push (max_buffer_size fl) e (buffer fl),
         audit_events := audit_events fl @ [i]\<rparr>)"

definition get_recent_logs :: "nat \<Rightarrow> file_logger \<Rightarrow> file_log_entry list" where
  "get_recent_logs n fl = take n (rev (buffer fl))"

text \<open>The information of the wrappers \<open>log_upload\<close> to \<open>log_failed\<close>.\<close>

definition ok_info :: "string \<Rightarrow> string \<Rightarrow> string \<Rightarrow> string \<Rightarrow> u64 \<Rightarrow> string \<Rightarrow> string \<Rightarrow> file_log_info" where
  "ok_info oper msg user ip sz protocol p =
     \<lparr>fi_username = user, fi_client_ip = ip, fi_operation = oper, fi_file_path = p,
      fi_file_size = sz, fi_protocol = protocol, fi_success = True, fi_message = msg\<rparr>"

definition log_upload where
  "log_upload now user ip p sz protocol = fl_log now (ok_info ''UPLOAD'' msg_upload_ok user ip sz protocol p)"

definition log_update where
  "log_update now user ip p sz protocol = fl_log now (ok_info ''UPDATE'' msg_update_ok user ip sz protocol p)"

definition log_download where
  "log_download now user ip p sz protocol = fl_log now (ok_info ''DOWNLOAD'' msg_download_ok user ip sz protocol p)"

definition log_delete where
  "log_delete now user ip p protocol = fl_log now (ok_info ''DELETE'' msg_delete_ok user ip 0 protocol p)"

definition log_rename where
  "log_rename now user ip old new protocol =
     fl_log now (ok_info ''RENAME'' msg_rename_ok user ip 0 protocol (old @ '' -> '' @ new))"

definition log_mkdir where
  "log_mkdir now user ip p protocol = fl_log now (ok_info ''MKDIR'' msg_mkdir_ok user ip 0 protocol p)"

definition log_rmdir where
  "log_rmdir now user ip p protocol = fl_log now (ok_info ''RMDIR'' msg_rmdir_ok user ip 0 protocol p)"

definition log_failed ::
  "datetime \<Rightarrow> string \<Rightarrow> string \<Rightarrow> string \<Rightarrow> string \<Rightarrow> string \<Rightarrow> string \<Rightarrow> file_logger \<Rightarrow> file_logger" where
  "log_failed now user ip oper p protocol err =
     fl_log now \<lparr>fi_username = user, fi_client_ip = ip, fi_operation = oper, fi_file_path = p,
       fi_file_size = 0, fi_protocol = protocol, fi_success = False, fi_message = err\<rparr>"

lemmas log_defs = log_upload_def log_update_def log_download_def log_delete_def log_rename_def
  log_mkdir_def log_rmdir_def log_failed_def

text \<open>The buffer is a bounded log of entries.\<close>

definition push_entry :: "file_log_entry \<Rightarrow> file_logger \<Rightarrow> file_logger" where
  "push_entry e fl = fl_log (fe_timestamp e) (file_log_info.truncate e) fl"

lemma log_entry_truncate [simp]: "log_entry (fe_timestamp e) (file_log_info.truncate e) = e"
  by (cases e) (simp add: log_entry_def file_log_info.defs)

lemma push_entry_log: "push_entry (log_entry now i) fl = fl_log now i fl"
  by (cases i) (simp add: push_entry_def log_entry_def file_log_info.defs)

interpretation file_ring: bounded_log push_entry buffer max_buffer_size
  by unfold_locales (simp_all add: push_entry_def fl_log_def Let_def)

definition log_all :: "(datetime \<times> file_log_info) list \<Rightarrow> file_logger \<Rightarrow> file_logger" where
  "log_all es fl = foldl (\<lambda>fl (now, i). fl_log now i fl) fl es"

lemma log_all_push: "log_all es fl = foldl (\<lambda>fl e. push_entry e fl) fl (map (\<lambda>(now, i). log_entry now i) es)"
  by (induction es arbitrary: fl) (auto simp: log_all_def push_entry_log)

lemma log_all_trace:
  "audit_events (log_all es fl) = audit_events fl @ map snd es"
  "log_sender (log_all es fl) =
     map_option (\<lambda>sent. sent @ map (\<lambda>(now, i). log_broadcast (log_entry now i)) es) (log_sender fl)"
  by (induction es arbitrary: fl)
    (auto simp: log_all_def fl_log_def Let_def option.map_comp comp_def option.map_ident)

section \<open>Properties\<close>


end
