(* ===== verification/FtpStorage.thy ===== *)
theory FtpStorage
  imports Users Confinement FileLogger
begin

text \<open>
  \<open>ftp/src/storage.rs\<close>: the storage back end libunftp calls, one function per method of
  \<open>StorageBackend\<close> with its checks in the order of the code.  The state is the disk, the session
  root, the audit logger and the quota cache; the environment of a call says whether the audit logger's
  lock is free (\<open>try_lock\<close>), the time, the text of an I/O error, and the fuel for the quota walk
  (\<open>None\<close> is a walk that ran out of it).
\<close>

section \<open>Users and state\<close>

record wftpd_user =
  wu_username :: string
  wu_home :: path
  wu_permissions :: permissions
  wu_quota_mb :: u64
  wu_anonymous :: bool

definition wftpd_user_new :: "string \<Rightarrow> path \<Rightarrow> permissions \<Rightarrow> wftpd_user" where
  "wftpd_user_new name home p =
     \<lparr>wu_username = name, wu_home = home, wu_permissions = p,
      wu_quota_mb = unwrap_or 0 (quota_mb p), wu_anonymous = False\<rparr>"

definition wftpd_user_anonymous :: "path \<Rightarrow> wftpd_user" where
  "wftpd_user_anonymous home =
     \<lparr>wu_username = ''anonymous'', wu_home = home, wu_permissions = permissions_full,
      wu_quota_mb = 0, wu_anonymous = True\<rparr>"

text \<open>The users a session can have; libunftp's \<open>DefaultUser\<close> has no context and no home.\<close>

datatype session_user = Wftpd wftpd_user | DefaultUser

record session_ctx =
  cx_username :: string
  cx_permissions :: permissions
  cx_quota_mb :: u64

fun user_context :: "session_user \<Rightarrow> session_ctx option" where
  "user_context (Wftpd u) =
     Some \<lparr>cx_username = wu_username u, cx_permissions = wu_permissions u, cx_quota_mb = wu_quota_mb u\<rparr>"
| "user_context DefaultUser = None"

fun user_home :: "session_user \<Rightarrow> path option" where
  "user_home (Wftpd u) = Some (wu_home u)"
| "user_home DefaultUser = None"

datatype error_kind =
    PermanentFileNotAvailable | PermanentDirectoryNotAvailable | FileNameNotAllowed
  | PermissionDenied | InsufficientStorageSpace | LocalError

record ftp_store =
  fdisk :: fs
  froot :: "path option"
  flog :: file_logger
  fquota :: quota_cache

record ftp_env =
  fe_now :: datetime
  fe_log_free :: bool
  fe_show_io :: "io_error \<Rightarrow> string"
  fe_fuel :: nat

type_synonym 'a storage_result = "(error_kind + 'a) \<times> ftp_store"

definition wftpd_filesystem_new :: "fs \<Rightarrow> file_logger \<Rightarrow> quota_cache \<Rightarrow> ftp_store" where
  "wftpd_filesystem_new fs fl qc = \<lparr>fdisk = fs, froot = None, flog = fl, fquota = qc\<rparr>"

section \<open>The helpers of every request\<close>

definition ftp_audit ::
  "ftp_env \<Rightarrow> string \<Rightarrow> string \<Rightarrow> path \<Rightarrow> u64 \<Rightarrow> bool \<Rightarrow> string \<Rightarrow> ftp_store \<Rightarrow> ftp_store" where
  "ftp_audit ev user oper p sz ok msg s =
     (if fe_log_free ev then
        s\<lparr>flog := fl_log (fe_now ev)
            \<lparr>fi_username = user, fi_client_ip = ''-'', fi_operation = oper,
             fi_file_path = utf8_lossy (path_string p), fi_file_size = sz, fi_protocol = ''FTP'',
             fi_success = ok, fi_message = msg\<rparr> (flog s)\<rparr>
      else s)"

definition ftp_resolve :: "path option \<Rightarrow> path \<Rightarrow> error_kind + path" where
  "ftp_resolve root p =
     (case root of
        None \<Rightarrow> Inl PermanentFileNotAvailable
      | Some r \<Rightarrow> lexical_walk FileNameNotAllowed r r (unwrap_or p (strip_prefix p [RootDir])))"

definition ftp_require :: "bool \<Rightarrow> error_kind + unit" where
  "ftp_require c = (if c then Inr () else Inl PermissionDenied)"

definition ftp_check_quota ::
  "ftp_env \<Rightarrow> path \<Rightarrow> u64 \<Rightarrow> ftp_store \<Rightarrow> unit storage_result option" where
  "ftp_check_quota ev home mb s =
     (if mb = 0 \<or> \<not> utf8_valid (path_string home) then Some (Inr (), s)
      else map_option (\<lambda>(usage, qc).
             (if quota_bytes mb \<le> usage then Inl InsufficientStorageSpace else Inr (), s\<lparr>fquota := qc\<rparr>))
           (calculate_usage_async (fe_fuel ev) (fdisk s) (path_string home) (fquota s)))"

definition current_root :: "ftp_store \<Rightarrow> error_kind + path" where
  "current_root s = ok_or PermanentFileNotAvailable (froot s)"

fun io_err :: "io_error \<Rightarrow> error_kind" where
  "io_err NotFound = PermanentFileNotAvailable"
| "io_err AlreadyExists = PermanentFileNotAvailable"
| "io_err PermissionDeniedIo = PermissionDenied"
| "io_err _ = LocalError"

definition io_result :: "io_error + 'a \<Rightarrow> error_kind + 'a" where
  "io_result r = (case r of Inl e \<Rightarrow> Inl (io_err e) | Inr v \<Rightarrow> Inr v)"

text \<open>The prologue of the guarded requests: the user's context, then the permission.\<close>

definition ftp_guard :: "session_user \<Rightarrow> (permissions \<Rightarrow> bool) \<Rightarrow> error_kind + session_ctx" where
  "ftp_guard u may =
     (case user_context u of
        None \<Rightarrow> Inl PermanentFileNotAvailable
      | Some cx \<Rightarrow>
          (case ftp_require (may (cx_permissions cx)) of Inl e \<Rightarrow> Inl e | Inr _ \<Rightarrow> Inr cx))"

definition drop_usage :: "ftp_store \<Rightarrow> error_kind + ftp_store" where
  "drop_usage s =
     (case current_root s of
        Inl e \<Rightarrow> Inl e
      | Inr r \<Rightarrow> Inr (s\<lparr>fquota := quota_invalidate (utf8_lossy (path_string r)) (fquota s)\<rparr>))"

section \<open>The requests\<close>

definition ftp_enter :: "session_user \<Rightarrow> ftp_store \<Rightarrow> (io_error + unit) \<times> ftp_store" where
  "ftp_enter u s =
     (case user_home u of
        None \<Rightarrow> (Inr (), s)
      | Some home \<Rightarrow>
          (case fs_create_dir_all home (fdisk s) of
             (Inl e, fs1) \<Rightarrow> (Inl e, s\<lparr>fdisk := fs1\<rparr>)
           | (Inr _, fs1) \<Rightarrow>
               (case fs_canonicalize fs1 home of
                  Inl e \<Rightarrow> (Inl e, s\<lparr>fdisk := fs1\<rparr>)
                | Inr c \<Rightarrow> (Inr (), s\<lparr>fdisk := fs1, froot := Some c\<rparr>))))"

definition ftp_metadata :: "path \<Rightarrow> ftp_store \<Rightarrow> error_kind + meta" where
  "ftp_metadata p s =
     (case ftp_resolve (froot s) p of
        Inl e \<Rightarrow> Inl e
      | Inr q \<Rightarrow> io_result (fs_symlink_metadata (fdisk s) q))"

text \<open>The view of the metadata that libunftp prints listings from; the times of a Unix file system are always there.\<close>

record system_metadata =
  sm_len :: u64
  sm_is_dir :: bool
  sm_is_file :: bool
  sm_is_symlink :: bool
  sm_modified :: int
  sm_gid :: u32
  sm_uid :: u32
  sm_permissions :: u32

definition system_metadata_of :: "meta \<Rightarrow> system_metadata" where
  "system_metadata_of m =
     \<lparr>sm_len = m_len m, sm_is_dir = (m_kind m = KDir), sm_is_file = (m_kind m = KFile), sm_is_symlink = (m_kind m = KLink),
      sm_modified = a_mtime (m_attr m), sm_gid = a_gid (m_attr m), sm_uid = a_uid (m_attr m),
      sm_permissions = or (case m_kind m of KDir \<Rightarrow> 0x4000 | KFile \<Rightarrow> 0x8000 | KLink \<Rightarrow> 0xA000)
        (and (a_mode (m_attr m)) 0xFFF)\<rparr>"

fun list_entries :: "fs \<Rightarrow> path \<Rightarrow> string list \<Rightarrow> error_kind + (path \<times> meta) list" where
  "list_entries fs p [] = Inr []"
| "list_entries fs p (n # ns) =
     (case fs_symlink_metadata fs (push_seg p n) of
        Inl e \<Rightarrow> Inl (io_err e)
      | Inr m \<Rightarrow>
          (case list_entries fs p ns of Inl e \<Rightarrow> Inl e | Inr r \<Rightarrow> Inr ((push_seg p n, m) # r)))"

definition ftp_list :: "session_user \<Rightarrow> path \<Rightarrow> ftp_store \<Rightarrow> error_kind + (path \<times> meta) list" where
  "ftp_list u p s =
     (case ftp_guard u can_list of
        Inl e \<Rightarrow> Inl e
      | Inr _ \<Rightarrow>
          (case ftp_resolve (froot s) p of
             Inl e \<Rightarrow> Inl e
           | Inr q \<Rightarrow>
               (case fs_read_dir (fdisk s) q of
                  Inl e \<Rightarrow> Inl (io_err e)
                | Inr ns \<Rightarrow> list_entries (fdisk s) q ns)))"

text \<open>A retrieval hands out the open file and the position reading starts at.\<close>

definition ftp_get :: "ftp_env \<Rightarrow> session_user \<Rightarrow> path \<Rightarrow> u64 \<Rightarrow> ftp_store \<Rightarrow> (file_handle \<times> u64) storage_result" where
  "ftp_get ev u p start s =
     (case ftp_guard u can_read of
        Inl e \<Rightarrow> (Inl e, s)
      | Inr cx \<Rightarrow>
          (case ftp_resolve (froot s) p of
             Inl e \<Rightarrow> (Inl e, s)
           | Inr q \<Rightarrow>
               (case fs_open opts_read_only q (fdisk s) of
                  (Inl e, _) \<Rightarrow>
                    (Inl (io_err e),
                     ftp_audit ev (cx_username cx) ''DOWNLOAD'' q 0 False (msg_download_failed @ fe_show_io ev e) s)
                | (Inr h, _) \<Rightarrow>
                    if 0 < start \<and> \<not> seek_ok start then (Inl (io_err InvalidInput), s)
                    else (Inr (h, start),
                          ftp_audit ev (cx_username cx) ''DOWNLOAD'' q
                            (case handle_metadata (fdisk s) h of Inl _ \<Rightarrow> 0 | Inr m \<Rightarrow> m_len m)
                            True msg_download_ok s))))"

text \<open>The copy loop: what the data connection's reads return, up to the first empty one.\<close>

fun copy_stream ::
  "file_handle \<Rightarrow> u64 \<Rightarrow> u64 \<Rightarrow> (io_error + string) list \<Rightarrow> fs \<Rightarrow> (io_error + u64) \<times> fs" where
  "copy_stream h pos done_n [] fs = (Inr done_n, fs)"
| "copy_stream h pos done_n (Inl e # ins) fs = (Inl e, fs)"
| "copy_stream h pos done_n (Inr c # ins) fs =
     (if c = [] then (Inr done_n, fs)
      else (case fs_write_at h pos c fs of
         (Inl e, fs1) \<Rightarrow> (Inl e, fs1)
       | (Inr _, fs1) \<Rightarrow>
           copy_stream h (pos + of_nat (length c)) (done_n + of_nat (length c)) ins fs1))"

definition put_opts :: "u64 \<Rightarrow> open_opts" where
  "put_opts start = opts_new\<lparr>o_write := True, o_create := True, o_truncate := (start = 0)\<rparr>"

text \<open>The part of an upload after the quota check: parents, open, seek, copy, flush.\<close>

definition put_file ::
  "ftp_env \<Rightarrow> session_ctx \<Rightarrow> path \<Rightarrow> (io_error + string) list \<Rightarrow> u64 \<Rightarrow> ftp_store \<Rightarrow> u64 storage_result" where
  "put_file ev cx q ins start s =
     (case (case path_parent q of None \<Rightarrow> (Inr (), fdisk s) | Some d \<Rightarrow> fs_create_dir_all d (fdisk s)) of
        (Inl e, fs1) \<Rightarrow> (Inl (io_err e), s\<lparr>fdisk := fs1\<rparr>)
      | (Inr _, fs1) \<Rightarrow>
          (case fs_open (put_opts start) q fs1 of
             (Inl e, fs2) \<Rightarrow>
               (Inl (io_err e),
                ftp_audit ev (cx_username cx) ''UPLOAD'' q 0 False (msg_upload_failed @ fe_show_io ev e) (s\<lparr>fdisk := fs2\<rparr>))
           | (Inr h, fs2) \<Rightarrow>
               if 0 < start \<and> \<not> seek_ok start then (Inl (io_err InvalidInput), s\<lparr>fdisk := fs2\<rparr>)
               else (case copy_stream h start 0 ins fs2 of
                  (Inl e, fs3) \<Rightarrow> (Inl (io_err e), s\<lparr>fdisk := fs3\<rparr>)
                | (Inr n, fs3) \<Rightarrow>
                    (case guarded fs3 CFlush (fh_path h) (Inr ()) of
                       Inl e \<Rightarrow> (Inl (io_err e), s\<lparr>fdisk := fs3\<rparr>)
                     | Inr _ \<Rightarrow>
                         (case drop_usage (s\<lparr>fdisk := fs3\<rparr>) of
                            Inl e \<Rightarrow> (Inl e, s\<lparr>fdisk := fs3\<rparr>)
                          | Inr s1 \<Rightarrow> (Inr n, ftp_audit ev (cx_username cx) ''UPLOAD'' q n True msg_upload_ok s1))))))"

definition ftp_put ::
  "ftp_env \<Rightarrow> session_user \<Rightarrow> (io_error + string) list \<Rightarrow> path \<Rightarrow> u64 \<Rightarrow> ftp_store \<Rightarrow> u64 storage_result option" where
  "ftp_put ev u ins p start s =
     (case ftp_guard u can_write of
        Inl e \<Rightarrow> Some (Inl e, s)
      | Inr cx \<Rightarrow>
          (case ftp_resolve (froot s) p of
             Inl e \<Rightarrow> Some (Inl e, s)
           | Inr q \<Rightarrow>
               map_option (\<lambda>(r, s1). case r of Inl e \<Rightarrow> (Inl e, s1) | Inr _ \<Rightarrow> put_file ev cx q ins start s1)
                 (ftp_check_quota ev q (cx_quota_mb cx) s)))"

text \<open>The requests that are one call of the file system and an audit record.\<close>

definition ftp_simple ::
  "ftp_env \<Rightarrow> session_user \<Rightarrow> (permissions \<Rightarrow> bool) \<Rightarrow> (path \<Rightarrow> fs \<Rightarrow> unit fs_result) \<Rightarrow> string \<Rightarrow> string \<Rightarrow> bool \<Rightarrow>
    path \<Rightarrow> ftp_store \<Rightarrow> unit storage_result" where
  "ftp_simple ev u may call oper msg usage_changes p s =
     (case ftp_guard u may of
        Inl e \<Rightarrow> (Inl e, s)
      | Inr cx \<Rightarrow>
          (case ftp_resolve (froot s) p of
             Inl e \<Rightarrow> (Inl e, s)
           | Inr q \<Rightarrow>
               (case call q (fdisk s) of
                  (Inl e, fs1) \<Rightarrow> (Inl (io_err e), s\<lparr>fdisk := fs1\<rparr>)
                | (Inr _, fs1) \<Rightarrow>
                    (case (if usage_changes then drop_usage (s\<lparr>fdisk := fs1\<rparr>) else Inr (s\<lparr>fdisk := fs1\<rparr>)) of
                       Inl e \<Rightarrow> (Inl e, s\<lparr>fdisk := fs1\<rparr>)
                     | Inr s1 \<Rightarrow> (Inr (), ftp_audit ev (cx_username cx) oper q 0 True msg s1)))))"

definition ftp_del :: "ftp_env \<Rightarrow> session_user \<Rightarrow> path \<Rightarrow> ftp_store \<Rightarrow> unit storage_result" where
  "ftp_del ev u = ftp_simple ev u can_delete fs_remove_file ''DELETE'' msg_delete_ok True"

definition ftp_mkd :: "ftp_env \<Rightarrow> session_user \<Rightarrow> path \<Rightarrow> ftp_store \<Rightarrow> unit storage_result" where
  "ftp_mkd ev u = ftp_simple ev u can_mkdir fs_create_dir ''MKDIR'' msg_mkdir_ok False"

definition ftp_rmd :: "ftp_env \<Rightarrow> session_user \<Rightarrow> path \<Rightarrow> ftp_store \<Rightarrow> unit storage_result" where
  "ftp_rmd ev u = ftp_simple ev u can_rmdir fs_remove_dir_all ''RMDIR'' msg_rmdir_ok False"

definition ftp_rename :: "ftp_env \<Rightarrow> session_user \<Rightarrow> path \<Rightarrow> path \<Rightarrow> ftp_store \<Rightarrow> unit storage_result" where
  "ftp_rename ev u from to s =
     (case ftp_guard u can_rename of
        Inl e \<Rightarrow> (Inl e, s)
      | Inr cx \<Rightarrow>
          (case ftp_resolve (froot s) from of
             Inl e \<Rightarrow> (Inl e, s)
           | Inr a \<Rightarrow>
               (case ftp_resolve (froot s) to of
                  Inl e \<Rightarrow> (Inl e, s)
                | Inr b \<Rightarrow>
                    (case fs_rename a b (fdisk s) of
                       (Inl e, fs1) \<Rightarrow> (Inl (io_err e), s\<lparr>fdisk := fs1\<rparr>)
                     | (Inr _, fs1) \<Rightarrow>
                         (Inr (), ftp_audit ev (cx_username cx) ''RENAME'' a 0 True
                            (msg_renamed_to @ utf8_lossy (path_string b)) (s\<lparr>fdisk := fs1\<rparr>))))))"

definition ftp_cwd :: "path \<Rightarrow> ftp_store \<Rightarrow> error_kind + unit" where
  "ftp_cwd p s =
     (case ftp_resolve (froot s) p of
        Inl e \<Rightarrow> Inl e
      | Inr q \<Rightarrow>
          (case fs_metadata (fdisk s) q of
             Inl e \<Rightarrow> Inl (io_err e)
           | Inr m \<Rightarrow> if m_kind m = KDir then Inr () else Inl PermanentDirectoryNotAvailable))"

end
