(* ===== verification/FtpSession.thy ===== *)
theory FtpSession
  imports FtpStorage
begin

text \<open>
  An FTP session as a sequence of requests over the storage back end, and what it guarantees: paths
  resolve inside the session root, the session is confined to it, a missing permission has no effect,
  and an upload can be read back.
\<close>

section \<open>Resolution\<close>

lemma ftp_resolve_root:
  assumes "ftp_resolve (Some (dir_path r)) p = Inr q"
  obtains ns where "q = dir_path (r @ ns)"
proof -
  have "lexical_walk FileNameNotAllowed (dir_path r) (dir_path r @ map Normal []) (unwrap_or p (strip_prefix p [RootDir])) = Inr q"
    using assms by (simp add: ftp_resolve_def)
  from lexical_walk_inside [OF this] that show thesis by (auto simp: dir_path_append)
qed

lemma ftp_resolve_names: "ftp_resolve (Some (dir_path r)) (dir_path ns) = Inr (dir_path (r @ ns))"
  by (simp add: ftp_resolve_def dir_path_def strip_prefix_def lexical_walk_names)

section \<open>The session\<close>

datatype ftp_op =
    FMetadata path
  | FList path
  | FGet path u64
  | FPut "(io_error + string) list" path u64
  | FDel path
  | FMkd path
  | FRename path path
  | FRmd path
  | FCwd path

text \<open>What a request leaves behind; an upload whose quota walk runs out of fuel does nothing.\<close>

fun ftp_step :: "ftp_env \<times> session_user \<times> ftp_op \<Rightarrow> ftp_store \<Rightarrow> ftp_store" where
  "ftp_step (ev, u, FMetadata p) s = s"
| "ftp_step (ev, u, FList p) s = s"
| "ftp_step (ev, u, FGet p start) s = snd (ftp_get ev u p start s)"
| "ftp_step (ev, u, FPut ins p start) s = (case ftp_put ev u ins p start s of None \<Rightarrow> s | Some r \<Rightarrow> snd r)"
| "ftp_step (ev, u, FDel p) s = snd (ftp_del ev u p s)"
| "ftp_step (ev, u, FMkd p) s = snd (ftp_mkd ev u p s)"
| "ftp_step (ev, u, FRename a b) s = snd (ftp_rename ev u a b s)"
| "ftp_step (ev, u, FRmd p) s = snd (ftp_rmd ev u p s)"
| "ftp_step (ev, u, FCwd p) s = s"

lemma audit_fields [simp, store_simps]:
  "fdisk (ftp_audit ev us oper p z ok m s) = fdisk s" "froot (ftp_audit ev us oper p z ok m s) = froot s"
  "fquota (ftp_audit ev us oper p z ok m s) = fquota s"
  by (simp_all add: ftp_audit_def)

lemma drop_usage_fields:
  "drop_usage s = Inr s1 \<Longrightarrow> fdisk s1 = fdisk s \<and> froot s1 = froot s \<and> flog s1 = flog s"
  by (auto simp: drop_usage_def split: sum.splits)

lemma check_quota_fields:
  "ftp_check_quota ev h mb s = Some (r, s1) \<Longrightarrow> fdisk s1 = fdisk s \<and> froot s1 = froot s \<and> flog s1 = flog s"
  by (auto simp: ftp_check_quota_def split: if_splits)

lemma simple_root: "froot (snd (ftp_simple ev u may call oper msg ch p s)) = froot s"
  using drop_usage_fields by (fastforce simp: ftp_simple_def split: sum.split prod.split)

lemma ftp_put_cases:
  assumes "ftp_put ev u ins p start s = Some res"
  obtains (refused) "snd res = s" "\<not> is_ok (fst res)"
    | (quota) e s1 where "res = (Inl e, s1)" "fdisk s1 = fdisk s" "froot s1 = froot s" "flog s1 = flog s"
    | (stored) cx q s1 where "ftp_guard u can_write = Inr cx" "ftp_resolve (froot s) p = Inr q"
        "ftp_check_quota ev q (cx_quota_mb cx) s = Some (Inr (), s1)"
        "fdisk s1 = fdisk s" "froot s1 = froot s" "flog s1 = flog s" "res = put_file ev cx q ins start s1"
proof (cases "ftp_guard u can_write")
  case (Inl e)
  with assms refused show ?thesis by (auto simp: ftp_put_def)
next
  case g: (Inr cx)
  show ?thesis
  proof (cases "ftp_resolve (froot s) p")
    case (Inl e)
    with g assms refused show ?thesis by (auto simp: ftp_put_def)
  next
    case q: (Inr q)
    with g assms obtain r s1 where c: "ftp_check_quota ev q (cx_quota_mb cx) s = Some (r, s1)"
      and res: "res = (case r of Inl e \<Rightarrow> (Inl e, s1) | Inr _ \<Rightarrow> put_file ev cx q ins start s1)"
      by (auto simp: ftp_put_def)
    show ?thesis
      using quota stored g q c res check_quota_fields [OF c] by (cases r) auto
  qed
qed

lemma put_file_root: "froot (snd (put_file ev cx q ins start s)) = froot s"
  using drop_usage_fields by (fastforce simp: put_file_def split: sum.split prod.split option.split)

lemma simple_disk:
  assumes "froot s = Some (dir_path r)" "root_ok (fdisk s) r"
    and "\<And>ns. stays_in r (fdisk s) (snd (call (dir_path (r @ ns)) (fdisk s)))"
  shows "stays_in r (fdisk s) (fdisk (snd (ftp_simple ev u may call oper msg ch p s)))"
proof (cases "ftp_guard u may")
  case (Inl e)
  with assms show ?thesis by (simp add: ftp_simple_def stays_in_refl)
next
  case (Inr cx)
  note g = Inr
  show ?thesis
  proof (cases "ftp_resolve (froot s) p")
    case (Inl e)
    with g assms show ?thesis by (simp add: ftp_simple_def stays_in_refl)
  next
    case (Inr q)
    with assms(1) obtain ns where q: "q = dir_path (r @ ns)" using ftp_resolve_root by metis
    obtain res fs1 where c: "call q (fdisk s) = (res, fs1)" by (cases "call q (fdisk s)")
    have "stays_in r (fdisk s) fs1" using assms(3) [of ns] c q by simp
    with g Inr c show ?thesis
      by (auto simp: ftp_simple_def split: sum.split dest!: drop_usage_fields)
  qed
qed

lemma copy_stream_stays:
  "root_ok fs r \<Longrightarrow> handle_below r fs h \<Longrightarrow> stays_in r fs (snd (copy_stream h pos n ins fs))"
proof (induction h pos n ins fs rule: copy_stream.induct)
  case (3 h pos n c ins fs)
  obtain w fs1 where w: "fs_write_at h pos c fs = (w, fs1)" by (cases "fs_write_at h pos c fs")
  have st: "stays_in r fs fs1" using write_at_stays [OF "3.prems", of pos c] w by simp
  have hb: "handle_below r fs1 h"
    using handle_below_mono [OF "3.prems"(2)] write_at_nodes [of h pos c fs] w by simp
  show ?case
  proof (cases "c = [] \<or> \<not> is_ok w")
    case True
    with w st "3.prems" show ?thesis by (cases w) (auto simp: stays_in_refl)
  next
    case False
    then obtain v where v: "w = Inr v" by (cases w) auto
    have "stays_in r fs1 (snd (copy_stream h (pos + of_nat (length c)) (n + of_nat (length c)) ins fs1))"
      using "3.IH" False w v stays_in_root_ok [OF "3.prems"(1) st] hb by simp
    with stays_in_trans [OF st this] w v False show ?thesis by simp
  qed
qed (simp_all add: stays_in_refl)

lemma put_parent_stays:
  assumes "root_ok fs r"
  shows "stays_in r fs (snd (case path_parent (dir_path (r @ ns)) of None \<Rightarrow> (Inr (), fs) | Some d \<Rightarrow> fs_create_dir_all d fs))"
proof (cases "ns = []")
  case True
  have ne: "r \<noteq> []" "dirs_to fs (butlast r)" using assms by (simp_all add: root_ok_def)
  then have "snd (fs_create_dir_all (dir_path (butlast r)) fs) = fs" by (simp add: create_dir_all_existing)
  with True ne assms show ?thesis by (simp add: path_parent_dir stays_in_refl)
next
  case False
  with assms create_dir_all_stays [OF assms, of "butlast ns"] show ?thesis
    by (simp add: path_parent_dir butlast_append root_ok_def)
qed

lemma put_file_disk:
  assumes "root_ok (fdisk s) r"
  shows "stays_in r (fdisk s) (fdisk (snd (put_file ev cx (dir_path (r @ ns)) ins start s)))"
proof -
  let ?q = "dir_path (r @ ns)"
  let ?mk = "case path_parent ?q of None \<Rightarrow> (Inr (), fdisk s) | Some d \<Rightarrow> fs_create_dir_all d (fdisk s)"
  obtain r1 fs1 where m: "?mk = (r1, fs1)" by (cases ?mk)
  have s1: "stays_in r (fdisk s) fs1" using put_parent_stays [OF assms, of ns] m by simp
  have ok1: "root_ok fs1 r" by (rule stays_in_root_ok [OF assms s1])
  obtain r2 fs2 where o2: "fs_open (put_opts start) ?q fs1 = (r2, fs2)" by (cases "fs_open (put_opts start) ?q fs1")
  have s2: "stays_in r (fdisk s) fs2"
    using stays_in_trans [OF s1] open_stays [OF ok1, of "put_opts start" ns] o2 by simp
  have s3: "stays_in r (fdisk s) (snd (copy_stream h start 0 ins fs2))" if "r2 = Inr h" for h
    using stays_in_trans [OF s2] copy_stream_stays stays_in_root_ok [OF assms s2]
      open_handle_below [OF ok1 o2 [unfolded that]] by blast
  show ?thesis
    using m o2 s1 s2 s3
    by (auto simp: put_file_def split: sum.split prod.split dest!: drop_usage_fields)
qed

text \<open>The session invariant: the root entered is the directory \<open>r\<close>.\<close>

definition ftp_rooted :: "string list \<Rightarrow> ftp_store \<Rightarrow> bool" where
  "ftp_rooted r s \<longleftrightarrow> froot s = Some (dir_path r)"

lemma rename_root: "froot (snd (ftp_rename ev u a b s)) = froot s"
  by (simp add: ftp_rename_def split: sum.split prod.split)

lemma get_state: "fdisk (snd (ftp_get ev u p start s)) = fdisk s" "froot (snd (ftp_get ev u p start s)) = froot s"
  by (simp_all add: ftp_get_def split: sum.split prod.split)

lemma put_root:
  assumes "ftp_put ev u ins p start s = Some res"
  shows "froot (snd res) = froot s"
  using assms by (cases rule: ftp_put_cases) (simp_all add: put_file_root)

lemma ftp_step_root: "froot (ftp_step (ev, u, op) s) = froot s"
  by (cases op) (auto simp: get_state rename_root put_root ftp_del_def ftp_mkd_def ftp_rmd_def simple_root
      split: option.split)

lemma put_stays:
  assumes "froot s = Some (dir_path r)" "root_ok (fdisk s) r" "ftp_put ev u ins p start s = Some res"
  shows "stays_in r (fdisk s) (fdisk (snd res))"
  using assms(3)
proof (cases rule: ftp_put_cases)
  case (stored cx q s1)
  from stored(2) assms(1) obtain ns where "q = dir_path (r @ ns)" using ftp_resolve_root by metis
  with stored put_file_disk [of s1 r ev cx ns ins start] assms(2) show ?thesis by simp
qed (use assms(2) in \<open>simp_all add: stays_in_refl\<close>)

lemma ftp_rename_stays:
  assumes "froot s = Some (dir_path r)" "root_ok (fdisk s) r"
  shows "stays_in r (fdisk s) (fdisk (snd (ftp_rename ev u a b s)))"
proof (cases "\<exists>cx a' b'. ftp_guard u can_rename = Inr cx \<and> ftp_resolve (froot s) a = Inr a' \<and>
    ftp_resolve (froot s) b = Inr b'")
  case True
  then obtain cx a' b' where g: "ftp_guard u can_rename = Inr cx" "ftp_resolve (froot s) a = Inr a'"
    "ftp_resolve (froot s) b = Inr b'" by blast
  obtain ns where "a' = dir_path (r @ ns)" using ftp_resolve_root g(2) assms(1) by metis
  moreover obtain ms where "b' = dir_path (r @ ms)" using ftp_resolve_root g(3) assms(1) by metis
  moreover obtain x fs1 where "fs_rename a' b' (fdisk s) = (x, fs1)" by (cases "fs_rename a' b' (fdisk s)")
  ultimately show ?thesis
    using g rename_stays [OF assms(2), of ns ms] by (auto simp: ftp_rename_def split: sum.split)
next
  case False
  then show ?thesis using assms(2) by (auto simp: ftp_rename_def stays_in_refl split: sum.split)
qed

lemma ftp_step_stays:
  assumes "ftp_rooted r s" "root_ok (fdisk s) r"
  shows "stays_in r (fdisk s) (fdisk (ftp_step (ev, u, op) s))"
proof -
  have root: "froot s = Some (dir_path r)" using assms(1) by (simp add: ftp_rooted_def)
  note simple = simple_disk [OF root assms(2)]
  show ?thesis
  proof (cases op)
    case (FPut ins p start)
    then show ?thesis
      using put_stays [OF root assms(2)] assms(2) by (simp add: stays_in_refl split: option.split)
  qed (auto simp: assms(2) stays_in_refl get_state ftp_del_def ftp_mkd_def ftp_rmd_def
      intro!: simple remove_file_stays create_dir_stays remove_dir_all_stays ftp_rename_stays [OF root])
qed

interpretation ftp_session: confined_session ftp_step fdisk ftp_rooted "\<lambda>_ _. True"
  by unfold_locales (auto simp: ftp_step_stays ftp_rooted_def ftp_step_root)

section \<open>What an upload writes\<close>

lemma prefix_shorter: "prefix l d \<Longrightarrow> l \<noteq> d @ [n]"
  by (auto dest: prefix_length_le)

text \<open>The reads of a stream without errors, up to its first empty one.\<close>

fun stream_bytes :: "(io_error + string) list \<Rightarrow> string option" where
  "stream_bytes [] = Some []"
| "stream_bytes (Inl e # ins) = None"
| "stream_bytes (Inr c # ins) = (if c = [] then Some [] else map_option ((@) c) (stream_bytes ins))"

lemma splice_append:
  "splice (off + length a) b (splice off a old) = splice off (a @ b) old"
proof -
  have l: "length (take off (old @ replicate (off - length old) CHR 0x00)) = off" by simp
  then show ?thesis
    unfolding splice_def
    by (cases "off + length a \<le> length old") (simp_all add: ac_simps)
qed

lemma write_at_content:
  assumes "no_faults fs" "fh_ino h = Some i" "fh_write h" "\<not> fh_append h" "hm_get (inodes fs) i = Some ind"
    and "unat off < 2 ^ 63" "c \<noteq> []"
  shows "fs_write_at h off c fs = (Inr (), put_content i (splice (unat off) c (content ind)) fs)"
  using assms by (simp add: fs_write_at_def seek_ok_def guarded_no_faults Let_def handle_content_def)

lemma copy_stream_content:
  assumes "stream_bytes ins = Some s" "no_faults fs" "fh_ino h = Some i" "fh_write h" "\<not> fh_append h"
    and "hm_get (inodes fs) i = Some ind" "unat pos + length s < 2 ^ 63" "unat n + length s < 2 ^ 64"
  shows "\<exists>fs'. copy_stream h pos n ins fs = (Inr (n + of_nat (length s)), fs') \<and> same_env fs fs' \<and>
    (\<forall>l. fs_node fs' l = fs_node fs l) \<and> (fs_wf fs \<longrightarrow> fs_wf fs') \<and>
    hm_get (inodes fs') i = Some (ind\<lparr>content := if s = [] then content ind else splice (unat pos) s (content ind)\<rparr>)"
  using assms
proof (induction ins arbitrary: pos n fs ind s)
  case (Cons x ins)
  then obtain c where x: "x = Inr c" by (cases x) auto
  show ?case
  proof (cases "c = []")
    case True
    with Cons.prems x show ?thesis by auto
  next
    case False
    with Cons.prems(1) x obtain t where t: "stream_bytes ins = Some t" "s = c @ t" by auto
    let ?fs = "put_content i (splice (unat pos) c (content ind)) fs"
    have p: "unat (pos + of_nat (length c)) = unat pos + length c"
      using Cons.prems(7) t(2) by (simp add: unat_word_ariths unat_of_nat)
    have m: "unat (n + of_nat (length c)) = unat n + length c"
      using Cons.prems(8) t(2) by (simp add: unat_word_ariths unat_of_nat)
    have w: "fs_write_at h pos c fs = (Inr (), ?fs)"
      by (rule write_at_content) (use Cons.prems False t in auto)
    have env: "same_env fs ?fs" by simp
    have ino: "hm_get (inodes ?fs) i = Some (ind\<lparr>content := splice (unat pos) c (content ind)\<rparr>)"
      using Cons.prems(6) by (simp add: inodes_put)
    from Cons.IH [OF t(1) _ Cons.prems(3-5) ino, of "pos + of_nat (length c)" "n + of_nat (length c)"]
      Cons.prems(2,7,8) p m t(2) no_faults_env [OF env]
    obtain fs' where fs': "copy_stream h (pos + of_nat (length c)) (n + of_nat (length c)) ins ?fs =
        (Inr (n + of_nat (length c) + of_nat (length t)), fs')" "same_env ?fs fs'"
      "\<forall>l. fs_node fs' l = fs_node ?fs l" "fs_wf ?fs \<longrightarrow> fs_wf fs'"
      "hm_get (inodes fs') i = Some (ind\<lparr>content := if t = [] then splice (unat pos) c (content ind)
         else splice (unat pos + length c) t (splice (unat pos) c (content ind))\<rparr>)" by auto
    have "same_env fs fs'" using same_env_trans [OF env fs'(2)] .
    with fs' w x False t show ?thesis
      by (auto simp: fs_node_put fs_wf_put splice_append add.assoc)
  qed
qed auto

lemma open_new_file:
  assumes "fs_wf fs" "no_faults fs" "dirs_to fs d" "file_slot fs (d @ [n])"
  obtains h i ind fs1 where "fs_open opts_write_new (dir_path (d @ [n])) fs = (Inr h, fs1)"
    "fh_ino h = Some i" "fh_write h" "\<not> fh_append h" "fs_node fs1 (d @ [n]) = Some (NFile i)"
    "hm_get (inodes fs1) i = Some ind" "content ind = []" "same_env fs fs1" "fs_wf fs1"
    "\<forall>l. l \<noteq> d @ [n] \<longrightarrow> fs_node fs1 l = fs_node fs l"
proof (cases "fs_node fs (d @ [n])")
  case None
  then have "fs_open opts_write_new (dir_path (d @ [n])) fs =
      (Inr (new_handle (Some (next_ino fs)) (dir_path (d @ [n])) opts_write_new), create_file (d @ [n]) fs)"
    using assms parent_ok_child [OF assms(3)]
    by (simp add: fs_open_def guarded_no_faults locate_child)
  then show ?thesis
    by (rule that [where i = "next_ino fs" and ind = "\<lparr>content = [], iattr = new_attr fs\<rparr>"])
      (use assms in \<open>simp_all add: new_handle_def fs_node_create inodes_create fs_wf_create\<close>)
next
  case (Some nd)
  then obtain i where i: "nd = NFile i"
    using assms(4) by (auto simp: file_slot_def split: node.splits)
  with Some fs_wf_file [OF assms(1)] obtain ind where ind: "hm_get (inodes fs) i = Some ind" by blast
  have "fs_open opts_write_new (dir_path (d @ [n])) fs =
      (Inr (new_handle (Some i) (dir_path (d @ [n])) opts_write_new), put_content i [] fs)"
    using Some i assms by (simp add: fs_open_def guarded_no_faults locate_child)
  then show ?thesis
    by (rule that [where i = i and ind = "ind\<lparr>content := []\<rparr>"])
      (use assms Some i ind in \<open>simp_all add: new_handle_def fs_node_put inodes_put fs_wf_put\<close>)
qed

lemma put_opts_new: "put_opts 0 = opts_write_new"
  by (simp add: put_opts_def opts_write_new_def)

lemma put_file_ok:
  assumes "fs_wf (fdisk s)" "no_faults (fdisk s)" "dirs_to (fdisk s) d" "file_slot (fdisk s) (d @ [n])"
    and "froot s = Some root" "stream_bytes ins = Some t" "length t < 2 ^ 63"
  obtains s' i ind where "put_file ev cx (dir_path (d @ [n])) ins 0 s = (Inr (of_nat (length t)), s')"
    "no_faults (fdisk s')" "fs_wf (fdisk s')" "froot s' = Some root"
    "fs_node (fdisk s') (d @ [n]) = Some (NFile i)" "hm_get (inodes (fdisk s')) i = Some ind" "content ind = t"
    "\<forall>l. l \<noteq> d @ [n] \<longrightarrow> fs_node (fdisk s') l = fs_node (fdisk s) l"
proof (rule open_new_file [OF assms(1-4)])
  fix h i ind fs1
  assume o: "fs_open opts_write_new (dir_path (d @ [n])) (fdisk s) = (Inr h, fs1)"
    and h: "fh_ino h = Some i" "fh_write h" "\<not> fh_append h"
    and n: "fs_node fs1 (d @ [n]) = Some (NFile i)" "hm_get (inodes fs1) i = Some ind" "content ind = []"
    and env: "same_env (fdisk s) fs1" and wf: "fs_wf fs1"
    and others: "\<forall>l. l \<noteq> d @ [n] \<longrightarrow> fs_node fs1 l = fs_node (fdisk s) l"
  have nf: "no_faults fs1" using no_faults_env [OF env] assms(2) by simp
  have "unat (0 :: u64) + length t < 2 ^ 63" "unat (0 :: u64) + length t < 2 ^ 64"
    using assms(7) by simp_all
  from copy_stream_content [OF assms(6) nf h n(2) this] obtain fs3 where
    c: "copy_stream h 0 0 ins fs1 = (Inr (of_nat (length t)), fs3)" "same_env fs1 fs3"
    "\<forall>l. fs_node fs3 l = fs_node fs1 l" "fs_wf fs1 \<longrightarrow> fs_wf fs3"
    "hm_get (inodes fs3) i = Some (ind\<lparr>content := if t = [] then content ind else splice 0 t (content ind)\<rparr>)"
    by auto
  have nf3: "no_faults fs3" using no_faults_env [OF c(2)] nf by simp
  have put: "put_file ev cx (dir_path (d @ [n])) ins 0 s = (Inr (of_nat (length t)),
      ftp_audit ev (cx_username cx) ''UPLOAD'' (dir_path (d @ [n])) (of_nat (length t)) True msg_upload_ok
        (s\<lparr>fdisk := fs3, fquota := quota_invalidate (utf8_lossy (path_string root)) (fquota s)\<rparr>))"
    using assms(5) nf3 c(1) o
    by (simp add: put_file_def path_parent_dir create_dir_all_ok [OF assms(3,2)] put_opts_new guarded_no_faults
        drop_usage_def current_root_def)
  let ?ind = "ind\<lparr>content := t\<rparr>"
  have "hm_get (inodes fs3) i = Some ?ind" using c(5) n(3) by (cases "t = []") (simp_all add: splice_zero)
  then show thesis
    by (intro that [OF put, where i = i and ind = ?ind]) (use nf3 wf c n others assms(5) in \<open>simp_all add: splice_zero\<close>)
qed

section \<open>Properties\<close>

text \<open>FTP path resolution is a chroot.  Whatever path the client gives, it resolves below the
  session root through names of the path only, or is refused; and an absolute path of names
  resolves to those names below the root.\<close>

theorem ftp_resolve_confined:
  "(case ftp_resolve (Some (dir_path r)) p of
      Inl e \<Rightarrow> e = FileNameNotAllowed
    | Inr q \<Rightarrow> \<exists>ns. q = dir_path (r @ ns) \<and> set ns \<subseteq> {n. Normal n \<in> set p}) \<and>
    ftp_resolve (Some (dir_path r)) (dir_path ns) = Inr (dir_path (r @ ns))"
proof -
  let ?rest = "unwrap_or p (strip_prefix p [RootDir])"
  have rest: "{n. Normal n \<in> set ?rest} \<subseteq> {n. Normal n \<in> set p}"
    by (auto simp: strip_prefix_def dest: in_set_dropD)
  have "\<exists>ns. q = dir_path (r @ ns) \<and> set ns \<subseteq> {n. Normal n \<in> set p}"
    if "lexical_walk FileNameNotAllowed (dir_path r) (dir_path r) ?rest = Inr q" for q
    using lexical_walk_inside [of FileNameNotAllowed "dir_path r" "[]" ?rest q] that rest
    by (fastforce simp: dir_path_append)
  moreover note lexical_walk_err
  ultimately show ?thesis
    by (auto simp: ftp_resolve_names) (auto simp: ftp_resolve_def split: sum.split)
qed

text \<open>Claim C2: an FTP session never leaves its home.  When the home is a directory without symbolic links,
  any sequence of requests of any users leaves every location outside the home as it was, and creates
  no symbolic link, so the home stays safe for the requests that follow.\<close>

theorem ftp_session_confined:
  assumes "froot s = Some (dir_path r)" "root_ok (fdisk s) r"
  shows "stays_in r (fdisk s) (fdisk (foldl (\<lambda>s x. ftp_step x s) s xs)) \<and>
    root_ok (fdisk (foldl (\<lambda>s x. ftp_step x s) s xs)) r"
proof -
  have "ftp_rooted r s" using assms(1) by (simp add: ftp_rooted_def)
  moreover have "list_all (\<lambda>_. True) xs" by (simp add: list_all_iff)
  ultimately have "stays_in r (fdisk s) (fdisk (foldl (\<lambda>s x. ftp_step x s) s xs))"
    using ftp_session.run_stays assms(2) by blast
  with stays_in_root_ok [OF assms(2)] show ?thesis by blast
qed

definition demo_store :: ftp_store where
  "demo_store = \<lparr>fdisk = demo_fs, froot = Some (dir_path demo_home), flog = file_logger_new, fquota = []\<rparr>"

definition demo_ftp_user :: session_user where
  "demo_ftp_user = Wftpd (wftpd_user_new ''al'' (dir_path demo_home) permissions_full)"

definition demo_ftp_env :: ftp_env where
  "demo_ftp_env = \<lparr>fe_now = ''t'', fe_log_free = True, fe_show_io = (\<lambda>_. []), fe_fuel = 4\<rparr>"

theorem ftp_session_confined_witness:
  "fs_view (fdisk (foldl (\<lambda>s x. ftp_step x s) demo_store
      [(demo_ftp_env, demo_ftp_user, FRename (dir_path [''f'']) [RootDir, ParentDir, Normal ''etc'']),
       (demo_ftp_env, demo_ftp_user, FRmd [RootDir])])) [''etc'', ''secret''] =
    fs_view demo_fs [''etc'', ''secret'']"
  using ftp_session_confined [of demo_store demo_home]
  by (simp add: demo_store_def stays_in_def same_outside_def del: foldl.simps)

text \<open>The permission a request needs; an entry into a directory and a query of metadata need none.\<close>

fun ftp_needs :: "ftp_op \<Rightarrow> (permissions \<Rightarrow> bool) option" where
  "ftp_needs (FMetadata _) = None"
| "ftp_needs (FList _) = Some can_list"
| "ftp_needs (FGet _ _) = Some can_read"
| "ftp_needs (FPut _ _ _) = Some can_write"
| "ftp_needs (FDel _) = Some can_delete"
| "ftp_needs (FMkd _) = Some can_mkdir"
| "ftp_needs (FRename _ _) = Some can_rename"
| "ftp_needs (FRmd _) = Some can_rmdir"
| "ftp_needs (FCwd _) = None"

text \<open>The reply of a request, as its success or its error.\<close>

fun ftp_reply :: "ftp_env \<times> session_user \<times> ftp_op \<Rightarrow> ftp_store \<Rightarrow> (error_kind + unit) option" where
  "ftp_reply (ev, u, FMetadata p) s = Some (map_sum id (\<lambda>_. ()) (ftp_metadata p s))"
| "ftp_reply (ev, u, FList p) s = Some (map_sum id (\<lambda>_. ()) (ftp_list u p s))"
| "ftp_reply (ev, u, FGet p start) s = Some (map_sum id (\<lambda>_. ()) (fst (ftp_get ev u p start s)))"
| "ftp_reply (ev, u, FPut ins p start) s = map_option (map_sum id (\<lambda>_. ()) \<circ> fst) (ftp_put ev u ins p start s)"
| "ftp_reply (ev, u, FDel p) s = Some (fst (ftp_del ev u p s))"
| "ftp_reply (ev, u, FMkd p) s = Some (fst (ftp_mkd ev u p s))"
| "ftp_reply (ev, u, FRename a b) s = Some (fst (ftp_rename ev u a b s))"
| "ftp_reply (ev, u, FRmd p) s = Some (fst (ftp_rmd ev u p s))"
| "ftp_reply (ev, u, FCwd p) s = Some (ftp_cwd p s)"

text \<open>a request whose permission the user does not have is refused with \<open>PermissionDenied\<close> and
  changes nothing: not the disk, the root, the audit log or the quota cache.\<close>

theorem ftp_denied_no_effect:
  assumes "ftp_needs op = Some may" "\<not> may (wu_permissions w)"
  shows "ftp_step (ev, Wftpd w, op) s = s \<and> ftp_reply (ev, Wftpd w, op) s = Some (Inl PermissionDenied)"
  using assms
  by (cases op) (auto simp: ftp_list_def ftp_get_def ftp_put_def ftp_del_def ftp_mkd_def ftp_rmd_def
      ftp_simple_def ftp_rename_def ftp_guard_def ftp_require_def)

theorem ftp_denied_no_effect_witness:
  "ftp_step (demo_ftp_env, Wftpd (wftpd_user_new ''al'' (dir_path demo_home) permissions_default),
     FDel (dir_path [''f''])) demo_store = demo_store"
  using ftp_denied_no_effect [of "FDel (dir_path [''f''])" can_delete
      "wftpd_user_new ''al'' (dir_path demo_home) permissions_default"]
  by (simp add: wftpd_user_new_def permissions_default_def)





end
