(* ===== verification/FtpAuth.thy ===== *)
theory FtpAuth
  imports Config FtpSession
begin

text \<open>
  \<open>ftp/src/auth.rs\<close> and the configuration part of \<open>ftp/src/server.rs\<close>: the authenticator and the
  user-detail provider libunftp calls, and the options the server is built with.  A source address is
  its printed text, which is what the filter looks at.
\<close>

section \<open>Authentication\<close>

record detail_provider =
  dp_anonymous_home :: "path option"

definition detail_provider_new :: "config \<Rightarrow> detail_provider" where
  "detail_provider_new c = \<lparr>dp_anonymous_home = map_option path_of (anonymous_home (ftp c))\<rparr>"

datatype detail_error = DetailGeneric string | DetailUserNotFound string

definition provide_user_detail ::
  "detail_provider \<Rightarrow> user_manager \<Rightarrow> string \<Rightarrow> detail_error + wftpd_user" where
  "provide_user_detail dp m name =
     (if name = ''anonymous'' \<or> name = ''ftp'' then
        (case dp_anonymous_home dp of
           None \<Rightarrow> Inl (DetailGeneric ''anonymous home not configured'')
         | Some home \<Rightarrow> Inr (wftpd_user_anonymous home))
      else (case get_user m name of
         Some u \<Rightarrow>
           if \<not> u_enabled u then Inl (DetailGeneric (''account '' @ [CHR 0x27] @ name @ [CHR 0x27] @ '' is disabled''))
           else Inr (wftpd_user_new name (path_of (u_home_dir u)) (u_permissions u))
       | None \<Rightarrow> Inl (DetailUserNotFound name)))"

record authenticator =
  au_allow_anonymous :: bool
  au_allowed_ips :: "string list"
  au_denied_ips :: "string list"

definition authenticator_new :: "config \<Rightarrow> authenticator" where
  "authenticator_new c =
     \<lparr>au_allow_anonymous = allow_anonymous (ftp c), au_allowed_ips = allowed_ips (security c),
      au_denied_ips = denied_ips (security c)\<rparr>"

definition ftp_ip_allowed :: "ipnet \<Rightarrow> authenticator \<Rightarrow> string \<Rightarrow> bool" where
  "ftp_ip_allowed nt au ip = is_ip_allowed_for nt (au_allowed_ips au) (au_denied_ips au) ip"

record credentials =
  cr_password :: "string option"
  cr_source_ip :: string

datatype auth_error = IpDisallowed | BadUser | BadPassword

text \<open>The third-party code and the environment of a login; the result is \<open>None\<close> when reloading the
  user database panics.\<close>

record login_env =
  le_argon :: argon
  le_json :: "user_manager codec"
  le_ipnet :: ipnet
  le_process :: process
  le_now :: nat
  le_error_log :: bool

definition ftp_authenticate ::
  "login_env \<Rightarrow> authenticator \<Rightarrow> string \<Rightarrow> credentials \<Rightarrow> user_manager \<Rightarrow> fs \<Rightarrow>
    ((auth_error + string) \<times> user_manager \<times> fs) option" where
  "ftp_authenticate le au name cr m fs =
     (if \<not> ftp_ip_allowed (le_ipnet le) au (cr_source_ip cr) then Some (Inl IpDisallowed, m, fs)
      else if name = ''anonymous'' \<or> name = ''ftp'' then
        Some (if au_allow_anonymous au then Inr ''anonymous'' else Inl BadUser, m, fs)
      else (case cr_password cr of
         None \<Rightarrow> Some (Inl BadPassword, m, fs)
       | Some pw \<Rightarrow>
           (case um_reload (le_json le) (le_error_log le) (users_path (le_process le)) fs m of
              None \<Rightarrow> None
            | Some m1 \<Rightarrow>
                (case um_authenticate (le_argon le) (le_json le) (users_path (le_process le)) (le_now le) name pw m1 fs of
                   (ok, m2, fs2) \<Rightarrow> Some (if ok then Inr name else Inl BadPassword, m2, fs2)))))"

section \<open>The options of the server\<close>

record ftp_start_options =
  so_bind_ip :: string
  so_port :: u16
  so_passive_ports :: "u16 \<times> u16"
  so_masquerade_ip :: "string option"
  so_greeting :: string
  so_idle_timeout :: u64
  so_require_ssl :: bool
  so_cert_path :: "string option"
  so_key_path :: "string option"
  so_max_login_attempts :: u32
  so_ban_duration :: u64

definition lock_start_options :: "config \<Rightarrow> ftp_start_options" where
  "lock_start_options c =
     \<lparr>so_bind_ip = ftp_bind_ip (ftp c), so_port = ftp_port (ftp c), so_passive_ports = passive_ports (ftp c),
      so_masquerade_ip = masquerade_ip (ftp c), so_greeting = welcome_message (ftp c),
      so_idle_timeout = idle_timeout (security c), so_require_ssl = require_ssl (security c),
      so_cert_path = cert_path (security c), so_key_path = key_path (security c),
      so_max_login_attempts = max_login_attempts (security c), so_ban_duration = ban_duration (security c)\<rparr>"

record ftp_builder =
  fb_authenticator :: authenticator
  fb_provider :: detail_provider
  fb_greeting :: string
  fb_passive_ports :: "u16 \<times> u16"
  fb_idle_timeout :: u64
  fb_passive_host :: "nat list option"
  fb_ftps :: "(path \<times> path \<times> bool) option"
  fb_failed_logins :: "u32 \<times> u64"

definition build_server_builder :: "fs \<Rightarrow> config \<Rightarrow> ftp_start_options \<Rightarrow> ftp_builder" where
  "build_server_builder fs c so =
     \<lparr>fb_authenticator = authenticator_new c, fb_provider = detail_provider_new c,
      fb_greeting = so_greeting so, fb_passive_ports = so_passive_ports so,
      fb_idle_timeout = so_idle_timeout so,
      fb_passive_host = Option.bind (so_masquerade_ip so) parse_ipv4,
      fb_ftps =
        (case (so_cert_path so, so_key_path so) of
           (Some ct, Some ky) \<Rightarrow>
             if fs_exists fs (path_of ct) \<and> fs_exists fs (path_of ky)
             then Some (path_of ct, path_of ky, so_require_ssl so) else None
         | _ \<Rightarrow> None),
      fb_failed_logins = (so_max_login_attempts so, so_ban_duration so)\<rparr>"

section \<open>Properties\<close>

text \<open>Claim C9: who can log in over FTP.  A login succeeds exactly when the filter lets the source address
  through and either the anonymous names are used and anonymous access is on, or the password given is
  that of an enabled account of the database as reloaded from disk; the principal is then
  \<open>anonymous\<close> or the name itself.\<close>

theorem ftp_login_decision:
  assumes "um_reload (le_json le) (le_error_log le) (users_path (le_process le)) fs m = Some m1"
  shows "\<exists>r m' fs'. ftp_authenticate le au name cr m fs = Some (r, m', fs') \<and>
    (is_ok r \<longleftrightarrow>
       is_ip_allowed_for (le_ipnet le) (au_allowed_ips au) (au_denied_ips au) (cr_source_ip cr) \<and>
       (if name = ''anonymous'' \<or> name = ''ftp'' then au_allow_anonymous au
        else \<exists>pw u. cr_password cr = Some pw \<and> get_user m1 name = Some u \<and> u_enabled u \<and>
               verify_password (le_argon le) pw (u_password_hash u))) \<and>
    (case r of Inl _ \<Rightarrow> fs' = fs
     | Inr who \<Rightarrow> who = (if name = ''anonymous'' \<or> name = ''ftp'' then ''anonymous'' else name))"
proof (cases "cr_password cr")
  case None
  with assms show ?thesis by (auto simp: ftp_authenticate_def ftp_ip_allowed_def)
next
  case (Some pw)
  obtain ok m2 fs2 where a: "um_authenticate (le_argon le) (le_json le) (users_path (le_process le))
      (le_now le) name pw m1 fs = (ok, m2, fs2)"
    by (metis prod_cases3)
  have "ok \<longleftrightarrow> (\<exists>u. get_user m1 name = Some u \<and> u_enabled u \<and> verify_password (le_argon le) pw (u_password_hash u))"
    using authenticate_iff [of "le_argon le" "le_json le" "users_path (le_process le)" "le_now le" name pw m1 fs] a
    by simp
  moreover have "\<not> ok \<Longrightarrow> fs2 = fs" using authenticate_refused a by metis
  ultimately show ?thesis
    using assms Some a by (auto simp: ftp_authenticate_def ftp_ip_allowed_def)
qed

definition demo_login :: login_env where
  "demo_login =
     \<lparr>le_argon = demo_argon, le_json = demo_json, le_ipnet = \<lparr>net4 = (\<lambda>_. None), net6 = (\<lambda>_. None)\<rparr>,
      le_process = demo_process, le_now = 9, le_error_log = True\<rparr>"

lemma demo_users_path: "users_path demo_process = dir_path [''cfg'', ''users.json'']"
proof -
  have "path_of ''/cfg'' = [RootDir, Normal ''cfg'']" by (simp add: path_of_def comp_of_def)
  then show ?thesis
    by (simp add: users_path_def config_dir_def override_dir_def set_var_def demo_process_def dir_path_def path_join_name)
qed

lemma demo_reload: "um_reload js b (users_path demo_process) demo_fs m = Some m"
proof -
  have "locate demo_fs True (dir_path ([''cfg''] @ [''users.json''])) = Inr ([''cfg''] @ [''users.json''])"
    by (rule locate_child) simp_all
  moreover have "fs_node demo_fs [''cfg'', ''users.json''] = None" by (simp add: demo_node demo_entries_def)
  ultimately have "\<not> fs_exists demo_fs (users_path demo_process)"
    by (simp add: demo_users_path fs_exists_def fs_metadata_def stat_at_def guarded_def)
  then show ?thesis by (simp add: um_reload_def)
qed

theorem ftp_login_decision_witness:
  "\<exists>m' fs'. ftp_authenticate demo_login \<lparr>au_allow_anonymous = False, au_allowed_ips = [], au_denied_ips = []\<rparr>
     ''al'' \<lparr>cr_password = Some ''pw'', cr_source_ip = ''10.0.0.1''\<rparr> demo_users demo_fs = Some (Inr ''al'', m', fs')"
proof -
  have r: "um_reload (le_json demo_login) (le_error_log demo_login) (users_path (le_process demo_login)) demo_fs demo_users
      = Some demo_users"
    using demo_reload by (simp add: demo_login_def)
  have "get_user demo_users ''al'' = Some demo_user"
    by (simp add: get_user_def demo_users_def hm_get_def)
  moreover have "is_ip_allowed_for nt [] [] ip" for nt ip by (simp add: is_ip_allowed_for_def)
  ultimately have "\<exists>r m' fs'. ftp_authenticate demo_login \<lparr>au_allow_anonymous = False, au_allowed_ips = [], au_denied_ips = []\<rparr>
      ''al'' \<lparr>cr_password = Some ''pw'', cr_source_ip = ''10.0.0.1''\<rparr> demo_users demo_fs = Some (r, m', fs') \<and>
      is_ok r \<and> (case r of Inl _ \<Rightarrow> fs' = demo_fs | Inr who \<Rightarrow> who = (if ''al'' = ''anonymous'' \<or> ''al'' = ''ftp'' then ''anonymous'' else ''al''))"
    using ftp_login_decision [OF r, of "\<lparr>au_allow_anonymous = False, au_allowed_ips = [], au_denied_ips = []\<rparr>" "''al''"
        "\<lparr>cr_password = Some ''pw'', cr_source_ip = ''10.0.0.1''\<rparr>"]
    by (auto simp: demo_user_def verify_password_def demo_login_def demo_argon_def)
  then obtain r m' fs' where a: "ftp_authenticate demo_login \<lparr>au_allow_anonymous = False, au_allowed_ips = [], au_denied_ips = []\<rparr>
      ''al'' \<lparr>cr_password = Some ''pw'', cr_source_ip = ''10.0.0.1''\<rparr> demo_users demo_fs = Some (r, m', fs')"
    and "is_ok r" "case r of Inl _ \<Rightarrow> fs' = demo_fs | Inr who \<Rightarrow> who = (if ''al'' = ''anonymous'' \<or> ''al'' = ''ftp'' then ''anonymous'' else ''al'')"
    by blast
  then have "r = Inr ''al''" by (cases r) simp_all
  with a show ?thesis by blast
qed

text \<open>from login to session.  The principal of a successful login always gets its user details:
  an account gets its own home, permissions and quota, and the principal \<open>anonymous\<close> the
  anonymous home, if one is configured, with all permissions and no quota.\<close>

theorem ftp_login_user_detail:
  assumes "ftp_authenticate le au name cr m fs = Some (Inr who, m', fs')"
  shows "if name = ''anonymous'' \<or> name = ''ftp''
    then provide_user_detail dp m' who =
      (case dp_anonymous_home dp of
         None \<Rightarrow> Inl (DetailGeneric ''anonymous home not configured'')
       | Some home \<Rightarrow> Inr (wftpd_user_anonymous home))
    else \<exists>u. get_user m' name = Some u \<and> u_enabled u \<and> who = name \<and>
      provide_user_detail dp m' who = Inr (wftpd_user_new name (path_of (u_home_dir u)) (u_permissions u))"
proof (cases "name = ''anonymous'' \<or> name = ''ftp''")
  case True
  with assms show ?thesis by (auto simp: ftp_authenticate_def provide_user_detail_def split: if_splits)
next
  case False
  with assms obtain pw m1 where pw: "cr_password cr = Some pw" and who: "who = name"
    and a: "um_authenticate (le_argon le) (le_json le) (users_path (le_process le)) (le_now le) name pw m1 fs = (True, m', fs')"
    by (auto simp: ftp_authenticate_def split: if_splits option.splits prod.splits)
  from a authenticate_iff [of "le_argon le" "le_json le" "users_path (le_process le)" "le_now le" name pw m1 fs]
  obtain u where u: "get_user m1 name = Some u" "u_enabled u" by auto
  with authenticate_stamp [OF a] have "get_user m' name = Some (u\<lparr>u_last_login := Some (le_now le)\<rparr>)" by auto
  with False who u show ?thesis by (simp add: provide_user_detail_def)
qed

theorem ftp_login_user_detail_witness:
  "provide_user_detail \<lparr>dp_anonymous_home = Some []\<rparr> um_new ''anonymous'' = Inr (wftpd_user_anonymous [])"
proof -
  have "ftp_authenticate demo_login \<lparr>au_allow_anonymous = True, au_allowed_ips = [], au_denied_ips = []\<rparr>
     ''ftp'' \<lparr>cr_password = None, cr_source_ip = ''10.0.0.1''\<rparr> um_new demo_fs = Some (Inr ''anonymous'', um_new, demo_fs)"
    by (simp add: ftp_authenticate_def ftp_ip_allowed_def is_ip_allowed_for_def)
  from ftp_login_user_detail [OF this, of "\<lparr>dp_anonymous_home = Some []\<rparr>"] show ?thesis by simp
qed

text \<open>encryption of the server built from a configuration.  TLS is offered exactly when both
  files are configured and exist, and is then mandatory if \<open>require_ssl\<close> is set; without the files the
  server is built in plain text, also under \<open>require_ssl\<close>.\<close>

theorem ftps_needs_both_files:
  "fb_ftps (build_server_builder fs c (lock_start_options c)) =
     (if \<exists>ct ky. cert_path (security c) = Some ct \<and> key_path (security c) = Some ky \<and>
          fs_exists fs (path_of ct) \<and> fs_exists fs (path_of ky)
      then Some (path_of (the (cert_path (security c))), path_of (the (key_path (security c))), require_ssl (security c))
      else None)"
  by (auto simp: build_server_builder_def lock_start_options_def split: option.split)

end
