(* ===== verification/FtpServer.thy ===== *)
theory FtpServer
  imports Service FtpAuth
begin

text \<open>
  \<open>ftp/src/server.rs\<close>: the life cycle of the FTP server, over the tasks of \<open>Runtime\<close>.  An instance holds its
  running flag, the sender of the shutdown channel and the receiver of the closed channel.  Whether \<open>libunftp\<close>
  builds a server from the builder is a parameter; the lock of a flag that panicked is not modelled.
\<close>

record ftp_server =
  fs_flag :: nat
  fs_tx :: "nat option"
  fs_closed :: "nat option"

record ftp_start_env =
  fe_config :: config
  fe_builds :: "ftp_builder \<Rightarrow> bool"

datatype ftp_start_error = FtpBuildError

definition ftp_server_new :: "runtime \<Rightarrow> ftp_server \<times> runtime" where
  "ftp_server_new rt = (case new_flag rt of (i, rt1) \<Rightarrow> (\<lparr>fs_flag = i, fs_tx = None, fs_closed = None\<rparr>, rt1))"

text \<open>Replacing a sender drops the old one.\<close>

definition ftp_start ::
  "ftp_start_env \<Rightarrow> ftp_server \<Rightarrow> runtime \<Rightarrow> (ftp_start_error + unit) \<times> ftp_server \<times> runtime" where
  "ftp_start e s rt =
     (if flag_set rt (fs_flag s) then (Inr (), s, rt)
      else
        (let opts = lock_start_options (fe_config e);
             builder = build_server_builder (rt_disk rt) (fe_config e) opts;
             (t, rt1) = new_channels rt;
             rt2 = tell (fs_tx s) rt1;
             s1 = s\<lparr>fs_tx := Some t, fs_closed := Some t\<rparr>
         in if \<not> fe_builds e builder then (Inl FtpBuildError, s1, rt2)
            else (Inr (), s1, spawn_listener t (so_bind_ip opts @ '':'' @ show_dec (unat (so_port opts))) (fs_flag s)
                    (set_flag (fs_flag s) True rt2))))"

definition ftp_stop_begin :: "ftp_server \<Rightarrow> runtime \<Rightarrow> nat option \<times> ftp_server \<times> runtime" where
  "ftp_stop_begin s rt = (fs_closed s, s\<lparr>fs_tx := None, fs_closed := None\<rparr>, tell (fs_tx s) rt)"

definition ftp_stop_end :: "ftp_server \<Rightarrow> runtime \<Rightarrow> runtime" where
  "ftp_stop_end s rt = set_flag (fs_flag s) False rt"

definition ftp_is_running :: "ftp_server \<Rightarrow> runtime \<Rightarrow> bool" where
  "ftp_is_running s rt = flag_set rt (fs_flag s)"

text \<open>The listener task does not hold the sender, so dropping the instance drops it.\<close>

definition ftp_drop :: "ftp_server \<Rightarrow> runtime \<Rightarrow> runtime" where
  "ftp_drop s rt = tell (fs_tx s) rt"

definition ftp_service :: "(ftp_start_env, ftp_server, ftp_start_error) service" where
  "ftp_service =
     \<lparr>sv_new = ftp_server_new, sv_start = ftp_start, sv_stop_begin = ftp_stop_begin, sv_stop_end = ftp_stop_end,
      sv_running = ftp_is_running, sv_drop = ftp_drop\<rparr>"

lemma ftp_service_ops [simp]:
  "sv_new ftp_service = ftp_server_new" "sv_start ftp_service = ftp_start" "sv_stop_begin ftp_service = ftp_stop_begin"
  "sv_stop_end ftp_service = ftp_stop_end" "sv_running ftp_service = ftp_is_running" "sv_drop ftp_service = ftp_drop"
  by (simp_all add: ftp_service_def)

lemma ftp_start_launched:
  assumes s: "ftp_start e s rt = (Inr u, s1, rt1)" and tx: "fs_tx s = None" and fl: "\<not> flag_set rt (fs_flag s)"
    and ok: "rt_ok rt" and i: "fs_flag s < next_flag rt"
    and fresh: "\<forall>t k. hm_get (tasks rt) t = Some k \<longrightarrow> tk_flag k \<noteq> fs_flag s"
  shows "fs_flag s1 = fs_flag s \<and> rt_ok rt1 \<and> flag_set rt1 (fs_flag s) \<and> next_flag rt1 = next_flag rt \<and>
      (\<forall>i. i \<noteq> fs_flag s \<longrightarrow> flag_set rt1 i = flag_set rt i) \<and>
      (\<exists>t a. fs_tx s1 = Some t \<and> hm_get (tasks rt) t = None \<and>
         (\<forall>u. hm_get (tasks rt1) u = (if u = t then Some (fresh_task a (fs_flag s)) else hm_get (tasks rt) u)))"
proof -
  obtain a where s1: "s1 = s\<lparr>fs_tx := Some (next_task rt), fs_closed := Some (next_task rt)\<rparr>"
    and rt1: "rt1 = spawn_listener (next_task rt) a (fs_flag s) (set_flag (fs_flag s) True (rt\<lparr>next_task := Suc (next_task rt)\<rparr>))"
    using s tx fl by (auto simp: ftp_start_def new_channels_def tell_def Let_def split: if_splits)
  have "hm_get (tasks rt) (next_task rt) = None" using rt_okD(1) [OF ok, of "next_task rt"] by fastforce
  moreover have "rt_ok rt1" unfolding rt1 by (rule spawn_ok [OF ok i fresh])
  ultimately show ?thesis using s1 rt1
    by (auto simp: spawn_listener_def fresh_task_def)
qed

interpretation ftp_slot: dropping_service ftp_service fs_tx fs_flag
proof
  fix rt rt1 :: runtime and s s1 :: ftp_server and e x
  assume "sv_start ftp_service e s rt = (Inl x, s1, rt1)" "fs_tx s = None" "\<not> flag_set rt (fs_flag s)" "rt_ok rt"
  then show "rt_ok rt1 \<and> tasks rt1 = tasks rt \<and> next_flag rt1 = next_flag rt \<and> (\<forall>i. flag_set rt1 i = flag_set rt i) \<and>
      (\<forall>t. fs_tx s1 = Some t \<longrightarrow> hm_get (tasks rt) t = None)"
    using channels_ok [of rt] rt_okD(1) [of rt "next_task rt"]
    by (auto simp: ftp_start_def new_channels_def tell_def Let_def split: if_splits) fastforce
qed (use ftp_start_launched in \<open>auto simp: ftp_server_new_def ftp_stop_begin_def ftp_stop_end_def ftp_is_running_def ftp_drop_def
      split: prod.splits\<close>)


section \<open>Every listener can be stopped\<close>

text \<open>Claim C10: the FTP slot under overlapping calls.  However starts and stops of the FTP service interleave with
  each other and with the listener tasks, a task that serves and was not told to stop is that of an instance that
  is in the slot or about to be stored there, so that with an empty slot and no call under way nothing serves; and
  an instance that is reported as running has a task that has not ended.\<close>

theorem ftp_listeners_attended:
  assumes "slot_steps ftp_service (slot_idle disk) st"
  shows "attended fs_tx st \<and>
    (ss_slot st = None \<longrightarrow> ss_calls st = [] \<longrightarrow> (\<forall>t. \<not> serving (ss_rt st) t)) \<and>
    (\<forall>s. ftp_is_running s (ss_rt st) \<longrightarrow>
       (\<exists>t k. hm_get (tasks (ss_rt st)) t = Some k \<and> tk_flag k = fs_flag s \<and> tk_phase k \<noteq> Closed))"
proof -
  have i: "attended fs_tx (slot_idle disk)" by (simp add: attended_def serving_def rt_start_def)
  have r: "rt_ok (ss_rt (slot_idle disk))" by simp
  from ftp_slot.attended_steps [OF assms r i] have a: "attended fs_tx st" ..
  moreover have "\<not> holds st s" if "ss_slot st = None" "ss_calls st = []" for s using that by (simp add: holds_def)
  moreover have "\<exists>t k. hm_get (tasks (ss_rt st)) t = Some k \<and> tk_flag k = fs_flag s \<and> tk_phase k \<noteq> Closed"
    if "ftp_is_running s (ss_rt st)" for s
    using ftp_slot.running_has_task [OF assms, of s] that by simp
  ultimately show ?thesis unfolding attended_def by blast
qed

definition demo_ftp_start :: ftp_start_env where
  "demo_ftp_start = \<lparr>fe_config = config_default demo_process, fe_builds = (\<lambda>_. True)\<rparr>"

theorem ftp_listeners_attended_witness:
  "\<exists>st t. slot_steps ftp_service (slot_idle demo_fs) st \<and> ss_slot st \<noteq> None \<and> serving (ss_rt st) t \<and> attended fs_tx st"
proof -
  let ?rt = "rt_start demo_fs"
  obtain s rt where n: "ftp_server_new ?rt = (s, rt)" by (cases "ftp_server_new ?rt")
  note ready = ftp_slot.new_ready [of ?rt s rt, simplified, OF n]
  then have "\<not> flag_set rt (fs_flag s)" by blast
  then obtain s1 rt1 where l: "ftp_start demo_ftp_start s rt = (Inr (), s1, rt1)"
    by (simp add: ftp_start_def demo_ftp_start_def new_channels_def Let_def)
  obtain t where t: "fs_tx s1 = Some t" "\<And>v. serving rt1 v \<longleftrightarrow> v = t \<or> serving ?rt v"
    using ftp_slot.launch_tasks [of ?rt s rt demo_ftp_start "()" s1 rt1, simplified, OF n l] by metis
  let ?a = "(slot_idle demo_fs)\<lparr>ss_calls := hm_insert 0 StartChecked (ss_calls (slot_idle demo_fs))\<rparr>"
  let ?b = "?a\<lparr>ss_rt := rt1, ss_calls := hm_insert 0 (StartLaunched s1) (ss_calls ?a)\<rparr>"
  let ?c = "?b\<lparr>ss_rt := drop_old ftp_service (ss_slot ?b) (ss_rt ?b), ss_slot := Some s1, ss_calls := hm_remove 0 (ss_calls ?b)\<rparr>"
  have "slot_step ftp_service (slot_idle demo_fs) ?a" by (rule slot_step.start_check) simp_all
  moreover have "slot_step ftp_service ?a ?b"
    by (rule slot_step.start_launch [where s = s and rt = rt and e = demo_ftp_start and u = "()"]) (simp_all add: n l)
  moreover have "slot_step ftp_service ?b ?c" by (rule slot_step.start_store) simp
  ultimately have run: "slot_steps ftp_service (slot_idle demo_fs) ?c" by (meson rtranclp.rtrancl_refl rtranclp.rtrancl_into_rtrancl)
  moreover have "serving (ss_rt ?c) t" using t by (simp add: drop_old_def)
  ultimately show ?thesis using ftp_listeners_attended [OF run] by (intro exI [of _ ?c] exI [of _ t]) simp
qed

end
