(* ===== verification/LoginTracker.thy ===== *)
theory LoginTracker
  imports Prelude
begin

text \<open>
  \<open>common/src/server/login_tracker.rs\<close>: failed logins per address and the ban that follows them.
  Times are nanoseconds on the monotonic clock; an operation that reads the clock takes the
  readings as arguments, in the order the code takes them.  Every operation holds the mutex for its
  whole body, so concurrent callers are a sequence of operations.
\<close>

type_synonym instant = nat

record login_attempt =
  count :: u32
  first_attempt :: instant
  banned_until :: "instant option"

record login_tracker =
  attempts :: "(string, login_attempt) hmap"
  max_attempts :: u32
  ban_secs :: u64

definition tracker_new :: "u32 \<Rightarrow> u64 \<Rightarrow> login_tracker" where
  "tracker_new n secs = \<lparr>attempts = [], max_attempts = n, ban_secs = secs\<rparr>"

definition ns_per_sec :: nat where
  "ns_per_sec = 10 ^ 9"

text \<open>\<open>Instant + Duration\<close> panics past the last second of an \<open>i64\<close>.\<close>

definition instant_add :: "instant \<Rightarrow> nat \<Rightarrow> instant option" where
  "instant_add t d = (if t + d < 2 ^ 63 * ns_per_sec then Some (t + d) else None)"

definition put_attempt :: "string \<Rightarrow> login_attempt \<Rightarrow> login_tracker \<Rightarrow> login_tracker" where
  "put_attempt ip a t = t\<lparr>attempts := hm_insert ip a (attempts t)\<rparr>"

text \<open>The count of an entry whose ban is over starts again at zero.\<close>

definition lift_ban :: "login_attempt \<Rightarrow> login_attempt" where
  "lift_ban a = a\<lparr>banned_until := None, count := 0\<rparr>"

definition ban_active :: "instant \<Rightarrow> login_attempt \<Rightarrow> bool" where
  "ban_active now a = (case banned_until a of Some u \<Rightarrow> now < u | None \<Rightarrow> False)"

text \<open>The increment of a failure; \<open>None\<close> is the panic of an instant past its range.\<close>

definition count_failure ::
  "string \<Rightarrow> instant \<Rightarrow> login_attempt \<Rightarrow> login_tracker \<Rightarrow> (bool \<times> login_tracker) option" where
  "count_failure ip later a t =
     (let a1 = a\<lparr>count := count a + 1\<rparr> in
      if max_attempts t \<le> count a1 then
        (case instant_add later (unat (ban_secs t) * ns_per_sec) of
           None \<Rightarrow> None
         | Some u \<Rightarrow> Some (False, put_attempt ip (a1\<lparr>banned_until := Some u\<rparr>) t))
      else Some (True, put_attempt ip a1 t))"

definition check_and_record_failure ::
  "string \<Rightarrow> instant \<Rightarrow> instant \<Rightarrow> login_tracker \<Rightarrow> (bool \<times> login_tracker) option" where
  "check_and_record_failure ip now later t =
     (case hm_get (attempts t) ip of
        None \<Rightarrow>
          Some (True, put_attempt ip \<lparr>count = 1, first_attempt = now, banned_until = None\<rparr> t)
      | Some a \<Rightarrow>
          if ban_active now a then Some (False, t)
          else count_failure ip later (if banned_until a = None then a else lift_ban a) t)"

definition is_banned :: "string \<Rightarrow> instant \<Rightarrow> login_tracker \<Rightarrow> bool \<times> login_tracker" where
  "is_banned ip now t =
     (case hm_get (attempts t) ip of
        None \<Rightarrow> (False, t)
      | Some a \<Rightarrow>
          if banned_until a = None then (False, t)
          else if ban_active now a then (True, t)
          else (False, put_attempt ip (lift_ban a) t))"

definition clear_attempts :: "string \<Rightarrow> login_tracker \<Rightarrow> login_tracker" where
  "clear_attempts ip t = t\<lparr>attempts := hm_remove ip (attempts t)\<rparr>"

definition get_remaining_attempts :: "string \<Rightarrow> login_tracker \<Rightarrow> u32" where
  "get_remaining_attempts ip t =
     (case hm_get (attempts t) ip of
        None \<Rightarrow> max_attempts t
      | Some a \<Rightarrow>
          if banned_until a \<noteq> None then 0 else sat_sub (max_attempts t) (count a))"

definition keeps_attempt :: "instant \<Rightarrow> login_attempt \<Rightarrow> bool" where
  "keeps_attempt now a =
     (case banned_until a of
        Some u \<Rightarrow> now < u
      | None \<Rightarrow> now - first_attempt a < 3600 * ns_per_sec)"

definition cleanup_expired :: "instant \<Rightarrow> login_tracker \<Rightarrow> login_tracker" where
  "cleanup_expired now t = t\<lparr>attempts := filter (\<lambda>(_, a). keeps_attempt now a) (attempts t)\<rparr>"

section \<open>Sequences of operations\<close>

datatype tracker_op =
    Fail string instant instant
  | Query string instant
  | Clear string
  | Cleanup instant

fun tracker_step :: "tracker_op \<Rightarrow> login_tracker \<Rightarrow> login_tracker option" where
  "tracker_step (Fail ip now later) t = map_option snd (check_and_record_failure ip now later t)"
| "tracker_step (Query ip now) t = Some (snd (is_banned ip now t))"
| "tracker_step (Clear ip) t = Some (clear_attempts ip t)"
| "tracker_step (Cleanup now) t = Some (cleanup_expired now t)"

fun tracker_run :: "tracker_op list \<Rightarrow> login_tracker \<Rightarrow> login_tracker option" where
  "tracker_run [] t = Some t"
| "tracker_run (op # ops) t = Option.bind (tracker_step op t) (tracker_run ops)"

fun op_time :: "tracker_op \<Rightarrow> instant" where
  "op_time (Fail _ now _) = now"
| "op_time (Query _ now) = now"
| "op_time (Clear _) = 0"
| "op_time (Cleanup now) = now"

fun op_clears :: "string \<Rightarrow> tracker_op \<Rightarrow> bool" where
  "op_clears ip (Clear ip') = (ip = ip')"
| "op_clears ip _ = False"

lemma hm_get_filter:
  "hm_ok m \<Longrightarrow> hm_get (filter (\<lambda>(_, v). P v) m) k = opt_filter P (hm_get m k)"
  by (induction m) (auto simp: hm_get_def hm_ok_def map_of_eq_None_iff split: option.splits)

lemma attempts_put [simp]:
  "hm_get (attempts (put_attempt ip a t)) ip' = (if ip' = ip then Some a else hm_get (attempts t) ip')"
  "max_attempts (put_attempt ip a t) = max_attempts t" "ban_secs (put_attempt ip a t) = ban_secs t"
  by (simp_all add: put_attempt_def)

lemma attempts_clear [simp]:
  "hm_get (attempts (clear_attempts ip t)) ip' = (if ip' = ip then None else hm_get (attempts t) ip')"
  by (simp add: clear_attempts_def)

definition tracker_ok :: "login_tracker \<Rightarrow> bool" where
  "tracker_ok t \<longleftrightarrow> hm_ok (attempts t)"

lemma tracker_ok_put [intro]: "tracker_ok t \<Longrightarrow> tracker_ok (put_attempt ip a t)"
  by (simp add: tracker_ok_def put_attempt_def hm_ok_insert)

lemma tracker_ok_step: "tracker_ok t \<Longrightarrow> tracker_step op t = Some t' \<Longrightarrow> tracker_ok t'"
  by (cases op)
    (auto simp: check_and_record_failure_def count_failure_def is_banned_def Let_def
      clear_attempts_def cleanup_expired_def tracker_ok_def hm_ok_remove put_attempt_def hm_ok_insert
      split: option.splits if_splits, auto simp: hm_ok_def distinct_map_filter)

text \<open>An entry with a ban in force survives every step but a clear.\<close>

lemma ban_step:
  assumes "tracker_ok t" "hm_get (attempts t) ip = Some a" "banned_until a = Some u"
    and "op_time op < u" "\<not> op_clears ip op" "tracker_step op t = Some t'"
  shows "hm_get (attempts t') ip = Some a"
  using assms
  by (cases op)
    (auto simp: check_and_record_failure_def count_failure_def is_banned_def ban_active_def Let_def
      cleanup_expired_def keeps_attempt_def hm_get_filter tracker_ok_def
      split: option.splits if_splits)

lemma ban_run:
  "tracker_ok t \<Longrightarrow> hm_get (attempts t) ip = Some a \<Longrightarrow> banned_until a = Some u \<Longrightarrow>
    list_all (\<lambda>op. op_time op < u \<and> \<not> op_clears ip op) ops \<Longrightarrow> tracker_run ops t = Some t' \<Longrightarrow>
    hm_get (attempts t') ip = Some a"
proof (induction ops arbitrary: t)
  case (Cons op ops)
  from Cons.prems(5) obtain t1 where s: "tracker_step op t = Some t1" and r: "tracker_run ops t1 = Some t'"
    by (auto simp: bind_eq_Some_conv)
  show ?case
    using Cons.IH [OF tracker_ok_step [OF Cons.prems(1) s] ban_step [OF Cons.prems(1-3) _ _ s]]
      Cons.prems r by simp
qed simp

section \<open>Properties\<close>

text \<open>a ban holds until it expires: whatever failures (of any address, of the banned
  address itself), queries and clean-ups follow before its end, the address is still banned, and its
  entry, so the end of the ban too, is unchanged; only clearing the address lifts it.\<close>

theorem ban_persists:
  assumes "tracker_ok t" "hm_get (attempts t) ip = Some a" "banned_until a = Some u"
    and "list_all (\<lambda>op. op_time op < u \<and> \<not> op_clears ip op) ops" "tracker_run ops t = Some t'" "now < u"
  shows "is_banned ip now t' = (True, t') \<and> get_remaining_attempts ip t' = 0 \<and>
    hm_get (attempts t') ip = Some a"
  using ban_run [OF assms(1-5)] assms(3,6)
  by (simp add: is_banned_def ban_active_def get_remaining_attempts_def)

theorem ban_persists_witness:
  "\<exists>t t'. check_and_record_failure ''1.2.3.4'' 3 4
        (put_attempt ''1.2.3.4'' \<lparr>count = 1, first_attempt = 0, banned_until = None\<rparr> (tracker_new 2 1)) = Some (False, t) \<and>
      tracker_run [Fail ''1.2.3.4'' 5 6, Cleanup 7, Clear ''9.9.9.9'', Query ''1.2.3.4'' 8] t = Some t' \<and>
      is_banned ''1.2.3.4'' 9 t' = (True, t')"
proof -
  let ?t = "put_attempt ''1.2.3.4'' \<lparr>count = 2, first_attempt = 0, banned_until = Some 1000000004\<rparr> (tracker_new 2 1)"
  have "check_and_record_failure ''1.2.3.4'' 3 4
        (put_attempt ''1.2.3.4'' \<lparr>count = 1, first_attempt = 0, banned_until = None\<rparr> (tracker_new 2 1)) = Some (False, ?t)"
    by (simp add: check_and_record_failure_def count_failure_def ban_active_def instant_add_def
        ns_per_sec_def tracker_new_def put_attempt_def hm_insert_def hm_get_def)
  moreover have "tracker_run [Fail ''1.2.3.4'' 5 6, Cleanup 7, Clear ''9.9.9.9'', Query ''1.2.3.4'' 8] ?t = Some ?t"
    by (simp add: check_and_record_failure_def ban_active_def is_banned_def cleanup_expired_def
        keeps_attempt_def clear_attempts_def hm_remove_def hm_get_def put_attempt_def tracker_new_def hm_insert_def)
  moreover have "tracker_ok ?t" by (simp add: tracker_ok_def put_attempt_def tracker_new_def)
  ultimately show ?thesis
    using ban_persists [of ?t "''1.2.3.4''" "\<lparr>count = 2, first_attempt = 0, banned_until = Some 1000000004\<rparr>" 1000000004
        "[Fail ''1.2.3.4'' 5 6, Cleanup 7, Clear ''9.9.9.9'', Query ''1.2.3.4'' 8]" ?t 9]
    by (intro exI [of _ ?t]) simp
qed

text \<open>The failures of one address, one after another.\<close>

fun failures :: "string \<Rightarrow> (instant \<times> instant) list \<Rightarrow> login_tracker \<Rightarrow> (bool list \<times> login_tracker) option" where
  "failures ip [] t = Some ([], t)"
| "failures ip ((now, later) # ts) t =
     (case check_and_record_failure ip now later t of
        None \<Rightarrow> None
      | Some (ok, t1) \<Rightarrow> map_option (\<lambda>(oks, t2). (ok # oks, t2)) (failures ip ts t1))"

lemma failures_counting:
  assumes "hm_get (attempts t) ip = Some a" "banned_until a = None"
    and "unat (count a) + length ts < unat (max_attempts t)"
  shows "\<exists>t'. failures ip ts t = Some (replicate (length ts) True, t') \<and>
    hm_get (attempts t') ip = Some (a\<lparr>count := count a + of_nat (length ts)\<rparr>) \<and>
    max_attempts t' = max_attempts t \<and> ban_secs t' = ban_secs t"
  using assms
proof (induction ts arbitrary: t a)
  case (Cons p ts)
  obtain now later where p: "p = (now, later)" by (cases p)
  let ?a = "a\<lparr>count := count a + 1\<rparr>"
  have lt: "unat (count a) + 1 < 2 ^ 32"
    using Cons.prems(3) unsigned_less [of "max_attempts t", where ?'a = nat] by simp
  then have u: "unat (count a + 1) = unat (count a) + 1" by (simp add: unat_word_ariths)
  then have "\<not> max_attempts t \<le> count a + 1" using Cons.prems(3) by (simp add: word_le_nat_alt)
  then have step: "check_and_record_failure ip now later t = Some (True, put_attempt ip ?a t)"
    using Cons.prems(1,2) by (simp add: check_and_record_failure_def count_failure_def ban_active_def)
  from Cons.IH [of "put_attempt ip ?a t" ?a] Cons.prems(2,3) u obtain t' where
    "failures ip ts (put_attempt ip ?a t) = Some (replicate (length ts) True, t')"
    "hm_get (attempts t') ip = Some (?a\<lparr>count := count ?a + of_nat (length ts)\<rparr>)"
    "max_attempts t' = max_attempts t" "ban_secs t' = ban_secs t" by auto
  with p step show ?case by (simp add: ac_simps)
qed simp

text \<open>the count to a ban.  For an address without an entry and a limit of at least two,
  the failures below the limit are all tolerated, and the one that reaches the limit is refused and
  bans the address for exactly the configured time.\<close>

theorem failures_lead_to_ban:
  assumes "hm_get (attempts t) ip = None" "2 \<le> unat (max_attempts t)"
    and "length ts = unat (max_attempts t) - 1" "ts \<noteq> []"
    and "later + unat (ban_secs t) * ns_per_sec < 2 ^ 63 * ns_per_sec"
  shows "\<exists>t1 t2. failures ip ts t = Some (replicate (length ts) True, t1) \<and>
    get_remaining_attempts ip t1 = 1 \<and>
    check_and_record_failure ip now later t1 = Some (False, t2) \<and>
    (\<forall>at. fst (is_banned ip at t2) \<longleftrightarrow> at < later + unat (ban_secs t) * ns_per_sec)"
proof -
  obtain n0 l0 ts0 where ts: "ts = (n0, l0) # ts0" using assms(4) by (cases ts) auto
  let ?a = "\<lparr>count = 1, first_attempt = n0, banned_until = None\<rparr>"
  let ?t = "put_attempt ip ?a t"
  have one: "check_and_record_failure ip n0 l0 t = Some (True, ?t)"
    using assms(1) by (simp add: check_and_record_failure_def)
  have len: "length ts0 = unat (max_attempts t) - 2" using assms(3) ts by simp
  have less: "Suc (length ts0) < unat (max_attempts t)" using len assms(2) by linarith
  obtain t1 where t1: "failures ip ts0 ?t = Some (replicate (length ts0) True, t1)"
    "hm_get (attempts t1) ip = Some (?a\<lparr>count := 1 + of_nat (length ts0)\<rparr>)"
    "max_attempts t1 = max_attempts t" "ban_secs t1 = ban_secs t"
    using failures_counting [of ?t ip ?a ts0] less by auto
  have c: "1 + of_nat (length ts0) = max_attempts t - 1"
    using len assms(2) by (simp add: of_nat_diff)
  have m: "1 \<le> max_attempts t" using assms(2) by (simp add: word_le_nat_alt)
  have "get_remaining_attempts ip t1 = 1"
    using t1 c m by (simp add: get_remaining_attempts_def sat_sub_def word_sub_le_iff)
  moreover have "check_and_record_failure ip now later t1 =
      Some (False, put_attempt ip (?a\<lparr>count := max_attempts t,
        banned_until := Some (later + unat (ban_secs t) * ns_per_sec)\<rparr>) t1)"
    using t1 c assms(5)
    by (simp add: check_and_record_failure_def ban_active_def count_failure_def instant_add_def)
  ultimately show ?thesis
    using ts one t1 by (auto simp: is_banned_def ban_active_def)
qed

theorem failures_lead_to_ban_witness:
  "\<exists>t1 t2. failures ''1.2.3.4'' [(1, 1), (2, 2)] (tracker_new 3 60) = Some ([True, True], t1) \<and>
    check_and_record_failure ''1.2.3.4'' 3 3 t1 = Some (False, t2) \<and> fst (is_banned ''1.2.3.4'' 60 t2)"
proof -
  have "hm_get (attempts (tracker_new 3 60)) ''1.2.3.4'' = None" "max_attempts (tracker_new 3 60) = 3"
    "ban_secs (tracker_new 3 60) = 60"
    by (simp_all add: tracker_new_def)
  with failures_lead_to_ban [of "tracker_new 3 60" "''1.2.3.4''" "[(1, 1), (2, 2)]" 3 3]
  show ?thesis by (auto simp: ns_per_sec_def)
qed

text \<open>The first failure of an address is tolerated whatever the limit.\<close>

lemma first_failure_never_bans:
  "hm_get (attempts t) ip = None \<Longrightarrow>
    \<exists>t'. check_and_record_failure ip now later t = Some (True, t') \<and> \<not> fst (is_banned ip at t')"
  by (simp add: check_and_record_failure_def is_banned_def)

end
