(* ===== verification/SpeedLimiter.thy ===== *)
theory SpeedLimiter
  imports LoginTracker
begin

text \<open>
  \<open>common/src/server/speed_limiter.rs\<close>: the token bucket of one SFTP session.  \<open>throttle\<close> takes the
  reading of the clock at its start and returns the nanoseconds it sleeps (0: it does not); the
  arithmetic is that of the code, wrapping on \<open>u64\<close> and \<open>u128\<close> as the release build does.
\<close>

record speed_limiter =
  last_check :: instant
  tokens :: u64
  max_bytes_per_second :: u64

definition sl_new :: "u64 \<Rightarrow> instant \<Rightarrow> speed_limiter" where
  "sl_new kbps now = \<lparr>last_check = now, tokens = 0, max_bytes_per_second = kbps * 1024\<rparr>"

definition sl_unlimited :: "instant \<Rightarrow> speed_limiter" where
  "sl_unlimited now = \<lparr>last_check = now, tokens = 0, max_bytes_per_second = 0\<rparr>"

definition sl_set_limit :: "u64 \<Rightarrow> speed_limiter \<Rightarrow> speed_limiter" where
  "sl_set_limit kbps s = s\<lparr>max_bytes_per_second := kbps * 1024\<rparr>"

definition sl_get_limit :: "speed_limiter \<Rightarrow> u64" where
  "sl_get_limit s = max_bytes_per_second s div 1024"

definition sl_clone :: "instant \<Rightarrow> speed_limiter \<Rightarrow> speed_limiter" where
  "sl_clone now s = \<lparr>last_check = now, tokens = 0, max_bytes_per_second = max_bytes_per_second s\<rparr>"

text \<open>\<open>u64::try_from(x).unwrap_or(u64::MAX)\<close>.\<close>

definition u64_clamp :: "u128 \<Rightarrow> u64" where
  "u64_clamp x = (if unat x < 2 ^ 64 then ucast x else - 1)"

definition replenished :: "nat \<Rightarrow> u64 \<Rightarrow> u64" where
  "replenished elapsed rate = u64_clamp ((of_nat elapsed * ucast rate) div 1000000000)"

definition sleep_ns :: "u64 \<Rightarrow> u64 \<Rightarrow> u64 \<Rightarrow> u64" where
  "sleep_ns bytes have_tokens rate =
     (if have_tokens < bytes
      then u64_clamp (((ucast bytes - ucast have_tokens) * 1000000000) div ucast rate)
      else 0)"

definition throttle :: "instant \<Rightarrow> u64 \<Rightarrow> speed_limiter \<Rightarrow> u64 \<times> speed_limiter" where
  "throttle now bytes s =
     (if max_bytes_per_second s = 0 \<or> bytes = 0 then (0, s)
      else
        (let new_tokens = sat_add (tokens s) (replenished (now - last_check s) (max_bytes_per_second s)) in
         (sleep_ns bytes new_tokens (max_bytes_per_second s),
          s\<lparr>last_check := now, tokens := sat_sub new_tokens bytes\<rparr>)))"

section \<open>The arithmetic in natural numbers\<close>

lemma unat_u64_clamp: "unat (u64_clamp x) = min (unat x) (2 ^ 64 - 1)"
proof (cases "unat x < 2 ^ 64")
  case True
  then show ?thesis by (simp add: u64_clamp_def unsigned_ucast_eq take_bit_nat_eq_self)
next
  case False
  then show ?thesis by (simp add: u64_clamp_def unat_max_word)
qed

lemma unat_ucast_128 [simp]: "unat (ucast (x :: u64) :: u128) = unat x"
  using unat_lt64 [of x] by (simp add: unsigned_ucast_eq take_bit_nat_eq_self)

lemma replenished_le: "unat (replenished e r) * 1000000000 \<le> e * unat r"
proof -
  have "unat (replenished e r) \<le> unat ((of_nat e * ucast r :: u128) div 1000000000)"
    by (simp add: replenished_def unat_u64_clamp)
  also have "\<dots> = (e * unat r) mod 2 ^ 128 div 1000000000"
    by (simp add: unat_div unat_word_ariths unat_of_nat mod_mult_left_eq)
  also have "\<dots> \<le> e * unat r div 1000000000" by (intro div_le_mono) simp
  finally have "unat (replenished e r) * 1000000000 \<le> e * unat r div 1000000000 * 1000000000"
    by simp
  then show ?thesis by (meson div_times_less_eq_dividend le_trans)
qed

lemma replenished_exact:
  "e * unat r < 2 ^ 64 \<Longrightarrow> unat (replenished e r) = e * unat r div 1000000000"
  by (simp add: replenished_def unat_u64_clamp unat_div unat_word_ariths unat_of_nat mod_mult_left_eq)

lemma sleep_value:
  assumes "t < b"
  shows "unat (sleep_ns b t r) = min ((unat b - unat t) * 1000000000 div unat r) (2 ^ 64 - 1)"
proof -
  have "unat b < 2 ^ 64" by (rule unat_lt64)
  then have small: "(unat b - unat t) * 1000000000 < 2 ^ 128" by simp
  have "unat ((ucast b - ucast t) :: u128) = unat b - unat t"
    using assms by (subst unat_sub) (simp_all add: word_le_nat_alt word_less_nat_alt)
  with small have "unat (((ucast b - ucast t) * 1000000000) :: u128) = (unat b - unat t) * 1000000000"
    by (subst unat_mult_lem [THEN iffD1]) simp_all
  with assms show ?thesis by (simp add: sleep_ns_def unat_u64_clamp unat_div)
qed

lemma sleep_covers:
  assumes "0 < unat r" "unat b * 1000000000 < unat r * 2 ^ 63"
  shows "(unat b - unat t) * 1000000000 < (unat (sleep_ns b t r) + 1) * unat r"
proof (cases "t < b")
  case True
  let ?x = "(unat b - unat t) * 1000000000"
  have "?x \<le> unat b * 1000000000" by simp
  with assms(2) have "?x < unat r * 2 ^ 63" by linarith
  then have "?x div unat r < 2 ^ 63" by (simp add: less_mult_imp_div_less mult.commute)
  then have "unat (sleep_ns b t r) = ?x div unat r" by (simp add: sleep_value [OF True])
  with dividend_less_div_times [OF assms(1), of ?x] show ?thesis by simp
next
  case False
  then have "unat b \<le> unat t" by (simp add: word_less_nat_alt)
  with assms(1) show ?thesis by simp
qed

text \<open>One call, in natural numbers: what it takes is paid for by what it found, what it was
  credited, and what it slept.\<close>

lemma throttle_balance:
  assumes "throttle now b s = (z, s')" "0 < unat (max_bytes_per_second s)"
    and "unat b * 1000000000 < unat (max_bytes_per_second s) * 2 ^ 63"
  shows "(unat b + unat (tokens s')) * 1000000000
      \<le> unat (tokens s) * 1000000000 + (now - last_check s) * unat (max_bytes_per_second s)
        + (unat z + 1) * unat (max_bytes_per_second s)"
    and "max_bytes_per_second s' = max_bytes_per_second s"
    and "last_check s' = (if b = 0 then last_check s else now)"
proof -
  let ?r = "max_bytes_per_second s"
  let ?n = "sat_add (tokens s) (replenished (now - last_check s) ?r)"
  have nz: "?r \<noteq> 0" using assms(2) by auto
  show "max_bytes_per_second s' = ?r" "last_check s' = (if b = 0 then last_check s else now)"
    using assms(1) nz by (auto simp: throttle_def Let_def split: if_splits)
  show "(unat b + unat (tokens s')) * 1000000000 \<le> unat (tokens s) * 1000000000
      + (now - last_check s) * unat ?r + (unat z + 1) * unat ?r"
  proof (cases "b = 0")
    case True
    with assms(1) show ?thesis by (simp add: throttle_def)
  next
    case False
    with assms(1) nz have z: "z = sleep_ns b ?n ?r" and s': "tokens s' = sat_sub ?n b"
      by (auto simp: throttle_def Let_def)
    have "unat ?n \<le> unat (tokens s) + unat (replenished (now - last_check s) ?r)"
      by (simp add: unat_sat_add)
    then have n: "unat ?n * 1000000000 \<le> unat (tokens s) * 1000000000 + (now - last_check s) * unat ?r"
      using replenished_le [of "now - last_check s" ?r] by linarith
    have "(unat b - unat ?n) * 1000000000 < (unat z + 1) * unat ?r"
      unfolding z by (rule sleep_covers [OF assms(2,3)])
    moreover have "unat b + unat (tokens s') = unat ?n + (unat b - unat ?n)"
      by (simp add: s' unat_sat_sub)
    ultimately show ?thesis using n by (simp add: algebra_simps)
  qed
qed

section \<open>Runs of calls\<close>

text \<open>A caller that throttles before every transfer: the next call starts after the sleep of the
  previous one.  The result is the time the last sleep ends.\<close>

fun throttle_run :: "(instant \<times> u64) list \<Rightarrow> speed_limiter \<Rightarrow> instant \<Rightarrow> (instant \<times> speed_limiter) option" where
  "throttle_run [] s free = Some (free, s)"
| "throttle_run ((now, b) # cs) s free =
     (if now < free then None
      else (case throttle now b s of (z, s1) \<Rightarrow> throttle_run cs s1 (now + unat z)))"

definition transferred :: "(instant \<times> u64) list \<Rightarrow> nat" where
  "transferred cs = (\<Sum>(_, b) \<leftarrow> cs. unat b)"

lemma throttle_run_balance:
  assumes "throttle_run cs s free = Some (end, s')" "0 < unat r" "max_bytes_per_second s = r"
    and "list_all (\<lambda>(_, b). unat b * 1000000000 < unat r * 2 ^ 63) cs" "last_check s \<le> free"
  shows "(transferred cs + unat (tokens s')) * 1000000000 + (last_check s + free) * unat r
      \<le> unat (tokens s) * 1000000000 + (2 * end + length cs) * unat r \<and> free \<le> end"
  using assms
proof (induction cs arbitrary: s free)
  case Nil
  then have "(last_check s + free) * unat r \<le> (2 * end) * unat r"
    by (intro mult_le_mono1) auto
  with Nil show ?case by (simp add: transferred_def)
next
  case (Cons c cs)
  obtain now b where c: "c = (now, b)" by (cases c)
  obtain z s1 where t: "throttle now b s = (z, s1)" by (cases "throttle now b s")
  from Cons.prems(1) c t have ge: "free \<le> now" and run: "throttle_run cs s1 (now + unat z) = Some (end, s')"
    by (auto split: if_splits)
  have b: "unat b * 1000000000 < unat r * 2 ^ 63" using Cons.prems(4) c by simp
  note bal = throttle_balance [OF t, unfolded Cons.prems(3), OF Cons.prems(2) b]
  have last: "last_check s1 \<le> now + unat z" "last_check s1 \<le> now"
    using bal(3) Cons.prems(5) ge by (auto split: if_splits)
  have IH: "(transferred cs + unat (tokens s')) * 1000000000 + (last_check s1 + (now + unat z)) * unat r
      \<le> unat (tokens s1) * 1000000000 + (2 * end + length cs) * unat r \<and> now + unat z \<le> end"
    using Cons.IH [OF run Cons.prems(2) bal(2)] Cons.prems(4) last(1) by simp
  have credit: "(unat b + unat (tokens s1)) * 1000000000 + (last_check s + free) * unat r
      \<le> unat (tokens s) * 1000000000 + (last_check s1 + (now + unat z) + 1) * unat r"
  proof (cases "b = 0")
    case True
    with t have "tokens s1 = tokens s" "last_check s1 = last_check s" by (auto simp: throttle_def)
    moreover have "(last_check s + free) * unat r \<le> (last_check s + (now + unat z) + 1) * unat r"
      using ge by (intro mult_le_mono1) simp
    ultimately show ?thesis using True by simp
  next
    case False
    then have "last_check s1 = now" using bal(3) by simp
    moreover have "(now - last_check s) * unat r + (last_check s + free) * unat r \<le> (now + now) * unat r"
      using ge Cons.prems(5) unfolding distrib_right [symmetric] by (intro mult_le_mono1) simp
    ultimately show ?thesis using bal(1) by (simp add: algebra_simps)
  qed
  from IH credit ge c show ?case
    by (simp add: transferred_def algebra_simps)
qed

section \<open>Properties\<close>

text \<open>one call of the limiter sleeps just long enough: below the saturation of the sleep
  time, the bytes not covered by tokens need at least the nanoseconds slept, and fewer than one more;
  with enough tokens it does not sleep, and the tokens are spent.\<close>

theorem throttle_sleep:
  assumes "max_bytes_per_second s \<noteq> 0" "b \<noteq> 0"
    and n: "n = sat_add (tokens s) (replenished (now - last_check s) (max_bytes_per_second s))"
    and "unat b * 1000000000 < unat (max_bytes_per_second s) * 2 ^ 63"
    and "throttle now b s = (z, s')"
  shows "unat z * unat (max_bytes_per_second s) \<le> (unat b - unat n) * 1000000000 \<and>
    (unat b - unat n) * 1000000000 < (unat z + 1) * unat (max_bytes_per_second s) \<and>
    unat (tokens s') = unat n - unat b \<and> last_check s' = now"
proof -
  let ?r = "max_bytes_per_second s"
  from assms have z: "z = sleep_ns b n ?r" and s': "tokens s' = sat_sub n b" "last_check s' = now"
    by (auto simp: throttle_def Let_def)
  have "unat z * unat ?r \<le> (unat b - unat n) * 1000000000"
  proof (cases "n < b")
    case True
    then have "unat z \<le> (unat b - unat n) * 1000000000 div unat ?r"
      by (simp add: z sleep_value)
    then show ?thesis by (meson div_times_less_eq_dividend le_trans mult_le_mono1)
  qed (simp add: z sleep_ns_def)
  moreover have "0 < unat ?r" using assms(1) by (simp add: unat_gt_0)
  ultimately show ?thesis
    using sleep_covers [OF _ assms(4), of n] z s' by (simp add: unat_sat_sub)
qed

theorem throttle_sleep_witness:
  "throttle 5 2048 (sl_new 1 5) = (2000000000, (sl_new 1 5)\<lparr>last_check := 5, tokens := 0\<rparr>)"
proof -
  have r: "max_bytes_per_second (sl_new 1 5) = 1024" "tokens (sl_new 1 5) = 0" "last_check (sl_new 1 5) = 5"
    by (simp_all add: sl_new_def)
  obtain z s' where t: "throttle 5 2048 (sl_new 1 5) = (z, s')" by (cases "throttle 5 2048 (sl_new 1 5)")
  have "0 = sat_add (tokens (sl_new 1 5)) (replenished (5 - last_check (sl_new 1 5)) (max_bytes_per_second (sl_new 1 5)))"
    by (simp add: r replenished_def u64_clamp_def sat_add_def)
  from throttle_sleep [OF _ _ this _ t] r have "unat z = 2000000000" by simp
  then have "z = 2000000000" by (simp add: word_unat_eq_iff)
  moreover have "s' = (sl_new 1 5)\<lparr>last_check := 5, tokens := 0\<rparr>"
    using t by (auto simp: throttle_def sl_new_def Let_def replenished_def u64_clamp_def sat_add_def sat_sub_def)
  ultimately show ?thesis using t by simp
qed


text \<open>The run that reaches twice the rate: at 1 kB/s, four kilobytes in two seconds.\<close>

definition double_rate_run :: "(instant \<times> u64) list" where
  "double_rate_run = [(0, 1024), (1000000000, 1024), (1000000000, 1024), (2000000000, 1024)]"


end
