(* ===== verification/SftpOps.thy ===== *)
theory SftpOps
  imports Users Confinement FileLogger SpeedLimiter
begin

text \<open>
  \<open>sftp/src/ops/mod.rs\<close>: the state of an authenticated SFTP session and the helpers of its requests
  (permissions, path resolution, audit, handles, quota, attributes).  One record holds the session's own
  fields and the parts it shares (disk, user database, audit log, quota cache).
\<close>

datatype status_code = StOk | StEof | StNoSuchFile | StPermissionDenied | StFailure | StBadMessage | StOpUnsupported

record file_attributes =
  fa_size :: "u64 option"
  fa_uid :: "u32 option"
  fa_gid :: "u32 option"
  fa_permissions :: "u32 option"
  fa_atime :: "u32 option"
  fa_mtime :: "u32 option"

definition attrs_dummy :: file_attributes where
  "attrs_dummy = \<lparr>fa_size = None, fa_uid = None, fa_gid = None, fa_permissions = None, fa_atime = None, fa_mtime = None\<rparr>"

text \<open>An open directory keeps what is left of its enumeration.\<close>

datatype open_entry = OFile file_handle bool | ODir path "string list"

record sftp =
  sdisk :: fs
  susers :: user_manager
  slog :: file_logger
  squota :: quota_cache
  sf_username :: string
  sf_home :: string
  sf_client_ip :: string
  sf_handles :: "(string, open_entry) hmap"
  sf_next_handle :: u64
  sf_limiter :: "speed_limiter option"

text \<open>What a request takes from outside: the clocks, whether the audit lock is free, the fuel of the
  quota walk, the hash functions and their hexadecimal printing, and the file-system statistics.\<close>

record sftp_env =
  se_now :: datetime
  se_ns :: instant
  se_log_free :: bool
  se_fuel :: nat
  se_md5 :: "string \<Rightarrow> string"
  se_sha256 :: "string \<Rightarrow> string"
  se_hex :: "string \<Rightarrow> string"
  se_statvfs :: "fs \<Rightarrow> path \<Rightarrow> u64 list option"

definition SFTP_VERSION :: u32 where
  "SFTP_VERSION = 3"

definition MAX_READ_LEN :: u32 where
  "MAX_READ_LEN = 256 * 1024"

definition sftp_new ::
  "string \<Rightarrow> string \<Rightarrow> user_manager \<Rightarrow> file_logger \<Rightarrow> quota_cache \<Rightarrow> string \<Rightarrow> instant \<Rightarrow> fs \<Rightarrow> sftp" where
  "sftp_new name home um fl qc ip now fs =
     \<lparr>sdisk = fs, susers = um, slog = fl, squota = qc, sf_username = name, sf_home = home, sf_client_ip = ip,
      sf_handles = [], sf_next_handle = 1,
      sf_limiter = map_option (\<lambda>k. sl_new k now)
        (opt_filter (\<lambda>k. 0 < k) (Option.bind (get_user um name) (\<lambda>u. speed_limit_kbps (u_permissions u))))\<rparr>"

section \<open>The helpers\<close>

definition sftp_permissions :: "sftp \<Rightarrow> permissions" where
  "sftp_permissions s = unwrap_or permissions_default (map_option u_permissions (get_user (susers s) (sf_username s)))"

definition sftp_home :: "sftp \<Rightarrow> path" where
  "sftp_home s = path_of (sf_home s)"

definition sftp_resolve :: "path \<Rightarrow> string \<Rightarrow> status_code + path" where
  "sftp_resolve home p =
     (let stripped = trim p;
          rest = dropWhile (\<lambda>c. c = CHR ''/'') stripped;
          anchor = (\<lambda>base. lexical_walk StNoSuchFile home home (unwrap_or base (strip_prefix base home)))
      in
      if prefix ''/'' stripped then
        (case (if rest \<noteq> [] then strip_prefix (path_of stripped) home else None) of
           Some within \<Rightarrow> Inr (path_join home within)
         | None \<Rightarrow> anchor (path_join home (path_of rest)))
      else anchor (path_join home (path_of stripped)))"

definition sftp_audit :: "sftp_env \<Rightarrow> string \<Rightarrow> string \<Rightarrow> u64 \<Rightarrow> bool \<Rightarrow> string \<Rightarrow> sftp \<Rightarrow> sftp" where
  "sftp_audit ev oper p sz ok msg s =
     (if se_log_free ev then
        s\<lparr>slog := fl_log (se_now ev)
            \<lparr>fi_username = sf_username s, fi_client_ip = sf_client_ip s, fi_operation = oper,
             fi_file_path = p, fi_file_size = sz, fi_protocol = ''SFTP'', fi_success = ok,
             fi_message = msg\<rparr> (slog s)\<rparr>
      else s)"

definition handle_name :: "u64 \<Rightarrow> string" where
  "handle_name hid = CHR ''h'' # show_hex (unat hid)"

fun free_handle :: "nat \<Rightarrow> (string, 'e) hmap \<Rightarrow> u64 \<Rightarrow> (string \<times> u64) option" where
  "free_handle 0 hs hid = None"
| "free_handle (Suc k) hs hid =
     (if hm_get hs (handle_name hid) = None then Some (handle_name hid, hid + 1)
      else free_handle k hs (hid + 1))"

text \<open>One round more than there are open handles finds a free name.\<close>

definition next_handle_id :: "sftp \<Rightarrow> (string \<times> sftp) option" where
  "next_handle_id s =
     map_option (\<lambda>(h, n). (h, s\<lparr>sf_next_handle := n\<rparr>))
       (free_handle (Suc (length (sf_handles s))) (sf_handles s) (sf_next_handle s))"

definition quota_ok :: "sftp_env \<Rightarrow> u64 \<Rightarrow> sftp \<Rightarrow> (bool \<times> sftp) option" where
  "quota_ok ev additional s =
     (if additional = 0 then Some (True, s)
      else (case opt_filter (\<lambda>l. 0 < l) (quota_mb (sftp_permissions s)) of
         None \<Rightarrow> Some (True, s)
       | Some limit \<Rightarrow>
           map_option (\<lambda>(usage, qc). (sat_add usage additional \<le> quota_bytes limit, s\<lparr>squota := qc\<rparr>))
             (calculate_usage_async (se_fuel ev) (sdisk s) (sf_home s) (squota s))))"

definition sftp_throttle :: "sftp_env \<Rightarrow> nat \<Rightarrow> sftp \<Rightarrow> sftp" where
  "sftp_throttle ev n s = s\<lparr>sf_limiter := map_option (\<lambda>l. snd (throttle (se_ns ev) (of_nat n) l)) (sf_limiter s)\<rparr>"

fun io_status :: "io_error \<Rightarrow> status_code" where
  "io_status NotFound = StNoSuchFile"
| "io_status PermissionDeniedIo = StPermissionDenied"
| "io_status _ = StFailure"

definition sftp_io :: "io_error + 'a \<Rightarrow> status_code + 'a" where
  "sftp_io r = (case r of Inl e \<Rightarrow> Inl (io_status e) | Inr v \<Rightarrow> Inr v)"

text \<open>\<open>st_mode\<close>: the file type bits and the permission bits.\<close>

fun kind_bits :: "file_kind \<Rightarrow> u32" where
  "kind_bits KDir = 0x4000"
| "kind_bits KFile = 0x8000"
| "kind_bits KLink = 0xA000"

definition st_mode :: "meta \<Rightarrow> u32" where
  "st_mode m = or (kind_bits (m_kind m)) (and (a_mode (m_attr m)) 0xFFF)"

definition clamp_time :: "int \<Rightarrow> u32" where
  "clamp_time t = word_of_int (max 0 (min t (2 ^ 32 - 1)))"

definition attrs_from :: "meta \<Rightarrow> file_attributes" where
  "attrs_from m =
     \<lparr>fa_size = Some (m_len m), fa_uid = Some (a_uid (m_attr m)), fa_gid = Some (a_gid (m_attr m)),
      fa_permissions = Some (st_mode m), fa_atime = Some (clamp_time (a_atime (m_attr m))),
      fa_mtime = Some (clamp_time (a_mtime (m_attr m)))\<rparr>"

definition stat_attrs :: "fs \<Rightarrow> path \<Rightarrow> status_code + file_attributes" where
  "stat_attrs fs p = (case fs_metadata fs p of Inl _ \<Rightarrow> Inl StNoSuchFile | Inr m \<Rightarrow> Inr (attrs_from m))"

definition symlink_attrs :: "fs \<Rightarrow> path \<Rightarrow> status_code + file_attributes" where
  "symlink_attrs fs p = (case fs_symlink_metadata fs p of Inl _ \<Rightarrow> Inl StNoSuchFile | Inr m \<Rightarrow> Inr (attrs_from m))"

section \<open>Handles\<close>

lemma handle_name_inject: "handle_name a = handle_name b \<longleftrightarrow> a = b"
  by (simp add: handle_name_def show_hex_inject word_unat_eq_iff)

lemma free_handle_fresh:
  "free_handle k hs hid = Some (h, n) \<Longrightarrow> hm_get hs h = None"
  by (induction k hs hid rule: free_handle.induct) (auto split: if_splits)

text \<open>A round that fails finds a name in the table, and the names of the rounds differ.\<close>

lemma free_handle_taken:
  "free_handle k hs hid = None \<Longrightarrow> j < k \<Longrightarrow> handle_name (hid + of_nat j) \<in> set (hm_keys hs)"
proof (induction k hs hid arbitrary: j rule: free_handle.induct)
  case (2 k hs hid)
  then have taken: "hm_get hs (handle_name hid) \<noteq> None" "free_handle k hs (hid + 1) = None"
    by (auto split: if_splits)
  show ?case
  proof (cases j)
    case 0
    with taken(1) show ?thesis by (simp add: hm_get_None_iff)
  next
    case (Suc i)
    with "2.IH" [of i] taken "2.prems"(2) show ?thesis by (simp add: ac_simps)
  qed
qed simp

lemma free_handle_found:
  assumes "length hs < 2 ^ 64 - 1"
  shows "\<exists>h n. free_handle (Suc (length hs)) hs hid = Some (h, n)"
proof (rule ccontr)
  assume "\<nexists>h n. free_handle (Suc (length hs)) hs hid = Some (h, n)"
  then have none: "free_handle (Suc (length hs)) hs hid = None"
    by (metis not_None_eq surj_pair)
  let ?f = "\<lambda>j. handle_name (hid + of_nat j)"
  have "inj_on ?f {..length hs}"
  proof (rule inj_onI)
    fix i j assume "i \<in> {..length hs}" "j \<in> {..length hs}" and eq: "?f i = ?f j"
    then have "i < 2 ^ 64" "j < 2 ^ 64" using assms by auto
    moreover have "(of_nat i :: u64) = of_nat j" using eq by (simp add: handle_name_inject)
    then have "unat (of_nat i :: u64) = unat (of_nat j :: u64)" by simp
    ultimately show "i = j" by (simp add: unat_of_nat)
  qed
  then have "card (?f ` {..length hs}) = Suc (length hs)" by (simp add: card_image)
  moreover have "?f ` {..length hs} \<subseteq> set (hm_keys hs)"
    using free_handle_taken [OF none] by auto
  then have "card (?f ` {..length hs}) \<le> card (set (hm_keys hs))" by (simp add: card_mono)
  moreover have "card (set (hm_keys hs)) \<le> length hs"
    by (metis card_length hm_keys_def length_map)
  ultimately show False by simp
qed

end
