(* ===== verification/SftpProtocol.thy ===== *)
theory SftpProtocol
  imports SftpOps
begin

text \<open>
  \<open>sftp/src/ops/protocol.rs\<close> and \<open>extended.rs\<close>: the requests of the SFTP protocol, one function per
  method with its checks in the order of the code.  A result is \<open>None\<close> only when the quota walk runs out
  of fuel or no handle name is free.
\<close>

record open_flags =
  of_read :: bool
  of_write :: bool
  of_append :: bool
  of_create :: bool
  of_truncate :: bool
  of_exclude :: bool

datatype sftp_reply =
    RVersion u32 "(string \<times> string) list"
  | RHandle string
  | ROk
  | RData string
  | RAttrs file_attributes
  | RName "(string \<times> file_attributes) list"
  | RExtended string

type_synonym sftp_result = "((status_code + sftp_reply) \<times> sftp) option"

definition sftp_init :: "sftp \<Rightarrow> sftp_result" where
  "sftp_init s =
     Some (Inr (RVersion SFTP_VERSION
       [(''md5sum@openssh.com'', ''1''), (''sha256sum@openssh.com'', ''1''), (''space-available@openssh.com'', ''1'')]), s)"

section \<open>Files\<close>

definition wants_write :: "open_flags \<Rightarrow> bool" where
  "wants_write f \<longleftrightarrow> of_write f \<or> of_append f \<or> of_truncate f \<or> of_create f"

definition open_allowed :: "permissions \<Rightarrow> open_flags \<Rightarrow> bool" where
  "open_allowed p f =
     (if wants_write f then (if of_append f then can_append p \<or> can_write p else can_write p)
      else can_read p)"

definition sftp_opts :: "open_flags \<Rightarrow> open_opts" where
  "sftp_opts f =
     \<lparr>o_read = of_read f, o_write = (of_write f \<or> of_append f \<or> of_create f), o_append = of_append f,
      o_truncate = of_truncate f, o_create = of_create f\<rparr>"

definition add_handle :: "open_entry \<Rightarrow> sftp \<Rightarrow> sftp_result" where
  "add_handle e s =
     map_option (\<lambda>(h, s1). (Inr (RHandle h), s1\<lparr>sf_handles := hm_insert h e (sf_handles s1)\<rparr>)) (next_handle_id s)"

text \<open>The quota check of an opening is for zero more bytes, and the attributes are not used.\<close>

definition sftp_open :: "sftp_env \<Rightarrow> string \<Rightarrow> open_flags \<Rightarrow> sftp \<Rightarrow> sftp_result" where
  "sftp_open ev p f s =
     (if \<not> open_allowed (sftp_permissions s) f then
        Some (Inl StPermissionDenied, sftp_audit ev ''OPEN'' p 0 False msg_denied s)
      else (case (if wants_write f then quota_ok ev 0 s else Some (True, s)) of
         None \<Rightarrow> None
       | Some (False, s1) \<Rightarrow> Some (Inl StFailure, s1)
       | Some (True, s1) \<Rightarrow>
           (case sftp_resolve (sftp_home s1) p of
              Inl e \<Rightarrow> Some (Inl e, s1)
            | Inr q \<Rightarrow>
                (case fs_open (sftp_opts f) q (sdisk s1) of
                   (Inl e, fs1) \<Rightarrow> Some (Inl (io_status e), s1\<lparr>sdisk := fs1\<rparr>)
                 | (Inr h, fs1) \<Rightarrow> add_handle (OFile h (wants_write f)) (s1\<lparr>sdisk := fs1\<rparr>)))))"

definition sftp_close :: "string \<Rightarrow> sftp \<Rightarrow> sftp_result" where
  "sftp_close h s =
     (case hm_get (sf_handles s) h of
        None \<Rightarrow> Some (Inl StNoSuchFile, s)
      | Some e \<Rightarrow>
          (let s1 = s\<lparr>sf_handles := hm_remove h (sf_handles s)\<rparr> in
           Some (Inr ROk,
             case e of
               OFile _ writable \<Rightarrow>
                 if writable then s1\<lparr>squota := quota_invalidate (sf_home s) (squota s)\<rparr> else s1
             | ODir _ _ \<Rightarrow> s1)))"

definition sftp_read :: "sftp_env \<Rightarrow> string \<Rightarrow> u64 \<Rightarrow> u32 \<Rightarrow> sftp \<Rightarrow> sftp_result" where
  "sftp_read ev h off len s =
     (case hm_get (sf_handles s) h of
        Some (OFile f _) \<Rightarrow>
          (case fs_read_at f off (unat (min len MAX_READ_LEN)) (sdisk s) of
             Inl e \<Rightarrow> Some (Inl (io_status e), s)
           | Inr bs \<Rightarrow>
               if bs = [] then Some (Inl StEof, s)
               else Some (Inr (RData bs), sftp_throttle ev (length bs) s))
      | _ \<Rightarrow> Some (Inl StNoSuchFile, s))"

definition sftp_write :: "sftp_env \<Rightarrow> string \<Rightarrow> u64 \<Rightarrow> string \<Rightarrow> sftp \<Rightarrow> sftp_result" where
  "sftp_write ev h off bs s =
     (case quota_ok ev (of_nat (length bs)) s of
        None \<Rightarrow> None
      | Some (False, s1) \<Rightarrow>
          Some (Inl StFailure, sftp_audit ev ''WRITE'' [] (of_nat (length bs)) False msg_quota s1)
      | Some (True, s1) \<Rightarrow>
          (case hm_get (sf_handles s1) h of
             Some (OFile f _) \<Rightarrow>
               (case fs_write_at f off bs (sdisk s1) of
                  (Inl e, fs1) \<Rightarrow> Some (Inl (io_status e), s1\<lparr>sdisk := fs1\<rparr>)
                | (Inr _, fs1) \<Rightarrow>
                    (case guarded fs1 CFlush (fh_path f) (Inr ()) of
                       Inl e \<Rightarrow> Some (Inl (io_status e), s1\<lparr>sdisk := fs1\<rparr>)
                     | Inr _ \<Rightarrow> Some (Inr ROk, sftp_throttle ev (length bs) (s1\<lparr>sdisk := fs1\<rparr>))))
           | _ \<Rightarrow> Some (Inl StNoSuchFile, s1)))"

section \<open>Metadata and directories\<close>

definition attrs_reply :: "(fs \<Rightarrow> path \<Rightarrow> status_code + file_attributes) \<Rightarrow> string \<Rightarrow> sftp \<Rightarrow> sftp_result" where
  "attrs_reply look p s =
     (if \<not> can_list (sftp_permissions s) then Some (Inl StPermissionDenied, s)
      else (case sftp_resolve (sftp_home s) p of
         Inl e \<Rightarrow> Some (Inl e, s)
       | Inr q \<Rightarrow> Some (case look (sdisk s) q of Inl e \<Rightarrow> Inl e | Inr a \<Rightarrow> Inr (RAttrs a), s)))"

definition sftp_stat :: "string \<Rightarrow> sftp \<Rightarrow> sftp_result" where
  "sftp_stat = attrs_reply stat_attrs"

definition sftp_lstat :: "string \<Rightarrow> sftp \<Rightarrow> sftp_result" where
  "sftp_lstat = attrs_reply symlink_attrs"

definition sftp_fstat :: "string \<Rightarrow> sftp \<Rightarrow> sftp_result" where
  "sftp_fstat h s =
     (case hm_get (sf_handles s) h of
        Some (OFile f _) \<Rightarrow>
          Some (case handle_metadata (sdisk s) f of Inl e \<Rightarrow> Inl (io_status e) | Inr m \<Rightarrow> Inr (RAttrs (attrs_from m)), s)
      | _ \<Rightarrow> Some (Inl StNoSuchFile, s))"

definition set_size :: "path \<Rightarrow> u64 \<Rightarrow> fs \<Rightarrow> unit fs_result" where
  "set_size q n fs =
     (case fs_open (opts_new\<lparr>o_write := True\<rparr>) q fs of
        (Inl e, fs1) \<Rightarrow> (Inl e, fs1)
      | (Inr h, fs1) \<Rightarrow> fs_set_len h n fs1)"

definition set_attributes :: "path \<Rightarrow> file_attributes \<Rightarrow> fs \<Rightarrow> unit fs_result" where
  "set_attributes q a fs =
     (case (case fa_permissions a of
              None \<Rightarrow> (Inr (), fs) | Some m \<Rightarrow> fs_set_permissions q (and m 0xFFF) fs) of
        (Inl e, fs1) \<Rightarrow> (Inl e, fs1)
      | (Inr _, fs1) \<Rightarrow> (case fa_size a of None \<Rightarrow> (Inr (), fs1) | Some n \<Rightarrow> set_size q n fs1))"

definition sftp_setstat :: "sftp_env \<Rightarrow> string \<Rightarrow> file_attributes \<Rightarrow> sftp \<Rightarrow> sftp_result" where
  "sftp_setstat ev p a s =
     (if \<not> can_write (sftp_permissions s) then Some (Inl StPermissionDenied, s)
      else (case sftp_resolve (sftp_home s) p of
         Inl e \<Rightarrow> Some (Inl e, s)
       | Inr q \<Rightarrow>
           (case set_attributes q a (sdisk s) of
              (Inl e, fs1) \<Rightarrow> Some (Inl (io_status e), s\<lparr>sdisk := fs1\<rparr>)
            | (Inr _, fs1) \<Rightarrow>
                Some (Inr ROk, sftp_audit ev ''SETSTAT'' (utf8_lossy (path_string q)) 0 True msg_setattr_ok (s\<lparr>sdisk := fs1\<rparr>)))))"

definition sftp_opendir :: "string \<Rightarrow> sftp \<Rightarrow> sftp_result" where
  "sftp_opendir p s =
     (if \<not> can_list (sftp_permissions s) then Some (Inl StPermissionDenied, s)
      else (case sftp_resolve (sftp_home s) p of
         Inl e \<Rightarrow> Some (Inl e, s)
       | Inr q \<Rightarrow>
           (case fs_read_dir (sdisk s) q of
              Inl e \<Rightarrow> Some (Inl (io_status e), s)
            | Inr ns \<Rightarrow> add_handle (ODir q ns) s)))"

definition dir_entry_attrs :: "fs \<Rightarrow> path \<Rightarrow> string \<Rightarrow> file_attributes" where
  "dir_entry_attrs fs q n =
     (case fs_symlink_metadata fs (push_seg q n) of Inl _ \<Rightarrow> attrs_dummy | Inr m \<Rightarrow> attrs_from m)"

definition sftp_readdir :: "string \<Rightarrow> sftp \<Rightarrow> sftp_result" where
  "sftp_readdir h s =
     (case hm_get (sf_handles s) h of
        Some (ODir q ns) \<Rightarrow>
          (case guarded (sdisk s) CNextEntry q (Inr ()) of
             Inl e \<Rightarrow> Some (Inl (io_status e), s)
           | Inr _ \<Rightarrow>
               if ns = [] then Some (Inl StEof, s)
               else Some (Inr (RName (map (\<lambda>n. (utf8_lossy n, dir_entry_attrs (sdisk s) q n)) (take 100 ns))),
                          s\<lparr>sf_handles := hm_insert h (ODir q (drop 100 ns)) (sf_handles s)\<rparr>))
      | _ \<Rightarrow> Some (Inl StNoSuchFile, s))"

section \<open>Removing, making, renaming\<close>

text \<open>What \<open>remove\<close>, \<open>mkdir\<close> and \<open>rmdir\<close> share: the permission, the path, one call, one record.\<close>

definition sftp_simple ::
  "sftp_env \<Rightarrow> (permissions \<Rightarrow> bool) \<Rightarrow> (path \<Rightarrow> fs \<Rightarrow> unit fs_result) \<Rightarrow> string \<Rightarrow> string \<Rightarrow> bool \<Rightarrow>
    string \<Rightarrow> sftp \<Rightarrow> sftp_result" where
  "sftp_simple ev may call oper msg removes p s =
     (if \<not> may (sftp_permissions s) then
        Some (Inl StPermissionDenied, sftp_audit ev oper p 0 False msg_denied s)
      else (case sftp_resolve (sftp_home s) p of
         Inl e \<Rightarrow> Some (Inl e, s)
       | Inr q \<Rightarrow>
           (let sz = (if removes then (case fs_metadata (sdisk s) q of Inl _ \<Rightarrow> 0 | Inr m \<Rightarrow> m_len m) else 0) in
            (case call q (sdisk s) of
               (Inl e, fs1) \<Rightarrow> Some (Inl (io_status e), s\<lparr>sdisk := fs1\<rparr>)
             | (Inr _, fs1) \<Rightarrow>
                 (let s1 = s\<lparr>sdisk := fs1, squota := (if removes then quota_invalidate (sf_home s) (squota s) else squota s)\<rparr> in
                  Some (Inr ROk, sftp_audit ev oper (utf8_lossy (path_string q)) sz True msg s1))))))"

definition sftp_remove :: "sftp_env \<Rightarrow> string \<Rightarrow> sftp \<Rightarrow> sftp_result" where
  "sftp_remove ev = sftp_simple ev can_delete fs_remove_file ''DELETE'' msg_delete_ok True"

definition sftp_mkdir :: "sftp_env \<Rightarrow> string \<Rightarrow> sftp \<Rightarrow> sftp_result" where
  "sftp_mkdir ev = sftp_simple ev can_mkdir fs_create_dir ''MKDIR'' msg_mkdir_ok False"

definition sftp_rmdir :: "sftp_env \<Rightarrow> string \<Rightarrow> sftp \<Rightarrow> sftp_result" where
  "sftp_rmdir ev = sftp_simple ev can_rmdir fs_remove_dir_all ''RMDIR'' msg_rmdir_ok False"

definition sftp_rename :: "sftp_env \<Rightarrow> string \<Rightarrow> string \<Rightarrow> sftp \<Rightarrow> sftp_result" where
  "sftp_rename ev old new s =
     (if \<not> can_rename (sftp_permissions s) then
        Some (Inl StPermissionDenied, sftp_audit ev ''RENAME'' (old @ '' -> '' @ new) 0 False msg_denied s)
      else (case sftp_resolve (sftp_home s) old of
         Inl e \<Rightarrow> Some (Inl e, s)
       | Inr a \<Rightarrow>
           (case sftp_resolve (sftp_home s) new of
              Inl e \<Rightarrow> Some (Inl e, s)
            | Inr b \<Rightarrow>
                if fs_exists (sdisk s) b then Some (Inl StFailure, s)
                else (case fs_rename a b (sdisk s) of
                   (Inl e, fs1) \<Rightarrow> Some (Inl (io_status e), s\<lparr>sdisk := fs1\<rparr>)
                 | (Inr _, fs1) \<Rightarrow>
                     Some (Inr ROk, sftp_audit ev ''RENAME''
                       (utf8_lossy (path_string a) @ '' -> '' @ utf8_lossy (path_string b)) 0 True msg_rename_ok
                       (s\<lparr>sdisk := fs1\<rparr>))))))"

definition sftp_realpath :: "string \<Rightarrow> sftp \<Rightarrow> sftp_result" where
  "sftp_realpath p s =
     (case sftp_resolve (sftp_home s) p of
        Inl e \<Rightarrow> Some (Inl e, s)
      | Inr q \<Rightarrow>
          (let canon = (case fs_canonicalize (sdisk s) (sftp_home s) of Inl _ \<Rightarrow> sftp_home s | Inr c \<Rightarrow> c);
               virt = (case strip_prefix q canon of
                  None \<Rightarrow> ''/''
                | Some r \<Rightarrow> if r = [] then ''/'' else CHR ''/'' # utf8_lossy (path_string r))
           in Some (Inr (RName [(virt, attrs_dummy)]), s)))"

section \<open>Symbolic links\<close>

definition sftp_readlink :: "string \<Rightarrow> sftp \<Rightarrow> sftp_result" where
  "sftp_readlink p s =
     (case sftp_resolve (sftp_home s) p of
        Inl e \<Rightarrow> Some (Inl e, s)
      | Inr q \<Rightarrow>
          Some (case fs_read_link (sdisk s) q of
                  Inl e \<Rightarrow> Inl (io_status e) | Inr t \<Rightarrow> Inr (RName [(utf8_lossy t, attrs_dummy)]), s))"

text \<open>The check of the target: an absolute one has to resolve, a relative one must not leave the home when
  followed from the directory of the link.\<close>

definition target_ok :: "path \<Rightarrow> path \<Rightarrow> string \<Rightarrow> status_code + unit" where
  "target_ok home link target =
     (if prefix ''/'' target then (case sftp_resolve home target of Inl e \<Rightarrow> Inl e | Inr _ \<Rightarrow> Inr ())
      else
        (let dir = unwrap_or home (path_parent link);
             joined = path_join dir (path_of target)
         in (case lexical_walk StPermissionDenied home home (unwrap_or joined (strip_prefix joined home)) of
               Inl e \<Rightarrow> Inl e | Inr _ \<Rightarrow> Inr ())))"

definition sftp_symlink :: "sftp_env \<Rightarrow> string \<Rightarrow> string \<Rightarrow> sftp \<Rightarrow> sftp_result" where
  "sftp_symlink ev target linkname s =
     (if \<not> can_write (sftp_permissions s) then Some (Inl StPermissionDenied, s)
      else (case sftp_resolve (sftp_home s) linkname of
         Inl e \<Rightarrow> Some (Inl e, s)
       | Inr link \<Rightarrow>
           (case target_ok (sftp_home s) link target of
              Inl e \<Rightarrow> Some (Inl e, s)
            | Inr _ \<Rightarrow>
                if fs_exists (sdisk s) link then Some (Inl StFailure, s)
                else (case fs_symlink target link (sdisk s) of
                   (Inl e, fs1) \<Rightarrow> Some (Inl (io_status e), s\<lparr>sdisk := fs1\<rparr>)
                 | (Inr _, fs1) \<Rightarrow>
                     Some (Inr ROk, sftp_audit ev ''SYMLINK''
                       (utf8_lossy (path_string link) @ '' -> '' @ target) 0 True msg_symlink_ok (s\<lparr>sdisk := fs1\<rparr>))))))"

section \<open>Extensions\<close>

fun be_bytes :: "nat \<Rightarrow> nat \<Rightarrow> string" where
  "be_bytes 0 n = []"
| "be_bytes (Suc k) n = be_bytes k (n div 256) @ [char_of (n mod 256)]"

definition be_value :: "string \<Rightarrow> nat" where
  "be_value s = foldl (\<lambda>a c. a * 256 + of_char c) 0 s"

definition get_range :: "nat \<Rightarrow> nat \<Rightarrow> string \<Rightarrow> string option" where
  "get_range from n s = (if from + n \<le> length s then Some (take n (drop from s)) else None)"

definition read_u32 :: "string \<Rightarrow> nat \<Rightarrow> nat option" where
  "read_u32 s pos = map_option be_value (get_range pos 4 s)"

definition read_u64 :: "string \<Rightarrow> nat \<Rightarrow> nat option" where
  "read_u64 s pos = map_option be_value (get_range pos 8 s)"

definition parse_digest_request :: "string \<Rightarrow> (string \<times> u64 \<times> u64) option" where
  "parse_digest_request data =
     (case read_u32 data 0 of
        None \<Rightarrow> None
      | Some n \<Rightarrow>
          (case opt_filter utf8_valid (get_range 4 n data) of
             None \<Rightarrow> None
           | Some p \<Rightarrow>
               Some (p, of_nat (unwrap_or 0 (read_u64 data (4 + n))), of_nat (unwrap_or 0 (read_u64 data (12 + n))))))"

text \<open>The hashing loop over what is left of the file: \<open>remaining = 0\<close> stands for no limit.\<close>

function digest_loop :: "string \<Rightarrow> nat \<Rightarrow> string \<Rightarrow> string" where
  "digest_loop rest remaining hashed =
     (let want = (if remaining = 0 then 8192 else min 8192 remaining);
          got = take want rest
      in
      if got = [] then hashed
      else if 0 < remaining then
        (if remaining - length got = 0 then hashed @ got
         else digest_loop (drop want rest) (remaining - length got) (hashed @ got))
      else digest_loop (drop want rest) remaining (hashed @ got))"
  by pat_completeness auto
termination
  by (relation "measure (\<lambda>(c, _, _). length c)") (auto simp: min_def split: if_splits)

declare digest_loop.simps [simp del]

datatype digest_kind = Md5 | Sha256

fun digest_fn :: "sftp_env \<Rightarrow> digest_kind \<Rightarrow> string \<Rightarrow> string" where
  "digest_fn ev Md5 = se_md5 ev"
| "digest_fn ev Sha256 = se_sha256 ev"

definition digest_file :: "sftp_env \<Rightarrow> path \<Rightarrow> u64 \<Rightarrow> u64 \<Rightarrow> digest_kind \<Rightarrow> fs \<Rightarrow> io_error + string" where
  "digest_file ev q off len k fs =
     (case fs_open opts_read_only q fs of
        (Inl e, _) \<Rightarrow> Inl e
      | (Inr h, _) \<Rightarrow>
          (case fs_read_at h off (length (handle_content fs h)) fs of
             Inl e \<Rightarrow> Inl e
           | Inr bs \<Rightarrow> Inr (se_hex ev (digest_fn ev k (digest_loop bs (unat len) [])))))"

definition extended_digest :: "sftp_env \<Rightarrow> string \<Rightarrow> digest_kind \<Rightarrow> sftp \<Rightarrow> sftp_result" where
  "extended_digest ev data k s =
     (case parse_digest_request data of
        None \<Rightarrow> Some (Inl StBadMessage, s)
      | Some (p, off, len) \<Rightarrow>
          (case sftp_resolve (sftp_home s) p of
             Inl e \<Rightarrow> Some (Inl e, s)
           | Inr q \<Rightarrow>
               Some (case digest_file ev q off len k (sdisk s) of
                       Inl e \<Rightarrow> Inl (io_status e) | Inr d \<Rightarrow> Inr (RExtended d), s)))"

text \<open>\<open>se_statvfs\<close> gives block and fragment size, blocks, free and available blocks, files, free and
  available files, and the longest name.\<close>

definition space_payload :: "u64 list \<Rightarrow> string" where
  "space_payload vs = concat (map (\<lambda>v. be_bytes 8 (unat v)) (take 8 vs @ [0, 0] @ drop 8 vs))"

definition extended_space_available :: "sftp_env \<Rightarrow> string \<Rightarrow> sftp \<Rightarrow> sftp_result" where
  "extended_space_available ev data s =
     (case read_u32 data 0 of
        None \<Rightarrow> Some (Inl StBadMessage, s)
      | Some n \<Rightarrow>
          (case opt_filter utf8_valid (get_range 4 n data) of
             None \<Rightarrow> Some (Inl StBadMessage, s)
           | Some p \<Rightarrow>
               (case sftp_resolve (sftp_home s) p of
                  Inl e \<Rightarrow> Some (Inl e, s)
                | Inr q \<Rightarrow>
                    Some (case se_statvfs ev (sdisk s) q of
                            None \<Rightarrow> Inl StFailure | Some vs \<Rightarrow> Inr (RExtended (space_payload vs)), s))))"

definition sftp_extended :: "sftp_env \<Rightarrow> string \<Rightarrow> string \<Rightarrow> sftp \<Rightarrow> sftp_result" where
  "sftp_extended ev request data s =
     (if request = ''md5sum@openssh.com'' then extended_digest ev data Md5 s
      else if request = ''sha256sum@openssh.com'' then extended_digest ev data Sha256 s
      else if request = ''space-available@openssh.com'' then extended_space_available ev data s
      else Some (Inl StOpUnsupported, s))"

section \<open>Dispatch\<close>

datatype sftp_op =
    OpInit
  | OpOpen string open_flags
  | OpClose string
  | OpRead string u64 u32
  | OpWrite string u64 string
  | OpStat string
  | OpLstat string
  | OpFstat string
  | OpSetstat string file_attributes
  | OpOpendir string
  | OpReaddir string
  | OpRemove string
  | OpMkdir string
  | OpRmdir string
  | OpRename string string
  | OpRealpath string
  | OpReadlink string
  | OpSymlink string string
  | OpExtended string string

text \<open>A request that is not implemented (\<open>FSETSTAT\<close>) is answered by the default of the trait.\<close>

fun sftp_request :: "sftp_env \<Rightarrow> sftp_op \<Rightarrow> sftp \<Rightarrow> sftp_result" where
  "sftp_request ev OpInit s = sftp_init s"
| "sftp_request ev (OpOpen p f) s = sftp_open ev p f s"
| "sftp_request ev (OpClose h) s = sftp_close h s"
| "sftp_request ev (OpRead h off len) s = sftp_read ev h off len s"
| "sftp_request ev (OpWrite h off bs) s = sftp_write ev h off bs s"
| "sftp_request ev (OpStat p) s = sftp_stat p s"
| "sftp_request ev (OpLstat p) s = sftp_lstat p s"
| "sftp_request ev (OpFstat h) s = sftp_fstat h s"
| "sftp_request ev (OpSetstat p a) s = sftp_setstat ev p a s"
| "sftp_request ev (OpOpendir p) s = sftp_opendir p s"
| "sftp_request ev (OpReaddir h) s = sftp_readdir h s"
| "sftp_request ev (OpRemove p) s = sftp_remove ev p s"
| "sftp_request ev (OpMkdir p) s = sftp_mkdir ev p s"
| "sftp_request ev (OpRmdir p) s = sftp_rmdir ev p s"
| "sftp_request ev (OpRename a b) s = sftp_rename ev a b s"
| "sftp_request ev (OpRealpath p) s = sftp_realpath p s"
| "sftp_request ev (OpReadlink p) s = sftp_readlink p s"
| "sftp_request ev (OpSymlink t l) s = sftp_symlink ev t l s"
| "sftp_request ev (OpExtended r d) s = sftp_extended ev r d s"

end
