(* ===== verification/SftpSession.thy ===== *)
theory SftpSession
  imports SftpProtocol
begin

text \<open>
  What an SFTP session guarantees: where paths resolve, that the session is confined to its home (and which
  requests are the exception), the handle table, permissions, quota and the data path.
\<close>

section \<open>Resolution\<close>

definition sftp_safe :: "path \<Rightarrow> string \<Rightarrow> bool" where
  "sftp_safe home p =
     (case strip_prefix (path_of (trim p)) home of None \<Rightarrow> True | Some w \<Rightarrow> ParentDir \<notin> set w)"

lemma path_of_tail_rel: "path_of s = c # cs \<Longrightarrow> \<forall>c \<in> set cs. rel_comp c"
  by (cases rule: path_of_cases [of s]) auto

lemma rel_no_parent: "\<forall>c \<in> set w. rel_comp c \<Longrightarrow> ParentDir \<notin> set w \<Longrightarrow> \<exists>ns. w = map Normal ns"
proof (induction w)
  case (Cons c w)
  then obtain ns where "w = map Normal ns" by auto
  moreover obtain n where "c = Normal n" using Cons.prems by (auto simp: rel_comp_def)
  ultimately have "c # w = map Normal (n # ns)" by simp
  then show ?case by (rule exI)
qed simp

lemma home_within_rel: "path_of s = dir_path r @ w \<Longrightarrow> \<forall>c \<in> set w. rel_comp c"
  using path_of_tail_rel [of s RootDir "map Normal r @ w"] by (auto simp: dir_path_def)

lemma sftp_resolve_cases:
  "case sftp_resolve (dir_path r) p of
     Inl e \<Rightarrow> e = StNoSuchFile
   | Inr q \<Rightarrow> (\<exists>ns. q = dir_path (r @ ns)) \<or>
       (\<exists>w. path_of (trim p) = dir_path r @ w \<and> q = dir_path r @ w \<and> ParentDir \<in> set w)"
proof -
  let ?home = "dir_path r" and ?t = "trim p"
  have anchor: "case lexical_walk StNoSuchFile ?home ?home base of Inl e \<Rightarrow> e = StNoSuchFile
      | Inr q \<Rightarrow> \<exists>ns. q = dir_path (r @ ns)" for base
    using lexical_walk_inside [of StNoSuchFile ?home "[]" base] lexical_walk_err [of StNoSuchFile ?home ?home base]
    by (auto simp: dir_path_append split: sum.split)
  show ?thesis
  proof (cases "prefix ''/'' ?t \<and> dropWhile (\<lambda>c. c = CHR ''/'') ?t \<noteq> [] \<and> prefix ?home (path_of ?t)")
    case True
    then obtain w where w: "path_of ?t = ?home @ w" by (auto elim: prefixE)
    then have rel: "\<forall>c \<in> set w. rel_comp c" by (rule home_within_rel)
    have res: "sftp_resolve ?home p = Inr (?home @ w)"
      using True w rel by (simp add: sftp_resolve_def Let_def path_join_rel)
    show ?thesis
    proof (cases "ParentDir \<in> set w")
      case False
      with rel obtain ns where "w = map Normal ns" using rel_no_parent by blast
      with res show ?thesis by (auto simp: dir_path_append)
    qed (use res w in auto)
  next
    case False
    then have "\<exists>base. sftp_resolve ?home p = lexical_walk StNoSuchFile ?home ?home base"
      by (auto simp: sftp_resolve_def Let_def strip_prefix_def)
    then obtain base where "sftp_resolve ?home p = lexical_walk StNoSuchFile ?home ?home base" by blast
    with anchor [of base] show ?thesis by (auto split: sum.splits)
  qed
qed

lemma sftp_resolve_safe:
  assumes "sftp_resolve (dir_path r) p = Inr q" "sftp_safe (dir_path r) p"
  obtains ns where "q = dir_path (r @ ns)"
  using sftp_resolve_cases [of r p] assms by (auto simp: sftp_safe_def)

section \<open>Confinement\<close>

text \<open>The paths a request names.\<close>

fun op_paths :: "sftp_op \<Rightarrow> string list" where
  "op_paths (OpOpen p _) = [p]"
| "op_paths (OpSetstat p _) = [p]"
| "op_paths (OpRemove p) = [p]"
| "op_paths (OpMkdir p) = [p]"
| "op_paths (OpRmdir p) = [p]"
| "op_paths (OpRename a b) = [a, b]"
| "op_paths _ = []"

fun makes_link :: "sftp_op \<Rightarrow> bool" where
  "makes_link (OpSymlink _ _) = True"
| "makes_link _ = False"

definition sftp_allowed :: "string list \<Rightarrow> sftp_env \<times> sftp_op \<Rightarrow> bool" where
  "sftp_allowed r x \<longleftrightarrow> list_all (sftp_safe (dir_path r)) (op_paths (snd x)) \<and> \<not> makes_link (snd x)"

definition handles_below :: "string list \<Rightarrow> sftp \<Rightarrow> bool" where
  "handles_below r s \<longleftrightarrow>
     path_of (sf_home s) = dir_path r \<and>
     (\<forall>h f w. hm_get (sf_handles s) h = Some (OFile f w) \<longrightarrow> handle_below r (sdisk s) f)"

definition sftp_step :: "sftp_env \<times> sftp_op \<Rightarrow> sftp \<Rightarrow> sftp" where
  "sftp_step x s = (case sftp_request (fst x) (snd x) s of None \<Rightarrow> s | Some (_, s') \<Rightarrow> s')"

lemma audit_same [simp]:
  "sdisk (sftp_audit ev oper p z ok m s) = sdisk s" "sf_handles (sftp_audit ev oper p z ok m s) = sf_handles s"
  "sf_home (sftp_audit ev oper p z ok m s) = sf_home s" "susers (sftp_audit ev oper p z ok m s) = susers s"
  by (simp_all add: sftp_audit_def)

lemma throttle_same [simp]:
  "sdisk (sftp_throttle ev n s) = sdisk s" "sf_handles (sftp_throttle ev n s) = sf_handles s"
  "sf_home (sftp_throttle ev n s) = sf_home s" "susers (sftp_throttle ev n s) = susers s"
  by (simp_all add: sftp_throttle_def)

lemma quota_ok_same:
  "quota_ok ev n s = Some (b, s1) \<Longrightarrow>
    sdisk s1 = sdisk s \<and> sf_handles s1 = sf_handles s \<and> sf_home s1 = sf_home s \<and> susers s1 = susers s \<and>
    sf_username s1 = sf_username s"
  by (auto simp: quota_ok_def split: if_splits option.splits)

text \<open>A request keeps the session: the disk stays confined and the handles below the root.\<close>

definition keeps :: "string list \<Rightarrow> sftp \<Rightarrow> sftp_result \<Rightarrow> bool" where
  "keeps r s res \<longleftrightarrow>
     (\<forall>rep s'. res = Some (rep, s') \<longrightarrow> stays_in r (sdisk s) (sdisk s') \<and> handles_below r s')"

lemma keeps_None [simp]: "keeps r s None"
  by (simp add: keeps_def)

lemma keepsI:
  assumes "root_ok (sdisk s) r" "handles_below r s" "stays_in r (sdisk s) (sdisk s')"
    and "sf_home s' = sf_home s"
    and "\<And>h f w. hm_get (sf_handles s') h = Some (OFile f w) \<Longrightarrow>
      hm_get (sf_handles s) h = Some (OFile f w) \<or> handle_below r (sdisk s') f"
  shows "keeps r s (Some (rep, s'))"
  using assms handle_below_stays [OF _ assms(3)] unfolding keeps_def handles_below_def by fastforce

lemma keeps_same:
  "root_ok (sdisk s) r \<Longrightarrow> handles_below r s \<Longrightarrow> sdisk s' = sdisk s \<Longrightarrow> sf_home s' = sf_home s \<Longrightarrow>
    sf_handles s' = sf_handles s \<Longrightarrow> keeps r s (Some (rep, s'))"
  by (rule keepsI) (simp_all add: stays_in_refl)

lemma next_handle_same:
  "next_handle_id s = Some (h, s1) \<Longrightarrow>
    sdisk s1 = sdisk s \<and> sf_handles s1 = sf_handles s \<and> sf_home s1 = sf_home s \<and> hm_get (sf_handles s) h = None"
  by (auto simp: next_handle_id_def simp del: free_handle.simps dest: free_handle_fresh)

lemma keeps_add_handle:
  assumes "root_ok (sdisk s0) r" "handles_below r s0" "stays_in r (sdisk s0) (sdisk s)"
    and "sf_home s = sf_home s0" "sf_handles s = sf_handles s0"
    and "\<And>f w. e = OFile f w \<Longrightarrow> handle_below r (sdisk s) f"
  shows "keeps r s0 (add_handle e s)"
proof (cases "next_handle_id s")
  case None
  then show ?thesis by (simp add: add_handle_def)
next
  case (Some x)
  obtain h s1 where x: "x = (h, s1)" by (cases x)
  with Some next_handle_same [of s h s1] assms show ?thesis
    by (auto simp: add_handle_def intro!: keepsI split: if_splits)
qed

lemma keeps_refused:
  "root_ok (sdisk s) r \<Longrightarrow> handles_below r s \<Longrightarrow> keeps r s (Some (rep, s))"
  by (rule keeps_same) simp_all

lemma open_keeps:
  assumes ok: "root_ok (sdisk s) r" and inv: "handles_below r s" and safe: "sftp_safe (dir_path r) p"
  shows "keeps r s (sftp_open ev p f s)"
proof -
  have home: "path_of (sf_home s) = dir_path r" using inv by (simp add: handles_below_def)
  show ?thesis
  proof (cases "open_allowed (sftp_permissions s) f")
    case False
    with ok inv show ?thesis by (simp add: sftp_open_def keeps_same)
  next
    case True
    have q0: "(if wants_write f then quota_ok ev 0 s else Some (True, s)) = Some (True, s)"
      by (simp add: quota_ok_def)
    show ?thesis
    proof (cases "sftp_resolve (dir_path r) p")
      case (Inl e)
      with True home ok inv show ?thesis by (simp add: sftp_open_def q0 sftp_home_def keeps_refused)
    next
      case (Inr q)
      with safe obtain ns where q: "q = dir_path (r @ ns)" using sftp_resolve_safe by blast
      obtain x fs1 where o: "fs_open (sftp_opts f) q (sdisk s) = (x, fs1)" by (cases "fs_open (sftp_opts f) q (sdisk s)")
      have st: "stays_in r (sdisk s) fs1" using open_stays [OF ok, of "sftp_opts f" ns] o q by simp
      have hb: "handle_below r fs1 h" if "x = Inr h" for h
        using open_handle_below [OF ok, of "sftp_opts f" ns h fs1] o q that by simp
      from True home Inr o show ?thesis
        by (cases x) (auto simp: sftp_open_def q0 sftp_home_def st hb intro!: keepsI keeps_add_handle ok inv)
    qed
  qed
qed

lemma close_keeps:
  assumes "root_ok (sdisk s) r" "handles_below r s"
  shows "keeps r s (sftp_close h s)"
  using assms
  by (auto simp: sftp_close_def Let_def stays_in_refl intro!: keepsI split: option.split open_entry.split if_splits)

lemma write_keeps:
  assumes ok: "root_ok (sdisk s) r" and inv: "handles_below r s"
  shows "keeps r s (sftp_write ev h off bs s)"
proof (cases "quota_ok ev (of_nat (length bs)) s")
  case None
  then show ?thesis by (simp add: sftp_write_def)
next
  case (Some x)
  obtain b s1 where x: "x = (b, s1)" by (cases x)
  note same = quota_ok_same [OF Some [unfolded x]]
  show ?thesis
  proof (cases "b \<and> (\<exists>f w. hm_get (sf_handles s1) h = Some (OFile f w))")
    case False
    with Some x same ok inv show ?thesis
      by (auto simp: sftp_write_def intro!: keeps_same split: bool.split option.split open_entry.split)
  next
    case True
    then obtain f w where f: "hm_get (sf_handles s1) h = Some (OFile f w)" and b by blast
    have hb: "handle_below r (sdisk s) f" using inv f same by (auto simp: handles_below_def)
    obtain y fs1 where wr: "fs_write_at f off bs (sdisk s1) = (y, fs1)" by (cases "fs_write_at f off bs (sdisk s1)")
    have st: "stays_in r (sdisk s) fs1" using write_at_stays [OF ok hb, of off bs] wr same by simp
    with Some x \<open>b\<close> f wr same ok inv show ?thesis
      by (auto simp: sftp_write_def intro!: keepsI split: sum.split)
  qed
qed

lemma set_len_stays:
  assumes "root_ok fs r" "handle_below r fs h"
  shows "stays_in r fs (snd (fs_set_len h n fs))"
proof (cases "guarded fs CSetLen (fh_path h) (ok_or InvalidInput (fh_ino h))")
  case (Inl e)
  with assms show ?thesis by (simp add: fs_set_len_def stays_in_refl)
next
  case (Inr i)
  then have "fh_ino h = Some i" by (cases "fh_ino h") (auto dest: guarded_InrD)
  with Inr assms put_handle_stays [OF assms(1), of i] show ?thesis
    by (auto simp: fs_set_len_def Let_def handle_below_def stays_in_refl)
qed

lemma inode_update_stays:
  assumes ok: "root_ok fs r" and n: "fs_node fs l = Some (NFile i)" "prefix r l"
  shows "stays_in r fs (fs\<lparr>inodes := hm_insert i x (inodes fs)\<rparr>)"
proof -
  have node: "fs_node (fs\<lparr>inodes := y\<rparr>) l' = fs_node fs l'" for y l' by (simp add: fs_node_def)
  have wf: "fs_wf fs" and lf: "link_free fs r" using ok by (simp_all add: root_ok_def)
  have "hm_get (inodes fs) i \<noteq> None" using fs_wf_file [OF wf n(1)] by simp
  then have "fs_wf (fs\<lparr>inodes := hm_insert i x (inodes fs)\<rparr>)" by (rule fs_wf_inodes [OF wf])
  moreover have "same_outside r fs (fs\<lparr>inodes := hm_insert i x (inodes fs)\<rparr>)"
    by (rule same_outside_inode [OF wf n]) (simp_all add: node)
  ultimately show ?thesis using lf by (simp add: stays_in_def node link_free_def same_env_inodes)
qed

lemma set_permissions_stays:
  assumes "root_ok fs r"
  shows "stays_in r fs (snd (fs_set_permissions (dir_path (r @ ns)) m fs))"
proof (cases "guarded fs CChmod (dir_path (r @ ns)) (locate fs True (dir_path (r @ ns)))")
  case (Inl e)
  with assms show ?thesis by (simp add: fs_set_permissions_def stays_in_refl)
next
  case (Inr l)
  have l: "l = r @ ns" by (rule locate_below_guarded [OF assms Inr])
  then have pre: "prefix r l" by simp
  note inode_update_stays [OF assms _ pre] stays_in_add_dir [OF assms pre]
  with Inr show ?thesis
    by (auto simp: fs_set_permissions_def stays_in_refl [OF assms] split: option.split node.split)
qed

lemma set_attributes_stays:
  assumes ok: "root_ok fs r"
  shows "stays_in r fs (snd (set_attributes (dir_path (r @ ns)) a fs))"
proof -
  let ?q = "dir_path (r @ ns)"
  have sized: "stays_in r fs1 (snd (set_size ?q n fs1))" if ok1: "root_ok fs1 r" for n fs1
  proof -
    let ?oo = "opts_new\<lparr>o_write := True\<rparr>"
    obtain x fs2 where o: "fs_open ?oo ?q fs1 = (x, fs2)" by (cases "fs_open ?oo ?q fs1")
    have st: "stays_in r fs1 fs2" using open_stays [OF ok1, of ?oo ns] o by simp
    show ?thesis
    proof (cases x)
      case (Inr h)
      have "handle_below r fs2 h" using open_handle_below [OF ok1, of ?oo ns h fs2] o Inr by simp
      with set_len_stays stays_in_root_ok [OF ok1 st] have "stays_in r fs2 (snd (fs_set_len h n fs2))" by blast
      with o Inr stays_in_trans [OF st] show ?thesis by (simp add: set_size_def)
    qed (use o st in \<open>simp add: set_size_def\<close>)
  qed
  obtain y fs1 where c: "(case fa_permissions a of None \<Rightarrow> (Inr (), fs)
      | Some m \<Rightarrow> fs_set_permissions ?q (and m 0xFFF) fs) = (y, fs1)"
    by (metis surj_pair)
  have st: "stays_in r fs fs1"
  proof (cases "fa_permissions a")
    case None
    with c have "fs1 = fs" by simp
    with stays_in_refl [OF ok] show ?thesis by simp
  next
    case (Some m)
    with c set_permissions_stays [OF ok, of ns "and m 0xFFF"] show ?thesis by simp
  qed
  with c sized [OF stays_in_root_ok [OF ok st]] stays_in_trans [OF st] show ?thesis
    by (auto simp: set_attributes_def split: sum.split option.split)
qed

lemma call_keeps:
  assumes ok: "root_ok (sdisk s) r" and inv: "handles_below r s"
    and c: "call (dir_path (r @ ns)) (sdisk s) = (x, fs1)"
    and stays: "\<And>ns. stays_in r (sdisk s) (snd (call (dir_path (r @ ns)) (sdisk s)))"
    and s1: "sdisk s1 = fs1" "sf_home s1 = sf_home s" "sf_handles s1 = sf_handles s"
  shows "keeps r s (Some (rep, s1))"
  by (rule keepsI [OF ok inv]) (use s1 stays [of ns] c in simp_all)

lemma simple_keeps:
  assumes ok: "root_ok (sdisk s) r" and inv: "handles_below r s" and safe: "sftp_safe (dir_path r) p"
    and stays: "\<And>ns. stays_in r (sdisk s) (snd (call (dir_path (r @ ns)) (sdisk s)))"
  shows "keeps r s (sftp_simple ev may call oper msg rm p s)"
proof (cases "may (sftp_permissions s)")
  case False
  with ok inv show ?thesis by (simp add: sftp_simple_def keeps_same)
next
  case True
  have home: "path_of (sf_home s) = dir_path r" using inv by (simp add: handles_below_def)
  show ?thesis
  proof (cases "sftp_resolve (dir_path r) p")
    case (Inl e)
    with True home ok inv show ?thesis by (simp add: sftp_simple_def sftp_home_def keeps_refused)
  next
    case (Inr q)
    with safe obtain ns where q: "q = dir_path (r @ ns)" using sftp_resolve_safe by blast
    obtain x fs1 where c: "call q (sdisk s) = (x, fs1)" by (cases "call q (sdisk s)")
    from True home Inr c q show ?thesis
      by (auto simp: sftp_simple_def sftp_home_def Let_def
          intro!: call_keeps [OF ok inv, of call ns x fs1] stays split: sum.split)
  qed
qed

lemma setstat_keeps:
  assumes ok: "root_ok (sdisk s) r" and inv: "handles_below r s" and safe: "sftp_safe (dir_path r) p"
  shows "keeps r s (sftp_setstat ev p a s)"
proof (cases "can_write (sftp_permissions s)")
  case False
  with ok inv show ?thesis by (simp add: sftp_setstat_def keeps_refused)
next
  case True
  have home: "path_of (sf_home s) = dir_path r" using inv by (simp add: handles_below_def)
  show ?thesis
  proof (cases "sftp_resolve (dir_path r) p")
    case (Inl e)
    with True home ok inv show ?thesis by (simp add: sftp_setstat_def sftp_home_def keeps_refused)
  next
    case (Inr q)
    with safe obtain ns where q: "q = dir_path (r @ ns)" using sftp_resolve_safe by blast
    obtain x fs1 where c: "set_attributes q a (sdisk s) = (x, fs1)" by (cases "set_attributes q a (sdisk s)")
    from True home Inr c q show ?thesis
      by (auto simp: sftp_setstat_def sftp_home_def
          intro!: call_keeps [OF ok inv, of "\<lambda>q. set_attributes q a" ns x fs1] set_attributes_stays [OF ok] split: sum.split)
  qed
qed

lemma rename_keeps:
  assumes ok: "root_ok (sdisk s) r" and inv: "handles_below r s"
    and safe: "sftp_safe (dir_path r) a" "sftp_safe (dir_path r) b"
  shows "keeps r s (sftp_rename ev a b s)"
proof (cases "can_rename (sftp_permissions s)")
  case False
  with ok inv show ?thesis by (simp add: sftp_rename_def keeps_same)
next
  case True
  have home: "path_of (sf_home s) = dir_path r" using inv by (simp add: handles_below_def)
  show ?thesis
  proof (cases "\<exists>a' b'. sftp_resolve (dir_path r) a = Inr a' \<and> sftp_resolve (dir_path r) b = Inr b'")
    case False
    with True home ok inv show ?thesis
      by (auto simp: sftp_rename_def sftp_home_def keeps_refused split: sum.split)
  next
    case res: True
    then obtain a' b' where res: "sftp_resolve (dir_path r) a = Inr a'" "sftp_resolve (dir_path r) b = Inr b'" by blast
    obtain ns where a': "a' = dir_path (r @ ns)" using sftp_resolve_safe res(1) safe(1) by blast
    obtain ms where b': "b' = dir_path (r @ ms)" using sftp_resolve_safe res(2) safe(2) by blast
    obtain x fs1 where c: "fs_rename a' b' (sdisk s) = (x, fs1)" by (cases "fs_rename a' b' (sdisk s)")
    have "stays_in r (sdisk s) fs1" using rename_stays [OF ok, of ns ms] c a' b' by simp
    with True home res c ok inv show ?thesis
      by (auto simp: sftp_rename_def sftp_home_def keeps_refused intro!: keepsI split: sum.split)
  qed
qed

lemma add_dir_keeps:
  "root_ok (sdisk s) r \<Longrightarrow> handles_below r s \<Longrightarrow> keeps r s (add_handle (ODir q ns) s)"
  by (rule keeps_add_handle) (simp_all add: stays_in_refl)

lemma extended_same: "\<exists>rep. sftp_extended ev req d s = Some (rep, s)"
proof -
  have "\<exists>rep. extended_digest ev d k s = Some (rep, s)" for k
    by (cases "parse_digest_request d") (auto simp: extended_digest_def split: sum.split)
  moreover have "\<exists>rep. extended_space_available ev d s = Some (rep, s)"
    by (simp add: extended_space_available_def split: sum.split option.split)
  ultimately show ?thesis by (simp only: sftp_extended_def) (metis (no_types))
qed

lemma reading_keeps:
  assumes ok: "root_ok (sdisk s) r" and inv: "handles_below r s"
  shows "keeps r s (sftp_read ev h off len s)" "keeps r s (sftp_stat p s)" "keeps r s (sftp_lstat p s)"
    "keeps r s (sftp_fstat h s)" "keeps r s (sftp_opendir p s)" "keeps r s (sftp_readdir h s)"
    "keeps r s (sftp_realpath p s)" "keeps r s (sftp_readlink p s)" "keeps r s (sftp_extended ev p d s)"
    "keeps r s (sftp_init s)"
proof -
  note same = keeps_same [OF ok inv] and add = add_dir_keeps [OF ok inv]
  show "keeps r s (sftp_read ev h off len s)"
    by (auto simp: sftp_read_def intro!: same split: option.split open_entry.split sum.split)
  show "keeps r s (sftp_stat p s)" "keeps r s (sftp_lstat p s)"
    by (auto simp: sftp_stat_def sftp_lstat_def attrs_reply_def intro!: same split: sum.split)
  show "keeps r s (sftp_fstat h s)"
    by (auto simp: sftp_fstat_def intro!: same split: option.split open_entry.split)
  show "keeps r s (sftp_opendir p s)"
    by (auto simp: sftp_opendir_def intro!: same add split: sum.split)
  show "keeps r s (sftp_readdir h s)"
    by (auto simp: sftp_readdir_def stays_in_refl [OF ok] intro!: same keepsI [OF ok inv]
        split: option.split open_entry.split sum.split if_splits)
  show "keeps r s (sftp_realpath p s)" "keeps r s (sftp_readlink p s)"
    by (auto simp: sftp_realpath_def sftp_readlink_def Let_def intro!: same split: sum.split)
  show "keeps r s (sftp_extended ev p d s)"
    using extended_same [of ev p d s] same by fastforce
  show "keeps r s (sftp_init s)"
    by (auto simp: sftp_init_def intro!: same)
qed

lemma removal_keeps:
  assumes "root_ok (sdisk s) r" "handles_below r s" "sftp_safe (dir_path r) p"
  shows "keeps r s (sftp_remove ev p s)" "keeps r s (sftp_mkdir ev p s)" "keeps r s (sftp_rmdir ev p s)"
  unfolding sftp_remove_def sftp_mkdir_def sftp_rmdir_def
  using assms by (rule simple_keeps; intro remove_file_stays create_dir_stays remove_dir_all_stays assms(1))+

lemmas all_keeps = reading_keeps open_keeps close_keeps write_keeps setstat_keeps rename_keeps removal_keeps

lemma request_keeps:
  assumes "root_ok (sdisk s) r" "handles_below r s" "sftp_allowed r (ev, op)"
  shows "keeps r s (sftp_request ev op s)"
  using assms(3) by (cases op) (simp_all add: sftp_allowed_def all_keeps [OF assms(1,2)])

interpretation sftp_session: confined_session sftp_step sdisk handles_below sftp_allowed
proof
  fix r s and x :: "sftp_env \<times> sftp_op"
  assume "handles_below r s" "root_ok (sdisk s) r" "sftp_allowed r x"
  then have k: "keeps r s (sftp_request (fst x) (snd x) s)" by (cases x) (simp add: request_keeps)
  then show "stays_in r (sdisk s) (sdisk (sftp_step x s))" "handles_below r (sftp_step x s)"
    using \<open>root_ok (sdisk s) r\<close> \<open>handles_below r s\<close>
    by (auto simp: sftp_step_def keeps_def stays_in_refl split: option.split)
qed

end
