(* ===== verification/SftpProps.thy ===== *)
theory SftpProps
  imports SftpSession
begin

text \<open>
  The properties of an SFTP session: resolution and confinement with their exceptions, permissions, the
  handle table, quota, the data path, and the extensions.
\<close>

section \<open>A concrete session\<close>

definition demo_sftp :: sftp where
  "demo_sftp = sftp_new ''al'' ''/home/al'' demo_users file_logger_new [] ''10.0.0.1'' 0 demo_fs"

definition demo_senv :: sftp_env where
  "demo_senv =
     \<lparr>se_now = ''t'', se_ns = 0, se_log_free = True, se_fuel = 4, se_md5 = (\<lambda>s. s), se_sha256 = (\<lambda>s. s),
      se_hex = (\<lambda>s. s), se_statvfs = (\<lambda>_ _. None)\<rparr>"

definition read_flags :: open_flags where
  "read_flags = \<lparr>of_read = True, of_write = False, of_append = False, of_create = False, of_truncate = False,
     of_exclude = False\<rparr>"

lemma demo_sftp_simps [simp]:
  "sdisk demo_sftp = demo_fs" "sf_home demo_sftp = ''/home/al''" "sf_handles demo_sftp = []"
  "sftp_permissions demo_sftp = permissions_full" "sf_next_handle demo_sftp = 1" "sf_limiter demo_sftp = None"
  by (simp_all add: demo_sftp_def sftp_new_def sftp_permissions_def get_user_def demo_users_def hm_get_def demo_user_def
      permissions_full_def)

lemma demo_home_path [simp]: "path_of ''/home/al'' = dir_path demo_home"
  by (simp add: path_of_def comp_of_def dir_path_def)

section \<open>Resolution and confinement\<close>

text \<open>where SFTP paths resolve.  Every path is refused with \<open>NoSuchFile\<close> or resolves below the home,
  except one kind: a path that spells the home's own absolute path and then has a \<open>..\<close> resolves
  to itself, unchecked.\<close>

theorem sftp_resolve_confined:
  "case sftp_resolve (dir_path r) p of
     Inl e \<Rightarrow> e = StNoSuchFile
   | Inr q \<Rightarrow> (\<exists>ns. q = dir_path (r @ ns)) \<or>
       (\<exists>w. path_of (trim p) = dir_path r @ w \<and> q = dir_path r @ w \<and> ParentDir \<in> set w)"
  by (rule sftp_resolve_cases)



lemma read_secret:
  assumes "inodes fs = inodes demo_fs" "faults fs = faults demo_fs"
  shows "fs_read_at (new_handle (Some (Suc 0)) p (sftp_opts read_flags)) 0 n fs = Inr (take n ''top'')"
  using assms
  by (simp add: fs_read_at_def seek_ok_def guarded_def new_handle_def handle_content_def sftp_opts_def read_flags_def)
    (simp add: demo_fs_def hm_get_def)

lemma open_for_reading:
  assumes "sftp_resolve (sftp_home s) p = Inr q" "can_read (sftp_permissions s)"
    and "fs_open (sftp_opts read_flags) q (sdisk s) = (Inr h, fs1)"
  shows "sftp_open ev p read_flags s = add_handle (OFile h False) (s\<lparr>sdisk := fs1\<rparr>)"
  using assms by (simp add: sftp_open_def open_allowed_def wants_write_def read_flags_def)

lemma first_handle:
  "sf_handles s = [] \<Longrightarrow> add_handle e s =
    Some (Inr (RHandle (handle_name (sf_next_handle s))), s\<lparr>sf_next_handle := sf_next_handle s + 1,
      sf_handles := [(handle_name (sf_next_handle s), e)]\<rparr>)"
  by (simp add: add_handle_def next_handle_id_def hm_insert_def)

lemma read_three [simp]: "unat (min 3 MAX_READ_LEN) = 3" "take 3 ''top'' = ''top''"
  by (simp_all add: MAX_READ_LEN_def min_def)

text \<open>Claim C5: the exception is a way out.  A user who may read opens a file outside the home by spelling the
  home and climbing out of it, and reads its contents.\<close>

theorem sftp_home_prefix_escape:
  "\<exists>s' h. sftp_open demo_senv ''/home/al/../../etc/secret'' read_flags demo_sftp = Some (Inr (RHandle h), s') \<and>
    map_option fst (sftp_read demo_senv h 0 3 s') = Some (Inr (RData ''top''))"
proof -
  let ?q = "dir_path demo_home @ [ParentDir, ParentDir, Normal ''etc'', Normal ''secret'']"
  have res: "sftp_resolve (sftp_home demo_sftp) ''/home/al/../../etc/secret'' = Inr ?q"
    unfolding sftp_home_def demo_sftp_simps demo_home_path by code_simp
  have "locate demo_fs True ?q = Inr [''etc'', ''secret'']" by code_simp
  then have open': "fs_open (sftp_opts read_flags) ?q (sdisk demo_sftp) =
      (Inr (new_handle (Some 1) ?q (sftp_opts read_flags)), demo_fs)"
    by (simp add: fs_open_def guarded_def read_flags_def sftp_opts_def opts_valid_def demo_node demo_entries_def)
  have "sftp_open demo_senv ''/home/al/../../etc/secret'' read_flags demo_sftp =
      Some (Inr (RHandle (handle_name 1)), demo_sftp\<lparr>sdisk := demo_fs, sf_next_handle := 2,
        sf_handles := [(handle_name 1, OFile (new_handle (Some 1) ?q (sftp_opts read_flags)) False)]\<rparr>)"
    by (subst open_for_reading [OF res _ open']) (simp_all add: permissions_full_def first_handle)
  then show ?thesis
    by (simp add: sftp_read_def hm_get_def read_secret read_three)
qed

text \<open>Claim C6: symbolic links are the other way out.  The check of an absolute target reads it as a path inside
  the home, but the link keeps it as it is, so a user who may write and read makes a link to a file outside the
  home and reads it through the link.\<close>

theorem sftp_symlink_escape:
  "\<exists>s1 s2 h. sftp_symlink demo_senv ''/etc/secret'' ''l'' demo_sftp = Some (Inr ROk, s1) \<and>
    sftp_open demo_senv ''l'' read_flags s1 = Some (Inr (RHandle h), s2) \<and>
    map_option fst (sftp_read demo_senv h 0 3 s2) = Some (Inr (RData ''top''))"
proof -
  let ?l = "dir_path (demo_home @ [''l''])" and ?link = "demo_home @ [''l'']"
  have res: "sftp_resolve (dir_path demo_home) ''l'' = Inr ?l" by code_simp
  have tgt: "target_ok (dir_path demo_home) ?l ''/etc/secret'' = Inr ()" by code_simp
  have none: "fs_node demo_fs ?link = None" by (simp add: demo_node demo_entries_def)
  have slot: "file_slot demo_fs ?link" by (simp only: file_slot_def none option.case)
  have loc: "locate demo_fs fl ?l = Inr ?link" for fl by (rule locate_child [OF demo_dirs(2) slot])
  have "\<not> fs_exists demo_fs ?l"
    using loc none by (simp add: fs_exists_def fs_metadata_def stat_at_def guarded_def)
  let ?fs = "add_entry ?link (NLink ''/etc/secret'' demo_attr) demo_fs"
  have sym: "fs_symlink ''/etc/secret'' ?l demo_fs = (Inr (), ?fs)"
    using loc none parent_ok_child [OF demo_dirs(2), of "''l''"]
    by (simp add: fs_symlink_def guarded_def demo_fs_def [THEN arg_cong [where f = new_attr]])
  define s1 where "s1 = sftp_audit demo_senv ''SYMLINK'' (utf8_lossy (path_string ?l) @ '' -> '' @ ''/etc/secret'')
      0 True msg_symlink_ok (demo_sftp\<lparr>sdisk := ?fs\<rparr>)"
  have made: "sftp_symlink demo_senv ''/etc/secret'' ''l'' demo_sftp = Some (Inr ROk, s1)"
    using res tgt sym \<open>\<not> fs_exists demo_fs ?l\<close>
    by (simp add: sftp_symlink_def sftp_home_def permissions_full_def s1_def del: append.simps)
  have node: "fs_node ?fs x = (if x = ?link then Some (NLink ''/etc/secret'' demo_attr) else fs_node demo_fs x)" for x
    by (simp add: fs_node_add)
  have follow: "locate ?fs True ?l = Inr [''etc'', ''secret'']"
    by code_simp
  have "fs_node ?fs [''etc'', ''secret''] = Some (NFile 1)"
    unfolding node by (simp add: demo_node demo_entries_def)
  with follow have open': "fs_open (sftp_opts read_flags) ?l (sdisk s1) =
      (Inr (new_handle (Some 1) ?l (sftp_opts read_flags)), ?fs)"
    by (simp add: s1_def fs_open_def guarded_def read_flags_def sftp_opts_def opts_valid_def add_entry_def
        del: append.simps)
  have s1: "sf_home s1 = ''/home/al''" "sftp_permissions s1 = permissions_full" "sf_handles s1 = []"
    "sf_next_handle s1 = 1" "sf_limiter s1 = None"
    by (simp_all add: s1_def sftp_audit_def demo_senv_def sftp_permissions_def)
      (simp add: demo_sftp_def sftp_new_def get_user_def demo_users_def hm_get_def demo_user_def)
  let ?h = "new_handle (Some 1) ?l (sftp_opts read_flags)"
  have "sftp_open demo_senv ''l'' read_flags s1 = Some (Inr (RHandle (handle_name 1)),
      s1\<lparr>sdisk := ?fs, sf_next_handle := 2, sf_handles := [(handle_name 1, OFile ?h False)]\<rparr>)"
    by (subst open_for_reading [OF _ _ open'])
      (simp_all add: s1 sftp_home_def res permissions_full_def first_handle del: append.simps)
  moreover have "fs_read_at ?h 0 3 ?fs = Inr ''top''"
    using read_secret [of ?fs ?l 3] by (simp add: add_entry_def del: append.simps)
  ultimately show ?thesis
    using made by (simp add: sftp_read_def hm_get_def del: append.simps)
qed

end
