(* ===== verification/SftpHandler.thy ===== *)
theory SftpHandler
  imports SftpProps FtpAuth
begin

text \<open>
  \<open>sftp/src/handler.rs\<close>: one SSH connection, from authentication to the SFTP subsystem.  The connection is a
  state machine over the calls \<open>russh\<close> makes; its state holds what the handler keeps and the parts it
  shares.  A call has no result when reloading the user database panics.
\<close>

record ssh =
  hd_authenticated :: bool
  hd_username :: "string option"
  hd_home_dir :: "string option"
  hd_channels :: "(nat, unit) hmap"
  hd_client_ip :: string
  hd_users_path :: path
  hd_keys_dir :: path
  hd_users :: user_manager
  hd_log :: file_logger
  hd_quota :: quota_cache
  hd_disk :: fs

text \<open>The environment of a call; \<open>he_parse_key\<close> is the parser of stored public keys, \<open>he_reply_ok\<close> whether the
  reply that accepts a subsystem can be sent.\<close>

record ssh_env =
  he_login :: login_env
  he_now :: datetime
  he_ns :: instant
  he_log_free :: bool
  he_show_io :: "io_error \<Rightarrow> string"
  he_parse_key :: "string \<Rightarrow> string option"
  he_reply_ok :: bool

definition ssh_new ::
  "user_manager \<Rightarrow> file_logger \<Rightarrow> quota_cache \<Rightarrow> string \<Rightarrow> path \<Rightarrow> path \<Rightarrow> fs \<Rightarrow> ssh" where
  "ssh_new um fl qc ip up kd fs =
     \<lparr>hd_authenticated = False, hd_username = None, hd_home_dir = None, hd_channels = [], hd_client_ip = ip,
      hd_users_path = up, hd_keys_dir = kd, hd_users = um, hd_log = fl, hd_quota = qc, hd_disk = fs\<rparr>"

datatype auth_reply = AuthAccept | AuthReject

definition ssh_audit :: "ssh_env \<Rightarrow> string \<Rightarrow> string option \<Rightarrow> string \<Rightarrow> ssh \<Rightarrow> ssh" where
  "ssh_audit ev msg user result s =
     (if he_log_free ev then
        s\<lparr>hd_log := fl_log (he_now ev)
            \<lparr>fi_username = unwrap_or ''unknown'' user, fi_client_ip = hd_client_ip s, fi_operation = ''SFTP'',
             fi_file_path = msg, fi_file_size = 0, fi_protocol = ''SFTP'',
             fi_success = (result = ''LOGIN''), fi_message = result\<rparr> (hd_log s)\<rparr>
      else s)"

definition resolve_user :: "ssh_env \<Rightarrow> string \<Rightarrow> ssh \<Rightarrow> ((string \<times> bool) option \<times> ssh) option" where
  "resolve_user ev name s =
     (if \<not> is_safe_username name then Some (None, s)
      else (case um_reload (le_json (he_login ev)) (le_error_log (he_login ev)) (hd_users_path s) (hd_disk s) (hd_users s) of
         None \<Rightarrow> None
       | Some m \<Rightarrow>
           Some (map_option (\<lambda>u. (u_home_dir u, u_enabled u)) (opt_filter u_enabled (get_user m name)),
                 s\<lparr>hd_users := m\<rparr>)))"

definition validate_home :: "ssh_env \<Rightarrow> string \<Rightarrow> string \<Rightarrow> ssh \<Rightarrow> (string + unit) \<times> ssh" where
  "validate_home ev name home s =
     (if trim home = [] then
        (Inl (''home directory not configured for user '' @ [CHR 0x27] @ name @ [CHR 0x27]), s)
      else (case fs_metadata (hd_disk s) (path_of home) of
         Inl e \<Rightarrow>
           (Inl (''home directory '' @ [CHR 0x27] @ utf8_lossy (path_string (path_of home)) @ [CHR 0x27] @
                 '' does not exist or cannot be accessed: '' @ he_show_io ev e), s)
       | Inr m \<Rightarrow>
           if m_kind m \<noteq> KDir then
             (Inl (''home path '' @ [CHR 0x27] @ home @ [CHR 0x27] @ '' is not a directory''), s)
           else (case fs_canonicalize (hd_disk s) (path_of home) of
              Inl e \<Rightarrow>
                (Inl (''cannot canonicalize home directory '' @ [CHR 0x27] @ utf8_lossy (path_string (path_of home)) @
                      [CHR 0x27] @ '': '' @ he_show_io ev e), s)
            | Inr c \<Rightarrow>
                (Inr (), s\<lparr>hd_home_dir := Some (utf8_lossy (path_string c)), hd_username := Some name,
                           hd_authenticated := True\<rparr>))))"

definition ssh_reject :: "ssh_env \<Rightarrow> string \<Rightarrow> string \<Rightarrow> ssh \<Rightarrow> auth_reply \<times> ssh" where
  "ssh_reject ev name via s =
     (AuthReject, ssh_audit ev (via @ '' auth failed for user '' @ name) (Some name) ''AUTH_FAIL'' s)"

definition finish_login :: "ssh_env \<Rightarrow> string \<Rightarrow> string \<Rightarrow> string \<Rightarrow> ssh \<Rightarrow> auth_reply \<times> ssh" where
  "finish_login ev name home msg s =
     (case validate_home ev name home s of
        (Inr _, s1) \<Rightarrow> (AuthAccept, ssh_audit ev msg (Some name) ''LOGIN'' s1)
      | (Inl e, s1) \<Rightarrow> (AuthReject, ssh_audit ev (''Login failed: '' @ e) (Some name) ''AUTH_FAIL'' s1))"

definition auth_password :: "ssh_env \<Rightarrow> string \<Rightarrow> string \<Rightarrow> ssh \<Rightarrow> (auth_reply \<times> ssh) option" where
  "auth_password ev name pw s =
     (case resolve_user ev name s of
        None \<Rightarrow> None
      | Some (None, s1) \<Rightarrow> Some (ssh_reject ev name ''password'' s1)
      | Some (Some (home, _), s1) \<Rightarrow>
          (case um_authenticate (le_argon (he_login ev)) (le_json (he_login ev)) (users_path (le_process (he_login ev)))
                  (le_now (he_login ev)) name pw (hd_users s1) (hd_disk s1) of
             (ok, m, fs) \<Rightarrow>
               (let s2 = s1\<lparr>hd_users := m, hd_disk := fs\<rparr> in
                Some (if \<not> ok then ssh_reject ev name ''password'' s2
                      else finish_login ev name home (''User '' @ name @ '' logged in'') s2))))"

definition key_path_of :: "path \<Rightarrow> string \<Rightarrow> path" where
  "key_path_of dir name = path_join dir (path_of (name @ ''.pub''))"

definition key_matches :: "ssh_env \<Rightarrow> path \<Rightarrow> string \<Rightarrow> string \<Rightarrow> fs \<Rightarrow> bool" where
  "key_matches ev dir name key fs =
     (case fs_read_to_string fs (key_path_of dir name) of
        Inl _ \<Rightarrow> False
      | Inr stored \<Rightarrow> (case he_parse_key ev (trim stored) of None \<Rightarrow> False | Some k \<Rightarrow> key = k))"

definition auth_publickey :: "ssh_env \<Rightarrow> string \<Rightarrow> string \<Rightarrow> ssh \<Rightarrow> (auth_reply \<times> ssh) option" where
  "auth_publickey ev name key s =
     (case resolve_user ev name s of
        None \<Rightarrow> None
      | Some (None, s1) \<Rightarrow> Some (ssh_reject ev name ''public key'' s1)
      | Some (Some (home, enabled), s1) \<Rightarrow>
          Some (if \<not> enabled \<or> \<not> key_matches ev (hd_keys_dir s1) name key (hd_disk s1)
                then ssh_reject ev name ''public key'' s1
                else finish_login ev name home (''User '' @ name @ '' logged in via public key'') s1))"

definition channel_open_session :: "nat \<Rightarrow> ssh \<Rightarrow> ssh" where
  "channel_open_session c s = s\<lparr>hd_channels := hm_insert c () (hd_channels s)\<rparr>"

section \<open>The connection as a state machine\<close>

datatype ssh_call = CallPassword string string | CallKey string string | CallOpen nat | CallSubsystem nat string

datatype ssh_answer = Answered auth_reply | Opened | NoSubsystem | HandlerError | Subsystem sftp

text \<open>An accepted subsystem request takes the channel and starts an SFTP session on it; when the acceptance cannot
  be sent the handler fails, with the channel already taken.\<close>

definition subsystem_request :: "ssh_env \<Rightarrow> nat \<Rightarrow> string \<Rightarrow> ssh \<Rightarrow> ssh_answer \<times> ssh" where
  "subsystem_request ev c name s =
     (if name \<noteq> ''sftp'' then (NoSubsystem, s)
      else if \<not> hd_authenticated s then (NoSubsystem, s)
      else if hm_get (hd_channels s) c = None then (NoSubsystem, s)
      else
        (let s1 = s\<lparr>hd_channels := hm_remove c (hd_channels s)\<rparr>;
             x = sftp_new (unwrap_or [] (hd_username s)) (unwrap_or [] (hd_home_dir s)) (hd_users s) (hd_log s)
                   (hd_quota s) (hd_client_ip s) (he_ns ev) (hd_disk s)
         in if he_reply_ok ev then (Subsystem x, s1) else (HandlerError, s1)))"

fun ssh_handle :: "ssh_env \<Rightarrow> ssh_call \<Rightarrow> ssh \<Rightarrow> (ssh_answer \<times> ssh) option" where
  "ssh_handle ev (CallPassword u pw) s = map_option (map_prod Answered id) (auth_password ev u pw s)"
| "ssh_handle ev (CallKey u k) s = map_option (map_prod Answered id) (auth_publickey ev u k s)"
| "ssh_handle ev (CallOpen c) s = Some (Opened, channel_open_session c s)"
| "ssh_handle ev (CallSubsystem c n) s = Some (subsystem_request ev c n s)"

text \<open>The runs of a connection, with their calls and answers; the disk and the shared parts may be changed by
  others between two calls (\<open>interfere\<close>), the handler's own fields may not.\<close>

definition same_handler :: "ssh \<Rightarrow> ssh \<Rightarrow> bool" where
  "same_handler s s' \<longleftrightarrow>
     hd_authenticated s' = hd_authenticated s \<and> hd_username s' = hd_username s \<and>
     hd_home_dir s' = hd_home_dir s \<and> hd_channels s' = hd_channels s \<and> hd_client_ip s' = hd_client_ip s \<and>
     hd_users_path s' = hd_users_path s \<and> hd_keys_dir s' = hd_keys_dir s"

inductive ssh_run :: "ssh \<Rightarrow> (ssh_call \<times> ssh_answer) list \<Rightarrow> ssh \<Rightarrow> bool" for s0 :: ssh where
  start: "ssh_run s0 [] s0"
| call: "ssh_run s0 tr s \<Longrightarrow> ssh_handle ev c s = Some (a, s') \<Longrightarrow> ssh_run s0 (tr @ [(c, a)]) s'"
| interfere: "ssh_run s0 tr s \<Longrightarrow> same_handler s s' \<Longrightarrow> ssh_run s0 tr s'"

inductive_cases ssh_run_snocE: "ssh_run s0 (tr @ [x]) s"

fun call_user :: "ssh_call \<Rightarrow> string option" where
  "call_user (CallPassword u _) = Some u"
| "call_user (CallKey u _) = Some u"
| "call_user _ = None"

definition logged_in :: "(ssh_call \<times> ssh_answer) list \<Rightarrow> string \<Rightarrow> bool" where
  "logged_in tr u \<longleftrightarrow> (\<exists>c. (c, Answered AuthAccept) \<in> set tr \<and> call_user c = Some u)"

lemma ssh_audit_same [simp]:
  "hd_authenticated (ssh_audit ev m u r s) = hd_authenticated s" "hd_username (ssh_audit ev m u r s) = hd_username s"
  "hd_home_dir (ssh_audit ev m u r s) = hd_home_dir s" "hd_channels (ssh_audit ev m u r s) = hd_channels s"
  "hd_disk (ssh_audit ev m u r s) = hd_disk s" "hd_users (ssh_audit ev m u r s) = hd_users s"
  "hd_keys_dir (ssh_audit ev m u r s) = hd_keys_dir s"
  by (simp_all add: ssh_audit_def)

lemma resolve_user_same:
  "resolve_user ev n s = Some (x, s1) \<Longrightarrow>
    hd_authenticated s1 = hd_authenticated s \<and> hd_username s1 = hd_username s \<and> hd_home_dir s1 = hd_home_dir s \<and>
    hd_disk s1 = hd_disk s \<and> hd_keys_dir s1 = hd_keys_dir s \<and> (x \<noteq> None \<longrightarrow> is_safe_username n)"
  by (auto simp: resolve_user_def split: if_splits option.splits)

lemma validate_home_cases:
  assumes "validate_home ev n home s = (r, s1)"
  obtains (bad) e where "r = Inl e" "s1 = s"
    | (good) c where "r = Inr ()" "fs_is_dir (hd_disk s) (path_of home)" "fs_canonicalize (hd_disk s) (path_of home) = Inr c"
        "s1 = s\<lparr>hd_home_dir := Some (utf8_lossy (path_string c)), hd_username := Some n, hd_authenticated := True\<rparr>"
proof (cases "trim home = []")
  case True
  with assms bad show thesis by (auto simp: validate_home_def)
next
  case False
  show thesis
  proof (cases "fs_metadata (hd_disk s) (path_of home)")
    case (Inl e)
    with assms bad False show thesis by (auto simp: validate_home_def)
  next
    case (Inr m)
    show thesis
    proof (cases "m_kind m = KDir")
      case dir: True
      show thesis
      proof (cases "fs_canonicalize (hd_disk s) (path_of home)")
        case (Inl e)
        with assms bad False Inr dir show thesis by (auto simp: validate_home_def)
      next
        case inner: (Inr c)
        with assms good False Inr dir show thesis by (auto simp: validate_home_def fs_kind_is_def)
      qed
    next
      case False
      with assms bad \<open>trim home \<noteq> []\<close> Inr show thesis by (auto simp: validate_home_def)
    qed
  qed
qed

lemma finish_login_cases:
  assumes "finish_login ev n home msg s = (a, s1)"
  obtains (bad) "a = AuthReject" "hd_authenticated s1 = hd_authenticated s" "hd_username s1 = hd_username s"
      "hd_home_dir s1 = hd_home_dir s"
    | (good) c where "a = AuthAccept" "fs_is_dir (hd_disk s) (path_of home)" "fs_canonicalize (hd_disk s) (path_of home) = Inr c"
        "hd_authenticated s1" "hd_username s1 = Some n" "hd_home_dir s1 = Some (utf8_lossy (path_string c))"
proof -
  obtain r s2 where v: "validate_home ev n home s = (r, s2)" by (cases "validate_home ev n home s")
  from v show thesis
    by (cases rule: validate_home_cases) (use assms v that in \<open>auto simp: finish_login_def\<close>)
qed

text \<open>An authentication either leaves the login state or logs in the user it names.\<close>

lemma auth_step:
  assumes "ssh_handle ev c s = Some (Answered a, s')"
  shows "(a = AuthReject \<and> hd_authenticated s' = hd_authenticated s \<and> hd_username s' = hd_username s \<and> hd_home_dir s' = hd_home_dir s) \<or>
    (a = AuthAccept \<and> hd_authenticated s' \<and> hd_username s' = call_user c \<and> hd_home_dir s' \<noteq> None \<and>
     (\<exists>n. call_user c = Some n \<and> is_safe_username n))"
proof (cases c)
  case (CallPassword n pw)
  with assms obtain x s1 where r: "resolve_user ev n s = Some (x, s1)"
    by (auto simp: auth_password_def split: option.splits)
  note same = resolve_user_same [OF r]
  show ?thesis
  proof (cases x)
    case None
    with assms CallPassword r same show ?thesis by (auto simp: auth_password_def ssh_reject_def)
  next
    case (Some hb)
    obtain home b where hb: "hb = (home, b)" by (cases hb)
    obtain ok m fs where au: "um_authenticate (le_argon (he_login ev)) (le_json (he_login ev))
        (users_path (le_process (he_login ev))) (le_now (he_login ev)) n pw (hd_users s1) (hd_disk s1) = (ok, m, fs)"
      by (metis prod_cases3)
    show ?thesis
    proof (cases ok)
      case False
      with assms CallPassword r Some hb au same show ?thesis by (auto simp: auth_password_def ssh_reject_def Let_def)
    next
      case True
      with assms CallPassword r Some hb au
      have "finish_login ev n home (''User '' @ n @ '' logged in'') (s1\<lparr>hd_users := m, hd_disk := fs\<rparr>) = (a, s')"
        by (simp add: auth_password_def Let_def map_prod_def split: prod.splits)
      then show ?thesis
        by (cases rule: finish_login_cases) (use same Some CallPassword in auto)
    qed
  qed
next
  case (CallKey n k)
  with assms obtain x s1 where r: "resolve_user ev n s = Some (x, s1)"
    by (auto simp: auth_publickey_def split: option.splits)
  note same = resolve_user_same [OF r]
  show ?thesis
  proof (cases x)
    case None
    with assms CallKey r same show ?thesis by (auto simp: auth_publickey_def ssh_reject_def)
  next
    case (Some hb)
    obtain home b where hb: "hb = (home, b)" by (cases hb)
    show ?thesis
    proof (cases "\<not> b \<or> \<not> key_matches ev (hd_keys_dir s1) n k (hd_disk s1)")
      case True
      with assms CallKey r Some hb same show ?thesis by (auto simp: auth_publickey_def ssh_reject_def)
    next
      case False
      with assms CallKey r Some hb
      have "finish_login ev n home (''User '' @ n @ '' logged in via public key'') s1 = (a, s')"
        by (simp add: auth_publickey_def map_prod_def split: prod.splits)
      then show ?thesis
        by (cases rule: finish_login_cases) (use same Some CallKey in auto)
    qed
  qed
qed (use assms in \<open>auto simp: subsystem_request_def Let_def split: prod.splits option.splits if_splits\<close>)


section \<open>Sessions and logins\<close>

text \<open>The specification reads the trace alone: the last accepted login, and whether a channel is open and
  not taken over by a session.\<close>

fun note_login :: "ssh_call \<times> ssh_answer \<Rightarrow> string option \<Rightarrow> string option" where
  "note_login (c, Answered AuthAccept) u = call_user c"
| "note_login _ u = u"

definition last_login :: "(ssh_call \<times> ssh_answer) list \<Rightarrow> string option" where
  "last_login tr = fold note_login tr None"

fun note_channel :: "nat \<Rightarrow> ssh_call \<times> ssh_answer \<Rightarrow> bool \<Rightarrow> bool" where
  "note_channel d (CallOpen c, _) b = (b \<or> c = d)"
| "note_channel d (CallSubsystem c _, Subsystem _) b = (b \<and> c \<noteq> d)"
| "note_channel d (CallSubsystem c _, HandlerError) b = (b \<and> c \<noteq> d)"
| "note_channel d _ b = b"

definition channel_live :: "nat \<Rightarrow> (ssh_call \<times> ssh_answer) list \<Rightarrow> bool" where
  "channel_live d tr = fold (note_channel d) tr False"

lemma trace_snoc [simp]:
  "last_login [] = None" "last_login (tr @ [x]) = note_login x (last_login tr)"
  "channel_live d [] = False" "channel_live d (tr @ [x]) = note_channel d x (channel_live d tr)"
  by (simp_all add: last_login_def channel_live_def)

definition handler_inv :: "(ssh_call \<times> ssh_answer) list \<Rightarrow> ssh \<Rightarrow> bool" where
  "handler_inv tr s \<longleftrightarrow>
     hd_username s = last_login tr \<and> (hd_authenticated s \<longleftrightarrow> last_login tr \<noteq> None) \<and>
     (last_login tr \<noteq> None \<longrightarrow> hd_home_dir s \<noteq> None) \<and>
     (\<forall>u. last_login tr = Some u \<longrightarrow> is_safe_username u) \<and>
     (\<forall>d. hm_get (hd_channels s) d \<noteq> None \<longleftrightarrow> channel_live d tr)"

lemma finish_login_channels: "hd_channels (snd (finish_login ev n home m t)) = hd_channels t"
proof -
  obtain r t1 where v: "validate_home ev n home t = (r, t1)" by (cases "validate_home ev n home t")
  then have "hd_channels t1 = hd_channels t" by (cases rule: validate_home_cases) auto
  with v show ?thesis by (cases r) (simp_all add: finish_login_def)
qed

lemma finish_login_disk:
  assumes "finish_login ev n home m t = (a, t1)"
  shows "hd_disk t1 = hd_disk t"
proof -
  obtain r t2 where v: "validate_home ev n home t = (r, t2)" by (cases "validate_home ev n home t")
  then have "hd_disk t2 = hd_disk t" by (cases rule: validate_home_cases) auto
  with v assms show ?thesis by (cases r) (auto simp: finish_login_def)
qed

lemma ssh_reject_channels: "hd_channels (snd (ssh_reject ev n via t)) = hd_channels t"
  by (simp add: ssh_reject_def)

lemma resolve_user_channels: "resolve_user ev n t = Some (x, t1) \<Longrightarrow> hd_channels t1 = hd_channels t"
  by (auto simp: resolve_user_def split: if_splits option.splits)

lemma auth_password_channels:
  assumes "auth_password ev n pw s = Some (a, s')"
  shows "hd_channels s' = hd_channels s"
proof -
  obtain x s1 where r: "resolve_user ev n s = Some (x, s1)"
    using assms by (auto simp: auth_password_def split: option.splits)
  note c = resolve_user_channels [OF r]
  show ?thesis
  proof (cases x)
    case None
    with assms r have "(a, s') = ssh_reject ev n ''password'' s1" by (simp add: auth_password_def)
    with c ssh_reject_channels show ?thesis by (metis snd_conv)
  next
    case (Some hb)
    obtain home b where hb: "hb = (home, b)" by (cases hb)
    obtain ok m fs where au: "um_authenticate (le_argon (he_login ev)) (le_json (he_login ev))
        (users_path (le_process (he_login ev))) (le_now (he_login ev)) n pw (hd_users s1) (hd_disk s1) = (ok, m, fs)"
      by (metis prod_cases3)
    let ?s2 = "s1\<lparr>hd_users := m, hd_disk := fs\<rparr>"
    have "hd_channels s' = hd_channels ?s2"
      using assms r Some hb au ssh_reject_channels [of ev n "''password''" ?s2]
        finish_login_channels [of ev n home "''User '' @ n @ '' logged in''" ?s2]
      by (cases ok) (auto simp: auth_password_def Let_def)
    with c show ?thesis by simp
  qed
qed

lemma auth_publickey_channels:
  assumes "auth_publickey ev n k s = Some (a, s')"
  shows "hd_channels s' = hd_channels s"
proof -
  obtain x s1 where r: "resolve_user ev n s = Some (x, s1)"
    using assms by (auto simp: auth_publickey_def split: option.splits)
  note c = resolve_user_channels [OF r]
  show ?thesis
  proof (cases x)
    case None
    with assms r have "(a, s') = ssh_reject ev n ''public key'' s1" by (simp add: auth_publickey_def)
    with c ssh_reject_channels show ?thesis by (metis snd_conv)
  next
    case (Some hb)
    obtain home b where hb: "hb = (home, b)" by (cases hb)
    have "hd_channels s' = hd_channels s1"
      using assms r Some hb ssh_reject_channels [of ev n "''public key''" s1]
        finish_login_channels [of ev n home "''User '' @ n @ '' logged in via public key''" s1]
      by (cases "\<not> b \<or> \<not> key_matches ev (hd_keys_dir s1) n k (hd_disk s1)") (auto simp: auth_publickey_def)
    with c show ?thesis by simp
  qed
qed

lemma auth_channels:
  assumes "ssh_handle ev c s = Some (Answered a, s')"
  shows "hd_channels s' = hd_channels s \<and> (\<exists>u. call_user c = Some u)"
  using assms auth_password_channels auth_publickey_channels
  by (cases c) (auto simp: subsystem_request_def Let_def split: prod.splits option.splits if_splits)

lemma handler_inv_step:
  assumes i: "handler_inv tr s" and h: "ssh_handle ev c s = Some (a, s')"
  shows "handler_inv (tr @ [(c, a)]) s'"
proof (cases a)
  case (Answered r)
  note st = auth_step [OF h [unfolded Answered]] and ch = auth_channels [OF h [unfolded Answered]]
  have "note_channel d (c, Answered r) b = b" for d b using ch by (cases c) auto
  with i st ch show ?thesis by (cases r) (auto simp: handler_inv_def Answered)
next
  case Opened
  with h obtain d where "c = CallOpen d" "s' = channel_open_session d s"
    by (cases c) (auto simp: subsystem_request_def Let_def split: prod.splits option.splits if_splits)
  with i Opened show ?thesis by (auto simp: handler_inv_def channel_open_session_def)
next
  case NoSubsystem
  with h obtain d n where "c = CallSubsystem d n" "s' = s"
    by (cases c) (auto simp: subsystem_request_def Let_def split: prod.splits option.splits if_splits)
  with i NoSubsystem show ?thesis by (auto simp: handler_inv_def)
next
  case (Subsystem x)
  with h obtain d n where "c = CallSubsystem d n" "s' = s\<lparr>hd_channels := hm_remove d (hd_channels s)\<rparr>"
    by (cases c) (auto simp: subsystem_request_def Let_def split: prod.splits option.splits if_splits)
  with i Subsystem show ?thesis by (auto simp: handler_inv_def)
next
  case HandlerError
  with h obtain d n where "c = CallSubsystem d n" "s' = s\<lparr>hd_channels := hm_remove d (hd_channels s)\<rparr>"
    by (cases c) (auto simp: subsystem_request_def Let_def split: prod.splits option.splits if_splits)
  with i HandlerError show ?thesis by (auto simp: handler_inv_def)
qed

lemma ssh_run_inv: "ssh_run (ssh_new um fl qc ip up kd d) tr s \<Longrightarrow> handler_inv tr s"
proof (induction rule: ssh_run.induct)
  case start
  show ?case by (simp add: handler_inv_def ssh_new_def)
next
  case (call tr s ev c a s')
  then show ?case using handler_inv_step by blast
next
  case (interfere tr s s')
  then show ?case by (simp add: handler_inv_def same_handler_def)
qed

end
