(* ===== verification/SftpServer.thy ===== *)
theory SftpServer
  imports Service SftpHandler
begin

text \<open>
  \<open>sftp/src/server.rs\<close>: the life cycle of the SFTP server, its handlers and its host key.  The listener task runs a
  clone of the instance, which shares the sender of the shutdown channel: dropping the instance does not drop it.
  The key library and the parser of socket addresses are parameters.
\<close>

record sftp_server =
  sn_flag :: nat
  sn_tx :: "nat option"
  sn_closed :: "nat option"
  sn_users_path :: path
  sn_keys_dir :: path

definition sftp_server_with_paths :: "path \<Rightarrow> path \<Rightarrow> runtime \<Rightarrow> sftp_server \<times> runtime" where
  "sftp_server_with_paths up kd rt =
     (case new_flag rt of (i, rt1) \<Rightarrow>
        (\<lparr>sn_flag = i, sn_tx = None, sn_closed = None, sn_users_path = up, sn_keys_dir = kd\<rparr>, rt1))"

definition sftp_server_new :: "process \<Rightarrow> runtime \<Rightarrow> sftp_server \<times> runtime" where
  "sftp_server_new pr = sftp_server_with_paths (users_path pr) (keys_dir pr)"

text \<open>A client without an address is called unknown.\<close>

definition new_client ::
  "sftp_server \<Rightarrow> user_manager \<Rightarrow> file_logger \<Rightarrow> quota_cache \<Rightarrow> string option \<Rightarrow> fs \<Rightarrow> ssh" where
  "new_client s um fl qc addr disk =
     ssh_new um fl qc (unwrap_or ''unknown'' addr) (sn_users_path s) (sn_keys_dir s) disk"

section \<open>The host key\<close>

record 'k key_lib =
  key_random :: "'k option"
  key_to_openssh :: "'k \<Rightarrow> string option"
  key_from_openssh :: "string \<Rightarrow> 'k option"
  key_public :: "'k \<Rightarrow> string option"

datatype key_error = KeyIo io_error | KeyParse | KeyGenerate | KeyEncode | KeyPublicEncode

definition tighten_mode :: "path \<Rightarrow> fs \<Rightarrow> unit fs_result" where
  "tighten_mode p fs =
     (case fs_metadata fs p of
        Inl e \<Rightarrow> (Inl e, fs)
      | Inr m \<Rightarrow>
          if and (a_mode (m_attr m)) 0x1FF \<noteq> 0x180 then fs_set_permissions p 0x180 fs else (Inr (), fs))"

definition load_host_key :: "'k key_lib \<Rightarrow> path \<Rightarrow> fs \<Rightarrow> (key_error + 'k) \<times> fs" where
  "load_host_key kl p fs =
     (case fs_read_to_string fs p of
        Inl e \<Rightarrow> (Inl (KeyIo e), fs)
      | Inr s \<Rightarrow>
          (case key_from_openssh kl s of
             None \<Rightarrow> (Inl KeyParse, fs)
           | Some k \<Rightarrow>
               (case tighten_mode p fs of (Inl e, fs1) \<Rightarrow> (Inl (KeyIo e), fs1) | (Inr _, fs1) \<Rightarrow> (Inr k, fs1))))"

definition write_with_mode :: "path \<Rightarrow> string \<Rightarrow> u32 \<Rightarrow> fs \<Rightarrow> unit fs_result" where
  "write_with_mode p s m fs =
     (case fs_write p s fs of (Inl e, fs1) \<Rightarrow> (Inl e, fs1) | (Inr _, fs1) \<Rightarrow> fs_set_permissions p m fs1)"

definition generate_host_key :: "'k key_lib \<Rightarrow> path \<Rightarrow> fs \<Rightarrow> (key_error + 'k) \<times> fs" where
  "generate_host_key kl p fs =
     (case create_parent p fs of
        (Inl e, fs1) \<Rightarrow> (Inl (KeyIo e), fs1)
      | (Inr _, fs1) \<Rightarrow>
          (case key_random kl of
             None \<Rightarrow> (Inl KeyGenerate, fs1)
           | Some k \<Rightarrow>
               (case key_to_openssh kl k of
                  None \<Rightarrow> (Inl KeyEncode, fs1)
                | Some s \<Rightarrow>
                    (case write_with_mode p s 0x180 fs1 of
                       (Inl e, fs2) \<Rightarrow> (Inl (KeyIo e), fs2)
                     | (Inr _, fs2) \<Rightarrow>
                         (case key_public kl k of
                            None \<Rightarrow> (Inl KeyPublicEncode, fs2)
                          | Some ps \<Rightarrow>
                              (case write_with_mode (with_extension p ''pub'') ps 0x1A4 fs2 of
                                 (Inl e, fs3) \<Rightarrow> (Inl (KeyIo e), fs3)
                               | (Inr _, fs3) \<Rightarrow> (Inr k, fs3)))))))"

definition load_or_generate_host_key :: "'k key_lib \<Rightarrow> string \<Rightarrow> fs \<Rightarrow> (key_error + 'k) \<times> fs" where
  "load_or_generate_host_key kl ps fs =
     (if fs_exists fs (path_of ps) then load_host_key kl (path_of ps) fs else generate_host_key kl (path_of ps) fs)"

section \<open>What russh is configured with\<close>

datatype auth_method = MethodPassword | MethodPublicKey

record 'k russh_config =
  rc_server_id :: string
  rc_keys :: "'k list"
  rc_methods :: "auth_method list"
  rc_max_auth_attempts :: u64
  rc_inactivity_secs :: "u64 option"
  rc_rejection_secs :: u64
  rc_initial_rejection_secs :: "u64 option"

definition russh_config_of :: "config \<Rightarrow> 'k \<Rightarrow> 'k russh_config" where
  "russh_config_of c k =
     \<lparr>rc_server_id = ''SSH-2.0-russh_0.63'', rc_keys = [k], rc_methods = [MethodPassword, MethodPublicKey],
      rc_max_auth_attempts = ucast (max_auth_attempts (sftp c)), rc_inactivity_secs = Some (idle_timeout (security c)),
      rc_rejection_secs = 1, rc_initial_rejection_secs = Some 1\<rparr>"

text \<open>Neither the limit of connections nor the time limit of an authentication has any effect.\<close>

lemma russh_config_ignores:
  "russh_config_of (c\<lparr>sftp := (sftp c)\<lparr>auth_timeout := t\<rparr>, security := (security c)\<lparr>max_connections := n\<rparr>\<rparr>) k =
    russh_config_of c k"
  by (simp add: russh_config_of_def)

section \<open>Start and stop\<close>

record 'k sftp_start_env =
  se_config :: config
  se_config_free :: bool
  se_keys :: "'k key_lib"
  se_addr_ok :: "string \<Rightarrow> bool"

datatype sftp_start_error = ConfigLocked | HostKeyError key_error | InvalidBindAddress

definition sftp_start ::
  "'k sftp_start_env \<Rightarrow> sftp_server \<Rightarrow> runtime \<Rightarrow> (sftp_start_error + unit) \<times> sftp_server \<times> runtime" where
  "sftp_start e s rt =
     (if \<not> se_config_free e then (Inl ConfigLocked, s, rt)
      else (case load_or_generate_host_key (se_keys e) (host_key_path (sftp (se_config e))) (rt_disk rt) of
         (Inl x, d) \<Rightarrow> (Inl (HostKeyError x), s, rt\<lparr>rt_disk := d\<rparr>)
       | (Inr k, d) \<Rightarrow>
           (let rt1 = rt\<lparr>rt_disk := d\<rparr>;
                addr = sftp_bind_ip (sftp (se_config e)) @ '':'' @ show_dec (unat (sftp_port (sftp (se_config e))))
            in if \<not> se_addr_ok e addr then (Inl InvalidBindAddress, s, rt1)
               else
                 (let rt2 = set_flag (sn_flag s) True rt1;
                      (t, rt3) = new_channels rt2
                  in (Inr (), s\<lparr>sn_tx := Some t, sn_closed := Some t\<rparr>,
                      spawn_listener t addr (sn_flag s) (tell (sn_tx s) rt3))))))"

definition sftp_stop_begin :: "sftp_server \<Rightarrow> runtime \<Rightarrow> nat option \<times> sftp_server \<times> runtime" where
  "sftp_stop_begin s rt =
     (sn_closed s, s\<lparr>sn_tx := None, sn_closed := None\<rparr>, tell (sn_tx s) (set_flag (sn_flag s) False rt))"

definition sftp_stop_end :: "sftp_server \<Rightarrow> runtime \<Rightarrow> runtime" where
  "sftp_stop_end s rt = rt"

definition sftp_is_running :: "sftp_server \<Rightarrow> runtime \<Rightarrow> bool" where
  "sftp_is_running s rt = flag_set rt (sn_flag s)"

definition sftp_drop :: "sftp_server \<Rightarrow> runtime \<Rightarrow> runtime" where
  "sftp_drop s rt = rt"

definition sftp_service :: "process \<Rightarrow> ('k sftp_start_env, sftp_server, sftp_start_error) service" where
  "sftp_service pr =
     \<lparr>sv_new = sftp_server_new pr, sv_start = sftp_start, sv_stop_begin = sftp_stop_begin, sv_stop_end = sftp_stop_end,
      sv_running = sftp_is_running, sv_drop = sftp_drop\<rparr>"

lemma sftp_service_ops [simp]:
  "sv_new (sftp_service pr) = sftp_server_new pr" "sv_start (sftp_service pr) = sftp_start"
  "sv_stop_begin (sftp_service pr) = sftp_stop_begin" "sv_stop_end (sftp_service pr) = sftp_stop_end"
  "sv_running (sftp_service pr) = sftp_is_running" "sv_drop (sftp_service pr) = sftp_drop"
  by (simp_all add: sftp_service_def)

text \<open>The disk is no part of what the tasks rely on.\<close>

lemma disk_ok [simp]: "rt_ok (rt\<lparr>rt_disk := d\<rparr>) = rt_ok rt"
  by (simp add: rt_ok_def)

lemma sftp_start_fails:
  assumes "sftp_start e s rt = (Inl x, s1, rt1)"
  shows "s1 = s \<and> (\<exists>d. rt1 = rt\<lparr>rt_disk := d\<rparr>)"
proof -
  obtain r d where k: "load_or_generate_host_key (se_keys e) (host_key_path (sftp (se_config e))) (rt_disk rt) = (r, d)"
    by fastforce
  have "\<exists>d. rt = rt\<lparr>rt_disk := d\<rparr>" by (rule exI [of _ "rt_disk rt"]) simp
  with assms k show ?thesis
    by (cases r; cases "se_config_free e") (auto simp: sftp_start_def Let_def new_channels_def split: if_splits)
qed

lemma sftp_start_launched:
  assumes s: "sftp_start e s rt = (Inr u, s1, rt1)" and tx: "sn_tx s = None"
    and ok: "rt_ok rt" and i: "sn_flag s < next_flag rt"
    and fresh: "\<forall>t k. hm_get (tasks rt) t = Some k \<longrightarrow> tk_flag k \<noteq> sn_flag s"
  shows "sn_flag s1 = sn_flag s \<and> rt_ok rt1 \<and> flag_set rt1 (sn_flag s) \<and> next_flag rt1 = next_flag rt \<and>
      (\<forall>i. i \<noteq> sn_flag s \<longrightarrow> flag_set rt1 i = flag_set rt i) \<and>
      (\<exists>t a. sn_tx s1 = Some t \<and> hm_get (tasks rt) t = None \<and>
         (\<forall>u. hm_get (tasks rt1) u = (if u = t then Some (fresh_task a (sn_flag s)) else hm_get (tasks rt) u)))"
proof -
  obtain r d where k: "load_or_generate_host_key (se_keys e) (host_key_path (sftp (se_config e))) (rt_disk rt) = (r, d)"
    by fastforce
  let ?rt = "rt\<lparr>rt_disk := d\<rparr>"
  from s k tx obtain a where s1: "s1 = s\<lparr>sn_tx := Some (next_task rt), sn_closed := Some (next_task rt)\<rparr>"
    and "rt1 = spawn_listener (next_task rt) a (sn_flag s)
           ((set_flag (sn_flag s) True ?rt)\<lparr>next_task := Suc (next_task rt)\<rparr>)"
    by (cases r) (auto simp: sftp_start_def new_channels_def tell_def Let_def split: if_splits)
  then have rt1: "rt1 = spawn_listener (next_task ?rt) a (sn_flag s)
           (set_flag (sn_flag s) True (?rt\<lparr>next_task := Suc (next_task ?rt)\<rparr>))"
    by (cases rt) (simp add: set_flag_def)
  have "hm_get (tasks rt) (next_task rt) = None" using rt_okD(1) [OF ok, of "next_task rt"] by fastforce
  moreover have "rt_ok rt1" unfolding rt1 by (rule spawn_ok) (use ok i fresh in simp_all)
  ultimately show ?thesis using s1 rt1 by (auto simp: spawn_listener_def fresh_task_def)
qed

interpretation sftp_slot: keeping_service "sftp_service pr" sn_tx sn_flag for pr
proof
  fix rt rt1 :: runtime and s s1 :: sftp_server and e :: "'k sftp_start_env" and x
  assume "sv_start (sftp_service pr) e s rt = (Inl x, s1, rt1)" "sn_tx s = None" "\<not> flag_set rt (sn_flag s)" "rt_ok rt"
  then show "rt_ok rt1 \<and> tasks rt1 = tasks rt \<and> next_flag rt1 = next_flag rt \<and> (\<forall>i. flag_set rt1 i = flag_set rt i) \<and>
      (\<forall>t. sn_tx s1 = Some t \<longrightarrow> hm_get (tasks rt) t = None)"
    using sftp_start_fails [of e s rt x s1 rt1] by auto
next
  fix rt rt1 :: runtime and s s1 :: sftp_server and e :: "'k sftp_start_env" and u
  assume "sv_start (sftp_service pr) e s rt = (Inr u, s1, rt1)" and "sn_tx s = None" "rt_ok rt"
    "sn_flag s < next_flag rt" "\<forall>t k. hm_get (tasks rt) t = Some k \<longrightarrow> tk_flag k \<noteq> sn_flag s"
  then show "sn_flag s1 = sn_flag s \<and> rt_ok rt1 \<and> flag_set rt1 (sn_flag s) \<and> next_flag rt1 = next_flag rt \<and>
      (\<forall>i. i \<noteq> sn_flag s \<longrightarrow> flag_set rt1 i = flag_set rt i) \<and>
      (\<exists>t a. sn_tx s1 = Some t \<and> hm_get (tasks rt) t = None \<and>
         (\<forall>u. hm_get (tasks rt1) u = (if u = t then Some (fresh_task a (sn_flag s)) else hm_get (tasks rt) u)))"
    unfolding sftp_service_ops by (rule sftp_start_launched)
qed (auto simp: sftp_server_new_def sftp_server_with_paths_def sftp_stop_begin_def
      sftp_stop_end_def sftp_is_running_def sftp_drop_def split: prod.splits)

end
