(* ===== verification/TracingLogger.thy ===== *)
theory TracingLogger
  imports FileLogger FsModel
begin

text \<open>
  \<open>common/src/tracing_logger.rs\<close>: the in-memory log of program events (\<open>LogBuffer\<close>), the levels, and
  the layers \<open>init_tracing\<close> installs.  The filter \<open>Targets\<close> of \<open>tracing-subscriber\<close> is kept as the
  directives the code builds; the level a filter gives to a target is a parameter.
\<close>

section \<open>The in-memory log\<close>

record log_buffer =
  lb_entries :: "log_entry_json list"
  lb_capacity :: nat
  lb_sent :: "log_entry_json list"

definition log_buffer_new :: "nat \<Rightarrow> log_buffer" where
  "log_buffer_new n = \<lparr>lb_entries = [], lb_capacity = n, lb_sent = []\<rparr>"

definition lb_push :: "log_entry_json \<Rightarrow> log_buffer \<Rightarrow> log_buffer" where
  "lb_push e b =
     b\<lparr>lb_entries := ring_push (lb_capacity b) e (lb_entries b), lb_sent := lb_sent b @ [e]\<rparr>"

definition lb_recent :: "nat \<Rightarrow> log_buffer \<Rightarrow> log_entry_json list" where
  "lb_recent n b = drop (length (lb_entries b) - n) (lb_entries b)"

lemma lb_recent_last: "lb_recent n b = last_n n (lb_entries b)"
  by (simp add: lb_recent_def last_n_def)

text \<open>A subscriber sees the messages sent after the point it subscribed at.\<close>

definition lb_subscribe :: "log_buffer \<Rightarrow> nat" where
  "lb_subscribe b = length (lb_sent b)"

definition lb_received :: "nat \<Rightarrow> log_buffer \<Rightarrow> log_entry_json list" where
  "lb_received pos b = drop pos (lb_sent b)"

interpretation log_ring: bounded_log lb_push lb_entries lb_capacity
  by unfold_locales (simp_all add: lb_push_def)

section \<open>The fields of an event\<close>

datatype field_value = FStr string | FDebug string

record field_collector =
  fc_message :: string
  fc_client_ip :: "string option"
  fc_username :: "string option"
  fc_action :: "string option"

fun field_text :: "field_value \<Rightarrow> string" where
  "field_text (FStr s) = s"
| "field_text (FDebug s) = s"

definition record_field :: "field_collector \<Rightarrow> string \<times> field_value \<Rightarrow> field_collector" where
  "record_field c f =
     (let t = field_text (snd f) in
      if fst f = ''message'' then c\<lparr>fc_message := t\<rparr>
      else if fst f = ''client_ip'' then c\<lparr>fc_client_ip := Some t\<rparr>
      else if fst f = ''username'' then c\<lparr>fc_username := Some t\<rparr>
      else if fst f = ''action'' then c\<lparr>fc_action := Some t\<rparr>
      else c)"

datatype level_filter = LOff | LError | LWarn | LInfo | LDebug | LTrace

record trace_event =
  ev_level :: level_filter
  ev_target :: string
  ev_fields :: "(string \<times> field_value) list"

fun level_text :: "level_filter \<Rightarrow> string" where
  "level_text LOff = ''OFF''"
| "level_text LError = ''ERROR''"
| "level_text LWarn = ''WARN''"
| "level_text LInfo = ''INFO''"
| "level_text LDebug = ''DEBUG''"
| "level_text LTrace = ''TRACE''"

definition event_entry :: "datetime \<Rightarrow> trace_event \<Rightarrow> log_entry_json" where
  "event_entry now ev =
     (let c = foldl record_field
                \<lparr>fc_message = [], fc_client_ip = None, fc_username = None, fc_action = None\<rparr> (ev_fields ev) in
      \<lparr>je_timestamp = now, je_level = level_text (ev_level ev), je_source = ev_target ev,
       je_message = fc_message c, je_client_ip = fc_client_ip c, je_username = fc_username c,
       je_action = fc_action c\<rparr>)"

definition on_event :: "datetime \<Rightarrow> trace_event \<Rightarrow> log_buffer \<Rightarrow> log_buffer" where
  "on_event now ev b = lb_push (event_entry now ev) b"

section \<open>Levels, ordered by what they let through\<close>

fun level_rank :: "level_filter \<Rightarrow> nat" where
  "level_rank LOff = 0"
| "level_rank LError = 1"
| "level_rank LWarn = 2"
| "level_rank LInfo = 3"
| "level_rank LDebug = 4"
| "level_rank LTrace = 5"

lemma level_rank_inj: "level_rank a = level_rank b \<Longrightarrow> a = b"
  by (cases a; cases b) simp_all

instantiation level_filter :: linorder
begin

definition less_eq_level_filter :: "level_filter \<Rightarrow> level_filter \<Rightarrow> bool" where
  "less_eq_level_filter a b \<longleftrightarrow> level_rank a \<le> level_rank b"

definition less_level_filter :: "level_filter \<Rightarrow> level_filter \<Rightarrow> bool" where
  "less_level_filter a b \<longleftrightarrow> level_rank a < level_rank b"

instance
  by standard (auto simp: less_eq_level_filter_def less_level_filter_def intro: level_rank_inj)

end

text \<open>Lower case of ASCII letters; the other letters of \<open>to_lowercase\<close> are in no known level.\<close>

definition level_to_filter :: "string \<Rightarrow> level_filter" where
  "level_to_filter s =
     (let l = map ascii_lower s in
      if l = ''trace'' then LTrace
      else if l = ''debug'' then LDebug
      else if l = ''warn'' \<or> l = ''warning'' then LWarn
      else if l = ''error'' then LError
      else if l = ''off'' then LOff
      else LInfo)"

record targets =
  t_default :: level_filter
  t_directives :: "(string, level_filter) hmap"

definition with_target :: "string \<Rightarrow> level_filter \<Rightarrow> targets \<Rightarrow> targets" where
  "with_target n l t = t\<lparr>t_directives := hm_insert n l (t_directives t)\<rparr>"

definition targets_new :: targets where
  "targets_new = \<lparr>t_default = LOff, t_directives = []\<rparr>"

definition parse_log_level :: "string \<Rightarrow> targets" where
  "parse_log_level s =
     (with_target ''runtime'' LWarn \<circ> with_target ''tokio'' LWarn \<circ> with_target ''h2'' LWarn \<circ>
      with_target ''tonic'' LInfo \<circ> with_target ''russh-keys'' LWarn \<circ> with_target ''russh'' LInfo)
     (targets_new\<lparr>t_default := level_to_filter s\<rparr>)"

section \<open>The subscriber\<close>

text \<open>The four layers with their own filters, under the reloadable filter, which applies to all.\<close>

record subscriber =
  reload_filter :: targets
  console_filter :: targets
  program_filter :: targets
  audit_filter :: targets
  memory_filter :: targets
  program_json :: bool
  log_files_kept :: nat

datatype layer = Console | Program | Audit | Memory

fun layer_filter :: "subscriber \<Rightarrow> layer \<Rightarrow> targets" where
  "layer_filter s Console = console_filter s"
| "layer_filter s Program = program_filter s"
| "layer_filter s Audit = audit_filter s"
| "layer_filter s Memory = memory_filter s"

definition init_subscriber :: "string \<Rightarrow> nat \<Rightarrow> bool \<Rightarrow> subscriber" where
  "init_subscriber lvl files json =
     (let f = parse_log_level lvl; g = with_target ''file_ops'' LOff f in
      \<lparr>reload_filter = f, console_filter = g, program_filter = g,
       audit_filter = with_target ''file_ops'' LInfo targets_new, memory_filter = g,
       program_json = json, log_files_kept = files\<rparr>)"

datatype tracing_error = LogDir io_error | Appender string | AlreadyInitialised

text \<open>\<open>appender\<close> says whether the rolling appender of a prefix can be built in a directory.\<close>

definition init_tracing ::
  "(fs \<Rightarrow> string \<Rightarrow> string \<Rightarrow> bool) \<Rightarrow> string \<Rightarrow> string \<Rightarrow> nat \<Rightarrow> bool \<Rightarrow> subscriber option \<Rightarrow> fs \<Rightarrow>
    (tracing_error + log_buffer) \<times> subscriber option \<times> fs" where
  "init_tracing appender dir lvl files json current fs =
     (case fs_create_dir_all (path_of dir) fs of
        (Inl e, fs1) \<Rightarrow> (Inl (LogDir e), current, fs1)
      | (Inr _, fs1) \<Rightarrow>
          if \<not> appender fs1 dir ''wftpg'' then (Inl (Appender ''wftpg''), current, fs1)
          else if \<not> appender fs1 dir ''file-ops'' then (Inl (Appender ''file-ops''), current, fs1)
          else if current \<noteq> None then (Inl AlreadyInitialised, current, fs1)
          else (Inr (log_buffer_new 2000), Some (init_subscriber lvl files json), fs1))"

definition set_log_level :: "string \<Rightarrow> subscriber option \<Rightarrow> subscriber option" where
  "set_log_level lvl current = map_option (\<lambda>s. s\<lparr>reload_filter := parse_log_level lvl\<rparr>) current"

text \<open>A console logger at a fixed level; \<open>init\<close> panics when a subscriber is installed (\<open>None\<close>).  Nothing calls it.\<close>

definition init_simple :: "subscriber option \<Rightarrow> level_filter option" where
  "init_simple current = (if current \<noteq> None then None else Some LInfo)"

lemma init_simple_after_tracing:
  "init_tracing appender dir lvl files json current fs = (Inr lb, now, fs1) \<Longrightarrow> init_simple now = None"
  by (auto simp: init_tracing_def init_simple_def split: prod.splits sum.splits if_splits)

definition layer_gets ::
  "(targets \<Rightarrow> string \<Rightarrow> level_filter) \<Rightarrow> subscriber \<Rightarrow> layer \<Rightarrow> trace_event \<Rightarrow> bool" where
  "layer_gets lv s y ev \<longleftrightarrow>
     ev_level ev \<le> lv (reload_filter s) (ev_target ev) \<and>
     ev_level ev \<le> lv (layer_filter s y) (ev_target ev)"

text \<open>What the code relies on of \<open>Targets\<close>: a directive for exactly the target decides, and without
  a directive that is a prefix of the target the default does.\<close>

definition targets_decide :: "(targets \<Rightarrow> string \<Rightarrow> level_filter) \<Rightarrow> bool" where
  "targets_decide lv \<longleftrightarrow>
     (\<forall>t n l. hm_get (t_directives t) n = Some l \<longrightarrow> lv t n = l) \<and>
     (\<forall>t n. (\<forall>d \<in> set (hm_keys (t_directives t)). \<not> prefix d n) \<longrightarrow> lv t n = t_default t)"

lemma hm_keys_empty: "hm_keys [] = []"
  by (simp add: hm_keys_def)

lemma parse_keys:
  "set (hm_keys (t_directives (parse_log_level s))) =
     {''runtime'', ''tokio'', ''h2'', ''tonic'', ''russh-keys'', ''russh''}"
  "t_default (parse_log_level s) = level_to_filter s"
  by (auto simp: parse_log_level_def with_target_def targets_new_def hm_insert_keys hm_keys_empty)

section \<open>Properties\<close>

text \<open>the in-memory program log refines its history: after any events, \<open>recent\<close> returns the
  newest of the last 2000, in the order they came, and a subscriber receives exactly the entries of the
  events that came after it subscribed.\<close>

theorem log_buffer_history:
  "lb_recent n (foldl (\<lambda>b (now, ev). on_event now ev b) (log_buffer_new 2000) evs) =
      last_n (min n 2000) (map (\<lambda>(now, ev). event_entry now ev) evs) \<and>
    lb_received (lb_subscribe (foldl (\<lambda>b (now, ev). on_event now ev b) (log_buffer_new 2000) evs))
      (foldl (\<lambda>b (now, ev). on_event now ev b) (log_buffer_new 2000) (evs @ evs')) =
      map (\<lambda>(now, ev). event_entry now ev) evs'"
proof -
  let ?run = "\<lambda>b evs. foldl (\<lambda>b (now, ev). on_event now ev b) b evs"
  have as_push: "?run b evs = foldl (\<lambda>b e. lb_push e b) b (map (\<lambda>(now, ev). event_entry now ev) evs)" for b evs
    by (induction evs arbitrary: b) (auto simp: on_event_def)
  have sent: "lb_sent (?run b evs) = lb_sent b @ map (\<lambda>(now, ev). event_entry now ev) evs" for b evs
    by (induction evs arbitrary: b) (auto simp: on_event_def lb_push_def)
  have "lb_entries (?run (log_buffer_new 2000) evs) = last_n 2000 (map (\<lambda>(now, ev). event_entry now ev) evs)"
    unfolding as_push using log_ring.items_history [of "log_buffer_new 2000"] by (simp add: log_buffer_new_def)
  then have "lb_recent n (?run (log_buffer_new 2000) evs) = last_n (min n 2000) (map (\<lambda>(now, ev). event_entry now ev) evs)"
    by (simp add: lb_recent_last)
  then show ?thesis
    by (simp add: lb_received_def lb_subscribe_def sent del: foldl_append)
qed

text \<open>which layer an event reaches.  After start-up with one level and a later change to
  another, an audit event reaches the audit file exactly when the new level lets informational events through
  and never another layer; an event of a target without a directive of its own reaches the program
  layers exactly when both levels let it through.\<close>

theorem layers_after_level_change:
  assumes "targets_decide lv" "set_log_level new (Some (init_subscriber old files json)) = Some s"
    and "ev_level ev \<noteq> LOff" "\<forall>d \<in> {''runtime'', ''tokio'', ''h2'', ''tonic'', ''russh-keys'', ''russh'', ''file_ops''}.
      \<not> prefix d (ev_target ev)"
  shows "(layer_gets lv s Audit (ev\<lparr>ev_level := LInfo, ev_target := ''file_ops''\<rparr>) \<longleftrightarrow> LInfo \<le> level_to_filter new) \<and>
    (\<forall>y. y = Audit \<or> \<not> layer_gets lv s y (ev\<lparr>ev_target := ''file_ops''\<rparr>)) \<and>
    (layer_gets lv s Program ev \<longleftrightarrow> ev_level ev \<le> min (level_to_filter old) (level_to_filter new)) \<and>
    \<not> layer_gets lv s Audit ev"
proof -
  let ?g = "with_target ''file_ops'' LOff (parse_log_level old)"
  let ?a = "with_target ''file_ops'' LInfo targets_new"
  have s: "reload_filter s = parse_log_level new" "program_filter s = ?g" "memory_filter s = ?g"
    "console_filter s = ?g" "audit_filter s = ?a"
    using assms(2) by (auto simp: set_log_level_def init_subscriber_def Let_def)
  have dec: "hm_get (t_directives t) n = Some l \<Longrightarrow> lv t n = l"
    "\<forall>d \<in> set (hm_keys (t_directives t)). \<not> prefix d n \<Longrightarrow> lv t n = t_default t" for t n l
    using assms(1) by (auto simp: targets_decide_def)
  have "lv (parse_log_level new) ''file_ops'' = level_to_filter new"
    by (subst dec(2)) (simp_all add: parse_keys)
  moreover have "lv ?g ''file_ops'' = LOff" "lv ?a ''file_ops'' = LInfo"
    by (rule dec(1); simp add: with_target_def)+
  moreover have "lv (parse_log_level new) (ev_target ev) = level_to_filter new"
    using assms(4) by (subst dec(2)) (simp_all add: parse_keys)
  moreover have "lv ?g (ev_target ev) = level_to_filter old"
    using assms(4) by (subst dec(2)) (simp_all add: with_target_def hm_insert_keys parse_keys)
  moreover have "lv ?a (ev_target ev) = LOff"
    using assms(4) by (subst dec(2)) (simp_all add: with_target_def hm_insert_keys targets_new_def hm_keys_empty)
  moreover have "\<not> ev_level ev \<le> LOff"
    using assms(3) by (cases "ev_level ev") (simp_all add: less_eq_level_filter_def)
  ultimately show ?thesis
  proof (intro conjI allI, goal_cases)
    case (2 y)
    then show ?case by (cases y) (simp_all add: layer_gets_def s)
  qed (auto simp: layer_gets_def s)
qed

definition longest_directive :: "targets \<Rightarrow> string \<Rightarrow> level_filter" where
  "longest_directive t n =
     (case hm_get (t_directives t) n of
        Some l \<Rightarrow> l
      | None \<Rightarrow>
          (case sort_key (\<lambda>d. length n - length d) (filter (\<lambda>d. prefix d n) (hm_keys (t_directives t))) of
             [] \<Rightarrow> t_default t
           | d # _ \<Rightarrow> unwrap_or (t_default t) (hm_get (t_directives t) d)))"

lemma longest_directive_decides: "targets_decide longest_directive"
proof -
  have "filter (\<lambda>d. prefix d n) ks = []" if "\<forall>d \<in> set ks. \<not> prefix d n" for ks :: "string list" and n
    using that by (induction ks) auto
  moreover have "hm_get m n = None" if "\<forall>d \<in> set (hm_keys m). \<not> prefix d n" for m :: "(string, level_filter) hmap" and n
    using that by (auto simp: hm_get_None_iff)
  ultimately show ?thesis by (simp add: targets_decide_def longest_directive_def)
qed

theorem layers_after_level_change_witness:
  "\<not> layer_gets longest_directive (init_subscriber ''info'' 10 False\<lparr>reload_filter := parse_log_level ''warn''\<rparr>)
      Audit \<lparr>ev_level = LInfo, ev_target = ''file_ops'', ev_fields = []\<rparr>"
proof -
  let ?ev = "\<lparr>ev_level = LInfo, ev_target = ''wftpd'', ev_fields = []\<rparr>"
  note longest_directive_decides
  then show ?thesis
    using layers_after_level_change [of longest_directive "''warn''" "''info''" 10 False _ ?ev]
    by (simp add: set_log_level_def level_to_filter_def less_eq_level_filter_def ascii_lower_def byte_in_def)
qed

end
