(* ===== verification/Backend.thy ===== *)
theory Backend
  imports FtpServer SftpServer TracingLogger
begin

text \<open>
  \<open>wftpd/src/state.rs\<close> and \<open>wftpd/src/main.rs\<close>: the state of the daemon, the start, stop and restart of the two
  services one call at a time (overlapping calls are in \<open>Service\<close>), and the run of the daemon from start to
  shutdown.
\<close>

record backend =
  bk_config :: config
  bk_users :: user_manager
  bk_flog :: file_logger
  bk_logs :: log_buffer
  bk_tracing :: "subscriber option"
  bk_ftp :: "ftp_server option"
  bk_sftp :: "sftp_server option"
  bk_rt :: runtime

text \<open>What the daemon takes from outside: its process, the codecs of its files, whether the error level is on when
  users are loaded, the log appenders, and what the servers take.  \<open>be_wait\<close> is what the tasks do while a stop
  waits.\<close>

record 'k daemon_env =
  de_process :: process
  de_toml :: "config codec"
  de_json :: "user_manager codec"
  de_error_log :: bool
  de_appender :: "fs \<Rightarrow> string \<Rightarrow> string \<Rightarrow> bool"
  de_builds :: "ftp_builder \<Rightarrow> bool"
  de_keys :: "'k key_lib"
  de_addr_ok :: "string \<Rightarrow> bool"
  de_config_free :: bool
  de_wait :: "nat option \<Rightarrow> runtime \<Rightarrow> runtime"

abbreviation bk_disk :: "backend \<Rightarrow> fs" where
  "bk_disk b \<equiv> rt_disk (bk_rt b)"

definition set_disk :: "fs \<Rightarrow> backend \<Rightarrow> backend" where
  "set_disk d b = b\<lparr>bk_rt := (bk_rt b)\<lparr>rt_disk := d\<rparr>\<rparr>"

datatype backend_error = BadConfig config_error | BadTracing tracing_error

text \<open>No result when loading the users panics.\<close>

definition backend_new :: "'k daemon_env \<Rightarrow> subscriber option \<Rightarrow> fs \<Rightarrow> (backend_error + backend) option" where
  "backend_new e sub fs =
     (case config_load (de_toml e) (de_process e) (config_path (de_process e) fs) fs of
        (Inl x, _) \<Rightarrow> Some (Inl (BadConfig x))
      | (Inr c, fs1) \<Rightarrow>
          (case um_load (de_json e) (de_error_log e) (users_path (de_process e)) fs1 of
             None \<Rightarrow> None
           | Some um \<Rightarrow>
               (case init_tracing (de_appender e) (log_dir (logging c)) (log_level (logging c))
                       (unat (max_log_files (logging c))) (enable_json (logging c)) sub fs1 of
                  (Inl x, _, _) \<Rightarrow> Some (Inl (BadTracing x))
                | (Inr lb, sub1, fs2) \<Rightarrow>
                    Some (Inr \<lparr>bk_config = c, bk_users = um, bk_flog = file_logger_new, bk_logs = lb,
                               bk_tracing = sub1, bk_ftp = None, bk_sftp = None, bk_rt = rt_start fs2\<rparr>))))"

section \<open>The services\<close>

definition ftp_env_of :: "'k daemon_env \<Rightarrow> backend \<Rightarrow> ftp_start_env" where
  "ftp_env_of e b = \<lparr>fe_config = bk_config b, fe_builds = de_builds e\<rparr>"

definition sftp_env_of :: "'k daemon_env \<Rightarrow> backend \<Rightarrow> 'k sftp_start_env" where
  "sftp_env_of e b =
     \<lparr>se_config = bk_config b, se_config_free = de_config_free e, se_keys = de_keys e, se_addr_ok = de_addr_ok e\<rparr>"

definition put_ftp :: "ftp_server slot \<Rightarrow> backend \<Rightarrow> backend" where
  "put_ftp sl b = b\<lparr>bk_ftp := fst sl, bk_rt := snd sl\<rparr>"

definition put_sftp :: "sftp_server slot \<Rightarrow> backend \<Rightarrow> backend" where
  "put_sftp sl b = b\<lparr>bk_sftp := fst sl, bk_rt := snd sl\<rparr>"

definition start_ftp :: "'k daemon_env \<Rightarrow> backend \<Rightarrow> (ftp_start_error + unit) \<times> backend" where
  "start_ftp e b =
     (case slot_start ftp_service (ftp_env_of e b) (bk_ftp b, bk_rt b) of (r, sl) \<Rightarrow> (r, put_ftp sl b))"

definition start_sftp :: "'k daemon_env \<Rightarrow> backend \<Rightarrow> (sftp_start_error + unit) \<times> backend" where
  "start_sftp e b =
     (case slot_start (sftp_service (de_process e)) (sftp_env_of e b) (bk_sftp b, bk_rt b) of (r, sl) \<Rightarrow> (r, put_sftp sl b))"

definition stop_ftp :: "'k daemon_env \<Rightarrow> backend \<Rightarrow> backend" where
  "stop_ftp e b = put_ftp (slot_stop ftp_service (de_wait e) (bk_ftp b, bk_rt b)) b"

definition stop_sftp :: "'k daemon_env \<Rightarrow> backend \<Rightarrow> backend" where
  "stop_sftp e b =
     put_sftp (slot_stop (sftp_service (de_process e) :: ('k sftp_start_env, _, _) service) (de_wait e) (bk_sftp b, bk_rt b)) b"

definition restart_ftp :: "'k daemon_env \<Rightarrow> backend \<Rightarrow> (ftp_start_error + unit) \<times> backend" where
  "restart_ftp e b = start_ftp e (stop_ftp e b)"

definition restart_sftp :: "'k daemon_env \<Rightarrow> backend \<Rightarrow> (sftp_start_error + unit) \<times> backend" where
  "restart_sftp e b = start_sftp e (stop_sftp e b)"

definition stop_all :: "'k daemon_env \<Rightarrow> backend \<Rightarrow> backend" where
  "stop_all e b = stop_sftp e (stop_ftp e b)"

definition is_ftp_running :: "backend \<Rightarrow> bool" where
  "is_ftp_running b = (case bk_ftp b of None \<Rightarrow> False | Some s \<Rightarrow> ftp_is_running s (bk_rt b))"

definition is_sftp_running :: "backend \<Rightarrow> bool" where
  "is_sftp_running b = (case bk_sftp b of None \<Rightarrow> False | Some s \<Rightarrow> sftp_is_running s (bk_rt b))"

text \<open>A failed start is only logged.\<close>

definition apply_ftp_flag :: "'k daemon_env \<Rightarrow> bool \<Rightarrow> backend \<Rightarrow> backend" where
  "apply_ftp_flag e on b =
     (if on \<and> \<not> is_ftp_running b then snd (start_ftp e b)
      else if \<not> on \<and> is_ftp_running b then stop_ftp e b else b)"

definition apply_sftp_flag :: "'k daemon_env \<Rightarrow> bool \<Rightarrow> backend \<Rightarrow> backend" where
  "apply_sftp_flag e on b =
     (if on \<and> \<not> is_sftp_running b then snd (start_sftp e b)
      else if \<not> on \<and> is_sftp_running b then stop_sftp e b else b)"

definition apply_enabled_flags :: "'k daemon_env \<Rightarrow> backend \<Rightarrow> backend" where
  "apply_enabled_flags e b =
     (let ftp_on = ftp_enabled (ftp (bk_config b)); sftp_on = sftp_enabled (sftp (bk_config b))
      in apply_sftp_flag e sftp_on (apply_ftp_flag e ftp_on b))"

section \<open>The daemon\<close>

text \<open>\<open>bind\<close> makes the socket of the control service, \<open>serve\<close> is its work until the shutdown signal; the mode of
  the socket's directory is set if that is possible.\<close>

definition open_control_socket :: "(path \<Rightarrow> fs \<Rightarrow> unit fs_result) \<Rightarrow> path \<Rightarrow> fs \<Rightarrow> unit fs_result" where
  "open_control_socket bind p fs =
     (case create_parent p fs of
        (Inl x, fs1) \<Rightarrow> (Inl x, fs1)
      | (Inr _, fs1) \<Rightarrow>
          (let fs2 = (case path_parent p of None \<Rightarrow> fs1 | Some d \<Rightarrow> snd (fs_set_permissions d 0x1C0 fs1));
               fs3 = snd (fs_remove_file p fs2)
           in (case bind p fs3 of
                 (Inl x, fs4) \<Rightarrow> (Inl x, fs4)
               | (Inr _, fs4) \<Rightarrow> fs_set_permissions p 0x180 fs4)))"

definition run_daemon ::
  "'k daemon_env \<Rightarrow> (path \<Rightarrow> fs \<Rightarrow> unit fs_result) \<Rightarrow> (backend \<Rightarrow> backend) \<Rightarrow> backend \<Rightarrow> (io_error + unit) \<times> backend" where
  "run_daemon e bind serve b =
     (let b1 = apply_enabled_flags e b; sock = socket_path (de_process e) in
      (case open_control_socket bind sock (bk_disk b1) of
         (Inl x, d) \<Rightarrow> (Inl x, set_disk d b1)
       | (Inr _, d) \<Rightarrow>
           (let b2 = stop_all e (serve (set_disk d b1))
            in (Inr (), set_disk (snd (fs_remove_file sock (bk_disk b2))) b2))))"

section \<open>Starting and stopping\<close>

lemma put_simps [simp]:
  "bk_ftp (put_ftp fl b) = fst fl" "bk_rt (put_ftp fl b) = snd fl" "bk_sftp (put_ftp fl b) = bk_sftp b"
  "bk_sftp (put_sftp sl b) = fst sl" "bk_rt (put_sftp sl b) = snd sl" "bk_ftp (put_sftp sl b) = bk_ftp b"
  "bk_config (put_ftp fl b) = bk_config b" "bk_config (put_sftp sl b) = bk_config b"
  by (simp_all add: put_ftp_def put_sftp_def)

text \<open>What running means: the set flag of the instance in the slot.\<close>

lemma running_flags:
  "is_ftp_running b \<longleftrightarrow> (\<exists>s. bk_ftp b = Some s \<and> flag_set (bk_rt b) (fs_flag s))"
  "is_sftp_running b \<longleftrightarrow> (\<exists>s. bk_sftp b = Some s \<and> flag_set (bk_rt b) (sn_flag s))"
  by (auto simp: is_ftp_running_def is_sftp_running_def ftp_is_running_def sftp_is_running_def split: option.splits)

lemma start_ftp_occupied: "bk_ftp b = Some s \<Longrightarrow> start_ftp e b = (Inr (), b)"
  by (simp add: start_ftp_def slot_start_def put_ftp_def)

lemma start_sftp_occupied: "bk_sftp b = Some s \<Longrightarrow> start_sftp e b = (Inr (), b)"
  by (simp add: start_sftp_def slot_start_def put_sftp_def)

lemma start_ftp_outcome:
  assumes "rt_ok (bk_rt b)" "bk_ftp b = None" "start_ftp e b = (r, b1)"
  shows "rt_ok (bk_rt b1) \<and> next_flag (bk_rt b) < next_flag (bk_rt b1) \<and>
    (\<forall>i < next_flag (bk_rt b). flag_set (bk_rt b1) i = flag_set (bk_rt b) i) \<and>
    (\<forall>s. bk_ftp b1 = Some s \<longrightarrow> fs_flag s = next_flag (bk_rt b) \<and> flag_set (bk_rt b1) (fs_flag s)) \<and>
    (bk_ftp b1 \<noteq> None \<longleftrightarrow> is_ok r) \<and> bk_sftp b1 = bk_sftp b \<and> bk_config b1 = bk_config b"
proof -
  obtain sl where s: "slot_start ftp_service (ftp_env_of e b) (None, bk_rt b) = (r, sl)" "b1 = put_ftp sl b"
    using assms(2,3) by (auto simp: start_ftp_def split: prod.splits)
  from ftp_slot.slot_start_frame [OF s(1) assms(1)] s(2) show ?thesis by auto
qed

lemma start_sftp_outcome:
  assumes "rt_ok (bk_rt b)" "bk_sftp b = None" "start_sftp e b = (r, b1)"
  shows "rt_ok (bk_rt b1) \<and> next_flag (bk_rt b) < next_flag (bk_rt b1) \<and>
    (\<forall>i < next_flag (bk_rt b). flag_set (bk_rt b1) i = flag_set (bk_rt b) i) \<and>
    (\<forall>s. bk_sftp b1 = Some s \<longrightarrow> sn_flag s = next_flag (bk_rt b) \<and> flag_set (bk_rt b1) (sn_flag s)) \<and>
    (bk_sftp b1 \<noteq> None \<longleftrightarrow> is_ok r) \<and> bk_ftp b1 = bk_ftp b \<and> bk_config b1 = bk_config b"
proof -
  obtain sl where s: "slot_start (sftp_service (de_process e)) (sftp_env_of e b) (None, bk_rt b) = (r, sl)"
      "b1 = put_sftp sl b"
    using assms(2,3) by (auto simp: start_sftp_def split: prod.splits)
  from sftp_slot.slot_start_frame [OF s(1) assms(1)] s(2) show ?thesis by auto
qed

lemma stop_ftp_outcome:
  assumes "rt_ok (bk_rt b)" "\<And>w rt. task_steps rt (de_wait e w rt)"
  shows "bk_ftp (stop_ftp e b) = None \<and> rt_ok (bk_rt (stop_ftp e b)) \<and>
    next_flag (bk_rt (stop_ftp e b)) = next_flag (bk_rt b) \<and>
    (\<forall>i. flag_set (bk_rt (stop_ftp e b)) i \<longrightarrow> flag_set (bk_rt b) i) \<and>
    bk_sftp (stop_ftp e b) = bk_sftp b \<and> bk_config (stop_ftp e b) = bk_config b"
  using ftp_slot.slot_stop_frame [where old = "bk_ftp b", OF assms] by (simp add: stop_ftp_def)

lemma stop_sftp_outcome:
  fixes e :: "'k daemon_env"
  assumes "rt_ok (bk_rt b)" "\<And>w rt. task_steps rt (de_wait e w rt)"
  shows "bk_sftp (stop_sftp e b) = None \<and> rt_ok (bk_rt (stop_sftp e b)) \<and>
    next_flag (bk_rt (stop_sftp e b)) = next_flag (bk_rt b) \<and>
    (\<forall>i. flag_set (bk_rt (stop_sftp e b)) i \<longrightarrow> flag_set (bk_rt b) i) \<and>
    bk_ftp (stop_sftp e b) = bk_ftp b \<and> bk_config (stop_sftp e b) = bk_config b"
proof -
  note sftp_slot.slot_stop_frame [where pr = "de_process e" and old = "bk_sftp b", OF assms]
  then show ?thesis by (simp add: stop_sftp_def)
qed

section \<open>The invariant of the daemon\<close>

text \<open>The flags of the instances in the slots are taken.\<close>

definition backend_ok :: "backend \<Rightarrow> bool" where
  "backend_ok b \<longleftrightarrow>
     rt_ok (bk_rt b) \<and>
     (case bk_ftp b of None \<Rightarrow> True | Some s \<Rightarrow> fs_flag s < next_flag (bk_rt b)) \<and>
     (case bk_sftp b of None \<Rightarrow> True | Some s \<Rightarrow> sn_flag s < next_flag (bk_rt b))"

definition waits_run_tasks :: "'k daemon_env \<Rightarrow> bool" where
  "waits_run_tasks e \<longleftrightarrow> (\<forall>w rt. task_steps rt (de_wait e w rt))"

lemma start_ftp_ok: "backend_ok b \<Longrightarrow> backend_ok (snd (start_ftp e b))"
proof (cases "bk_ftp b")
  case None
  obtain r b1 where st: "start_ftp e b = (r, b1)" by fastforce
  assume "backend_ok b"
  then have "rt_ok (bk_rt b)" by (simp add: backend_ok_def)
  from start_ftp_outcome [OF this None st] \<open>backend_ok b\<close> show ?thesis
    by (auto simp: backend_ok_def st split: option.splits)
qed (simp add: start_ftp_occupied)

lemma start_sftp_ok: "backend_ok b \<Longrightarrow> backend_ok (snd (start_sftp e b))"
proof (cases "bk_sftp b")
  case None
  obtain r b1 where st: "start_sftp e b = (r, b1)" by fastforce
  assume "backend_ok b"
  then have "rt_ok (bk_rt b)" by (simp add: backend_ok_def)
  from start_sftp_outcome [OF this None st] \<open>backend_ok b\<close> show ?thesis
    by (auto simp: backend_ok_def st split: option.splits)
qed (simp add: start_sftp_occupied)

lemma stop_ok:
  assumes "waits_run_tasks e" "backend_ok b"
  shows "backend_ok (stop_ftp e b)" "backend_ok (stop_sftp e b)"
  using stop_ftp_outcome [of b e] stop_sftp_outcome [of b e] assms
  by (auto simp: backend_ok_def waits_run_tasks_def split: option.splits)

lemma apply_flag_ok:
  "waits_run_tasks e \<Longrightarrow> backend_ok b \<Longrightarrow> backend_ok (apply_ftp_flag e on b)"
  "waits_run_tasks e \<Longrightarrow> backend_ok b \<Longrightarrow> backend_ok (apply_sftp_flag e on b)"
  by (simp_all add: apply_ftp_flag_def apply_sftp_flag_def start_ftp_ok start_sftp_ok stop_ok)

text \<open>The step for one service leaves the slot of the other one alone, and starts or stops nothing there.\<close>

lemma apply_ftp_frame:
  assumes "waits_run_tasks e" "backend_ok b"
  shows "bk_sftp (apply_ftp_flag e on b) = bk_sftp b" "bk_config (apply_ftp_flag e on b) = bk_config b"
proof -
  have "rt_ok (bk_rt b)" using assms(2) by (simp add: backend_ok_def)
  moreover have "bk_sftp (snd (start_ftp e b)) = bk_sftp b \<and> bk_config (snd (start_ftp e b)) = bk_config b"
    by (simp add: start_ftp_def split: prod.split)
  ultimately show "bk_sftp (apply_ftp_flag e on b) = bk_sftp b" "bk_config (apply_ftp_flag e on b) = bk_config b"
    using stop_ftp_outcome [of b e] assms(1) by (auto simp: apply_ftp_flag_def waits_run_tasks_def)
qed

lemma apply_sftp_frame:
  assumes w: "waits_run_tasks e" and ok: "backend_ok b"
  shows "bk_ftp (apply_sftp_flag e on b) = bk_ftp b" "is_ftp_running (apply_sftp_flag e on b) \<Longrightarrow> is_ftp_running b"
proof -
  let ?b = "apply_sftp_flag e on b"
  have rt: "rt_ok (bk_rt b)" using ok by (simp add: backend_ok_def)
  have "bk_ftp ?b = bk_ftp b \<and> (\<forall>i < next_flag (bk_rt b). flag_set (bk_rt ?b) i \<longrightarrow> flag_set (bk_rt b) i)"
  proof (cases "on \<and> \<not> is_sftp_running b")
    case True
    then show ?thesis
    proof (cases "bk_sftp b")
      case None
      obtain r b1 where st: "start_sftp e b = (r, b1)" by fastforce
      with True start_sftp_outcome [OF rt None st] show ?thesis by (simp add: apply_sftp_flag_def)
    qed (simp add: apply_sftp_flag_def start_sftp_occupied)
  next
    case False
    with stop_sftp_outcome [OF rt, of e] w show ?thesis by (auto simp: apply_sftp_flag_def waits_run_tasks_def)
  qed
  with ok show "bk_ftp ?b = bk_ftp b" "is_ftp_running ?b \<Longrightarrow> is_ftp_running b"
    by (auto simp: running_flags backend_ok_def)
qed

text \<open>applying the enabled flags.  The step keeps the daemon well formed.  A service that is not enabled
  is not running afterwards; an enabled one whose slot was empty is there exactly if its start succeeded, and
  SFTP, which comes last, then runs; but an enabled service whose instance in the slot has died, so that it is
  not running, stays dead.\<close>

theorem enabled_flags_applied:
  assumes "waits_run_tasks e" "backend_ok b"
  shows "let bf = apply_ftp_flag e (ftp_enabled (ftp (bk_config b))) b; b1 = apply_enabled_flags e b in
    backend_ok b1 \<and>
    (if \<not> ftp_enabled (ftp (bk_config b)) then \<not> is_ftp_running b1
     else case bk_ftp b of
       None \<Rightarrow> bk_ftp b1 \<noteq> None \<longleftrightarrow> is_ok (fst (start_ftp e b))
     | Some s \<Rightarrow> bk_ftp b1 = Some s \<and> (is_ftp_running b1 \<longrightarrow> is_ftp_running b)) \<and>
    (if \<not> sftp_enabled (sftp (bk_config b)) then \<not> is_sftp_running b1
     else case bk_sftp b of
       None \<Rightarrow> is_sftp_running b1 \<longleftrightarrow> is_ok (fst (start_sftp e bf))
     | Some s \<Rightarrow> b1 = bf)"
proof -
  let ?fon = "ftp_enabled (ftp (bk_config b))" and ?son = "sftp_enabled (sftp (bk_config b))"
  define bf b1 where defs: "bf = apply_ftp_flag e ?fon b" "b1 = apply_sftp_flag e ?son bf"
  have rt: "rt_ok (bk_rt b)" using assms(2) by (simp add: backend_ok_def)
  have okf: "backend_ok bf" and ok1: "backend_ok b1" unfolding defs using apply_flag_ok assms by blast+
  have rtf: "rt_ok (bk_rt bf)" using okf by (simp add: backend_ok_def)
  note frame = apply_sftp_frame [OF assms(1) okf, of ?son, folded defs(2)]
    and same = apply_ftp_frame [OF assms, of ?fon, folded defs(1)]
  have stopped: "bk_ftp (stop_ftp e b) = None" "bk_sftp (stop_sftp e bf) = None"
    using stop_ftp_outcome [OF rt, of e] stop_sftp_outcome [OF rtf, of e] assms(1) by (simp_all add: waits_run_tasks_def)
  have "\<not> is_ftp_running bf" if "\<not> ?fon"
    using that stopped(1) by (cases "is_ftp_running b") (simp_all add: defs apply_ftp_flag_def running_flags(1))
  then have "\<not> is_ftp_running b1" if "\<not> ?fon" using that frame(2) by blast
  moreover have "bk_ftp b1 \<noteq> None \<longleftrightarrow> is_ok (fst (start_ftp e b))" if ?fon "bk_ftp b = None"
  proof -
    obtain r b2 where st: "start_ftp e b = (r, b2)" by fastforce
    have "bf = b2" using that st by (simp add: defs apply_ftp_flag_def running_flags)
    with frame(1) start_ftp_outcome [OF rt that(2) st] st show ?thesis by simp
  qed
  moreover have "bk_ftp b1 = Some s \<and> (is_ftp_running b1 \<longrightarrow> is_ftp_running b)" if ?fon "bk_ftp b = Some s" for s
  proof -
    have "bf = b" using that start_ftp_occupied [OF that(2), of e] by (simp add: defs apply_ftp_flag_def)
    with frame that(2) show ?thesis by simp
  qed
  moreover have "\<not> is_sftp_running b1" if "\<not> ?son"
    using that stopped(2) by (cases "is_sftp_running bf") (simp_all add: defs(2) apply_sftp_flag_def running_flags(2))
  moreover have "is_sftp_running b1 \<longleftrightarrow> is_ok (fst (start_sftp e bf))" if ?son "bk_sftp b = None"
  proof -
    obtain r b2 where st: "start_sftp e bf = (r, b2)" by fastforce
    have n: "bk_sftp bf = None" using that(2) same by simp
    then have "b1 = b2" using that(1) st by (simp add: defs(2) apply_sftp_flag_def running_flags)
    with start_sftp_outcome [OF rtf n st] st show ?thesis by (auto simp: running_flags)
  qed
  moreover have "b1 = bf" if ?son "bk_sftp b = Some s" for s
    using that same start_sftp_occupied [of bf s e] by (simp add: defs(2) apply_sftp_flag_def)
  moreover have "apply_enabled_flags e b = b1" by (simp add: apply_enabled_flags_def Let_def defs)
  ultimately show ?thesis using ok1 by (simp add: Let_def defs(1) [symmetric] split: option.split)
qed

definition demo_daemon :: "string daemon_env" where
  "demo_daemon =
     \<lparr>de_process = demo_process, de_toml = demo_toml, de_json = demo_json, de_error_log = True,
      de_appender = (\<lambda>_ _ _. True), de_builds = (\<lambda>_. True),
      de_keys = \<lparr>key_random = None, key_to_openssh = Some, key_from_openssh = Some, key_public = Some\<rparr>,
      de_addr_ok = (\<lambda>_. True), de_config_free = True, de_wait = (\<lambda>_ rt. rt)\<rparr>"

definition demo_backend :: backend where
  "demo_backend =
     \<lparr>bk_config = config_default demo_process, bk_users = demo_users, bk_flog = file_logger_new,
      bk_logs = log_buffer_new 2000, bk_tracing = None, bk_ftp = None, bk_sftp = None, bk_rt = rt_start demo_fs\<rparr>"

lemma demo_waits: "waits_run_tasks demo_daemon"
  by (simp add: waits_run_tasks_def demo_daemon_def)

lemma demo_backend_ok: "backend_ok demo_backend"
  by (simp add: backend_ok_def demo_backend_def)

lemma demo_ftp_starts:
  assumes "bk_ftp b = None"
  shows "is_ok (fst (start_ftp demo_daemon b))"
proof -
  obtain s rt1 where n: "ftp_server_new (bk_rt b) = (s, rt1)" by fastforce
  then have "\<not> flag_set rt1 (fs_flag s)" by (auto simp: ftp_server_new_def new_flag_def)
  then obtain s1 rt2 where "ftp_start (ftp_env_of demo_daemon b) s rt1 = (Inr (), s1, rt2)"
    by (simp add: ftp_start_def ftp_env_of_def demo_daemon_def new_channels_def Let_def)
  with assms n show ?thesis by (simp add: start_ftp_def slot_start_def)
qed

theorem enabled_flags_applied_witness: "bk_ftp (apply_enabled_flags demo_daemon demo_backend) \<noteq> None"
proof -
  have c: "bk_ftp demo_backend = None" "ftp_enabled (ftp (bk_config demo_backend))"
    by (simp_all add: demo_backend_def config_default_def)
  with enabled_flags_applied [OF demo_waits demo_backend_ok] demo_ftp_starts [OF c(1)] show ?thesis
    by (simp add: Let_def)
qed

text \<open>what start, restart and stop leave.  A start with an instance in the slot reports success and does
  nothing, whether that instance runs or not; a start with an empty slot, and a restart in any state, succeeds
  exactly if the service runs afterwards; after \<open>stop_all\<close> both slots are empty.\<close>

theorem start_restart_outcome:
  assumes "waits_run_tasks e" "backend_ok b"
  shows "(case bk_ftp b of
       None \<Rightarrow> is_ok (fst (start_ftp e b)) \<longleftrightarrow> is_ftp_running (snd (start_ftp e b))
     | Some s \<Rightarrow> start_ftp e b = (Inr (), b)) \<and>
    (case bk_sftp b of
       None \<Rightarrow> is_ok (fst (start_sftp e b)) \<longleftrightarrow> is_sftp_running (snd (start_sftp e b))
     | Some s \<Rightarrow> start_sftp e b = (Inr (), b)) \<and>
    (is_ok (fst (restart_ftp e b)) \<longleftrightarrow> is_ftp_running (snd (restart_ftp e b))) \<and>
    (is_ok (fst (restart_sftp e b)) \<longleftrightarrow> is_sftp_running (snd (restart_sftp e b))) \<and>
    bk_ftp (stop_all e b) = None \<and> bk_sftp (stop_all e b) = None"
proof -
  have f: "is_ok (fst (start_ftp e c)) \<longleftrightarrow> is_ftp_running (snd (start_ftp e c))"
    if "backend_ok c" "bk_ftp c = None" for c
    using start_ftp_outcome [of c e "fst (start_ftp e c)" "snd (start_ftp e c)"] that
    by (auto simp: backend_ok_def running_flags)
  have s: "is_ok (fst (start_sftp e c)) \<longleftrightarrow> is_sftp_running (snd (start_sftp e c))"
    if "backend_ok c" "bk_sftp c = None" for c
    using start_sftp_outcome [of c e "fst (start_sftp e c)" "snd (start_sftp e c)"] that
    by (auto simp: backend_ok_def running_flags)
  have empty: "bk_ftp (stop_ftp e c) = None" "bk_sftp (stop_sftp e c) = None" "bk_ftp (stop_sftp e c) = bk_ftp c"
    if "backend_ok c" for c
    using stop_ftp_outcome [of c e] stop_sftp_outcome [of c e] that assms(1)
    by (simp_all add: backend_ok_def waits_run_tasks_def)
  have "(case bk_ftp b of
       None \<Rightarrow> is_ok (fst (start_ftp e b)) \<longleftrightarrow> is_ftp_running (snd (start_ftp e b))
     | Some s \<Rightarrow> start_ftp e b = (Inr (), b))"
    using f [OF assms(2)] start_ftp_occupied [of b _ e] by (simp split: option.split)
  moreover have "(case bk_sftp b of
       None \<Rightarrow> is_ok (fst (start_sftp e b)) \<longleftrightarrow> is_sftp_running (snd (start_sftp e b))
     | Some s \<Rightarrow> start_sftp e b = (Inr (), b))"
    using s [OF assms(2)] start_sftp_occupied [of b _ e] by (simp split: option.split)
  moreover have "is_ok (fst (restart_ftp e b)) \<longleftrightarrow> is_ftp_running (snd (restart_ftp e b))"
    unfolding restart_ftp_def by (rule f) (use assms stop_ok empty in auto)
  moreover have "is_ok (fst (restart_sftp e b)) \<longleftrightarrow> is_sftp_running (snd (restart_sftp e b))"
    unfolding restart_sftp_def by (rule s) (use assms stop_ok empty in auto)
  moreover have "bk_ftp (stop_all e b) = None \<and> bk_sftp (stop_all e b) = None"
    using empty [OF assms(2)] empty [OF stop_ok(1) [OF assms]] by (simp add: stop_all_def)
  ultimately show ?thesis by blast
qed

theorem start_restart_outcome_witness: "is_ftp_running (snd (start_ftp demo_daemon demo_backend))"
proof -
  have c: "bk_ftp demo_backend = None" by (simp add: demo_backend_def)
  with start_restart_outcome [OF demo_waits demo_backend_ok] demo_ftp_starts [OF c] show ?thesis by simp
qed

end
