(* ===== verification/Convert.thy ===== *)
theory Convert
  imports FileLogger
begin

text \<open>
  \<open>proto/src/convert.rs\<close>: the conversions between the domain types and the messages of the control service.  A
  proto3 string has no null, so an absent value travels as the empty string.
\<close>

record proto_log_entry =
  pl_timestamp :: string
  pl_level :: string
  pl_source :: string
  pl_message :: string
  pl_client_ip :: string
  pl_username :: string
  pl_action :: string

record proto_file_op =
  po_timestamp :: string
  po_username :: string
  po_client_ip :: string
  po_operation :: string
  po_file_path :: string
  po_file_size :: u64
  po_protocol :: string
  po_success :: bool
  po_message :: string

record proto_log_file =
  pf_name :: string
  pf_path :: string

definition opt_to_str :: "string option \<Rightarrow> string" where
  "opt_to_str v = unwrap_or [] v"

definition str_to_opt :: "string \<Rightarrow> string option" where
  "str_to_opt v = (if v = [] then None else Some v)"

definition log_to_proto :: "log_entry_json \<Rightarrow> proto_log_entry" where
  "log_to_proto e =
     \<lparr>pl_timestamp = je_timestamp e, pl_level = je_level e, pl_source = je_source e, pl_message = je_message e,
      pl_client_ip = opt_to_str (je_client_ip e), pl_username = opt_to_str (je_username e),
      pl_action = opt_to_str (je_action e)\<rparr>"

definition log_of_proto :: "proto_log_entry \<Rightarrow> log_entry_json" where
  "log_of_proto e =
     \<lparr>je_timestamp = pl_timestamp e, je_level = pl_level e, je_source = pl_source e, je_message = pl_message e,
      je_client_ip = str_to_opt (pl_client_ip e), je_username = str_to_opt (pl_username e),
      je_action = str_to_opt (pl_action e)\<rparr>"

definition file_op_to_proto :: "file_log_entry_json \<Rightarrow> proto_file_op" where
  "file_op_to_proto e =
     \<lparr>po_timestamp = fj_timestamp e, po_username = fj_username e, po_client_ip = fj_client_ip e,
      po_operation = fj_operation e, po_file_path = fj_file_path e, po_file_size = fj_file_size e,
      po_protocol = fj_protocol e, po_success = fj_success e, po_message = fj_message e\<rparr>"

definition file_op_of_proto :: "proto_file_op \<Rightarrow> file_log_entry_json" where
  "file_op_of_proto e =
     \<lparr>fj_timestamp = po_timestamp e, fj_username = po_username e, fj_client_ip = po_client_ip e,
      fj_operation = po_operation e, fj_file_path = po_file_path e, fj_file_size = po_file_size e,
      fj_protocol = po_protocol e, fj_success = po_success e, fj_message = po_message e\<rparr>"

definition log_file_to_proto :: "log_file_entry \<Rightarrow> proto_log_file" where
  "log_file_to_proto e = \<lparr>pf_name = lf_name e, pf_path = lf_path e\<rparr>"

definition log_file_of_proto :: "proto_log_file \<Rightarrow> log_file_entry" where
  "log_file_of_proto e = \<lparr>lf_name = pf_name e, lf_path = pf_path e\<rparr>"

section \<open>What a message preserves\<close>

text \<open>The contract of a pair of conversions: decoding what was encoded gives the normal form of the value, and
  encoding what was decoded gives the message back.\<close>

locale wire_message =
  fixes to_wire :: "'a \<Rightarrow> 'w" and of_wire :: "'w \<Rightarrow> 'a" and norm :: "'a \<Rightarrow> 'a"
  assumes of_to: "of_wire (to_wire x) = norm x" and to_of: "to_wire (of_wire w) = w"
begin

lemma of_wire_inj: "of_wire v = of_wire w \<longleftrightarrow> v = w"
  using to_of by metis

lemma norm_idem: "norm (norm x) = norm x"
  using of_to to_of by metis

lemma same_wire: "to_wire x = to_wire y \<longleftrightarrow> norm x = norm y"
  using of_to of_wire_inj by metis

lemma wire_onto: "\<exists>x. to_wire x = w \<and> norm x = x"
  using of_to to_of by metis

end

definition norm_opt :: "string option \<Rightarrow> string option" where
  "norm_opt v = (if v = Some [] then None else v)"

definition norm_log :: "log_entry_json \<Rightarrow> log_entry_json" where
  "norm_log e = e\<lparr>je_client_ip := norm_opt (je_client_ip e), je_username := norm_opt (je_username e),
     je_action := norm_opt (je_action e)\<rparr>"

lemma str_opt: "str_to_opt (opt_to_str v) = norm_opt v" "opt_to_str (str_to_opt s) = s"
  by (cases v) (simp_all add: str_to_opt_def opt_to_str_def norm_opt_def)

interpretation log_wire: wire_message log_to_proto log_of_proto norm_log
  by unfold_locales (simp_all add: log_to_proto_def log_of_proto_def norm_log_def str_opt)

interpretation file_op_wire: wire_message file_op_to_proto file_op_of_proto id
  by unfold_locales (simp_all add: file_op_to_proto_def file_op_of_proto_def)

interpretation log_file_wire: wire_message log_file_to_proto log_file_of_proto id
  by unfold_locales (simp_all add: log_file_to_proto_def log_file_of_proto_def)

text \<open>what the messages of the control service preserve.  An entry of the program log comes back from
  its message with empty optional fields made absent, and two entries have the same message exactly if they then
  agree; file operations and log files come back unchanged, and every message comes back from its value.\<close>

theorem messages_round_trip:
  "log_of_proto (log_to_proto e) = norm_log e \<and>
   (log_to_proto e = log_to_proto e2 \<longleftrightarrow> norm_log e = norm_log e2) \<and> log_to_proto (log_of_proto p) = p \<and>
   file_op_of_proto (file_op_to_proto f) = f \<and> file_op_to_proto (file_op_of_proto q) = q \<and>
   log_file_of_proto (log_file_to_proto g) = g \<and> log_file_to_proto (log_file_of_proto r) = r"
  using log_wire.of_to log_wire.to_of log_wire.same_wire file_op_wire.of_to file_op_wire.to_of
    log_file_wire.of_to log_file_wire.to_of by simp

end
