(* ===== verification/Logs.thy ===== *)
theory Logs
  imports Convert AtomicSave Demo "HOL-Library.List_Lexorder" "HOL-Library.Char_ord"
begin

text \<open>
  \<open>wftpd/src/logs.rs\<close>: reading log files for the control service.  The parser and printer of \<open>serde_json\<close> are
  parameters; the accessors of its values are modelled.
\<close>

datatype json =
  JNull | JBool bool | JNum "u64 option" string | JStr string | JArr "json list" | JObj "(string \<times> json) list"

record json_lib =
  js_parse :: "string \<Rightarrow> json option"
  js_show :: "json \<Rightarrow> string"

fun json_get :: "string \<Rightarrow> json \<Rightarrow> json option" where
  "json_get k (JObj kvs) = map_of kvs k"
| "json_get k _ = None"

fun json_str :: "json \<Rightarrow> string option" where
  "json_str (JStr s) = Some s"
| "json_str _ = None"

fun json_u64 :: "json \<Rightarrow> u64 option" where
  "json_u64 (JNum n _) = n"
| "json_u64 _ = None"

fun json_bool :: "json \<Rightarrow> bool option" where
  "json_bool (JBool b) = Some b"
| "json_bool _ = None"

fun json_is_object :: "json \<Rightarrow> bool" where
  "json_is_object (JObj _) = True"
| "json_is_object _ = False"

section \<open>The files of a directory\<close>

text \<open>\<open>sort_by\<close> is stable: an entry goes before the later ones of the same name.\<close>

fun insert_desc :: "log_file_entry \<Rightarrow> log_file_entry list \<Rightarrow> log_file_entry list" where
  "insert_desc x [] = [x]"
| "insert_desc x (y # ys) = (if lf_name y \<le> lf_name x then x # y # ys else y # insert_desc x ys)"

definition sort_desc :: "log_file_entry list \<Rightarrow> log_file_entry list" where
  "sort_desc xs = foldr insert_desc xs []"

definition is_log_file :: "fs \<Rightarrow> string \<Rightarrow> path \<Rightarrow> bool" where
  "is_log_file fs pre p \<longleftrightarrow>
     fs_is_file fs p \<and>
     (case opt_filter utf8_valid (file_name p) of
        None \<Rightarrow> False
      | Some n \<Rightarrow>
          prefix pre n \<and> (case extension p of None \<Rightarrow> False | Some x \<Rightarrow> map ascii_lower x = ''log''))"

definition log_file_of :: "path \<Rightarrow> log_file_entry" where
  "log_file_of p =
     \<lparr>lf_name = unwrap_or [] (opt_filter utf8_valid (file_stem p)), lf_path = utf8_lossy (path_string p)\<rparr>"

definition list_log_files :: "fs \<Rightarrow> string \<Rightarrow> string \<Rightarrow> log_file_entry list" where
  "list_log_files fs dir pre =
     (case fs_read_dir fs (path_of dir) of
        Inl _ \<Rightarrow> []
      | Inr names \<Rightarrow>
          sort_desc (map log_file_of (filter (is_log_file fs pre) (map (push_seg (path_of dir)) names))))"

section \<open>The last lines of a file\<close>

text \<open>\<open>BufRead::lines\<close>: a terminated line loses its terminator, also the two-byte one.\<close>

definition chomp_cr :: "string \<Rightarrow> string" where
  "chomp_cr l = (if l \<noteq> [] \<and> last l = CHR 13 then butlast l else l)"

fun split_lines :: "string \<Rightarrow> string \<Rightarrow> string list" where
  "split_lines acc [] = (if acc = [] then [] else [rev acc])"
| "split_lines acc (c # s) =
     (if c = CHR 10 then chomp_cr (rev acc) # split_lines [] s else split_lines (c # acc) s)"

fun tail_loop :: "nat \<Rightarrow> string list \<Rightarrow> string list \<Rightarrow> string list" where
  "tail_loop n ls [] = ls"
| "tail_loop n ls (x # xs) =
     (if \<not> utf8_valid x then ls
      else
        (let ls1 = ls @ [x] in
         tail_loop n (if n * 2 < length ls1 then drop (length ls1 - n) ls1 else ls1) xs))"

definition tail_lines :: "fs \<Rightarrow> string \<Rightarrow> nat \<Rightarrow> string list" where
  "tail_lines fs p n =
     (case fs_read fs (path_of p) of
        Inl _ \<Rightarrow> []
      | Inr s \<Rightarrow>
          (let ls = tail_loop n [] (split_lines [] s) in
           if n < length ls then drop (length ls - n) ls else ls))"

section \<open>Parsing a line\<close>

fun opt_to_string :: "json_lib \<Rightarrow> json \<Rightarrow> string option" where
  "opt_to_string js (JStr s) = Some s"
| "opt_to_string js JNull = None"
| "opt_to_string js v = Some (js_show js v)"

definition field_json :: "string \<Rightarrow> json \<Rightarrow> json option" where
  "field_json n v = Option.bind (json_get ''fields'' v) (json_get n)"

definition field_str :: "string \<Rightarrow> json \<Rightarrow> string option" where
  "field_str n v = Option.bind (field_json n v) json_str"

definition json_entry :: "json_lib \<Rightarrow> json \<Rightarrow> log_entry_json" where
  "json_entry js v =
     \<lparr>je_timestamp = unwrap_or [] (opt_to_string js (unwrap_or JNull (json_get ''timestamp'' v))),
      je_level = unwrap_or ''INFO'' (opt_to_string js (unwrap_or JNull (json_get ''level'' v))),
      je_source = unwrap_or [] (opt_to_string js (unwrap_or JNull (json_get ''target'' v))),
      je_message = unwrap_or [] (field_str ''message'' v), je_client_ip = field_str ''client_ip'' v,
      je_username = field_str ''username'' v, je_action = field_str ''action'' v\<rparr>"

definition text_entry :: "string \<Rightarrow> log_entry_json option" where
  "text_entry line =
     (case split_once '' '' line of
        None \<Rightarrow> None
      | Some (ts, remainder) \<Rightarrow>
          (case split_once '' '' (trim_start remainder) of
             None \<Rightarrow> None
           | Some (lvl, rest) \<Rightarrow>
               (let rest1 = trim_start rest;
                    (src, msg) = (case split_once '': '' rest1 of Some (a, b) \<Rightarrow> (a, b) | None \<Rightarrow> ([], rest1))
                in Some \<lparr>je_timestamp = ts, je_level = lvl, je_source = src, je_message = msg,
                         je_client_ip = None, je_username = None, je_action = None\<rparr>)))"

definition parse_program_line :: "json_lib \<Rightarrow> string \<Rightarrow> log_entry_json option" where
  "parse_program_line js l =
     (let line = trim l in
      if line = [] then None
      else (case opt_filter json_is_object (js_parse js line) of
         Some v \<Rightarrow> Some (json_entry js v)
       | None \<Rightarrow> text_entry line))"

definition parse_file_op_line :: "json_lib \<Rightarrow> string \<Rightarrow> file_log_entry_json option" where
  "parse_file_op_line js l =
     (case js_parse js (trim l) of
        None \<Rightarrow> None
      | Some v \<Rightarrow>
          (let field = (\<lambda>n. unwrap_or [] (field_str n v)) in
           Some \<lparr>fj_timestamp = unwrap_or [] (Option.bind (json_get ''timestamp'' v) json_str),
             fj_username = field ''username'', fj_client_ip = field ''client_ip'',
             fj_operation = field ''operation'', fj_file_path = field ''file_path'',
             fj_file_size = unwrap_or 0 (Option.bind (field_json ''file_size'' v) json_u64),
             fj_protocol = field ''protocol'',
             fj_success = unwrap_or False (Option.bind (field_json ''success'' v) json_bool),
             fj_message = field ''message''\<rparr>))"

definition read_program_log :: "json_lib \<Rightarrow> fs \<Rightarrow> string \<Rightarrow> nat \<Rightarrow> log_entry_json list" where
  "read_program_log js fs p n = List.map_filter (parse_program_line js) (tail_lines fs p n)"

definition read_file_op_log :: "json_lib \<Rightarrow> fs \<Rightarrow> string \<Rightarrow> nat \<Rightarrow> file_log_entry_json list" where
  "read_file_op_log js fs p n = List.map_filter (parse_file_op_line js) (tail_lines fs p n)"

datatype path_check_error = CheckIo io_error | OutsideLogDir

definition ensure_path_in_dir :: "fs \<Rightarrow> string \<Rightarrow> string \<Rightarrow> path_check_error + unit" where
  "ensure_path_in_dir fs p dir =
     (case fs_canonicalize fs (path_of p) of
        Inl e \<Rightarrow> Inl (CheckIo e)
      | Inr c \<Rightarrow>
          (case fs_canonicalize fs (path_of dir) of
             Inl e \<Rightarrow> Inl (CheckIo e)
           | Inr d \<Rightarrow> if starts_with_path c d then Inr () else Inl OutsideLogDir))"


section \<open>The listing is a stable sort\<close>

definition desc :: "log_file_entry list \<Rightarrow> bool" where
  "desc xs \<longleftrightarrow> sorted_wrt (\<lambda>a b. lf_name b \<le> lf_name a) xs"

lemma set_insert_desc [simp]: "set (insert_desc x ys) = insert x (set ys)"
  by (induction ys) auto

lemma desc_insert: "desc ys \<Longrightarrow> desc (insert_desc x ys)"
  by (induction ys) (auto simp: desc_def intro: order_trans)

lemma filter_insert_desc:
  "desc ys \<Longrightarrow> filter (\<lambda>e. lf_name e = n) (insert_desc x ys) = filter (\<lambda>e. lf_name e = n) (x # ys)"
  by (induction ys) (auto simp: desc_def)

lemma sort_desc_step [simp]: "sort_desc [] = []" "sort_desc (x # xs) = insert_desc x (sort_desc xs)"
  by (simp_all add: sort_desc_def)

lemma desc_sort: "desc (sort_desc xs)"
  by (induction xs) (simp_all add: desc_insert, simp add: desc_def)

lemma sort_desc_stable: "filter (\<lambda>e. lf_name e = n) (sort_desc xs) = filter (\<lambda>e. lf_name e = n) xs"
  by (induction xs) (simp_all add: filter_insert_desc desc_sort)

text \<open>the log files of a directory.  The listing has exactly the regular files of the directory whose
  name has the prefix and the extension \<open>log\<close> in any case, by descending name, entries of the same name in the
  order of the directory; it is empty when the directory cannot be read.\<close>

theorem log_files_listed:
  "case fs_read_dir fs (path_of dir) of
     Inl _ \<Rightarrow> list_log_files fs dir pre = []
   | Inr names \<Rightarrow>
       desc (list_log_files fs dir pre) \<and>
       (\<forall>n. filter (\<lambda>e. lf_name e = n) (list_log_files fs dir pre) =
            filter (\<lambda>e. lf_name e = n)
              (map log_file_of (filter (is_log_file fs pre) (map (push_seg (path_of dir)) names))))"
  by (simp add: list_log_files_def desc_sort sort_desc_stable split: sum.split)

section \<open>The tail is the last lines\<close>

lemma last_n_append: "last_n n (last_n n xs @ ys) = last_n n (xs @ ys)"
proof (cases "length xs \<le> n")
  case False
  then have "length xs + length ys - n = length xs - n + length ys" by simp
  with False show ?thesis by (simp add: last_n_def add.commute)
qed (simp add: last_n_def)

lemma tail_loop_last: "last_n n (tail_loop n ls xs) = last_n n (ls @ takeWhile utf8_valid xs)"
proof (induction xs arbitrary: ls)
  case (Cons x xs)
  have "drop (length (ls @ [x]) - n) (ls @ [x]) = last_n n (ls @ [x])" by (simp add: last_n_def)
  with Cons.IH [of "last_n n (ls @ [x])"] Cons.IH [of "ls @ [x]"] show ?case
    by (simp add: Let_def last_n_append)
qed simp

text \<open>the pruning loop computes the last lines.  For every count, what is returned are the last \<open>count\<close>
  of the lines before the first one that is not UTF-8, and nothing for a file that cannot be read.\<close>

theorem tail_lines_last:
  "tail_lines fs p n =
     (case fs_read fs (path_of p) of
        Inl _ \<Rightarrow> []
      | Inr s \<Rightarrow> last_n n (takeWhile utf8_valid (split_lines [] s)))"
proof (cases "fs_read fs (path_of p)")
  case (Inr s)
  have "(if n < length ls then drop (length ls - n) ls else ls) = last_n n ls" for ls :: "string list"
    by (simp add: last_n_def)
  with Inr tail_loop_last [of n "[]" "split_lines [] s"] show ?thesis by (simp add: tail_lines_def Let_def)
qed (simp add: tail_lines_def)

text \<open>A file written line by line has these lines.\<close>

lemma split_lines_line:
  "CHR 10 \<notin> set l \<Longrightarrow> split_lines acc (l @ CHR 10 # s) = chomp_cr (rev acc @ l) # split_lines [] s"
  by (induction l arbitrary: acc) auto

lemma split_lines_written:
  "\<forall>l \<in> set ls. CHR 10 \<notin> set l \<and> chomp_cr l = l \<Longrightarrow> split_lines [] (concat (map (\<lambda>l. l @ [CHR 10]) ls)) = ls"
  by (induction ls) (simp_all add: split_lines_line)

section \<open>A text line is read back\<close>

lemma split_once_first:
  assumes "prefix pat r" "\<And>k. k < length a \<Longrightarrow> \<not> prefix pat (drop k (a @ r))"
  shows "split_once pat (a @ r) = Some (a, drop (length pat) r)"
  using assms(2)
proof (induction a)
  case Nil
  show ?case using assms(1) by (subst split_once.simps) simp
next
  case (Cons c a)
  have "\<not> prefix pat (c # a @ r)" using Cons.prems [of 0] by simp
  moreover have "split_once pat (a @ r) = Some (a, drop (length pat) r)"
    using Cons.prems [of "Suc _"] by (intro Cons.IH) simp
  ultimately show ?case by (subst split_once.simps) simp
qed


text \<open>Visible ASCII characters, as levels and targets have.\<close>

definition visible :: "char \<Rightarrow> bool" where
  "visible c \<longleftrightarrow> byte_in 33 126 c"

lemma visible_ne: "visible c \<Longrightarrow> \<not> ws_ascii c" "visible c \<Longrightarrow> \<not> ws2 c b" "visible c \<Longrightarrow> \<not> ws3 c b d"
  by (auto simp: visible_def ws_ascii_def ws2_def ws3_def byte_in_def)

lemma front_visible: "visible c \<Longrightarrow> ws_front (c # r) = 0"
  by (cases r; cases "tl r") (simp_all add: ws_front.simps visible_ne)

lemma trim_start_spaces:
  "w \<noteq> [] \<Longrightarrow> \<forall>c \<in> set w. visible c \<Longrightarrow> trim_start (replicate k (CHR '' '') @ w @ r) = w @ r"
proof (induction k)
  case 0
  then show ?case by (cases w) (simp_all add: trim_start_id front_visible)
next
  case (Suc k)
  have "ws_front (CHR '' '' # s) = 1" for s by (simp add: ws_front.simps ws_ascii_def)
  with Suc show ?case by (subst trim_start.simps) simp
qed

lemma visible_no_space: "\<forall>c \<in> set w. visible c \<Longrightarrow> CHR '' '' \<notin> set w"
  by (auto simp: visible_def byte_in_def)

definition text_line :: "string \<Rightarrow> nat \<Rightarrow> string \<Rightarrow> string \<Rightarrow> string \<Rightarrow> string" where
  "text_line ts pad lvl src msg =
     ts @ '' '' @ replicate pad (CHR '' '') @ lvl @ '' '' @ src @ '': '' @ msg"

lemma split_source:
  assumes "CHR '' '' \<notin> set src"
  shows "split_once '': '' (src @ '': '' @ msg) = Some (src, msg)"
proof -
  have "\<not> prefix '': '' (drop k (src @ '': '' @ msg))" if "k < length src" for k
  proof
    assume p: "prefix '': '' (drop k (src @ '': '' @ msg))"
    from that obtain c r where d: "drop k src = c # r" "set r \<subseteq> set src"
      by (metis Cons_nth_drop_Suc set_drop_subset)
    with p that assms show False by (cases r) auto
  qed
  from split_once_first [OF _ this] show ?thesis by simp
qed

text \<open>a text line of the program log is read back.  The line written for an entry (time, padded level,
  target and message) gives that entry, when the line has no white space at its ends and is not JSON, the time has
  no space, and level and target are of visible ASCII characters.\<close>

theorem text_line_read_back:
  assumes "trim (text_line ts pad lvl src msg) = text_line ts pad lvl src msg"
    and "js_parse js (text_line ts pad lvl src msg) = None"
    and "CHR '' '' \<notin> set ts"
    and "lvl \<noteq> []" "\<forall>c \<in> set lvl. visible c" "src \<noteq> []" "\<forall>c \<in> set src. visible c"
  shows "parse_program_line js (text_line ts pad lvl src msg) =
    Some \<lparr>je_timestamp = ts, je_level = lvl, je_source = src, je_message = msg,
          je_client_ip = None, je_username = None, je_action = None\<rparr>"
proof -
  let ?rest = "replicate pad (CHR '' '') @ lvl @ '' '' @ src @ '': '' @ msg"
  have "text_line ts pad lvl src msg \<noteq> []" by (simp add: text_line_def)
  then have "parse_program_line js (text_line ts pad lvl src msg) = text_entry (ts @ CHR '' '' # ?rest)"
    using assms(1,2) by (simp add: parse_program_line_def) (simp add: text_line_def)
  moreover have "split_once '' '' (ts @ CHR '' '' # ?rest) = Some (ts, ?rest)"
    by (rule split_once_char [OF assms(3)])
  moreover have "trim_start ?rest = lvl @ CHR '' '' # src @ '': '' @ msg"
    using trim_start_spaces [OF assms(4,5), of pad "'' '' @ src @ '': '' @ msg"] by simp
  moreover have "split_once '' '' (lvl @ CHR '' '' # src @ '': '' @ msg) = Some (lvl, src @ '': '' @ msg)"
    by (rule split_once_char [OF visible_no_space [OF assms(5)]])
  moreover have "trim_start (src @ '': '' @ msg) = src @ '': '' @ msg"
    using trim_start_spaces [OF assms(6,7), of 0 "'': '' @ msg"] by simp
  ultimately show ?thesis
    using split_source [OF visible_no_space [OF assms(7)]] by (simp add: text_entry_def)
qed

theorem text_line_read_back_witness:
  "parse_program_line \<lparr>js_parse = (\<lambda>_. None), js_show = (\<lambda>_. [])\<rparr> (text_line ''10:00'' 1 ''INFO'' ''wftpd'' ''up'') =
    Some \<lparr>je_timestamp = ''10:00'', je_level = ''INFO'', je_source = ''wftpd'', je_message = ''up'',
          je_client_ip = None, je_username = None, je_action = None\<rparr>"
proof (rule text_line_read_back)
  show "trim (text_line ''10:00'' 1 ''INFO'' ''wftpd'' ''up'') = text_line ''10:00'' 1 ''INFO'' ''wftpd'' ''up''"
    by (rule trim_id)
      (simp_all add: text_line_def ws_front.simps ws_back.simps ws_ascii_def ws2_def ws3_def byte_in_def)
qed (simp_all add: visible_def byte_in_def)

section \<open>What a path check lets through\<close>

lemma canonical_location:
  "fs_canonicalize fs p = Inr c \<Longrightarrow> \<exists>l. locate fs True p = Inr l \<and> fs_node fs l \<noteq> None \<and> c = dir_path l"
  by (auto simp: fs_canonicalize_def guarded_def split: option.splits sum.splits if_splits)

lemma map_prefix_iff: "inj f \<Longrightarrow> prefix (map f a) (map f b) \<longleftrightarrow> prefix a b"
proof (induction a arbitrary: b)
  case (Cons x a)
  then show ?case by (cases b) (auto simp: inj_eq)
qed simp

lemma dir_path_prefix: "prefix (dir_path a) (dir_path b) \<longleftrightarrow> prefix a b"
proof -
  have "inj Normal" by (simp add: inj_def)
  then show ?thesis by (simp add: dir_path_def map_prefix_iff)
qed

lemma read_location:
  assumes "locate fs True p = Inr l" "fs_node fs l \<noteq> None" "fs_read fs p = Inr s"
  shows "\<exists>i. fs_node fs l = Some (NFile i) \<and> s = (case hm_get (inodes fs) i of None \<Rightarrow> [] | Some ind \<Rightarrow> content ind)"
proof -
  obtain h fs1 where o: "fs_open opts_read_only p fs = (Inr h, fs1)" and h: "fh_ino h \<noteq> None" "s = handle_content fs h"
    using assms(3) by (auto simp: fs_read_def guarded_def split: prod.splits sum.splits option.splits if_splits)
  with assms(1,2) obtain i where "fs_node fs l = Some (NFile i)" "fh_ino h = Some i"
    by (auto simp: fs_open_def guarded_def new_handle_def split: option.splits node.splits if_splits sum.splits)
  with h show ?thesis by (auto simp: handle_content_def)
qed

text \<open>a path that passes the check is the location of something in the log directory: following all
  links it leads to a location below the one of the directory, and reading the file reads from there.\<close>

theorem checked_path_inside:
  assumes "ensure_path_in_dir fs p dir = Inr ()"
  shows "\<exists>l r. locate fs True (path_of p) = Inr l \<and> locate fs True (path_of dir) = Inr r \<and> prefix r l \<and>
    (case fs_read fs (path_of p) of
       Inl _ \<Rightarrow> True
     | Inr s \<Rightarrow> \<exists>i. fs_node fs l = Some (NFile i) \<and>
         s = (case hm_get (inodes fs) i of None \<Rightarrow> [] | Some ind \<Rightarrow> content ind))"
proof -
  obtain c d where "fs_canonicalize fs (path_of p) = Inr c" "fs_canonicalize fs (path_of dir) = Inr d"
    "starts_with_path c d"
    using assms by (auto simp: ensure_path_in_dir_def split: sum.splits if_splits)
  then obtain l r where l: "locate fs True (path_of p) = Inr l" "fs_node fs l \<noteq> None"
    and r: "locate fs True (path_of dir) = Inr r" and "prefix (dir_path r) (dir_path l)"
    using canonical_location [of fs "path_of p" c] canonical_location [of fs "path_of dir" d]
    by (auto simp: starts_with_path_def)
  then have "prefix r l" by (simp add: dir_path_prefix)
  with l r show ?thesis by (intro exI [of _ l] exI [of _ r]) (auto simp: read_location split: sum.split)
qed

theorem checked_path_inside_witness:
  "\<exists>l r. locate demo_fs True (path_of ''/home/al/f'') = Inr l \<and> locate demo_fs True (path_of ''/home/al'') = Inr r \<and>
     prefix r l"
proof -
  have p: "path_of ''/home/al/f'' = dir_path (demo_home @ [''f''])" "path_of ''/home/al'' = dir_path demo_home"
    by (simp_all add: path_of_def comp_of_def dir_path_def)
  have "locate demo_fs True (dir_path (demo_home @ [''f''])) = Inr (demo_home @ [''f''])"
    by (rule locate_child) (simp_all add: file_slot_def demo_node demo_entries_def)
  moreover have "locate demo_fs True (dir_path demo_home) = Inr demo_home" by (rule locate_dirs) simp
  ultimately have "ensure_path_in_dir demo_fs ''/home/al/f'' ''/home/al'' = Inr ()"
    by (simp add: ensure_path_in_dir_def fs_canonicalize_def guarded_def p demo_node demo_entries_def
        starts_with_path_def dir_path_def)
  from checked_path_inside [OF this] show ?thesis by blast
qed

end
