(* ===== verification/Control.thy ===== *)
theory Control
  imports Backend Logs
begin

text \<open>
  \<open>wftpd/src/control.rs\<close>: the control service the front end talks to.  A call takes the request and the state of
  the daemon and gives a reply or a status; tasks of \<open>spawn_blocking\<close> run to their end.  How errors print is a
  parameter.  The stream of \<open>watch_logs\<close> is its history and the point from which its subscription delivers.
\<close>

datatype rpc_status = Internal string | InvalidArgument string

record op_reply =
  op_success :: bool
  op_message :: string

datatype which = WAll | WFtp | WSftp

record 'k control_env = "'k daemon_env" +
  ce_version :: string
  ce_json :: json_lib
  ce_now :: datetime
  ce_show_io :: "io_error \<Rightarrow> string"
  ce_show_save :: "save_error \<Rightarrow> string"
  ce_show_config :: "config_error \<Rightarrow> string"
  ce_toml_error :: "string \<Rightarrow> string"
  ce_show_ftp :: "ftp_start_error \<Rightarrow> string"
  ce_show_sftp :: "sftp_start_error \<Rightarrow> string"
  ce_show_path :: "path_check_error \<Rightarrow> string"
  ce_join_error :: string
  ce_levels :: "targets \<Rightarrow> string \<Rightarrow> level_filter"

abbreviation daemon_of :: "'k control_env \<Rightarrow> 'k daemon_env" where
  "daemon_of e \<equiv> daemon_env.truncate e"

abbreviation ctl_config_path :: "'k control_env \<Rightarrow> backend \<Rightarrow> path" where
  "ctl_config_path e b \<equiv> config_path (de_process e) (bk_disk b)"

abbreviation ctl_users_path :: "'k control_env \<Rightarrow> path" where
  "ctl_users_path e \<equiv> users_path (de_process e)"

definition op_ok :: "string \<Rightarrow> op_reply" where
  "op_ok m = \<lparr>op_success = True, op_message = m\<rparr>"

definition op_err :: "string \<Rightarrow> op_reply" where
  "op_err m = \<lparr>op_success = False, op_message = m\<rparr>"

section \<open>The services\<close>

record status_reply =
  st_ftp_running :: bool
  st_sftp_running :: bool
  st_version :: string
  st_config_path :: string
  st_users_path :: string
  st_socket_path :: string

definition get_status :: "'k control_env \<Rightarrow> backend \<Rightarrow> status_reply" where
  "get_status e b =
     \<lparr>st_ftp_running = is_ftp_running b, st_sftp_running = is_sftp_running b, st_version = ce_version e,
      st_config_path = utf8_lossy (path_string (ctl_config_path e b)),
      st_users_path = utf8_lossy (path_string (ctl_users_path e)),
      st_socket_path = utf8_lossy (path_string (socket_path (de_process e)))\<rparr>"

text \<open>A failed save of the configuration is only logged.\<close>

definition persist_config :: "'k control_env \<Rightarrow> backend \<Rightarrow> backend" where
  "persist_config e b = set_disk (snd (config_save (de_toml e) (ctl_config_path e b) (bk_config b) (bk_disk b))) b"

definition set_ftp_enabled :: "'k control_env \<Rightarrow> bool \<Rightarrow> backend \<Rightarrow> backend" where
  "set_ftp_enabled e on b =
     (if ftp_enabled (ftp (bk_config b)) = on then b
      else persist_config e (b\<lparr>bk_config := (bk_config b)\<lparr>ftp := (ftp (bk_config b))\<lparr>ftp_enabled := on\<rparr>\<rparr>\<rparr>))"

definition set_sftp_enabled :: "'k control_env \<Rightarrow> bool \<Rightarrow> backend \<Rightarrow> backend" where
  "set_sftp_enabled e on b =
     (if sftp_enabled (sftp (bk_config b)) = on then b
      else persist_config e (b\<lparr>bk_config := (bk_config b)\<lparr>sftp := (sftp (bk_config b))\<lparr>sftp_enabled := on\<rparr>\<rparr>\<rparr>))"

definition shown_ftp :: "'k control_env \<Rightarrow> (ftp_start_error + unit) \<Rightarrow> string + unit" where
  "shown_ftp e r = (case r of Inl x \<Rightarrow> Inl (ce_show_ftp e x) | Inr u \<Rightarrow> Inr u)"

definition shown_sftp :: "'k control_env \<Rightarrow> (sftp_start_error + unit) \<Rightarrow> string + unit" where
  "shown_sftp e r = (case r of Inl x \<Rightarrow> Inl (ce_show_sftp e x) | Inr u \<Rightarrow> Inr u)"

text \<open>\<open>Result::and\<close>: the first error, else the second result.\<close>

definition both :: "string + unit \<Rightarrow> string + unit \<Rightarrow> string + unit" where
  "both x y = (case x of Inl m \<Rightarrow> Inl m | Inr _ \<Rightarrow> y)"

definition op_result :: "string \<Rightarrow> string \<Rightarrow> string + unit \<Rightarrow> op_reply" where
  "op_result good bad r = (case r of Inr _ \<Rightarrow> op_ok good | Inl m \<Rightarrow> op_err (bad @ m))"

definition start_service :: "'k control_env \<Rightarrow> which \<Rightarrow> backend \<Rightarrow> op_reply \<times> backend" where
  "start_service e w b =
     (case (case w of
         WFtp \<Rightarrow>
           (case start_ftp (daemon_of e) (set_ftp_enabled e True b) of (r, b1) \<Rightarrow> (shown_ftp e r, b1))
       | WSftp \<Rightarrow>
           (case start_sftp (daemon_of e) (set_sftp_enabled e True b) of (r, b1) \<Rightarrow> (shown_sftp e r, b1))
       | WAll \<Rightarrow>
           (case start_ftp (daemon_of e) (set_sftp_enabled e True (set_ftp_enabled e True b)) of (r, b1) \<Rightarrow>
             (case start_sftp (daemon_of e) b1 of (q, b2) \<Rightarrow> (both (shown_ftp e r) (shown_sftp e q), b2)))) of
        (r, b1) \<Rightarrow> (op_result msg_started msg_start_failed r, b1))"

definition stop_service :: "'k control_env \<Rightarrow> which \<Rightarrow> backend \<Rightarrow> op_reply \<times> backend" where
  "stop_service e w b =
     (op_ok msg_stopped,
      case w of
        WFtp \<Rightarrow> stop_ftp (daemon_of e) (set_ftp_enabled e False b)
      | WSftp \<Rightarrow> stop_sftp (daemon_of e) (set_sftp_enabled e False b)
      | WAll \<Rightarrow> stop_all (daemon_of e) (set_sftp_enabled e False (set_ftp_enabled e False b)))"

definition restart_service :: "'k control_env \<Rightarrow> which \<Rightarrow> backend \<Rightarrow> op_reply \<times> backend" where
  "restart_service e w b =
     (case (case w of
         WFtp \<Rightarrow> (case restart_ftp (daemon_of e) b of (r, b1) \<Rightarrow> (shown_ftp e r, b1))
       | WSftp \<Rightarrow> (case restart_sftp (daemon_of e) b of (r, b1) \<Rightarrow> (shown_sftp e r, b1))
       | WAll \<Rightarrow>
           (case restart_ftp (daemon_of e) b of (r, b1) \<Rightarrow>
             (case restart_sftp (daemon_of e) b1 of (q, b2) \<Rightarrow> (both (shown_ftp e r) (shown_sftp e q), b2)))) of
        (r, b1) \<Rightarrow> (op_result msg_restarted msg_restart_failed r, b1))"

section \<open>Configuration and users\<close>

definition read_shown :: "'k control_env \<Rightarrow> fs \<Rightarrow> path \<Rightarrow> rpc_status + string" where
  "read_shown e fs p = (case fs_read_to_string fs p of Inl x \<Rightarrow> Inl (Internal (ce_show_io e x)) | Inr s \<Rightarrow> Inr s)"

definition get_config :: "'k control_env \<Rightarrow> backend \<Rightarrow> rpc_status + string" where
  "get_config e b = read_shown e (bk_disk b) (ctl_config_path e b)"

definition save_config :: "'k control_env \<Rightarrow> string \<Rightarrow> backend \<Rightarrow> (rpc_status + string) \<times> backend" where
  "save_config e text b =
     (case decode (de_toml e) text of
        None \<Rightarrow> (Inl (InvalidArgument (msg_parse_failed @ ce_toml_error e text)), b)
      | Some c \<Rightarrow>
          (case config_validate (bk_disk b) c of
             Inl x \<Rightarrow> (Inl (InvalidArgument (msg_validate_failed @ ce_show_config e x)), b)
           | Inr _ \<Rightarrow>
               (case config_save (de_toml e) (ctl_config_path e b) c (bk_disk b) of
                  (Inl x, d) \<Rightarrow> (Inl (Internal (ce_show_save e x)), set_disk d b)
                | (Inr _, d) \<Rightarrow>
                    (case read_shown e d (ctl_config_path e b) of
                       Inl x \<Rightarrow> (Inl x, set_disk d b)
                     | Inr s \<Rightarrow> (Inr s, apply_enabled_flags (daemon_of e) ((set_disk d b)\<lparr>bk_config := c\<rparr>))))))"

definition get_users_file :: "'k control_env \<Rightarrow> backend \<Rightarrow> rpc_status + string" where
  "get_users_file e b = read_shown e (bk_disk b) (ctl_users_path e)"

text \<open>When loading the users panics, the blocking task fails and its error is the reply; \<open>UserManager::load\<close> never
  gives an error, so the branch that refuses the data is never taken.\<close>

definition save_users :: "'k control_env \<Rightarrow> string \<Rightarrow> backend \<Rightarrow> (rpc_status + string) \<times> backend" where
  "save_users e text b =
     (let p = ctl_users_path e; tmp = with_extension p ''json.tmp'' in
      (case fs_write tmp text (bk_disk b) of
         (Inl x, d) \<Rightarrow> (Inl (Internal (ce_show_io e x)), set_disk d b)
       | (Inr _, d) \<Rightarrow>
           (case um_load (de_json e) (de_error_log e) tmp d of
              None \<Rightarrow> (Inl (Internal (''blocking task failed: '' @ ce_join_error e)), set_disk d b)
            | Some m \<Rightarrow>
                (case fs_rename tmp p d of
                   (Inl x, d1) \<Rightarrow> (Inl (Internal (ce_show_io e x)), set_disk d1 b)
                 | (Inr _, d1) \<Rightarrow> (Inr text, (set_disk d1 b)\<lparr>bk_users := m\<rparr>)))))"

record initial_state =
  is_config :: string
  is_users :: string
  is_ftp :: bool
  is_sftp :: bool

definition get_initial_state :: "'k control_env \<Rightarrow> backend \<Rightarrow> rpc_status + initial_state" where
  "get_initial_state e b =
     (case read_shown e (bk_disk b) (ctl_config_path e b) of
        Inl x \<Rightarrow> Inl x
      | Inr c \<Rightarrow>
          (case read_shown e (bk_disk b) (ctl_users_path e) of
             Inl x \<Rightarrow> Inl x
           | Inr u \<Rightarrow>
               Inr \<lparr>is_config = c, is_users = u, is_ftp = is_ftp_running b, is_sftp = is_sftp_running b\<rparr>))"

section \<open>Directories\<close>

fun ensure_dirs :: "'k control_env \<Rightarrow> string list \<Rightarrow> fs \<Rightarrow> string list \<times> fs" where
  "ensure_dirs e [] fs = ([], fs)"
| "ensure_dirs e (h # hs) fs =
     (if fs_exists fs (path_of h) then ensure_dirs e hs fs
      else (case fs_create_dir_all (path_of h) fs of
         (Inl x, fs1) \<Rightarrow> (case ensure_dirs e hs fs1 of (bad, fs2) \<Rightarrow> ((h @ '': '' @ ce_show_io e x) # bad, fs2))
       | (Inr _, fs1) \<Rightarrow> ensure_dirs e hs fs1))"

definition ensure_user_directories :: "'k control_env \<Rightarrow> backend \<Rightarrow> op_reply \<times> backend" where
  "ensure_user_directories e b =
     (case ensure_dirs e (map (u_home_dir \<circ> snd) (list_users (bk_users b))) (bk_disk b) of
        (bad, d) \<Rightarrow>
          (if bad = [] then op_ok msg_dirs_ready else op_err (msg_dirs_failed @ join_str ''; '' bad), set_disk d b))"

definition create_user_directory :: "'k control_env \<Rightarrow> string \<Rightarrow> backend \<Rightarrow> op_reply \<times> backend" where
  "create_user_directory e p b =
     (case fs_create_dir_all (path_of p) (bk_disk b) of
        (Inl x, d) \<Rightarrow> (op_err (msg_mkdir_failed @ ce_show_io e x), set_disk d b)
      | (Inr _, d) \<Rightarrow> (op_ok msg_dir_made, set_disk d b))"

definition setup_directory_permissions :: "'k control_env \<Rightarrow> string \<Rightarrow> backend \<Rightarrow> op_reply \<times> backend" where
  "setup_directory_permissions e p b =
     (case fs_create_dir_all (path_of p) (bk_disk b) of
        (Inl x, d) \<Rightarrow> (op_err (msg_mkdir_failed @ ce_show_io e x), set_disk d b)
      | (Inr _, d) \<Rightarrow>
          (case fs_set_permissions (path_of p) 0x1ED d of
             (Inl x, d1) \<Rightarrow> (op_err (msg_chmod_failed @ ce_show_io e x), set_disk d1 b)
           | (Inr _, d1) \<Rightarrow> (op_ok msg_chmod_ok, set_disk d1 b)))"

section \<open>Logs\<close>

definition get_recent_entries :: "nat \<Rightarrow> backend \<Rightarrow> proto_log_entry list" where
  "get_recent_entries n b = map log_to_proto (lb_recent n (bk_logs b))"

definition watch_logs :: "nat \<Rightarrow> backend \<Rightarrow> (proto_log_entry list \<times> nat) option" where
  "watch_logs n b =
     (if enable_gui_logging (logging (bk_config b))
      then Some (map log_to_proto (lb_recent n (bk_logs b)), lb_subscribe (bk_logs b)) else None)"

definition get_log_files :: "backend \<Rightarrow> proto_log_file list" where
  "get_log_files b = map log_file_to_proto (list_log_files (bk_disk b) (log_dir (logging (bk_config b))) ''wftpg'')"

definition get_file_op_log_files :: "backend \<Rightarrow> proto_log_file list" where
  "get_file_op_log_files b =
     map log_file_to_proto (list_log_files (bk_disk b) (log_dir (logging (bk_config b))) ''file-ops'')"

definition get_log_file_content ::
  "'k control_env \<Rightarrow> string \<Rightarrow> nat \<Rightarrow> backend \<Rightarrow> rpc_status + proto_log_entry list" where
  "get_log_file_content e p n b =
     (case ensure_path_in_dir (bk_disk b) p (log_dir (logging (bk_config b))) of
        Inl x \<Rightarrow> Inl (InvalidArgument (ce_show_path e x))
      | Inr _ \<Rightarrow> Inr (map log_to_proto (read_program_log (ce_json e) (bk_disk b) p n)))"

definition get_file_op_log_content ::
  "'k control_env \<Rightarrow> string \<Rightarrow> nat \<Rightarrow> backend \<Rightarrow> rpc_status + proto_file_op list" where
  "get_file_op_log_content e p n b =
     (if p = ''current'' then
        Inr (map (file_op_to_proto \<circ> file_log_to_json) (get_recent_logs n (bk_flog b)))
      else (case ensure_path_in_dir (bk_disk b) p (log_dir (logging (bk_config b))) of
         Inl x \<Rightarrow> Inl (InvalidArgument (ce_show_path e x))
       | Inr _ \<Rightarrow> Inr (map file_op_to_proto (read_file_op_log (ce_json e) (bk_disk b) p n))))"

record log_request =
  lr_log_dir :: string
  lr_log_level :: string
  lr_max_log_size :: u64
  lr_max_log_files :: u32
  lr_enable_gui_logging :: bool

definition new_logging :: "log_request \<Rightarrow> logging_config \<Rightarrow> logging_config" where
  "new_logging r l =
     l\<lparr>log_dir := lr_log_dir r, log_level := lr_log_level r, max_log_size := lr_max_log_size r,
       max_log_files := ucast (lr_max_log_files r), enable_gui_logging := lr_enable_gui_logging r\<rparr>"

text \<open>The configuration in memory is changed before it is saved.\<close>

definition save_log_config :: "'k control_env \<Rightarrow> log_request \<Rightarrow> backend \<Rightarrow> (rpc_status + op_reply) \<times> backend" where
  "save_log_config e r b =
     (let old = logging (bk_config b);
          b1 = b\<lparr>bk_config := (bk_config b)\<lparr>logging := new_logging r old\<rparr>\<rparr>
      in (case config_save (de_toml e) (ctl_config_path e b) (bk_config b1) (bk_disk b) of
            (Inl x, d) \<Rightarrow> (Inl (Internal (ce_show_save e x)), set_disk d b1)
          | (Inr _, d) \<Rightarrow>
              (let b2 = set_disk d b1;
                   b3 = (if log_level old \<noteq> lr_log_level r
                         then b2\<lparr>bk_tracing := set_log_level (lr_log_level r) (bk_tracing b2)\<rparr> else b2)
               in (Inr (op_ok (msg_log_saved @ (if log_dir old \<noteq> lr_log_dir r then msg_log_restart else []))), b3))))"

definition audit_line :: "datetime \<Rightarrow> string \<Rightarrow> string \<Rightarrow> string \<Rightarrow> string \<Rightarrow> string" where
  "audit_line now user action target details =
     now @ '' | '' @ user @ '' | '' @ action @ '' | '' @ target @ '' | '' @ details @ [CHR 10]"

text \<open>The event of the audit line reaches the memory log if the filters let it through.\<close>

definition audit_event :: "string \<Rightarrow> string \<Rightarrow> string \<Rightarrow> string \<Rightarrow> trace_event" where
  "audit_event user action target details =
     \<lparr>ev_level = LInfo, ev_target = ''audit'',
      ev_fields = [(''message'', FDebug (msg_gui_audit @ target @ '' '' @ details)),
                   (''username'', FDebug user), (''action'', FDebug action)]\<rparr>"

definition emit :: "'k control_env \<Rightarrow> trace_event \<Rightarrow> backend \<Rightarrow> backend" where
  "emit e ev b =
     (case bk_tracing b of
        None \<Rightarrow> b
      | Some s \<Rightarrow>
          if layer_gets (ce_levels e) s Memory ev then b\<lparr>bk_logs := on_event (ce_now e) ev (bk_logs b)\<rparr> else b)"

definition write_audit_log ::
  "'k control_env \<Rightarrow> string \<Rightarrow> string \<Rightarrow> string \<Rightarrow> string \<Rightarrow> backend \<Rightarrow> (rpc_status + op_reply) \<times> backend" where
  "write_audit_log e user action target details b =
     (let p = audit_log_path (de_process e) in
      (case create_parent p (bk_disk b) of
         (Inl x, d) \<Rightarrow> (Inl (Internal (ce_show_io e x)), set_disk d b)
       | (Inr _, d) \<Rightarrow>
           (case fs_open (opts_new\<lparr>o_create := True, o_append := True\<rparr>) p d of
              (Inl x, d1) \<Rightarrow> (Inl (Internal (ce_show_io e x)), set_disk d1 b)
            | (Inr h, d1) \<Rightarrow>
                (case fs_write_at h 0 (audit_line (ce_now e) user action target details) d1 of
                   (Inl x, d2) \<Rightarrow> (Inl (Internal (ce_show_io e x)), set_disk d2 b)
                 | (Inr _, d2) \<Rightarrow> (Inr (op_ok msg_audit_ok), emit e (audit_event user action target details) (set_disk d2 b))))))"

end
