(* ===== verification/ControlProps.thy ===== *)
theory ControlProps
  imports Control
begin

text \<open>
  Properties of the control service: what its requests leave in memory, on the disk and in the slots, so that a
  restarted daemon finds what the running one has.
\<close>

section \<open>The disk under the services\<close>

lemma runtime_disk [simp]:
  "rt_disk (put_task t k rt) = rt_disk rt" "rt_disk (set_flag i v rt) = rt_disk rt" "rt_disk (tell w rt) = rt_disk rt"
  "rt_disk (spawn_listener t a i rt) = rt_disk rt"
  by (simp_all add: put_task_def set_flag_def tell_def spawn_listener_def split: option.split)

lemma task_steps_disk: "task_steps rt rt1 \<Longrightarrow> rt_disk rt1 = rt_disk rt"
  by (induction rule: rtranclp_induct) (auto elim!: task_step.cases)

lemma wait_disk: "waits_run_tasks e \<Longrightarrow> rt_disk (de_wait e w rt) = rt_disk rt"
  unfolding waits_run_tasks_def by (blast intro: task_steps_disk)

lemma stop_ftp_rest:
  assumes "waits_run_tasks e"
  shows "bk_disk (stop_ftp e b) = bk_disk b" "bk_config (stop_ftp e b) = bk_config b" "bk_sftp (stop_ftp e b) = bk_sftp b"
  using assms
  by (auto simp: stop_ftp_def slot_stop_def ftp_stop_begin_def ftp_stop_end_def ftp_drop_def wait_disk split: option.split)

lemma stop_sftp_rest:
  fixes e :: "'k daemon_env"
  assumes "waits_run_tasks e"
  shows "bk_disk (stop_sftp e b) = bk_disk b" "bk_config (stop_sftp e b) = bk_config b" "bk_ftp (stop_sftp e b) = bk_ftp b"
  using assms
  by (auto simp: stop_sftp_def slot_stop_def sftp_stop_begin_def sftp_stop_end_def sftp_drop_def wait_disk split: option.split)

lemma start_ftp_rest:
  "bk_disk (snd (start_ftp e b)) = bk_disk b" "bk_config (snd (start_ftp e b)) = bk_config b"
  "bk_sftp (snd (start_ftp e b)) = bk_sftp b"
  by (auto simp: start_ftp_def slot_start_def ftp_server_new_def new_flag_def new_channels_def ftp_start_def ftp_drop_def
      Let_def split: option.split prod.split sum.split)

section \<open>Settings that survive a restart\<close>

text \<open>A directory of plain files, reached without links, where no call fails.\<close>

definition quiet_dir :: "fs \<Rightarrow> string list \<Rightarrow> string list \<Rightarrow> bool" where
  "quiet_dir fs d ns \<longleftrightarrow> fs_wf fs \<and> dirs_to fs d \<and> no_faults fs \<and> distinct ns \<and> list_all (\<lambda>n. file_slot fs (d @ [n])) ns"

text \<open>The configuration in memory is what a restarted daemon loads.\<close>

definition remembered :: "'k daemon_env \<Rightarrow> path \<Rightarrow> backend \<Rightarrow> bool" where
  "remembered e p b \<longleftrightarrow> config_load (de_toml e) (de_process e) p (bk_disk b) = (Inr (bk_config b), bk_disk b)"

definition printable :: "config codec \<Rightarrow> config \<Rightarrow> bool" where
  "printable tc c \<longleftrightarrow>
     (case encode tc c of None \<Rightarrow> False | Some s \<Rightarrow> decode tc s = Some c \<and> utf8_valid s)"

definition with_flags :: "bool \<Rightarrow> bool \<Rightarrow> config \<Rightarrow> config" where
  "with_flags f s c = c\<lparr>ftp := (ftp c)\<lparr>ftp_enabled := f\<rparr>, sftp := (sftp c)\<lparr>sftp_enabled := s\<rparr>\<rparr>"

lemma with_flags_id: "with_flags (ftp_enabled (ftp c)) (sftp_enabled (sftp c)) c = c"
  by (simp add: with_flags_def)

lemma with_flags_simps [simp]:
  "ftp_enabled (ftp (with_flags f s c)) = f" "sftp_enabled (sftp (with_flags f s c)) = s"
  "with_flags f s (with_flags f' s' c) = with_flags f s c"
  by (simp_all add: with_flags_def)

lemma backend_disk [simp]: "bk_disk (set_disk d b) = d" "bk_config (set_disk d b) = bk_config b"
  "bk_disk (b\<lparr>bk_config := c\<rparr>) = bk_disk b" "bk_ftp (set_disk d b) = bk_ftp b" "bk_sftp (set_disk d b) = bk_sftp b"
  "bk_users (set_disk d b) = bk_users b" "bk_logs (set_disk d b) = bk_logs b" "bk_tracing (set_disk d b) = bk_tracing b"
  by (simp_all add: set_disk_def)

lemma flag_set_disk [simp]: "flag_set (bk_rt (set_disk d b)) i = flag_set (bk_rt b) i"
  "next_flag (bk_rt (set_disk d b)) = next_flag (bk_rt b)" "rt_ok (bk_rt (set_disk d b)) = rt_ok (bk_rt b)"
  by (simp_all add: set_disk_def flag_set_def)

lemma backend_ok_disk [simp]: "backend_ok (set_disk d b) = backend_ok b" "backend_ok (b\<lparr>bk_config := c\<rparr>) = backend_ok b"
  by (simp_all add: backend_ok_def split: option.split)

text \<open>What a persisted change keeps: the service slots, and that the directory stays quiet.\<close>

definition settings_ok :: "'k control_env \<Rightarrow> string list \<Rightarrow> string \<Rightarrow> backend \<Rightarrow> bool" where
  "settings_ok e d n b \<longleftrightarrow>
     quiet_dir (bk_disk b) d [temp_name n ''tmp'', n] \<and> backend_ok b \<and> remembered (daemon_of e) (dir_path (d @ [n])) b"

lemma env_fields [simp]:
  "de_toml (daemon_of e) = de_toml e" "de_process (daemon_of e) = de_process e" "de_json (daemon_of e) = de_json e"
  "de_error_log (daemon_of e) = de_error_log e" "de_wait (daemon_of e) = de_wait e"
  by (simp_all add: daemon_env.defs)

lemma persist_ok:
  assumes "quiet_dir (bk_disk b) d [temp_name n ''tmp'', n]" "backend_ok b" "ctl_config_path e b = dir_path (d @ [n])"
    "printable (de_toml e) (bk_config b)"
  obtains fs' where "persist_config e b = set_disk fs' b" "settings_ok e d n (persist_config e b)"
proof -
  obtain s where s: "encode (de_toml e) (bk_config b) = Some s" "decode (de_toml e) s = Some (bk_config b)" "utf8_valid s"
    using assms(4) by (auto simp: printable_def split: option.splits)
  from assms(1) have q: "fs_wf (bk_disk b)" "dirs_to (bk_disk b) d" "no_faults (bk_disk b)" "temp_name n ''tmp'' \<noteq> n"
    "file_slot (bk_disk b) (d @ [temp_name n ''tmp''])" "file_slot (bk_disk b) (d @ [n])"
    by (auto simp: quiet_dir_def)
  show thesis
  proof (rule config_save_ok [OF q s(1)])
    fix fs'
    assume sv: "config_save (de_toml e) (dir_path (d @ [n])) (bk_config b) (bk_disk b) = (Inr (), fs')"
      and ok: "fs_wf fs'" "same_env (bk_disk b) fs'" "fs_read fs' (dir_path (d @ [n])) = Inr s"
      "fs_node fs' (d @ [temp_name n ''tmp'']) = None" "dirs_to fs' d" "file_slot fs' (d @ [n])"
    have nf: "no_faults fs'" using ok(2) q(3) no_faults_env by blast
    have p: "persist_config e b = set_disk fs' b" by (simp add: persist_config_def assms(3) sv)
    have "settings_ok e d n (set_disk fs' b)"
      using ok nf q(4) s assms(2) read_exists [OF ok(3) nf]
      by (simp add: settings_ok_def quiet_dir_def remembered_def config_load_def fs_read_to_string_def file_slot_def)
    with p show thesis by (intro that) simp_all
  qed
qed

lemma set_enabled_ok:
  assumes ok: "settings_ok e d n b" and path: "\<And>fs. config_path (de_process e) fs = dir_path (d @ [n])"
    and print: "\<And>f s. printable (de_toml e) (with_flags f s (bk_config b))"
  shows "settings_ok e d n (set_ftp_enabled e on b) \<and>
      bk_config (set_ftp_enabled e on b) = with_flags on (sftp_enabled (sftp (bk_config b))) (bk_config b)"
    "settings_ok e d n (set_sftp_enabled e on b) \<and>
      bk_config (set_sftp_enabled e on b) = with_flags (ftp_enabled (ftp (bk_config b))) on (bk_config b)"
proof -
  have change: "settings_ok e d n (persist_config e (b\<lparr>bk_config := with_flags f s (bk_config b)\<rparr>)) \<and>
      bk_config (persist_config e (b\<lparr>bk_config := with_flags f s (bk_config b)\<rparr>)) = with_flags f s (bk_config b)" for f s
    by (rule persist_ok [of "b\<lparr>bk_config := with_flags f s (bk_config b)\<rparr>" d n e])
      (use ok path print in \<open>simp_all add: settings_ok_def\<close>)
  have eq: "bk_config b\<lparr>ftp := (ftp (bk_config b))\<lparr>ftp_enabled := on\<rparr>\<rparr> =
      with_flags on (sftp_enabled (sftp (bk_config b))) (bk_config b)"
    "bk_config b\<lparr>sftp := (sftp (bk_config b))\<lparr>sftp_enabled := on\<rparr>\<rparr> =
      with_flags (ftp_enabled (ftp (bk_config b))) on (bk_config b)"
    by (simp_all add: with_flags_def)
  show "settings_ok e d n (set_ftp_enabled e on b) \<and>
      bk_config (set_ftp_enabled e on b) = with_flags on (sftp_enabled (sftp (bk_config b))) (bk_config b)"
    using ok change [of on "sftp_enabled (sftp (bk_config b))"] with_flags_id [of "bk_config b"]
    by (auto simp: set_ftp_enabled_def eq)
  show "settings_ok e d n (set_sftp_enabled e on b) \<and>
      bk_config (set_sftp_enabled e on b) = with_flags (ftp_enabled (ftp (bk_config b))) on (bk_config b)"
    using ok change [of "ftp_enabled (ftp (bk_config b))" on] with_flags_id [of "bk_config b"]
    by (auto simp: set_sftp_enabled_def eq)
qed

text \<open>The service calls after the flags leave configuration and disk alone.\<close>

lemma settings_calls:
  assumes "waits_run_tasks (daemon_of e)" "settings_ok e d n b"
  shows "settings_ok e d n (stop_ftp (daemon_of e) b)" "settings_ok e d n (stop_sftp (daemon_of e) b)"
    "settings_ok e d n (snd (start_ftp (daemon_of e) b))"
  using assms stop_ok [OF assms(1)] start_ftp_ok [of b "daemon_of e"] stop_ftp_rest [OF assms(1), of b]
    stop_sftp_rest [OF assms(1), of b] start_ftp_rest [of "daemon_of e" b]
  by (simp_all add: settings_ok_def remembered_def)

lemma stopped_not_running:
  assumes "waits_run_tasks e" "backend_ok b"
  shows "\<not> is_ftp_running (stop_ftp e b)" "\<not> is_sftp_running (stop_sftp e b)" "\<not> is_ftp_running (stop_all e b)"
    "\<not> is_sftp_running (stop_all e b)"
  using stop_ftp_outcome [of b e] stop_sftp_outcome [of "stop_ftp e b" e] stop_sftp_outcome [of b e] stop_ok [OF assms] assms
  by (auto simp: running_flags stop_all_def backend_ok_def waits_run_tasks_def)


definition flag_toml :: "config codec" where
  "flag_toml =
     \<lparr>encode = (\<lambda>c. Some [if ftp_enabled (ftp c) then CHR ''1'' else CHR ''0'', if sftp_enabled (sftp c) then CHR ''1'' else CHR ''0'']),
      decode = (\<lambda>s. case s of [f, g] \<Rightarrow> Some (with_flags (f = CHR ''1'') (g = CHR ''1'') (config_default demo_process)) | _ \<Rightarrow> None)\<rparr>"

definition demo_control :: "string control_env" where
  "demo_control =
     daemon_env.extend (demo_daemon\<lparr>de_toml := flag_toml\<rparr>)
       (control_env.fields ''1.0'' \<lparr>js_parse = (\<lambda>_. None), js_show = (\<lambda>_. [])\<rparr> ''now'' (\<lambda>_. ''io'') (\<lambda>_. ''save'')
          (\<lambda>_. ''config'') (\<lambda>_. ''toml'') (\<lambda>_. ''ftp'') (\<lambda>_. ''sftp'') (\<lambda>_. ''path'') ''join'' longest_directive)"

lemma demo_control_fields [simp]:
  "de_toml demo_control = flag_toml" "de_process demo_control = demo_process" "de_json demo_control = demo_json"
  "de_error_log demo_control = True" "ce_levels demo_control = longest_directive" "ce_now demo_control = ''now''"
  by (simp_all add: demo_control_def daemon_env.defs control_env.defs demo_daemon_def)

lemma demo_control_waits: "waits_run_tasks (daemon_of demo_control)"
  by (simp add: waits_run_tasks_def demo_control_def daemon_env.defs control_env.defs demo_daemon_def)

lemma demo_config_path: "config_path demo_process fs = dir_path [''cfg'', ''config.toml'']"
  by (simp add: config_path_def override_dir_def set_var_def demo_process_def path_of_def comp_of_def path_join_def dir_path_def is_absolute_def)

lemma demo_temp: "temp_name ''config.toml'' ''tmp'' = ''config.tmp''"
  by (simp add: temp_name_def split_ext_def split_once.simps)

lemma demo_printable: "printable flag_toml (with_flags f s (config_default demo_process))"
  by (simp add: printable_def flag_toml_def byte_in_def)

lemma demo_settings: "settings_ok demo_control [''cfg''] ''config.toml'' (persist_config demo_control demo_backend)"
    "bk_config (persist_config demo_control demo_backend) = config_default demo_process"
proof -
  have c: "bk_config demo_backend = config_default demo_process" by (simp add: demo_backend_def)
  have p: "printable flag_toml (config_default demo_process)"
    using demo_printable with_flags_id by metis
  have q: "quiet_dir (bk_disk demo_backend) [''cfg''] [temp_name ''config.toml'' ''tmp'', ''config.toml'']"
    by (simp add: quiet_dir_def demo_backend_def rt_start_def demo_temp)
  show "settings_ok demo_control [''cfg''] ''config.toml'' (persist_config demo_control demo_backend)"
    by (rule persist_ok [OF q demo_backend_ok, of demo_control]) (use c p demo_config_path in simp_all)
  show "bk_config (persist_config demo_control demo_backend) = config_default demo_process"
    by (simp add: persist_config_def c)
qed


section \<open>The user file\<close>

text \<open>Loading the users panics on this text.\<close>

definition load_panics :: "'k daemon_env \<Rightarrow> string \<Rightarrow> bool" where
  "load_panics e s \<longleftrightarrow>
     trim s \<noteq> [] \<and> decode (de_json e) s = None \<and> de_error_log e \<and> 200 < length s \<and> is_cont (s ! 200)"

lemma load_written:
  assumes "fs_read fs p = Inr s" "utf8_valid s" "no_faults fs"
  shows "um_load (de_json e) (de_error_log e) p fs =
    (if load_panics e s then None
     else Some (if trim s = [] then um_new else unwrap_or um_new (decode (de_json e) s)))"
  using assms read_exists [OF assms(1,3)]
  by (auto simp: um_load_def fs_read_to_string_def load_panics_def parse_users_def slice_to_def is_char_boundary_def
      preview_len_def is_cont_def min_def split: option.splits)

lemma save_users_quiet:
  assumes quiet: "quiet_dir (bk_disk b) d [temp_name n ''json.tmp'', n]" and path: "ctl_users_path e = dir_path (d @ [n])"
    and valid: "utf8_valid s"
  shows "if load_panics (daemon_of e) s
    then \<exists>x b1. save_users e s b = (Inl (Internal x), b1) \<and> bk_users b1 = bk_users b \<and>
      fs_view (bk_disk b1) (d @ [n]) = fs_view (bk_disk b) (d @ [n])
    else \<exists>b1. save_users e s b = (Inr s, b1) \<and> fs_read (bk_disk b1) (ctl_users_path e) = Inr s \<and>
      bk_users b1 = (if trim s = [] then um_new else unwrap_or um_new (decode (de_json e) s)) \<and>
      um_load (de_json e) (de_error_log e) (ctl_users_path e) (bk_disk b1) = Some (bk_users b1)"
proof -
  let ?t = "temp_name n ''json.tmp''"
  from quiet have q: "fs_wf (bk_disk b)" "dirs_to (bk_disk b) d" "no_faults (bk_disk b)" "?t \<noteq> n"
    "file_slot (bk_disk b) (d @ [?t])" "file_slot (bk_disk b) (d @ [n])"
    by (auto simp: quiet_dir_def)
  note load = load_written [where e = "daemon_of e" and s = s, simplified]
  show ?thesis
  proof (rule save_sequence [OF q, of s])
    fix d2 d3
    assume wr: "fs_write (dir_path (d @ [?t])) s (bk_disk b) = (Inr (), d2)"
      and rn: "fs_rename (dir_path (d @ [?t])) (dir_path (d @ [n])) d2 = (Inr (), d3)"
      and env: "same_env (bk_disk b) d3" and read: "fs_read d3 (dir_path (d @ [n])) = Inr s"
    have d2: "d2 = written (bk_disk b) (d @ [?t]) s" using fs_write_file [OF q(1,2,5,3)] wr by simp
    have nf: "no_faults d2" "no_faults d3" using env written_env q(3) no_faults_env unfolding d2 by blast+
    have dirs: "dirs_to d2 d" by (rule dirs_to_node [OF q(2)]) (auto simp: d2 written_node)
    obtain i ind where "fs_node d2 (d @ [?t]) = Some (NFile i)" "hm_get (inodes d2) i = Some ind" "content ind = s"
      using written_content [OF q(1,5), of s] unfolding d2 by auto
    then have "fs_read d2 (dir_path (d @ [?t])) = Inr s" using read_written [OF dirs nf(1)] by auto
    note load2 = load [OF this valid nf(1)] and load3 = load [OF read valid nf(2)]
    have "fs_view d2 (d @ [n]) = fs_view (bk_disk b) (d @ [n])"
      unfolding d2 by (rule written_elsewhere [OF q(1,5)]) (use q(4) in auto)
    with load2 load3 wr rn read path show ?thesis
      by (auto simp: save_users_def with_extension_dir)
  qed
qed

text \<open>Claim C14: a request to save the users is never refused for its content.  On a disk where no call fails, any text
  is stored as the user file, and the accounts in memory become those a restarted daemon loads from it: those of
  the text, or none at all if the text is no user database.  Only a text that makes the loader panic is
  answered by an error, and then memory and user file stay as they were.\<close>

theorem users_replaced:
  assumes quiet: "quiet_dir (bk_disk b) d [temp_name n ''json.tmp'', n]" and path: "ctl_users_path e = dir_path (d @ [n])"
    and valid: "utf8_valid s"
  shows "if load_panics (daemon_of e) s
    then \<exists>x b1. save_users e s b = (Inl (Internal x), b1) \<and> bk_users b1 = bk_users b \<and>
      fs_view (bk_disk b1) (d @ [n]) = fs_view (bk_disk b) (d @ [n])
    else \<exists>b1. save_users e s b = (Inr s, b1) \<and> fs_read (bk_disk b1) (ctl_users_path e) = Inr s \<and>
      bk_users b1 = (if trim s = [] then um_new else unwrap_or um_new (decode (de_json e) s)) \<and>
      um_load (de_json e) (de_error_log e) (ctl_users_path e) (bk_disk b1) = Some (bk_users b1)"
  using assms by (rule save_users_quiet)

theorem users_replaced_witness:
  "\<exists>b1. save_users demo_control ''no json'' demo_backend = (Inr ''no json'', b1) \<and> bk_users b1 = um_new"
proof -
  have t: "temp_name ''users.json'' ''json.tmp'' = ''users.json.tmp''"
    by (simp add: temp_name_def split_ext_def split_once.simps)
  have q: "quiet_dir (bk_disk demo_backend) [''cfg''] [temp_name ''users.json'' ''json.tmp'', ''users.json'']"
    by (simp add: quiet_dir_def demo_backend_def rt_start_def t)
  have p: "ctl_users_path demo_control = dir_path ([''cfg''] @ [''users.json''])"
    by (simp add: users_path_def config_dir_def override_dir_def set_var_def demo_process_def path_of_def comp_of_def
        path_join_def dir_path_def is_absolute_def)
  have v: "utf8_valid ''no json''" by (simp add: byte_in_def)
  from users_replaced [OF q p v] show ?thesis by (auto simp: load_panics_def demo_json_def)
qed

section \<open>The configuration\<close>

lemma apply_flags_rest:
  assumes w: "waits_run_tasks e" and ok: "backend_ok b"
  shows "backend_ok (apply_enabled_flags e b)" "bk_config (apply_enabled_flags e b) = bk_config b"
    "\<not> ftp_enabled (ftp (bk_config b)) \<Longrightarrow> \<not> is_ftp_running (apply_enabled_flags e b)"
    "\<not> sftp_enabled (sftp (bk_config b)) \<Longrightarrow> \<not> is_sftp_running (apply_enabled_flags e b)"
proof -
  let ?f = "ftp_enabled (ftp (bk_config b))" and ?s = "sftp_enabled (sftp (bk_config b))"
  define m where "m = apply_ftp_flag e ?f b"
  have m: "backend_ok m" "bk_config m = bk_config b"
    using apply_flag_ok(1) [OF w ok] apply_ftp_frame(2) [OF w ok] by (simp_all add: m_def)
  have eq: "apply_enabled_flags e b = apply_sftp_flag e ?s m" by (simp add: apply_enabled_flags_def Let_def m_def)
  show "backend_ok (apply_enabled_flags e b)" unfolding eq by (rule apply_flag_ok(2) [OF w m(1)])
  have "bk_config (snd (start_sftp e m)) = bk_config m" by (simp add: start_sftp_def split: prod.split)
  then show "bk_config (apply_enabled_flags e b) = bk_config b"
    using stop_sftp_rest(2) [OF w] m(2) by (simp add: eq apply_sftp_flag_def)
  show "\<not> is_ftp_running (apply_enabled_flags e b)" if "\<not> ?f"
    using that stopped_not_running(1) [OF w ok] apply_sftp_frame(2) [OF w m(1)]
    by (auto simp: eq m_def apply_ftp_flag_def)
  show "\<not> is_sftp_running (apply_enabled_flags e b)" if "\<not> ?s"
    using that stopped_not_running(2) [OF w m(1)] by (simp add: eq apply_sftp_flag_def)
qed



section \<open>The audit log\<close>

abbreviation opts_append :: open_opts where
  "opts_append \<equiv> opts_new\<lparr>o_create := True, o_append := True\<rparr>"

definition old_content :: "fs \<Rightarrow> path \<Rightarrow> string" where
  "old_content fs p = (case fs_read fs p of Inl _ \<Rightarrow> [] | Inr s \<Rightarrow> s)"

lemma fs_append_quiet:
  assumes fs: "fs_wf fs" "dirs_to fs d" "no_faults fs" "file_slot fs (d @ [n])" and s: "s \<noteq> []"
  obtains h fs1 where "fs_open opts_append (dir_path (d @ [n])) fs = (Inr h, fs1)"
    "fs_write_at h 0 s fs1 = (Inr (), written fs (d @ [n]) (old_content fs (dir_path (d @ [n])) @ s))"
proof (cases "fs_node fs (d @ [n])")
  case None
  let ?fs = "create_file (d @ [n]) fs" and ?h = "new_handle (Some (next_ino fs)) (dir_path (d @ [n])) opts_append"
  have nf: "no_faults ?fs" using fs(3) same_env_prims(5) no_faults_env by blast
  have "fs_open opts_append (dir_path (d @ [n])) fs = (Inr ?h, ?fs)"
    using None fs parent_ok_child [OF fs(2)]
    by (simp add: fs_open_def guarded_no_faults locate_child opts_valid_def opts_new_def)
  moreover have "old_content fs (dir_path (d @ [n])) = []"
    using None fs by (simp add: old_content_def fs_read_def fs_open_def guarded_no_faults locate_child)
  ultimately show thesis
    using None nf s inodes_create [of "d @ [n]" fs "next_ino fs"]
    by (intro that [of ?h ?fs])
      (simp_all add: fs_write_at_def seek_ok_def guarded_no_faults new_handle_def opts_new_def written_def handle_content_def
        Let_def put_content_empty)
next
  case (Some nd)
  then obtain i where i: "fs_node fs (d @ [n]) = Some (NFile i)"
    using fs(4) by (auto simp: file_slot_def split: node.splits)
  then obtain ind where ind: "hm_get (inodes fs) i = Some ind" using fs_wf_file [OF fs(1)] by blast
  let ?h = "new_handle (Some i) (dir_path (d @ [n])) opts_append"
  have "fs_open opts_append (dir_path (d @ [n])) fs = (Inr ?h, fs)"
    using i fs by (simp add: fs_open_def guarded_no_faults locate_child opts_valid_def opts_new_def)
  moreover have "old_content fs (dir_path (d @ [n])) = content ind"
    using read_written [OF fs(2,3) i ind] by (simp add: old_content_def)
  ultimately show thesis
    using i ind fs(3) s
    by (intro that [of ?h fs])
      (simp_all add: fs_write_at_def seek_ok_def guarded_no_faults new_handle_def opts_new_def written_def handle_content_def
        Let_def put_content_twice)
qed

text \<open>Claim C16: a request to write the audit log, on a disk where no call fails, appends exactly its line to the audit
  file, whatever the file holds, changes no other file, and shows up as the newest entry of the program log in
  memory exactly if the filters let an informational event through.\<close>

theorem audit_appended:
  assumes quiet: "quiet_dir (bk_disk b) d [n]" and path: "audit_log_path (de_process e) = dir_path (d @ [n])"
  shows "\<exists>b1. write_audit_log e user action target details b = (Inr (op_ok msg_audit_ok), b1) \<and>
    fs_read (bk_disk b1) (dir_path (d @ [n])) =
      Inr (old_content (bk_disk b) (dir_path (d @ [n])) @ audit_line (ce_now e) user action target details) \<and>
    (\<forall>l. l = d @ [n] \<or> fs_view (bk_disk b1) l = fs_view (bk_disk b) l) \<and>
    bk_logs b1 =
      (if \<exists>s. bk_tracing b = Some s \<and> layer_gets (ce_levels e) s Memory (audit_event user action target details)
       then lb_push (event_entry (ce_now e) (audit_event user action target details)) (bk_logs b) else bk_logs b) \<and>
    quiet_dir (bk_disk b1) d [n]"
proof -
  let ?p = "dir_path (d @ [n])" and ?line = "audit_line (ce_now e) user action target details"
  let ?w = "written (bk_disk b) (d @ [n]) (old_content (bk_disk b) ?p @ ?line)"
  from quiet have q: "fs_wf (bk_disk b)" "dirs_to (bk_disk b) d" "no_faults (bk_disk b)" "file_slot (bk_disk b) (d @ [n])"
    by (auto simp: quiet_dir_def)
  have line: "?line \<noteq> []" by (simp add: audit_line_def)
  obtain h d1 where io: "fs_open opts_append ?p (bk_disk b) = (Inr h, d1)" "fs_write_at h 0 ?line d1 = (Inr (), ?w)"
    by (rule fs_append_quiet [OF q line])
  have cp: "create_parent ?p (bk_disk b) = (Inr (), bk_disk b)"
    by (simp add: create_parent_def create_dir_all_ok [OF q(2,3)])
  have run: "write_audit_log e user action target details b =
      (Inr (op_ok msg_audit_ok), emit e (audit_event user action target details) (set_disk ?w b))"
    by (simp add: write_audit_log_def path cp io)
  have disk: "bk_disk (emit e ev c) = bk_disk c" for ev c by (simp add: emit_def split: option.split)
  have dirs: "dirs_to ?w d" by (rule dirs_to_node [OF q(2)]) (auto simp: written_node)
  have nf: "no_faults ?w" using q(3) written_env no_faults_env by blast
  obtain i ind where i: "fs_node ?w (d @ [n]) = Some (NFile i)" "hm_get (inodes ?w) i = Some ind"
    "content ind = old_content (bk_disk b) ?p @ ?line"
    using written_content [OF q(1,4), of "old_content (bk_disk b) ?p @ ?line"] by auto
  have "quiet_dir ?w d [n]" using written_wf [OF q(1)] dirs nf i(1) by (simp add: quiet_dir_def file_slot_def)
  moreover have "fs_read ?w ?p = Inr (old_content (bk_disk b) ?p @ ?line)" using read_written [OF dirs nf i(1,2)] i(3) by simp
  moreover have "l = d @ [n] \<or> fs_view ?w l = fs_view (bk_disk b) l" for l
    using written_elsewhere [OF q(1,4)] by auto
  ultimately show ?thesis by (auto simp: run disk emit_def on_event_def split: option.split)
qed

definition boot_fs :: fs where
  "boot_fs = demo_fs\<lparr>entries := ([''logs''], NDir demo_attr) # demo_entries\<rparr>"

definition boot_process :: process where
  "boot_process = demo_process\<lparr>env_var := [''WFTPD_CONFIG_DIR'' \<mapsto> ''/cfg'', ''WFTPD_STATE_DIR'' \<mapsto> ''/'']\<rparr>"

definition boot_control :: "string control_env" where
  "boot_control =
     demo_control\<lparr>de_process := boot_process, de_toml := \<lparr>encode = (\<lambda>_. None), decode = (\<lambda>_. None)\<rparr>\<rparr>"

lemma boot_node: "fs_node boot_fs l = (if l = [] then Some (NDir demo_attr) else if l = [''logs''] then Some (NDir demo_attr)
    else map_of demo_entries l)"
  by (simp add: fs_node_def boot_fs_def demo_fs_def hm_get_def)

lemma boot_quiet: "no_faults boot_fs" "dirs_to boot_fs [''logs'']" "dirs_to boot_fs [''cfg'']" "fs_wf boot_fs"
proof -
  show "no_faults boot_fs" by (simp add: no_faults_def boot_fs_def demo_fs_def)
  show "dirs_to boot_fs [''logs'']" "dirs_to boot_fs [''cfg'']"
    by (auto simp: dirs_to_def prefix_one boot_node demo_entries_def is_dir_node_def)
  show "fs_wf boot_fs"
    unfolding fs_wf_def
    by (auto simp: boot_fs_def demo_fs_def demo_entries_def hm_ok_def hm_keys_def hm_get_def split: if_splits)
qed

lemma missing_file:
  assumes "dirs_to fs d" "no_faults fs" "fs_node fs (d @ [n]) = None"
  shows "\<not> fs_exists fs (dir_path (d @ [n]))"
  using assms locate_child [OF assms(1), of n]
  by (simp add: fs_exists_def fs_metadata_def stat_at_def guarded_no_faults file_slot_def)

lemma boot_paths:
  "config_path boot_process fs = dir_path ([''cfg''] @ [''config.toml''])" "users_path boot_process = dir_path ([''cfg''] @ [''users.json''])"
  "audit_log_path boot_process = dir_path ([''logs''] @ [''audit.log''])"
  "path_of (log_dir (logging (config_default boot_process))) = dir_path [''logs'']"
  by (simp_all add: config_path_def users_path_def config_dir_def audit_log_path_def default_log_dir_def state_dir_def
      override_dir_def set_var_def boot_process_def path_of_def comp_of_def path_join_def dir_path_def is_absolute_def
      config_default_def path_string_def)

theorem audit_appended_witness:
  "\<exists>b1 s. write_audit_log boot_control ''gui'' ''save'' ''users'' ''ok'' (set_disk boot_fs demo_backend) = (Inr (op_ok msg_audit_ok), b1) \<and>
    fs_read (bk_disk b1) (dir_path [''logs'', ''audit.log'']) = Inr (s @ audit_line ''now'' ''gui'' ''save'' ''users'' ''ok'')"
proof -
  have q: "quiet_dir (bk_disk (set_disk boot_fs demo_backend)) [''logs''] [''audit.log'']"
    using boot_quiet by (simp add: quiet_dir_def file_slot_def boot_node demo_entries_def)
  have p: "audit_log_path (de_process boot_control) = dir_path ([''logs''] @ [''audit.log''])"
    using boot_paths(3) by (simp add: boot_control_def)
  have n: "ce_now boot_control = ''now''" by (simp add: boot_control_def)
  from audit_appended [OF q p, of "''gui''" "''save''" "''users''" "''ok''"] show ?thesis unfolding n by auto
qed

end
