(* ===== verification/GuiClient.thy ===== *)
theory GuiClient
  imports DaemonRun
begin

text \<open>
  \<open>wftpg/src/lib.rs\<close> and \<open>wftpg/src/communication/client.rs\<close>: the state the front end keeps, a copy of the
  configuration and of the users loaded when it starts, and its calls of the control service.  The front end and the
  daemon share the disk; a call that reaches the daemon runs its handler on the daemon's state.
\<close>

record app_state =
  as_config :: config
  as_users :: user_manager

datatype client_error = NoSocket path | NoConnection path | Refused rpc_status | OpFailed string

text \<open>What the front end takes from outside: the daemon's side of a call, its own process, whether the socket accepts a
  connection, whether the locks are free, JSON on one line, the network prefixes of the \<open>ipnet\<close>
  crate, Argon2 with its salt, the time, the commands and groups of the system,
  and how quotients and errors print.\<close>

record 'k gui_env =
  ge_daemon :: "'k control_env"
  ge_process :: process
  ge_connects :: bool
  ge_lock_free :: bool
  ge_json_line :: "user_manager \<Rightarrow> string option"
  ge_ipnet :: ipnet
  ge_argon :: argon
  ge_salt :: nat
  ge_now :: nat
  ge_share_group :: bool
  ge_chgrp :: "path \<Rightarrow> fs \<Rightarrow> fs"
  ge_groups :: "nat list option"
  ge_ratio :: "nat \<Rightarrow> nat \<Rightarrow> string"
  ge_show_error :: "client_error \<Rightarrow> string"

text \<open>No result when loading the users panics.\<close>

definition new_for_gui :: "'k gui_env \<Rightarrow> fs \<Rightarrow> ((config_error + app_state) \<times> fs) option" where
  "new_for_gui g fs =
     (case config_load (de_toml (ge_daemon g)) (ge_process g) (config_path (ge_process g) fs) fs of
        (Inl x, fs1) \<Rightarrow> Some (Inl x, fs1)
      | (Inr c, fs1) \<Rightarrow>
          map_option (\<lambda>m. (Inr \<lparr>as_config = c, as_users = m\<rparr>, fs1))
            (um_load (de_json (ge_daemon g)) (de_error_log (ge_daemon g)) (users_path (ge_process g)) fs1))"

section \<open>Calls\<close>

definition connect :: "'k gui_env \<Rightarrow> backend \<Rightarrow> client_error + unit" where
  "connect g b =
     (let p = socket_path (ge_process g) in
      if \<not> fs_exists (bk_disk b) p then Inl (NoSocket p)
      else if \<not> ge_connects g then Inl (NoConnection p) else Inr ())"

text \<open>One call: the connection, then the handler.\<close>

definition rpc_call ::
  "'k gui_env \<Rightarrow> ('k control_env \<Rightarrow> backend \<Rightarrow> (rpc_status + 'a) \<times> backend) \<Rightarrow> backend \<Rightarrow> (client_error + 'a) \<times> backend" where
  "rpc_call g f b =
     (case connect g b of
        Inl x \<Rightarrow> (Inl x, b)
      | Inr _ \<Rightarrow> (case f (ge_daemon g) b of (Inl st, b1) \<Rightarrow> (Inl (Refused st), b1) | (Inr r, b1) \<Rightarrow> (Inr r, b1)))"

definition op_outcome :: "op_reply \<Rightarrow> client_error + unit" where
  "op_outcome r = (if op_success r then Inr () else Inl (OpFailed (op_message r)))"

definition op_call ::
  "'k gui_env \<Rightarrow> ('k control_env \<Rightarrow> backend \<Rightarrow> (rpc_status + op_reply) \<times> backend) \<Rightarrow> backend \<Rightarrow> (client_error + unit) \<times> backend" where
  "op_call g f b = (case rpc_call g f b of (Inl x, b1) \<Rightarrow> (Inl x, b1) | (Inr r, b1) \<Rightarrow> (op_outcome r, b1))"

record server_status =
  ss_ftp_running :: bool
  ss_sftp_running :: bool
  ss_version :: string

definition client_get_status :: "'k gui_env \<Rightarrow> backend \<Rightarrow> client_error + server_status" where
  "client_get_status g b =
     (case connect g b of
        Inl x \<Rightarrow> Inl x
      | Inr _ \<Rightarrow>
          (let s = get_status (ge_daemon g) b in
           Inr \<lparr>ss_ftp_running = st_ftp_running s, ss_sftp_running = st_sftp_running s, ss_version = st_version s\<rparr>))"

definition client_start_service :: "'k gui_env \<Rightarrow> which \<Rightarrow> backend \<Rightarrow> (client_error + unit) \<times> backend" where
  "client_start_service g w = op_call g (\<lambda>e b. case start_service e w b of (r, b1) \<Rightarrow> (Inr r, b1))"

definition client_stop_service :: "'k gui_env \<Rightarrow> which \<Rightarrow> backend \<Rightarrow> (client_error + unit) \<times> backend" where
  "client_stop_service g w = op_call g (\<lambda>e b. case stop_service e w b of (r, b1) \<Rightarrow> (Inr r, b1))"

definition client_restart_service :: "'k gui_env \<Rightarrow> which \<Rightarrow> backend \<Rightarrow> (client_error + unit) \<times> backend" where
  "client_restart_service g w = op_call g (\<lambda>e b. case restart_service e w b of (r, b1) \<Rightarrow> (Inr r, b1))"

definition write_config :: "'k gui_env \<Rightarrow> string \<Rightarrow> backend \<Rightarrow> (client_error + string) \<times> backend" where
  "write_config g s = rpc_call g (\<lambda>e. save_config e s)"

definition write_users :: "'k gui_env \<Rightarrow> string \<Rightarrow> backend \<Rightarrow> (client_error + string) \<times> backend" where
  "write_users g s = rpc_call g (\<lambda>e. save_users e s)"

definition client_audit ::
  "'k gui_env \<Rightarrow> string \<Rightarrow> string \<Rightarrow> string \<Rightarrow> string \<Rightarrow> backend \<Rightarrow> (client_error + unit) \<times> backend" where
  "client_audit g user action target details = op_call g (\<lambda>e. write_audit_log e user action target details)"

text \<open>A count goes over the wire as 32 bits, saturated.\<close>

definition wire_count :: "nat \<Rightarrow> nat" where
  "wire_count n = min n (2 ^ 32 - 1)"

definition get_logs :: "'k gui_env \<Rightarrow> nat \<Rightarrow> backend \<Rightarrow> client_error + log_entry_json list" where
  "get_logs g n b =
     (case connect g b of Inl x \<Rightarrow> Inl x | Inr _ \<Rightarrow> Inr (map log_of_proto (get_recent_entries (wire_count n) b)))"

definition client_log_file :: "'k gui_env \<Rightarrow> string \<Rightarrow> nat \<Rightarrow> backend \<Rightarrow> client_error + log_entry_json list" where
  "client_log_file g p n b =
     (case connect g b of
        Inl x \<Rightarrow> Inl x
      | Inr _ \<Rightarrow>
          (case get_log_file_content (ge_daemon g) p (wire_count n) b of
             Inl st \<Rightarrow> Inl (Refused st) | Inr es \<Rightarrow> Inr (map log_of_proto es)))"

definition client_file_log :: "'k gui_env \<Rightarrow> string \<Rightarrow> nat \<Rightarrow> backend \<Rightarrow> client_error + file_log_entry_json list" where
  "client_file_log g p n b =
     (case connect g b of
        Inl x \<Rightarrow> Inl x
      | Inr _ \<Rightarrow>
          (case get_file_op_log_content (ge_daemon g) p (wire_count n) b of
             Inl st \<Rightarrow> Inl (Refused st) | Inr es \<Rightarrow> Inr (map file_op_of_proto es)))"

end
