(* ===== verification/GuiConfig.thy ===== *)
theory GuiConfig
  imports GuiClient
begin

text \<open>
  The pages of \<open>wftpg/src/ui\<close> that change the configuration: \<open>server_tab.rs\<close>, \<open>security_tab.rs\<close> and the settings of
  \<open>log_tab.rs\<close>.  A form is a record of what its widgets hold when the button is pressed; spin buttons hold whole numbers
  within their bounds (their conversions are in \<open>GuiSpin\<close>).  The labels a page shows are the outcome.
\<close>

section \<open>Changing the configuration through the daemon\<close>

datatype save_outcome = NotTried | Invalid | SaveFailed client_error | Saved

definition with_config :: "'k gui_env \<Rightarrow> (config \<Rightarrow> 'a \<times> config) \<Rightarrow> app_state \<Rightarrow> 'a option \<times> app_state" where
  "with_config g f st =
     (if \<not> ge_lock_free g then (None, st)
      else (case f (as_config st) of (r, c) \<Rightarrow> (Some r, st\<lparr>as_config := c\<rparr>)))"

text \<open>Printing never fails for the front end: what cannot be printed is the empty text.\<close>

definition print_config :: "'k gui_env \<Rightarrow> config \<Rightarrow> string" where
  "print_config g c = unwrap_or [] (encode (de_toml (ge_daemon g)) c)"

definition take_saved :: "'k gui_env \<Rightarrow> string \<Rightarrow> app_state \<Rightarrow> app_state" where
  "take_saved g s st =
     snd (with_config g (\<lambda>c. ((), unwrap_or c (decode (de_toml (ge_daemon g)) s))) st)"

text \<open>The change is made in the local copy, which is then sent as a whole.\<close>

definition push_config ::
  "'k gui_env \<Rightarrow> (config \<Rightarrow> config) \<Rightarrow> app_state \<Rightarrow> backend \<Rightarrow> save_outcome \<times> app_state \<times> backend" where
  "push_config g f st b =
     (case with_config g (\<lambda>c. (print_config g (f c), f c)) st of
        (None, st1) \<Rightarrow> (NotTried, st1, b)
      | (Some s, st1) \<Rightarrow>
          (case write_config g s b of
             (Inl x, b1) \<Rightarrow> (SaveFailed x, st1, b1)
           | (Inr saved, b1) \<Rightarrow> (Saved, take_saved g saved st1, b1)))"

definition audited ::
  "'k gui_env \<Rightarrow> string \<Rightarrow> string \<Rightarrow> string \<Rightarrow> string \<Rightarrow> save_outcome \<times> app_state \<times> backend \<Rightarrow> save_outcome \<times> app_state \<times> backend" where
  "audited g user action target details r =
     (case r of
        (Saved, st, b) \<Rightarrow> (Saved, st, snd (client_audit g user action target details b))
      | _ \<Rightarrow> r)"

definition show_bool :: "bool \<Rightarrow> string" where
  "show_bool b = (if b then ''true'' else ''false'')"

section \<open>The server page\<close>

record ftp_form =
  ff_enabled :: bool
  ff_anon :: bool
  ff_bind_ip :: string
  ff_port :: u16
  ff_start :: u16
  ff_end :: u16
  ff_welcome :: string
  ff_anon_home :: string
  ff_max_speed :: u64
  ff_encoding :: "string option"
  ff_masquerade :: string

datatype anon_status = AnonOff | AnonUnset | AnonMissing string | AnonNotDir string | AnonValid

definition anon_home_status :: "fs \<Rightarrow> bool \<Rightarrow> string \<Rightarrow> anon_status" where
  "anon_home_status fs anon home =
     (if \<not> anon then AnonOff
      else if trim home = [] then AnonUnset
      else if \<not> fs_exists fs (path_of home) then AnonMissing home
      else if \<not> fs_is_dir fs (path_of home) then AnonNotDir home
      else AnonValid)"

definition opt_text :: "string \<Rightarrow> string option" where
  "opt_text s = (if trim s = [] then None else Some s)"

definition bind_or_any :: "string \<Rightarrow> string" where
  "bind_or_any s = (if trim s = [] then ''0.0.0.0'' else s)"

definition ftp_from_form :: "ftp_form \<Rightarrow> ftp_config \<Rightarrow> ftp_config" where
  "ftp_from_form w c =
     c\<lparr>ftp_enabled := ff_enabled w, allow_anonymous := ff_anon w, ftp_bind_ip := bind_or_any (ff_bind_ip w),
       ftp_port := ff_port w, passive_ports := (min (ff_start w) (ff_end w), max (ff_start w) (ff_end w)),
       welcome_message := ff_welcome w, anonymous_home := opt_text (ff_anon_home w), max_speed_kbps := ff_max_speed w,
       encoding := unwrap_or ''UTF-8'' (ff_encoding w), masquerade_ip := map_option trim (opt_text (ff_masquerade w))\<rparr>"

definition ftp_summary :: "ftp_form \<Rightarrow> string" where
  "ftp_summary w =
     ''ftp: enabled='' @ show_bool (ff_enabled w) @ '', bind='' @ ff_bind_ip w @ '':'' @ show_dec (unat (ff_port w)) @
     '', passive='' @ show_dec (unat (ff_start w)) @ ''-'' @ show_dec (unat (ff_end w)) @ '', anon='' @ show_bool (ff_anon w)"

definition save_ftp_form ::
  "'k gui_env \<Rightarrow> ftp_form \<Rightarrow> app_state \<Rightarrow> backend \<Rightarrow> save_outcome \<times> app_state \<times> backend" where
  "save_ftp_form g w st b =
     (if ff_anon w \<and> (trim (ff_anon_home w) = [] \<or> \<not> fs_is_dir (bk_disk b) (path_of (trim (ff_anon_home w))))
      then (Invalid, st, b)
      else audited g ''gui-server'' ''SERVER_CONFIG'' ''ftp'' (ftp_summary w)
             (push_config g (\<lambda>c. c\<lparr>ftp := ftp_from_form w (ftp c)\<rparr>) st b))"

record ftps_form =
  fp_require_ssl :: bool
  fp_cert :: string
  fp_key :: string

datatype ftps_state = FtpsNeedsFiles | FtpsPlain | FtpsMissing bool string | FtpsValid

text \<open>\<open>FtpsMissing True\<close> is the certificate.\<close>

definition ftps_status :: "fs \<Rightarrow> ftps_form \<Rightarrow> ftps_state" where
  "ftps_status fs w =
     (if trim (fp_cert w) = [] \<or> trim (fp_key w) = [] then (if fp_require_ssl w then FtpsNeedsFiles else FtpsPlain)
      else if \<not> fs_exists fs (path_of (trim (fp_cert w))) then FtpsMissing True (fp_cert w)
      else if \<not> fs_exists fs (path_of (trim (fp_key w))) then FtpsMissing False (fp_key w)
      else FtpsValid)"

definition ftps_from_form :: "ftps_form \<Rightarrow> security_config \<Rightarrow> security_config" where
  "ftps_from_form w c =
     c\<lparr>require_ssl := fp_require_ssl w, cert_path := map_option trim (opt_text (fp_cert w)),
       key_path := map_option trim (opt_text (fp_key w))\<rparr>"

definition save_ftps_form ::
  "'k gui_env \<Rightarrow> ftps_form \<Rightarrow> app_state \<Rightarrow> backend \<Rightarrow> save_outcome \<times> app_state \<times> backend" where
  "save_ftps_form g w st b =
     (let ready = (trim (fp_cert w) \<noteq> [] \<and> trim (fp_key w) \<noteq> []) in
      if fp_require_ssl w \<and> \<not> ready then (Invalid, st, b)
      else if ready \<and> (\<not> fs_is_file (bk_disk b) (path_of (trim (fp_cert w))) \<or> \<not> fs_is_file (bk_disk b) (path_of (trim (fp_key w))))
      then (Invalid, st, b)
      else audited g ''gui-server'' ''SERVER_CONFIG'' ''ftps''
             (''ftps: require_ssl='' @ show_bool (fp_require_ssl w) @ '', cert_ready='' @ show_bool ready)
             (push_config g (\<lambda>c. c\<lparr>security := ftps_from_form w (security c)\<rparr>) st b))"

record sftp_form =
  sv_enabled :: bool
  sv_bind_ip :: string
  sv_port :: u16
  sv_host_key :: string
  sv_max_auth :: u32
  sv_auth_timeout :: u64
  sv_log_level :: "string option"

definition sftp_from_form :: "sftp_form \<Rightarrow> sftp_config \<Rightarrow> sftp_config" where
  "sftp_from_form w c =
     c\<lparr>sftp_enabled := sv_enabled w, sftp_bind_ip := bind_or_any (sv_bind_ip w), sftp_port := sv_port w,
       host_key_path := sv_host_key w, max_auth_attempts := sv_max_auth w, auth_timeout := sv_auth_timeout w,
       sftp_log_level := unwrap_or ''info'' (sv_log_level w)\<rparr>"

definition save_sftp_form ::
  "'k gui_env \<Rightarrow> sftp_form \<Rightarrow> app_state \<Rightarrow> backend \<Rightarrow> save_outcome \<times> app_state \<times> backend" where
  "save_sftp_form g w st b =
     (if trim (sv_host_key w) = [] then (Invalid, st, b)
      else audited g ''gui-server'' ''SERVER_CONFIG'' ''sftp''
             (''sftp: enabled='' @ show_bool (sv_enabled w) @ '', bind='' @ sv_bind_ip w @ '':'' @ show_dec (unat (sv_port w)) @
              '', max_auth='' @ show_dec (unat (sv_max_auth w)))
             (push_config g (\<lambda>c. c\<lparr>sftp := sftp_from_form w (sftp c)\<rparr>) st b))"

section \<open>The security page\<close>

definition save_login_form ::
  "'k gui_env \<Rightarrow> u32 \<Rightarrow> u64 \<Rightarrow> app_state \<Rightarrow> backend \<Rightarrow> save_outcome \<times> app_state \<times> backend" where
  "save_login_form g tries ban st b =
     audited g ''gui-security'' ''SECURITY_CONFIG'' ''login_settings''
       (''Login security updated: max_attempts='' @ show_dec (unat tries) @ '', ban_duration='' @ show_dec (unat ban) @ ''s'')
       (push_config g (\<lambda>c. c\<lparr>security := (security c)\<lparr>max_login_attempts := tries, ban_duration := ban\<rparr>\<rparr>) st b)"

definition push_security_config ::
  "'k gui_env \<Rightarrow> (security_config \<Rightarrow> security_config) \<Rightarrow> app_state \<Rightarrow> backend \<Rightarrow> save_outcome \<times> app_state \<times> backend" where
  "push_security_config g f st b = push_config g (\<lambda>c. c\<lparr>security := f (security c)\<rparr>) st b"

definition validate_ip_or_cidr :: "ipnet \<Rightarrow> string \<Rightarrow> bool" where
  "validate_ip_or_cidr nt s \<longleftrightarrow>
     s = ''0.0.0.0/0'' \<or> s = ''::/0'' \<or> parse_ipv4 s \<noteq> None \<or> parse_ipv6 s \<noteq> None \<or> net4 nt s \<noteq> None \<or> net6 nt s \<noteq> None"

definition add_address ::
  "'k gui_env \<Rightarrow> (security_config \<Rightarrow> security_config) \<Rightarrow> string \<Rightarrow> app_state \<Rightarrow> backend \<Rightarrow> save_outcome \<times> app_state \<times> backend" where
  "add_address g f ip st b =
     (if ip = [] then (NotTried, st, b)
      else if \<not> validate_ip_or_cidr (ge_ipnet g) ip then (Invalid, st, b)
      else push_security_config g f st b)"

definition whitelist_add :: "'k gui_env \<Rightarrow> string \<Rightarrow> app_state \<Rightarrow> backend \<Rightarrow> save_outcome \<times> app_state \<times> backend" where
  "whitelist_add g ip =
     add_address g (\<lambda>s. if ip \<in> set (allowed_ips s) then s else s\<lparr>allowed_ips := allowed_ips s @ [ip]\<rparr>) ip"

definition whitelist_delete :: "'k gui_env \<Rightarrow> string \<Rightarrow> app_state \<Rightarrow> backend \<Rightarrow> save_outcome \<times> app_state \<times> backend" where
  "whitelist_delete g ip = push_security_config g (\<lambda>s. s\<lparr>allowed_ips := filter (\<lambda>x. x \<noteq> ip) (allowed_ips s)\<rparr>)"

definition whitelist_clear :: "'k gui_env \<Rightarrow> app_state \<Rightarrow> backend \<Rightarrow> save_outcome \<times> app_state \<times> backend" where
  "whitelist_clear g = push_security_config g (\<lambda>s. s\<lparr>allowed_ips := []\<rparr>)"

definition whitelist_allow_all :: "'k gui_env \<Rightarrow> app_state \<Rightarrow> backend \<Rightarrow> save_outcome \<times> app_state \<times> backend" where
  "whitelist_allow_all g = push_security_config g (\<lambda>s. s\<lparr>allowed_ips := [''0.0.0.0/0'']\<rparr>)"

definition blacklist_add :: "'k gui_env \<Rightarrow> string \<Rightarrow> app_state \<Rightarrow> backend \<Rightarrow> save_outcome \<times> app_state \<times> backend" where
  "blacklist_add g ip =
     add_address g (\<lambda>s. if ip \<in> set (denied_ips s) then s else s\<lparr>denied_ips := denied_ips s @ [ip]\<rparr>) ip"

definition blacklist_delete :: "'k gui_env \<Rightarrow> string \<Rightarrow> app_state \<Rightarrow> backend \<Rightarrow> save_outcome \<times> app_state \<times> backend" where
  "blacklist_delete g ip = push_security_config g (\<lambda>s. s\<lparr>denied_ips := filter (\<lambda>x. x \<noteq> ip) (denied_ips s)\<rparr>)"

definition blacklist_clear :: "'k gui_env \<Rightarrow> app_state \<Rightarrow> backend \<Rightarrow> save_outcome \<times> app_state \<times> backend" where
  "blacklist_clear g = push_security_config g (\<lambda>s. s\<lparr>denied_ips := []\<rparr>)"

section \<open>The log settings\<close>

record log_form =
  lf_dir :: string
  lf_level :: "string option"
  lf_max_size_mb :: u64
  lf_max_files :: u64
  lf_gui :: bool

definition log_from_form :: "log_form \<Rightarrow> logging_config \<Rightarrow> logging_config" where
  "log_from_form w c =
     c\<lparr>log_dir := lf_dir w, log_level := unwrap_or ''info'' (lf_level w), max_log_size := lf_max_size_mb w * 1024 * 1024,
       max_log_files := lf_max_files w, enable_gui_logging := lf_gui w\<rparr>"

text \<open>This page writes the configuration file itself; a failed save goes unnoticed.\<close>

definition save_log_form :: "'k gui_env \<Rightarrow> log_form \<Rightarrow> app_state \<Rightarrow> backend \<Rightarrow> app_state \<times> backend" where
  "save_log_form g w st b =
     (if \<not> ge_lock_free g then (st, b)
      else
        (let c = (as_config st)\<lparr>logging := log_from_form w (logging (as_config st))\<rparr>
         in (st\<lparr>as_config := c\<rparr>,
             set_disk (snd (config_save (de_toml (ge_daemon g)) (config_path (ge_process g) (bk_disk b)) c (bk_disk b))) b)))"

end
