(* ===== verification/GuiMessages.thy ===== *)
theory GuiMessages
  imports Prelude
begin

text \<open>
  The constants of the pages of \<open>wftpg/src/ui\<close> as their UTF-8 bytes.
\<close>

definition gui_unlimited :: string where
  "gui_unlimited =
    [CHR 0xE6, CHR 0x97, CHR 0xA0, CHR 0xE9, CHR 0x99, CHR 0x90, CHR 0xE5, CHR 0x88, CHR 0xB6]"

definition gui_need_home :: string where
  "gui_need_home =
    [CHR 0xE4, CHR 0xB8, CHR 0xBB, CHR 0xE7, CHR 0x9B, CHR 0xAE, CHR 0xE5, CHR 0xBD, CHR 0x95,
     CHR 0xE4, CHR 0xB8, CHR 0x8D, CHR 0xE8, CHR 0x83, CHR 0xBD, CHR 0xE4, CHR 0xB8, CHR 0xBA,
     CHR 0xE7, CHR 0xA9, CHR 0xBA]"

definition gui_home_missing :: string where
  "gui_home_missing =
    [CHR 0xE4, CHR 0xB8, CHR 0xBB, CHR 0xE7, CHR 0x9B, CHR 0xAE, CHR 0xE5, CHR 0xBD, CHR 0x95,
     CHR 0xE4, CHR 0xB8, CHR 0x8D, CHR 0xE5, CHR 0xAD, CHR 0x98, CHR 0xE5, CHR 0x9C, CHR 0xA8,
     CHR 0x3A, CHR 0x20]"

definition gui_home_not_dir :: string where
  "gui_home_not_dir =
    [CHR 0xE4, CHR 0xB8, CHR 0xBB, CHR 0xE7, CHR 0x9B, CHR 0xAE, CHR 0xE5, CHR 0xBD, CHR 0x95,
     CHR 0xE8, CHR 0xB7, CHR 0xAF, CHR 0xE5, CHR 0xBE, CHR 0x84, CHR 0xE4, CHR 0xB8, CHR 0x8D,
     CHR 0xE6, CHR 0x98, CHR 0xAF, CHR 0xE7, CHR 0x9B, CHR 0xAE, CHR 0xE5, CHR 0xBD, CHR 0x95,
     CHR 0x3A, CHR 0x20]"

definition gui_need_password :: string where
  "gui_need_password =
    [CHR 0xE6, CHR 0x96, CHR 0xB0, CHR 0xE5, CHR 0xBB, CHR 0xBA, CHR 0xE7, CHR 0x94, CHR 0xA8,
     CHR 0xE6, CHR 0x88, CHR 0xB7, CHR 0xE5, CHR 0xBF, CHR 0x85, CHR 0xE9, CHR 0xA1, CHR 0xBB,
     CHR 0xE8, CHR 0xAE, CHR 0xBE, CHR 0xE7, CHR 0xBD, CHR 0xAE, CHR 0xE5, CHR 0xAF, CHR 0x86,
     CHR 0xE7, CHR 0xA0, CHR 0x81]"

definition sug_home :: string where
  "sug_home =
    [CHR 0xE7, CHR 0x94, CHR 0xA8, CHR 0xE6, CHR 0x88, CHR 0xB7, CHR 0xE4, CHR 0xB8, CHR 0xBB,
     CHR 0xE7, CHR 0x9B, CHR 0xAE, CHR 0xE5, CHR 0xBD, CHR 0x95]"

definition sug_rw :: string where
  "sug_rw =
    [CHR 0xE8, CHR 0xAF, CHR 0xBB, CHR 0xE5, CHR 0x86, CHR 0x99]"

definition sug_desktop :: string where
  "sug_desktop =
    [CHR 0xE6, CHR 0xA1, CHR 0x8C, CHR 0xE9, CHR 0x9D, CHR 0xA2]"

definition sug_documents :: string where
  "sug_documents =
    [CHR 0xE6, CHR 0x96, CHR 0x87, CHR 0xE6, CHR 0xA1, CHR 0xA3]"

definition sug_downloads :: string where
  "sug_downloads =
    [CHR 0xE4, CHR 0xB8, CHR 0x8B, CHR 0xE8, CHR 0xBD, CHR 0xBD]"

definition sug_share :: string where
  "sug_share =
    [CHR 0xE9, CHR 0xBB, CHR 0x98, CHR 0xE8, CHR 0xAE, CHR 0xA4, CHR 0xE5, CHR 0x85, CHR 0xB1,
     CHR 0xE4, CHR 0xBA, CHR 0xAB, CHR 0xE7, CHR 0x9B, CHR 0xAE, CHR 0xE5, CHR 0xBD, CHR 0x95]"

definition sug_share_new :: string where
  "sug_share_new =
    [CHR 0xE9, CHR 0xBB, CHR 0x98, CHR 0xE8, CHR 0xAE, CHR 0xA4, CHR 0xE5, CHR 0x85, CHR 0xB1,
     CHR 0xE4, CHR 0xBA, CHR 0xAB, CHR 0xE7, CHR 0x9B, CHR 0xAE, CHR 0xE5, CHR 0xBD, CHR 0x95,
     CHR 0x28, CHR 0xE5, CHR 0xBE, CHR 0x85, CHR 0xE5, CHR 0x88, CHR 0x9B, CHR 0xE5, CHR 0xBB,
     CHR 0xBA, CHR 0x29]"

definition sug_tmp :: string where
  "sug_tmp =
    [CHR 0xE4, CHR 0xB8, CHR 0xB4, CHR 0xE6, CHR 0x97, CHR 0xB6, CHR 0xE7, CHR 0x9B, CHR 0xAE,
     CHR 0xE5, CHR 0xBD, CHR 0x95]"

definition share_name :: string where
  "share_name =
    [CHR 0xE6, CHR 0x96, CHR 0x87, CHR 0xE4, CHR 0xBB, CHR 0xB6, CHR 0xE5, CHR 0x85, CHR 0xB1,
     CHR 0xE4, CHR 0xBA, CHR 0xAB]"

definition op_upload :: string where
  "op_upload =
    [CHR 0xE4, CHR 0xB8, CHR 0x8A, CHR 0xE4, CHR 0xBC, CHR 0xA0]"

definition op_download :: string where
  "op_download =
    [CHR 0xE4, CHR 0xB8, CHR 0x8B, CHR 0xE8, CHR 0xBD, CHR 0xBD]"

definition op_update :: string where
  "op_update =
    [CHR 0xE6, CHR 0x9B, CHR 0xB4, CHR 0xE6, CHR 0x96, CHR 0xB0]"

definition op_delete :: string where
  "op_delete =
    [CHR 0xE5, CHR 0x88, CHR 0xA0, CHR 0xE9, CHR 0x99, CHR 0xA4]"

definition op_rename :: string where
  "op_rename =
    [CHR 0xE9, CHR 0x87, CHR 0x8D, CHR 0xE5, CHR 0x91, CHR 0xBD, CHR 0xE5, CHR 0x90, CHR 0x8D]"

definition op_mkdir :: string where
  "op_mkdir =
    [CHR 0xE5, CHR 0x88, CHR 0x9B, CHR 0xE5, CHR 0xBB, CHR 0xBA, CHR 0xE7, CHR 0x9B, CHR 0xAE,
     CHR 0xE5, CHR 0xBD, CHR 0x95]"

definition op_rmdir :: string where
  "op_rmdir =
    [CHR 0xE5, CHR 0x88, CHR 0xA0, CHR 0xE9, CHR 0x99, CHR 0xA4, CHR 0xE7, CHR 0x9B, CHR 0xAE,
     CHR 0xE5, CHR 0xBD, CHR 0x95]"

definition op_append :: string where
  "op_append =
    [CHR 0xE8, CHR 0xBF, CHR 0xBD, CHR 0xE5, CHR 0x8A, CHR 0xA0]"

definition op_copy :: string where
  "op_copy =
    [CHR 0xE5, CHR 0xA4, CHR 0x8D, CHR 0xE5, CHR 0x88, CHR 0xB6]"

definition op_symlink :: string where
  "op_symlink =
    [CHR 0xE7, CHR 0xAC, CHR 0xA6, CHR 0xE5, CHR 0x8F, CHR 0xB7, CHR 0xE9, CHR 0x93, CHR 0xBE,
     CHR 0xE6, CHR 0x8E, CHR 0xA5]"

definition op_hardlink :: string where
  "op_hardlink =
    [CHR 0xE7, CHR 0xA1, CHR 0xAC, CHR 0xE9, CHR 0x93, CHR 0xBE, CHR 0xE6, CHR 0x8E, CHR 0xA5]"

definition gui_success :: string where
  "gui_success =
    [CHR 0xE6, CHR 0x88, CHR 0x90, CHR 0xE5, CHR 0x8A, CHR 0x9F]"

definition gui_failure :: string where
  "gui_failure =
    [CHR 0xE5, CHR 0xA4, CHR 0xB1, CHR 0xE8, CHR 0xB4, CHR 0xA5]"

definition gui_current_log :: string where
  "gui_current_log =
    [CHR 0xE5, CHR 0xBD, CHR 0x93, CHR 0xE5, CHR 0x89, CHR 0x8D, CHR 0xE6, CHR 0x97, CHR 0xA5,
     CHR 0xE5, CHR 0xBF, CHR 0x97, CHR 0x20, CHR 0x28, CHR 0xE5, CHR 0x86, CHR 0x85, CHR 0xE5,
     CHR 0xAD, CHR 0x98, CHR 0xE7, CHR 0xBC, CHR 0x93, CHR 0xE5, CHR 0x86, CHR 0xB2, CHR 0x29]"

definition gui_log_error :: string where
  "gui_log_error =
    [CHR 0xE2, CHR 0x9D, CHR 0x8C, CHR 0x20, CHR 0xE6, CHR 0x97, CHR 0xA0, CHR 0xE6, CHR 0xB3,
     CHR 0x95, CHR 0xE8, CHR 0x8E, CHR 0xB7, CHR 0xE5, CHR 0x8F, CHR 0x96, CHR 0xE6, CHR 0x97,
     CHR 0xA5, CHR 0xE5, CHR 0xBF, CHR 0x97, CHR 0xEF, CHR 0xBC, CHR 0x9A]"

definition gui_action_failed :: string where
  "gui_action_failed =
    [CHR 0xE6, CHR 0x93, CHR 0x8D, CHR 0xE4, CHR 0xBD, CHR 0x9C, CHR 0xE5, CHR 0xA4, CHR 0xB1,
     CHR 0xE8, CHR 0xB4, CHR 0xA5, CHR 0x3A, CHR 0x20]"

definition gui_worker_died :: string where
  "gui_worker_died =
    [CHR 0xE6, CHR 0x9C, CHR 0x8D, CHR 0xE5, CHR 0x8A, CHR 0xA1, CHR 0xE6, CHR 0x93, CHR 0x8D,
     CHR 0xE4, CHR 0xBD, CHR 0x9C, CHR 0xE7, CHR 0xBA, CHR 0xBF, CHR 0xE7, CHR 0xA8, CHR 0x8B,
     CHR 0xE5, CHR 0xBC, CHR 0x82, CHR 0xE5, CHR 0xB8, CHR 0xB8, CHR 0xE7, CHR 0xBB, CHR 0x88,
     CHR 0xE6, CHR 0xAD, CHR 0xA2]"

definition gui_systemctl_failed :: string where
  "gui_systemctl_failed =
    [CHR 0x20, CHR 0xE5, CHR 0xA4, CHR 0xB1, CHR 0xE8, CHR 0xB4, CHR 0xA5, CHR 0x3A, CHR 0x20]"

definition gui_systemctl_error :: string where
  "gui_systemctl_error =
    [CHR 0xE6, CHR 0x97, CHR 0xA0, CHR 0xE6, CHR 0xB3, CHR 0x95, CHR 0xE6, CHR 0x89, CHR 0xA7,
     CHR 0xE8, CHR 0xA1, CHR 0x8C, CHR 0x20, CHR 0x73, CHR 0x79, CHR 0x73, CHR 0x74, CHR 0x65,
     CHR 0x6D, CHR 0x63, CHR 0x74, CHR 0x6C, CHR 0x3A, CHR 0x20]"

end
