(* ===== verification/GuiUsers.thy ===== *)
theory GuiUsers
  imports GuiClient GuiMessages
begin

text \<open>
  The user pages of \<open>wftpg/src/ui\<close>: \<open>user_tab.rs\<close>, \<open>user_dialog.rs\<close> and \<open>suggested_dirs.rs\<close>.  Every change is made in the
  local copy of the users, which is then sent to the daemon as a whole.
\<close>

section \<open>The list\<close>

record user_row =
  ur_name :: string
  ur_home :: string
  ur_enabled :: bool
  ur_permissions :: string
  ur_quota :: string

definition user_row_of :: "string \<times> user \<Rightarrow> user_row" where
  "user_row_of e =
     \<lparr>ur_name = fst e, ur_home = u_home_dir (snd e), ur_enabled = u_enabled (snd e),
      ur_permissions = permissions_display (u_permissions (snd e)),
      ur_quota = (case quota_mb (u_permissions (snd e)) of None \<Rightarrow> gui_unlimited | Some q \<Rightarrow> show_dec (unat q) @ '' MB'')\<rparr>"

definition refresh_user_list :: "'k gui_env \<Rightarrow> app_state \<Rightarrow> user_row list" where
  "refresh_user_list g st = (if ge_lock_free g then map user_row_of (list_users (as_users st)) else [])"

section \<open>Sending the users\<close>

definition print_users :: "'k gui_env \<Rightarrow> user_manager \<Rightarrow> string" where
  "print_users g m = unwrap_or [] (ge_json_line g m)"

text \<open>An error is only logged; the audit line follows a success.\<close>

definition push_users :: "'k gui_env \<Rightarrow> string \<Rightarrow> string \<Rightarrow> string \<Rightarrow> user_manager \<Rightarrow> backend \<Rightarrow> backend" where
  "push_users g action name details m b =
     (case write_users g (print_users g m) b of
        (Inl _, b1) \<Rightarrow> b1
      | (Inr _, b1) \<Rightarrow> snd (client_audit g ''gui-user'' action name details b1))"

definition toggle_selected_user ::
  "'k gui_env \<Rightarrow> string \<Rightarrow> bool \<Rightarrow> app_state \<Rightarrow> backend \<Rightarrow> app_state \<times> backend" where
  "toggle_selected_user g name current st b =
     (if \<not> ge_lock_free g then (st, b)
      else (case set_user_enabled name (\<not> current) (as_users st) of
         Inl _ \<Rightarrow> (st, b)
       | Inr m \<Rightarrow>
           (st\<lparr>as_users := m\<rparr>,
            push_users g ''USER_TOGGLE'' name
              (''User '' @ name @ '' status changed to '' @ (if \<not> current then ''enabled'' else ''disabled'')) m b)))"

definition confirm_delete :: "'k gui_env \<Rightarrow> string \<Rightarrow> app_state \<Rightarrow> backend \<Rightarrow> app_state \<times> backend" where
  "confirm_delete g name st b =
     (if \<not> ge_lock_free g then (st, b)
      else
        (let m = (case remove_user name (as_users st) of Inl _ \<Rightarrow> as_users st | Inr m \<Rightarrow> m)
         in (st\<lparr>as_users := m\<rparr>, push_users g ''USER_DELETE'' name (''User '' @ name @ '' deleted'') m b)))"

section \<open>The dialog\<close>

record user_form =
  uf_name :: string
  uf_password :: string
  uf_home :: string
  uf_read :: bool
  uf_write :: bool
  uf_delete :: bool
  uf_list :: bool
  uf_mkdir :: bool
  uf_rmdir :: bool
  uf_rename :: bool
  uf_append :: bool
  uf_quota_on :: bool
  uf_quota :: u64
  uf_speed_on :: bool
  uf_speed :: u64
  uf_edit :: "string option"

text \<open>A spin button keeps its value within its bounds; \<open>spin_f64_from\<close> saturates at 32 bits.\<close>

definition spin_set :: "u64 \<Rightarrow> u64 \<Rightarrow> u64 \<Rightarrow> u64" where
  "spin_set lo hi v = max lo (min hi (min v 0xFFFFFFFF))"

definition empty_form :: "string option \<Rightarrow> user_form" where
  "empty_form name =
     \<lparr>uf_name = unwrap_or [] name, uf_password = [], uf_home = [], uf_read = True, uf_write = True, uf_delete = True,
      uf_list = True, uf_mkdir = True, uf_rmdir = True, uf_rename = True, uf_append = True, uf_quota_on = False,
      uf_quota = 1, uf_speed_on = False, uf_speed = 1, uf_edit = name\<rparr>"

definition load_user_dialog_values :: "'k gui_env \<Rightarrow> string option \<Rightarrow> app_state \<Rightarrow> user_form \<Rightarrow> user_form" where
  "load_user_dialog_values g name st w =
     (case (if ge_lock_free g then Option.bind name (get_user (as_users st)) else None) of
        None \<Rightarrow> w
      | Some u \<Rightarrow>
          (let p = u_permissions u in
           w\<lparr>uf_home := u_home_dir u, uf_read := can_read p, uf_write := can_write p, uf_delete := can_delete p,
             uf_list := can_list p, uf_mkdir := can_mkdir p, uf_rmdir := can_rmdir p, uf_rename := can_rename p,
             uf_append := can_append p,
             uf_quota_on := (uf_quota_on w \<or> quota_mb p \<noteq> None),
             uf_quota := (case quota_mb p of None \<Rightarrow> uf_quota w | Some q \<Rightarrow> spin_set 1 1000000 q),
             uf_speed_on := (uf_speed_on w \<or> speed_limit_kbps p \<noteq> None),
             uf_speed := (case speed_limit_kbps p of None \<Rightarrow> uf_speed w | Some q \<Rightarrow> spin_set 1 102400 q)\<rparr>))"

definition collect_permissions :: "user_form \<Rightarrow> permissions" where
  "collect_permissions w =
     \<lparr>can_read = uf_read w, can_write = uf_write w, can_delete = uf_delete w, can_list = uf_list w,
      can_mkdir = uf_mkdir w, can_rmdir = uf_rmdir w, can_rename = uf_rename w, can_append = uf_append w,
      quota_mb = (if uf_quota_on w then Some (uf_quota w) else None),
      speed_limit_kbps = (if uf_speed_on w then Some (uf_speed w) else None)\<rparr>"

text \<open>Group and mode of a home that exists, when the group does; the default ACL is no part of the disk's model.\<close>

definition setup_shared_directory_permissions :: "'k gui_env \<Rightarrow> string \<Rightarrow> fs \<Rightarrow> fs" where
  "setup_shared_directory_permissions g home fs =
     (let p = path_of home in
      if \<not> fs_exists fs p \<or> \<not> ge_share_group g then fs
      else snd (fs_set_permissions p 0x5F8 (ge_chgrp g p fs)))"

text \<open>A failed operation leaves the users as they are.\<close>

definition attempt :: "(user_manager \<Rightarrow> user_error + user_manager) \<Rightarrow> user_manager \<Rightarrow> user_manager" where
  "attempt f m = (case f m of Inl _ \<Rightarrow> m | Inr m1 \<Rightarrow> m1)"

definition edited_users :: "'k gui_env \<Rightarrow> fs \<Rightarrow> user_form \<Rightarrow> user_manager \<Rightarrow> user_manager" where
  "edited_users g fs w m =
     attempt (update_permissions (uf_name w) (collect_permissions w))
       (attempt (update_home_dir fs (uf_name w) (uf_home w))
         (if uf_password w = [] then m else attempt (update_password (ge_argon g) (ge_salt g) (uf_name w) (uf_password w)) m))"

datatype dialog = StaysOpen "string option" | Closes

text \<open>The change of an existing user never fails; a new user that cannot be added is refused without a message.\<close>

definition changed_users :: "'k gui_env \<Rightarrow> fs \<Rightarrow> user_form \<Rightarrow> user_manager \<Rightarrow> string option + user_manager" where
  "changed_users g fs w m =
     (if uf_edit w \<noteq> None then Inr (edited_users g fs w m)
      else if uf_password w = [] then Inl (Some gui_need_password)
      else (case add_user (ge_argon g) (ge_salt g) (ge_now g) fs (uf_name w) (uf_password w) (uf_home w)
                   (collect_permissions w) False m of
         Inl _ \<Rightarrow> Inl None | Inr m1 \<Rightarrow> Inr m1))"

definition submit_user_dialog ::
  "'k gui_env \<Rightarrow> user_form \<Rightarrow> app_state \<Rightarrow> backend \<Rightarrow> dialog \<times> app_state \<times> backend" where
  "submit_user_dialog g w st b =
     (if uf_name w = [] then (StaysOpen None, st, b)
      else if uf_home w = [] then (StaysOpen (Some gui_need_home), st, b)
      else if \<not> fs_exists (bk_disk b) (path_of (uf_home w)) then (StaysOpen (Some (gui_home_missing @ uf_home w)), st, b)
      else if \<not> fs_is_dir (bk_disk b) (path_of (uf_home w)) then (StaysOpen (Some (gui_home_not_dir @ uf_home w)), st, b)
      else if \<not> ge_lock_free g then (StaysOpen None, st, b)
      else (case changed_users g (bk_disk b) w (as_users st) of
         Inl msg \<Rightarrow> (StaysOpen msg, st, b)
       | Inr m \<Rightarrow>
           (Closes, st\<lparr>as_users := m\<rparr>,
            push_users g (if uf_edit w \<noteq> None then ''USER_MODIFY'' else ''USER_CREATE'') (uf_name w)
              (''User '' @ uf_name w @ '' '' @ (if uf_edit w \<noteq> None then ''modified'' else ''created'')) m
              (set_disk (setup_shared_directory_permissions g (uf_home w) (bk_disk b)) b))))"

section \<open>Directories\<close>

definition mode_has :: "meta \<Rightarrow> u32 \<Rightarrow> bool" where
  "mode_has m bits \<longleftrightarrow> and (a_mode (m_attr m)) bits \<noteq> 0"

definition dir_allows :: "'k gui_env \<Rightarrow> meta \<Rightarrow> bool" where
  "dir_allows g m =
     (if mode_has m 4 \<and> mode_has m 1 then True
      else if unat (a_uid (m_attr m)) = uid (ge_process g) then mode_has m 0x100 \<and> mode_has m 0x40
      else (case ge_groups g of
         None \<Rightarrow> False
       | Some gs \<Rightarrow> if unat (a_gid (m_attr m)) \<in> set gs then mode_has m 0x20 \<and> mode_has m 8 else False))"

text \<open>A missing directory is judged by its parent, which then exists.\<close>

definition existing_dir_permission :: "'k gui_env \<Rightarrow> fs \<Rightarrow> path \<Rightarrow> bool" where
  "existing_dir_permission g fs p =
     (case fs_metadata fs p of Inl _ \<Rightarrow> False | Inr m \<Rightarrow> m_kind m = KDir \<and> dir_allows g m)"

definition check_dir_permission :: "'k gui_env \<Rightarrow> fs \<Rightarrow> path \<Rightarrow> bool" where
  "check_dir_permission g fs p =
     (if fs_exists fs p then existing_dir_permission g fs p
      else (case path_parent p of None \<Rightarrow> False | Some q \<Rightarrow> fs_exists fs q \<and> existing_dir_permission g fs q))"

definition suggested :: "'k gui_env \<Rightarrow> fs \<Rightarrow> path \<Rightarrow> string \<Rightarrow> (string \<times> string \<times> string) list" where
  "suggested g fs p label =
     (if fs_exists fs p \<and> check_dir_permission g fs p then [(utf8_lossy (path_string p), label, sug_rw)] else [])"

definition get_suggested_directories :: "'k gui_env \<Rightarrow> fs \<Rightarrow> (string \<times> string \<times> string) list" where
  "get_suggested_directories g fs =
     (let dirs = (case env_var (ge_process g) ''HOME'' of
            None \<Rightarrow> []
          | Some home \<Rightarrow>
              (let h = path_of home; share = path_join h (path_of (''Desktop/'' @ share_name));
                   home_ok = check_dir_permission g fs h
               in (if home_ok then [(home, sug_home, sug_rw)] else []) @
                  suggested g fs (path_join h (path_of ''Desktop'')) sug_desktop @
                  suggested g fs (path_join h (path_of ''Documents'')) sug_documents @
                  suggested g fs (path_join h (path_of ''Downloads'')) sug_downloads @
                  (if fs_exists fs share \<and> check_dir_permission g fs share
                   then [(utf8_lossy (path_string share), sug_share, sug_rw)]
                   else if home_ok then [(utf8_lossy (path_string share), sug_share_new, sug_rw)] else [])))
      in if dirs = [] then [(''/tmp'', sug_tmp, sug_rw)] else dirs)"

text \<open>The homes of the local users are made when the window opens.\<close>

definition ensure_default_directories :: "'k gui_env \<Rightarrow> app_state \<Rightarrow> backend \<Rightarrow> backend" where
  "ensure_default_directories g st b =
     (if \<not> ge_lock_free g then b
      else set_disk (foldl (\<lambda>fs h. if fs_exists fs (path_of h) then fs else snd (fs_create_dir_all (path_of h) fs))
                      (bk_disk b) (map (u_home_dir \<circ> snd) (list_users (as_users st)))) b)"

end
