(* ===== verification/GuiForms.thy ===== *)
theory GuiForms
  imports GuiConfig GuiUsers
begin

text \<open>
  What the widgets of the configuration pages show when a page is built from the local copy, and what pressing
  the save button of an untouched page makes of the configuration.
\<close>

section \<open>Filling the widgets\<close>

text \<open>A spin button whose value needs no conversion.\<close>

definition spin_at :: "'n word \<Rightarrow> 'n word \<Rightarrow> 'n::len word \<Rightarrow> 'n word" where
  "spin_at lo hi v = max lo (min hi v)"

text \<open>\<open>to_lowercase\<close> as far as it can give ASCII: the letters of ASCII and the Kelvin sign.\<close>

fun lower_text :: "string \<Rightarrow> string" where
  "lower_text (a # b # c # s) =
     (if a = CHR 0xE2 \<and> b = CHR 0x84 \<and> c = CHR 0xAA then CHR ''k'' # lower_text s
      else ascii_lower a # lower_text (b # c # s))"
| "lower_text [a, b] = [ascii_lower a, ascii_lower b]"
| "lower_text [a] = [ascii_lower a]"
| "lower_text [] = []"

definition shown_encoding :: "string \<Rightarrow> string option" where
  "shown_encoding e =
     (let l = lower_text e in
      if l = ''utf-8'' then Some ''UTF-8'' else if l = ''gbk'' then Some ''GBK'' else if l = ''gb2312'' then Some ''GB2312'' else None)"

definition load_ftp_form :: "ftp_config \<Rightarrow> ftp_form" where
  "load_ftp_form c =
     \<lparr>ff_enabled = ftp_enabled c, ff_anon = allow_anonymous c, ff_bind_ip = ftp_bind_ip c,
      ff_port = spin_at 1 65535 (ftp_port c), ff_start = spin_at 1024 65535 (fst (passive_ports c)),
      ff_end = spin_at 1024 65535 (snd (passive_ports c)), ff_welcome = welcome_message c,
      ff_anon_home = unwrap_or [] (anonymous_home c), ff_max_speed = spin_set 0 1024000 (max_speed_kbps c),
      ff_encoding = shown_encoding (encoding c), ff_masquerade = unwrap_or [] (masquerade_ip c)\<rparr>"

definition load_ftps_form :: "security_config \<Rightarrow> ftps_form" where
  "load_ftps_form c =
     \<lparr>fp_require_ssl = require_ssl c, fp_cert = unwrap_or [] (cert_path c), fp_key = unwrap_or [] (key_path c)\<rparr>"

definition shown_sftp_level :: "string \<Rightarrow> string option" where
  "shown_sftp_level s = find (\<lambda>l. lower_text s = l) [''error'', ''warn'', ''info'', ''debug'', ''trace'']"

definition load_sftp_form :: "sftp_config \<Rightarrow> sftp_form" where
  "load_sftp_form c =
     \<lparr>sv_enabled = sftp_enabled c, sv_bind_ip = sftp_bind_ip c, sv_port = spin_at 1 65535 (sftp_port c),
      sv_host_key = host_key_path c, sv_max_auth = spin_at 1 20 (max_auth_attempts c),
      sv_auth_timeout = spin_set 10 600 (auth_timeout c), sv_log_level = shown_sftp_level (sftp_log_level c)\<rparr>"

definition load_login_form :: "security_config \<Rightarrow> u32 \<times> u64" where
  "load_login_form c = (spin_at 1 20 (max_login_attempts c), spin_set 60 86400 (ban_duration c))"

definition shown_log_level :: "string \<Rightarrow> string" where
  "shown_log_level s = (if s \<in> {''debug'', ''warn'', ''error''} then s else ''info'')"

definition load_log_form :: "logging_config \<Rightarrow> log_form" where
  "load_log_form c =
     \<lparr>lf_dir = log_dir c, lf_level = Some (shown_log_level (log_level c)),
      lf_max_size_mb = spin_set 1 1000 (max_log_size c div (1024 * 1024)), lf_max_files = spin_set 1 100 (max_log_files c),
      lf_gui = enable_gui_logging c\<rparr>"

section \<open>What an untouched page keeps\<close>

lemma spin_set_same: "hi \<le> 0xFFFFFFFF \<Longrightarrow> lo \<le> hi \<Longrightarrow> spin_set lo hi v = v \<longleftrightarrow> lo \<le> v \<and> v \<le> hi"
  by (auto simp: spin_set_def max_def min_def)

lemma spin_at_same: "lo \<le> hi \<Longrightarrow> spin_at lo hi v = v \<longleftrightarrow> lo \<le> v \<and> v \<le> hi"
  by (auto simp: spin_at_def max_def min_def)

lemma top16: "v \<le> (65535 :: u16)"
proof -
  have "unat v < 2 ^ LENGTH(16)" by (rule unsigned_less)
  then show ?thesis by (simp add: word_le_nat_alt)
qed

lemma trim_Nil: "trim [] = []"
  by (simp add: trim_def trim_end_def trim_rev.simps)

lemma any_not_blank: "trim ''0.0.0.0'' \<noteq> []"
  by (simp add: trim_id ws_front.simps ws_back.simps ws_ascii_def ws2_def ws3_def byte_in_def)

lemma bind_same: "bind_or_any s = s \<longleftrightarrow> trim s \<noteq> []"
  using any_not_blank by (auto simp: bind_or_any_def)

lemma opt_text_same: "opt_text (unwrap_or [] x) = x \<longleftrightarrow> (case x of None \<Rightarrow> True | Some s \<Rightarrow> trim s \<noteq> [])"
  by (auto simp: opt_text_def trim_Nil split: option.split)

lemma opt_trim_same:
  "map_option trim (opt_text (unwrap_or [] x)) = x \<longleftrightarrow> (case x of None \<Rightarrow> True | Some s \<Rightarrow> s \<noteq> [] \<and> trim s = s)"
  by (auto simp: opt_text_def trim_Nil split: option.split)

lemma encoding_same: "unwrap_or ''UTF-8'' (shown_encoding e) = e \<longleftrightarrow> e \<in> {''UTF-8'', ''GBK'', ''GB2312''}"
proof
  show "e \<in> {''UTF-8'', ''GBK'', ''GB2312''}" if "unwrap_or ''UTF-8'' (shown_encoding e) = e"
    using that unfolding shown_encoding_def Let_def by (auto split: if_splits)
  have "unwrap_or ''UTF-8'' (shown_encoding ''UTF-8'') = ''UTF-8''" "unwrap_or ''UTF-8'' (shown_encoding ''GBK'') = ''GBK''"
    "unwrap_or ''UTF-8'' (shown_encoding ''GB2312'') = ''GB2312''" by code_simp+
  then show "e \<in> {''UTF-8'', ''GBK'', ''GB2312''} \<Longrightarrow> unwrap_or ''UTF-8'' (shown_encoding e) = e" by auto
qed

lemma sftp_level_same:
  "unwrap_or ''info'' (shown_sftp_level s) = s \<longleftrightarrow> s \<in> {''error'', ''warn'', ''info'', ''debug'', ''trace''}"
proof
  show "s \<in> {''error'', ''warn'', ''info'', ''debug'', ''trace''}" if "unwrap_or ''info'' (shown_sftp_level s) = s"
    using that unfolding shown_sftp_level_def by (auto split: if_splits)
  have "unwrap_or ''info'' (shown_sftp_level ''error'') = ''error''" "unwrap_or ''info'' (shown_sftp_level ''warn'') = ''warn''"
    "unwrap_or ''info'' (shown_sftp_level ''info'') = ''info''" "unwrap_or ''info'' (shown_sftp_level ''debug'') = ''debug''"
    "unwrap_or ''info'' (shown_sftp_level ''trace'') = ''trace''" by code_simp+
  then show "s \<in> {''error'', ''warn'', ''info'', ''debug'', ''trace''} \<Longrightarrow> unwrap_or ''info'' (shown_sftp_level s) = s" by auto
qed

lemma log_level_same: "shown_log_level s = s \<longleftrightarrow> s \<in> {''debug'', ''info'', ''warn'', ''error''}"
  by (auto simp: shown_log_level_def)

lemma passive_same:
  "(min (spin_at 1024 65535 a) (spin_at 1024 65535 b), max (spin_at 1024 65535 a) (spin_at 1024 65535 b)) = (a, b) \<longleftrightarrow>
    1024 \<le> a \<and> a \<le> b" for a b :: u16
  using top16 [of a] top16 [of b] by (auto simp: spin_at_def min_def max_def)

lemma ftp_same: "c\<lparr>ftp_enabled := ftp_enabled c, allow_anonymous := allow_anonymous c, ftp_bind_ip := b, ftp_port := p,
    passive_ports := pp, welcome_message := welcome_message c, anonymous_home := h, max_speed_kbps := m,
    encoding := n, masquerade_ip := i\<rparr> = c \<longleftrightarrow>
  b = ftp_bind_ip c \<and> p = ftp_port c \<and> pp = passive_ports c \<and> h = anonymous_home c \<and> m = max_speed_kbps c \<and>
  n = encoding c \<and> i = masquerade_ip c"
  by (cases c) auto


lemma unat_spin: "unat (spin_set lo hi v) = max (unat lo) (min (unat hi) (min (unat v) 0xFFFFFFFF))"
  by (simp add: spin_set_def max_def min_def word_le_nat_alt)

lemma megabytes_same:
  "spin_set 1 1000 (v div 1048576) * 1024 * 1024 = v \<longleftrightarrow> (\<exists>m \<in> {1..1000}. unat v = m * 1048576)" for v :: u64
proof -
  let ?r = "spin_set 1 1000 (v div 1048576)"
  have r: "unat ?r = max 1 (min 1000 (unat v div 1048576))"
    by (simp add: unat_spin unat_div)
  have "unat (?r * 1048576) = unat ?r * 1048576"
    by (subst unat_word_ariths) (simp add: r)
  then have "?r * 1048576 = v \<longleftrightarrow> unat ?r * 1048576 = unat v" by (metis word_unat_eq_iff)
  moreover have "unat ?r * 1048576 = unat v \<longleftrightarrow> (\<exists>m \<in> {1..1000}. unat v = m * 1048576)"
  proof
    assume "unat ?r * 1048576 = unat v"
    moreover have "unat ?r \<in> {1..1000}" by (simp add: r)
    ultimately show "\<exists>m \<in> {1..1000}. unat v = m * 1048576" by (intro bexI [of _ "unat ?r"]) simp_all
  qed (use r in auto)
  ultimately show ?thesis by (simp add: mult.assoc)
qed

text \<open>saving the untouched log settings.  They are the same afterwards exactly if the level is one of the four in
  the list, which lacks \<open>trace\<close>, the size limit a whole number of megabytes from 1 to 1000 and the number
  of files from 1 to 100.\<close>

theorem log_form_untouched:
  "log_from_form (load_log_form c) c = c \<longleftrightarrow>
    log_level c \<in> {''debug'', ''info'', ''warn'', ''error''} \<and>
    (\<exists>m \<in> {1..1000}. unat (max_log_size c) = m * 1048576) \<and> 1 \<le> max_log_files c \<and> max_log_files c \<le> 100"
proof -
  have same: "c\<lparr>log_dir := log_dir c, log_level := l, max_log_size := s, max_log_files := n, enable_gui_logging := enable_gui_logging c\<rparr> = c
      \<longleftrightarrow> l = log_level c \<and> s = max_log_size c \<and> n = max_log_files c" for l s n by (cases c) auto
  have files: "spin_set 1 100 v = v \<longleftrightarrow> 1 \<le> v \<and> v \<le> 100" for v by (simp add: spin_set_same)
  show ?thesis
    unfolding log_from_form_def load_log_form_def log_form.simps same
    using files megabytes_same [of "max_log_size c"] log_level_same by simp
qed

end
