(* ===== verification/GuiLogs.thy ===== *)
theory GuiLogs
  imports GuiClient GuiMessages
begin

text \<open>
  The log pages of \<open>wftpg/src/ui\<close>, \<open>log_tab.rs\<close> and \<open>file_log_tab.rs\<close>: the files they offer and the rows they show for
  what the daemon answers.
\<close>

section \<open>The files\<close>

definition gui_log_name :: "string \<Rightarrow> string \<Rightarrow> bool" where
  "gui_log_name pre n \<longleftrightarrow> prefix pre n \<and> suffix ''.log'' n"

definition gui_log_dir :: "'k gui_env \<Rightarrow> app_state \<Rightarrow> string" where
  "gui_log_dir g st =
     (if ge_lock_free g then log_dir (logging (as_config st)) else utf8_lossy (path_string (default_log_dir (ge_process g))))"

definition populate_log_files :: "'k gui_env \<Rightarrow> string \<Rightarrow> app_state \<Rightarrow> fs \<Rightarrow> log_file_entry list" where
  "populate_log_files g pre st fs =
     (let d = path_of (gui_log_dir g st) in
      \<lparr>lf_name = gui_current_log, lf_path = ''current''\<rparr> #
      (case fs_read_dir fs d of
         Inl _ \<Rightarrow> []
       | Inr ns \<Rightarrow>
           sort_desc (map (\<lambda>n. \<lparr>lf_name = utf8_lossy n, lf_path = utf8_lossy (path_string (push_seg d n))\<rparr>)
             (filter (\<lambda>n. gui_log_name pre (utf8_lossy n)) ns))))"

definition program_log_files :: "'k gui_env \<Rightarrow> app_state \<Rightarrow> fs \<Rightarrow> log_file_entry list" where
  "program_log_files g = populate_log_files g ''wftpg-''"

definition file_op_log_files :: "'k gui_env \<Rightarrow> app_state \<Rightarrow> fs \<Rightarrow> log_file_entry list" where
  "file_op_log_files g = populate_log_files g ''file-ops-''"

section \<open>The rows\<close>

definition or_dash :: "string option \<Rightarrow> string" where
  "or_dash = unwrap_or ''-''"

definition log_row :: "log_entry_json \<Rightarrow> string list" where
  "log_row e =
     [je_timestamp e, je_level e, je_source e, je_message e, or_dash (je_client_ip e), or_dash (je_action e)]"

text \<open>The newest entry is shown first.\<close>

definition log_rows :: "'k gui_env \<Rightarrow> string \<Rightarrow> backend \<Rightarrow> string list list" where
  "log_rows g src b =
     (case (if src = ''current'' then get_logs g 500 b else client_log_file g src 500 b) of
        Inl x \<Rightarrow> [[[], [], [], gui_log_error @ ge_show_error g x, [], []]]
      | Inr es \<Rightarrow> map log_row (rev es))"

definition get_operation_display :: "string \<Rightarrow> string" where
  "get_operation_display n =
     (if n = ''UPLOAD'' then op_upload else if n = ''DOWNLOAD'' then op_download else if n = ''UPDATE'' then op_update
      else if n = ''DELETE'' then op_delete else if n = ''RENAME'' then op_rename else if n = ''MKDIR'' then op_mkdir
      else if n = ''RMDIR'' then op_rmdir else if n = ''APPEND'' then op_append else if n = ''COPY'' then op_copy
      else if n = ''SYMLINK'' then op_symlink else if n = ''HARDLINK'' then op_hardlink else n)"

text \<open>The quotient is of the sizes as \<open>spin_f64_from\<close> gives them, which saturates at 32 bits.\<close>

definition shown_ratio :: "'k gui_env \<Rightarrow> u64 \<Rightarrow> nat \<Rightarrow> string" where
  "shown_ratio g n unit = ge_ratio g (min (unat n) (2 ^ 32 - 1)) unit"

definition format_file_size :: "'k gui_env \<Rightarrow> u64 \<Rightarrow> string" where
  "format_file_size g n =
     (if n = 0 then ''-''
      else if 1024 * 1024 * 1024 \<le> n then shown_ratio g n (2 ^ 30) @ '' GB''
      else if 1024 * 1024 \<le> n then shown_ratio g n (2 ^ 20) @ '' MB''
      else if 1024 \<le> n then shown_ratio g n (2 ^ 10) @ '' KB''
      else show_dec (unat n) @ '' B'')"

definition file_op_row :: "'k gui_env \<Rightarrow> file_log_entry_json \<Rightarrow> string list" where
  "file_op_row g e =
     [fj_timestamp e, fj_username e, fj_client_ip e, get_operation_display (fj_operation e), fj_file_path e,
      format_file_size g (fj_file_size e), fj_protocol e, if fj_success e then gui_success else gui_failure, fj_message e]"

definition file_op_rows :: "'k gui_env \<Rightarrow> string \<Rightarrow> backend \<Rightarrow> string list list" where
  "file_op_rows g src b =
     (case client_file_log g src 500 b of
        Inl x \<Rightarrow> [[[], [], [], [], gui_log_error @ ge_show_error g x, [], [], [], []]]
      | Inr es \<Rightarrow> map (file_op_row g) (rev es))"

end
