(* ===== verification/GuiProps.thy ===== *)
theory GuiProps
  imports GuiConfig GuiUsers GuiLogs
begin

text \<open>
  Properties of the front end together with the daemon: what a saved form makes of the daemon's configuration and
  users, what the pages check before they save, and which log files they find.
\<close>

section \<open>The configuration\<close>

lemma save_config_quiet:
  assumes q: "quiet_dir (bk_disk b) d [temp_name n ''tmp'', n]" and path: "ctl_config_path e b = dir_path (d @ [n])"
    and enc: "encode (de_toml e) c = Some s" "decode (de_toml e) s = Some c" "utf8_valid s"
    and ok: "is_ok (config_validate (bk_disk b) c)"
  obtains fs' where "save_config e s b = (Inr s, apply_enabled_flags (daemon_of e) ((set_disk fs' b)\<lparr>bk_config := c\<rparr>))"
proof -
  from q have q1: "fs_wf (bk_disk b)" "dirs_to (bk_disk b) d" "no_faults (bk_disk b)" "temp_name n ''tmp'' \<noteq> n"
    "file_slot (bk_disk b) (d @ [temp_name n ''tmp''])" "file_slot (bk_disk b) (d @ [n])"
    by (auto simp: quiet_dir_def)
  show thesis
  proof (rule config_save_ok [OF q1 enc(1)])
    fix fs'
    assume sv: "config_save (de_toml e) (dir_path (d @ [n])) c (bk_disk b) = (Inr (), fs')"
      and rd: "fs_read fs' (dir_path (d @ [n])) = Inr s"
    have "read_shown e fs' (ctl_config_path e b) = Inr s"
      using rd enc(3) by (simp add: read_shown_def path fs_read_to_string_def)
    with sv enc(2) ok show thesis
      by (intro that [of fs']) (auto simp: save_config_def path split: sum.splits)
  qed
qed

lemma push_config_saved:
  fixes g :: "'k gui_env" and f :: "config \<Rightarrow> config"
  assumes reach: "connect g b = Inr ()" "ge_lock_free g"
    and q: "quiet_dir (bk_disk b) d [temp_name n ''tmp'', n]" and path: "ctl_config_path (ge_daemon g) b = dir_path (d @ [n])"
    and print: "printable (de_toml (ge_daemon g)) (f (as_config st))"
    and valid: "is_ok (config_validate (bk_disk b) (f (as_config st)))"
  obtains fs' where "push_config g f st b = (Saved, st\<lparr>as_config := f (as_config st)\<rparr>,
      apply_enabled_flags (daemon_of (ge_daemon g)) ((set_disk fs' b)\<lparr>bk_config := f (as_config st)\<rparr>))"
proof -
  let ?c = "f (as_config st)"
  obtain s where s: "encode (de_toml (ge_daemon g)) ?c = Some s" "decode (de_toml (ge_daemon g)) s = Some ?c" "utf8_valid s"
    using print by (auto simp: printable_def split: option.splits)
  obtain fs' where sv: "save_config (ge_daemon g) s b =
      (Inr s, apply_enabled_flags (daemon_of (ge_daemon g)) ((set_disk fs' b)\<lparr>bk_config := ?c\<rparr>))"
    by (rule save_config_quiet [OF q path s valid])
  show thesis
    using sv s(1,2) reach
    by (intro that [of fs']) (simp add: push_config_def with_config_def print_config_def write_config_def rpc_call_def take_saved_def)
qed

text \<open>Claim C17: a page that saves replaces the daemon's whole configuration by its own copy.  When the daemon can be
  reached and accepts the configuration, the daemon and the front end both end with the changed copy, whatever the
  daemon had before, and a service the copy has disabled is not running afterwards, also one that was started
  since the copy was made.\<close>

theorem gui_save_replaces_config:
  fixes g :: "'k gui_env" and f :: "config \<Rightarrow> config"
  defines "e \<equiv> ge_daemon g"
  assumes reach: "connect g b = Inr ()" "ge_lock_free g" and w: "waits_run_tasks (daemon_of e)" and ok: "backend_ok b"
    and q: "quiet_dir (bk_disk b) d [temp_name n ''tmp'', n]" and path: "ctl_config_path e b = dir_path (d @ [n])"
    and print: "printable (de_toml e) (f (as_config st))" and valid: "is_ok (config_validate (bk_disk b) (f (as_config st)))"
  shows "\<exists>st1 b1. push_config g f st b = (Saved, st1, b1) \<and> as_config st1 = f (as_config st) \<and>
    bk_config b1 = f (as_config st) \<and> backend_ok b1 \<and>
    (\<not> ftp_enabled (ftp (f (as_config st))) \<longrightarrow> \<not> is_ftp_running b1) \<and>
    (\<not> sftp_enabled (sftp (f (as_config st))) \<longrightarrow> \<not> is_sftp_running b1)"
proof -
  let ?c = "f (as_config st)"
  obtain fs' where pushed: "push_config g f st b =
      (Saved, st\<lparr>as_config := ?c\<rparr>, apply_enabled_flags (daemon_of e) ((set_disk fs' b)\<lparr>bk_config := ?c\<rparr>))"
    using push_config_saved [where f = f, OF reach q path [unfolded e_def] print [unfolded e_def] valid] by (auto simp: e_def)
  have "backend_ok ((set_disk fs' b)\<lparr>bk_config := ?c\<rparr>)" using ok by simp
  from apply_flags_rest [OF w this, simplified] pushed show ?thesis by auto
qed

text \<open>the page's label and the daemon judge an anonymous home alike.  For an enabled service, the label of
  the FTP form says that anonymous access is off or its directory valid exactly if the daemon accepts the form's
  configuration.\<close>

theorem anon_status_agrees:
  "(anon_home_status fs (ff_anon w) (ff_anon_home w) \<in> {AnonOff, AnonValid} \<or> \<not> ff_enabled w) \<longleftrightarrow>
    is_ok (config_validate fs (c\<lparr>ftp := ftp_from_form w (ftp c)\<rparr>))"
  by (auto simp: anon_home_status_def config_validate_def ftp_from_form_def opt_text_def opt_filter_def)

text \<open>Claim C25: the log page changes the configuration behind the daemon's back.  On a disk where no call fails the saved
  form is what the configuration file loads to, while the daemon keeps its own configuration and log levels; and the
  next change of a service flag by the daemon writes its old settings over the form's.\<close>

theorem log_form_bypasses_daemon:
  fixes g :: "'k gui_env"
  defines "e \<equiv> ge_daemon g"
  assumes free: "ge_lock_free g" and ok: "backend_ok b"
    and q: "quiet_dir (bk_disk b) d [temp_name n ''tmp'', n]"
    and path: "\<And>fs. config_path (ge_process g) fs = dir_path (d @ [n])" "\<And>fs. config_path (de_process e) fs = dir_path (d @ [n])"
    and run: "save_log_form g w st b = (st1, b1)"
    and print: "printable (de_toml e) (as_config st1)" "printable (de_toml e) (with_flags False (sftp_enabled (sftp (bk_config b))) (bk_config b))"
    and on: "ftp_enabled (ftp (bk_config b))"
  shows "config_load (de_toml e) (de_process e) (dir_path (d @ [n])) (bk_disk b1) = (Inr (as_config st1), bk_disk b1) \<and>
    bk_config b1 = bk_config b \<and> bk_tracing b1 = bk_tracing b \<and>
    (let later = set_ftp_enabled e False b1 in
      \<exists>c. config_load (de_toml e) (de_process e) (dir_path (d @ [n])) (bk_disk later) = (Inr c, bk_disk later) \<and>
        logging c = logging (bk_config b))"
proof -
  from q have q1: "fs_wf (bk_disk b)" "dirs_to (bk_disk b) d" "no_faults (bk_disk b)" "temp_name n ''tmp'' \<noteq> n"
    "file_slot (bk_disk b) (d @ [temp_name n ''tmp''])" "file_slot (bk_disk b) (d @ [n])"
    by (auto simp: quiet_dir_def)
  obtain s where s: "encode (de_toml e) (as_config st1) = Some s" "decode (de_toml e) s = Some (as_config st1)" "utf8_valid s"
    using print(1) by (auto simp: printable_def split: option.splits)
  have b1: "b1 = set_disk (snd (config_save (de_toml e) (dir_path (d @ [n])) (as_config st1) (bk_disk b))) b"
    using run free by (auto simp: save_log_form_def Let_def path e_def)
  show ?thesis
  proof (rule config_save_ok [OF q1 s(1)])
    fix fs'
    assume sv: "config_save (de_toml e) (dir_path (d @ [n])) (as_config st1) (bk_disk b) = (Inr (), fs')"
      and after: "fs_wf fs'" "same_env (bk_disk b) fs'" "fs_read fs' (dir_path (d @ [n])) = Inr s"
      "fs_node fs' (d @ [temp_name n ''tmp'']) = None" "dirs_to fs' d" "file_slot fs' (d @ [n])"
    have nf: "no_faults fs'" using after(2) q1(3) no_faults_env by blast
    have eq: "b1 = set_disk fs' b" by (simp add: b1 sv)
    have load: "config_load (de_toml e) (de_process e) (dir_path (d @ [n])) (bk_disk b1) = (Inr (as_config st1), bk_disk b1)"
      using s after(3) read_exists [OF after(3) nf] by (simp add: eq config_load_def fs_read_to_string_def)
    have q2: "quiet_dir (bk_disk b1) d [temp_name n ''tmp'', n]"
      using after nf q1(4) by (simp add: eq quiet_dir_def file_slot_def)
    let ?c = "with_flags False (sftp_enabled (sftp (bk_config b))) (bk_config b)"
    have later: "set_ftp_enabled e False b1 = persist_config e (b1\<lparr>bk_config := ?c\<rparr>)"
      using on by (simp add: set_ftp_enabled_def eq with_flags_def)
    have "settings_ok e d n (persist_config e (b1\<lparr>bk_config := ?c\<rparr>)) \<and> bk_config (persist_config e (b1\<lparr>bk_config := ?c\<rparr>)) = ?c"
      by (rule persist_ok [of "b1\<lparr>bk_config := ?c\<rparr>" d n e]) (use q2 ok path(2) print(2) eq in simp_all)
    then have "config_load (de_toml e) (de_process e) (dir_path (d @ [n])) (bk_disk (set_ftp_enabled e False b1)) =
        (Inr ?c, bk_disk (set_ftp_enabled e False b1))"
      by (simp add: later settings_ok_def remembered_def)
    with load show ?thesis by (simp add: eq Let_def with_flags_def)
  qed
qed

section \<open>The users\<close>

lemma audit_keeps_users: "bk_users (snd (client_audit g us a t x c)) = bk_users c"
  by (auto simp: client_audit_def op_call_def rpc_call_def write_audit_log_def emit_def Let_def split: prod.split sum.split option.split)

lemma push_users_quiet:
  fixes g :: "'k gui_env"
  defines "e \<equiv> ge_daemon g"
  assumes reach: "connect g b = Inr ()"
    and q: "quiet_dir (bk_disk b) d [temp_name n ''json.tmp'', n]" and path: "ctl_users_path e = dir_path (d @ [n])"
    and json: "ge_json_line g m = Some s" "decode (de_json e) s = Some m" "utf8_valid s" "trim s \<noteq> []"
  obtains b1 where "write_users g s b = (Inr s, b1)" "bk_users b1 = m"
    "um_load (de_json e) (de_error_log e) (ctl_users_path e) (bk_disk b1) = Some m"
    "\<And>a x t. push_users g a x t m b = snd (client_audit g ''gui-user'' a x t b1)"
proof -
  have "\<not> load_panics (daemon_of e) s" using json(2) by (simp add: load_panics_def)
  then obtain b1 where b1: "save_users e s b = (Inr s, b1)" "bk_users b1 = m"
    "um_load (de_json e) (de_error_log e) (ctl_users_path e) (bk_disk b1) = Some m"
    using save_users_quiet [OF q path json(3)] json(2,4) by auto
  have "write_users g s b = (Inr s, b1)" using reach b1(1) by (simp add: write_users_def rpc_call_def e_def)
  with b1 json(1) show thesis by (intro that [of b1]) (simp_all add: push_users_def print_users_def)
qed

text \<open>Claim C24: a page that changes a user replaces all of the daemon's accounts by its own copy.  When the daemon can be
  reached on a disk where no call fails, enabling or disabling an account of the copy makes the daemon's accounts,
  in memory and in what it loads later, the changed copy, whatever they were; the other accounts of the copy stay.\<close>

theorem gui_toggle_replaces_users:
  fixes g :: "'k gui_env"
  defines "e \<equiv> ge_daemon g"
  assumes reach: "connect g b = Inr ()" "ge_lock_free g"
    and q: "quiet_dir (bk_disk b) d [temp_name n ''json.tmp'', n]" and path: "ctl_users_path e = dir_path (d @ [n])"
    and known: "get_user (as_users st) name = Some u" "set_user_enabled name (\<not> u_enabled u) (as_users st) = Inr m"
    and json: "ge_json_line g m = Some s" "decode (de_json e) s = Some m" "utf8_valid s" "trim s \<noteq> []"
  shows "\<exists>b1 b2. toggle_selected_user g name (u_enabled u) st b = (st\<lparr>as_users := m\<rparr>, b2) \<and>
    get_user m name = Some (u\<lparr>u_enabled := \<not> u_enabled u\<rparr>) \<and>
    (\<forall>x. x = name \<or> get_user m x = get_user (as_users st) x) \<and>
    write_users g s b = (Inr s, b1) \<and> bk_users b1 = m \<and>
    um_load (de_json e) (de_error_log e) (ctl_users_path e) (bk_disk b1) = Some m \<and>
    b2 = snd (client_audit g ''gui-user'' ''USER_TOGGLE'' name
      (''User '' @ name @ '' status changed to '' @ (if u_enabled u then ''disabled'' else ''enabled'')) b1) \<and>
    bk_users b2 = m"
proof -
  have m: "m = (as_users st)\<lparr>users := hm_insert name (u\<lparr>u_enabled := \<not> u_enabled u\<rparr>) (users (as_users st))\<rparr>"
    using known by (simp add: set_user_enabled_def with_user_def get_user_def)
  show ?thesis
  proof (rule push_users_quiet [OF reach(1) q path [unfolded e_def] json(1) json(2) [unfolded e_def] json(3,4)])
    fix b1
    assume b1: "write_users g s b = (Inr s, b1)" "bk_users b1 = m"
      "um_load (de_json (ge_daemon g)) (de_error_log (ge_daemon g)) (ctl_users_path (ge_daemon g)) (bk_disk b1) = Some m"
      "\<And>a x t. push_users g a x t m b = snd (client_audit g ''gui-user'' a x t b1)"
    have "toggle_selected_user g name (u_enabled u) st b = (st\<lparr>as_users := m\<rparr>, snd (client_audit g ''gui-user'' ''USER_TOGGLE'' name
        (''User '' @ name @ '' status changed to '' @ (if u_enabled u then ''disabled'' else ''enabled'')) b1))"
      using known(2) reach(2) by (simp add: toggle_selected_user_def b1(4))
    with b1 show ?thesis by (auto simp: audit_keeps_users get_user_def m e_def)
  qed
qed

text \<open>what an unchanged edit of a user keeps.  Opening the dialog for an account and confirming it without a
  password keeps its permissions, except that a quota above a million megabytes and a limit above 102400 kilobytes per
  second are cut to these, and that zero, which means no limit, becomes one megabyte or one kilobyte per second.\<close>

theorem edit_form_keeps_permissions:
  assumes "ge_lock_free g" "get_user (as_users st) name = Some u"
  shows "let p = u_permissions u; w = load_user_dialog_values g (Some name) st (empty_form (Some name)) in
    uf_edit w = Some name \<and> uf_home w = u_home_dir u \<and> uf_password w = [] \<and>
    collect_permissions w =
      p\<lparr>quota_mb := map_option (\<lambda>q. max 1 (min 1000000 q)) (quota_mb p),
        speed_limit_kbps := map_option (\<lambda>q. max 1 (min 102400 q)) (speed_limit_kbps p)\<rparr>"
proof -
  have "min hi (min v 0xFFFFFFFF) = min hi v" if "hi \<le> 0xFFFFFFFF" for hi v :: u64
    using that by (metis min.assoc min.commute min.absorb1)
  from this [of 1000000] this [of 102400]
  have clamp: "spin_set 1 1000000 v = max 1 (min 1000000 v)" "spin_set 1 102400 v = max 1 (min 102400 v)" for v
    by (simp_all add: spin_set_def)
  show ?thesis
    using assms
    by (simp add: Let_def load_user_dialog_values_def empty_form_def collect_permissions_def clamp
        split: option.split)
qed

section \<open>What the pages look for\<close>

text \<open>the log pages do not find the daemon's log files.  The appenders name a file by prefix, date and extension
  joined with dots.  In a log directory with such files alone the pages, which look for a prefix with a hyphen,
  offer nothing but the current entries, while the daemon lists every one of them that is a regular file.\<close>

theorem gui_log_files_missed:
  assumes dir: "fs_read_dir fs (path_of (gui_log_dir g st)) = Inr ns"
    and names: "\<And>n. n \<in> set ns \<Longrightarrow> utf8_valid n \<and> (prefix ''wftpg.'' n \<or> prefix ''file-ops.'' n)"
    and n: "n \<in> set ns" "is_log_file fs pre (push_seg (path_of (gui_log_dir g st)) n)"
  shows "program_log_files g st fs = [\<lparr>lf_name = gui_current_log, lf_path = ''current''\<rparr>] \<and>
    file_op_log_files g st fs = [\<lparr>lf_name = gui_current_log, lf_path = ''current''\<rparr>] \<and>
    log_file_of (push_seg (path_of (gui_log_dir g st)) n) \<in> set (list_log_files fs (gui_log_dir g st) pre)"
proof -
  have none: "filter (\<lambda>n. gui_log_name p (utf8_lossy n)) ns = []" if "p \<in> {''wftpg-'', ''file-ops-''}" for p
    using names that by (fastforce simp: filter_empty_conv gui_log_name_def utf8_lossy_valid prefix_def)
  have "set (sort_desc xs) = set xs" for xs by (induction xs) simp_all
  with none dir n show ?thesis
    by (simp add: program_log_files_def file_op_log_files_def populate_log_files_def list_log_files_def)
qed

lemma digit_texts: "digit_val 10 (CHR ''0'') = Some 0" "digit_val 10 (CHR ''1'') = Some 1" "digit_val 10 (CHR '':'') = None"
  "digit_val 16 (CHR ''0'') = Some 0" "digit_val 16 (CHR ''1'') = Some 1" "digit_val 16 (CHR '':'') = None"
  by (simp_all add: digit_val_def byte_in_def)

lemma group_texts: "read_ipv4 (CHR ''0'' # CHR '':'' # s) = None"
  "read_number 16 4 65536 True (CHR ''0'' # CHR '':'' # s) = Some (0, CHR '':'' # s)"
  "read_ipv4 ''1'' = None" "read_number 16 4 65536 True ''1'' = Some (1, [])"
  "read_ipv4 [] = None" "read_number 16 4 65536 True [] = None" "read_ipv4 (CHR '':'' # s) = None" 
  "read_number 16 4 65536 True (CHR '':'' # s) = None"
  by (simp_all add: read_number_def read_char_def read_ipv4_def read_octet_def digit_texts)

lemma separator_texts: "sep_colon 0 s = Some s" "sep_colon (Suc i) (CHR '':'' # s) = Some s" "sep_colon (Suc i) [] = None"
  by (simp_all add: sep_colon_def read_char_def)
lemma group_step:
  assumes "sep_colon i s = Some s1" "read_ipv4 s1 = None" "read_number 16 4 65536 True s1 = Some (g, r)"
  shows "read_groups (Suc left) i s = (case read_groups left (Suc i) r of (gs, v, r1) \<Rightarrow> (g # gs, v, r1))"
  using assms by (simp add: Let_def)

lemma group_stop:
  "sep_colon i s = Some s1 \<Longrightarrow> read_ipv4 s1 = None \<Longrightarrow> read_number 16 4 65536 True s1 = None \<Longrightarrow>
    read_groups (Suc left) i s = ([], False, s)"
  "sep_colon i s = None \<Longrightarrow> read_groups (Suc left) i s = ([], False, s)"
  by (simp_all add: Let_def)

lemma loopback_groups:
  "read_groups 8 0 ''0:0:0:0:0:0:0:1'' = ([0, 0, 0, 0, 0, 0, 0, 1], False, [])"
  "read_groups 8 0 ''::1'' = ([], False, ''::1'')" "read_groups 7 0 ''1'' = ([1], False, [])"
  by (simp_all only: eval_nat_numeral BitM.simps) (simp_all add: group_step group_stop group_texts separator_texts del: read_groups.simps(2))

lemma seven_zeros: "replicate 7 (0::nat) = [0, 0, 0, 0, 0, 0, 0]"
  by (simp add: numeral_eq_Suc)

lemma loopback_texts:
  "parse_ipv6 ''0:0:0:0:0:0:0:1'' = Some [0, 0, 0, 0, 0, 0, 0, 1]" "parse_ipv6 ''::1'' = Some [0, 0, 0, 0, 0, 0, 0, 1]"
  by (simp_all add: parse_ipv6_def loopback_groups read_char_def seven_zeros del: read_groups.simps(2))
definition slash_nets :: "(string \<Rightarrow> (nat list \<Rightarrow> bool) option) \<Rightarrow> (string \<Rightarrow> (nat list \<Rightarrow> bool) option) \<Rightarrow> ipnet" where
  "slash_nets n4 n6 =
     \<lparr>net4 = (\<lambda>s. if CHR ''/'' \<in> set s then n4 s else None), net6 = (\<lambda>s. if CHR ''/'' \<in> set s then n6 s else None)\<rparr>"

text \<open>the security page accepts entries the filter never matches.  A network prefix has a slash; an entry
  without one matches a client only if its text is that of the client's address.  The page accepts every text that parses
  as an address, such as a written-out IPv6 loopback, which is not the text the servers print for that address.\<close>

theorem accepted_entry_may_be_dead:
  "CHR ''/'' \<in> set entry \<or> ip_matches_cidr (slash_nets n4 n6) ip entry = (ip = entry)"
  "validate_ip_or_cidr (slash_nets n4 n6) ''0:0:0:0:0:0:0:1'' \<and> parse_ipv6 ''0:0:0:0:0:0:0:1'' = parse_ipv6 ''::1'' \<and>
    \<not> ip_matches_cidr (slash_nets n4 n6) ''::1'' ''0:0:0:0:0:0:0:1''"
proof -
  have dead: "ip_matches_cidr (slash_nets n4 n6) ip entry = (ip = entry)" if "CHR ''/'' \<notin> set entry" for ip entry
    using that by (auto simp: ip_matches_cidr_def slash_nets_def split: option.split)
  then show "CHR ''/'' \<in> set entry \<or> ip_matches_cidr (slash_nets n4 n6) ip entry = (ip = entry)" by blast
  have "\<not> ip_matches_cidr (slash_nets n4 n6) ''::1'' ''0:0:0:0:0:0:0:1''" by (subst dead) simp_all
  then show "validate_ip_or_cidr (slash_nets n4 n6) ''0:0:0:0:0:0:0:1'' \<and> parse_ipv6 ''0:0:0:0:0:0:0:1'' = parse_ipv6 ''::1'' \<and>
    \<not> ip_matches_cidr (slash_nets n4 n6) ''::1'' ''0:0:0:0:0:0:0:1''"
    by (simp add: validate_ip_or_cidr_def loopback_texts)
qed

section \<open>A front end and its daemon\<close>

definition gui_entries :: "(string list, node) hmap" where
  "gui_entries =
     [([''run''], NDir demo_attr), ([''run'', ''wftpd''], NDir demo_attr), ([''run'', ''wftpd'', ''wftpd.sock''], NFile 2),
      ([''logs''], NDir demo_attr), ([''logs'', ''wftpg.1.log''], NFile 3)] @ demo_entries"

definition gui_fs :: fs where
  "gui_fs = demo_fs\<lparr>entries := gui_entries, next_ino := 4,
     inodes := [(2, \<lparr>content = [], iattr = demo_attr\<rparr>), (3, \<lparr>content = [], iattr = demo_attr\<rparr>)] @ inodes demo_fs\<rparr>"

definition gui_process :: process where
  "gui_process = demo_process\<lparr>env_var := [''WFTPD_CONFIG_DIR'' \<mapsto> ''/cfg'', ''XDG_RUNTIME_DIR'' \<mapsto> ''/run'']\<rparr>"

text \<open>Text for the service flags and whether the level is \<open>debug\<close>.\<close>

definition with_level :: "string \<Rightarrow> config \<Rightarrow> config" where
  "with_level l c = c\<lparr>logging := (logging c)\<lparr>log_level := l\<rparr>\<rparr>"

definition page_toml :: "config codec" where
  "page_toml =
     \<lparr>encode = (\<lambda>c. Some [if ftp_enabled (ftp c) then CHR ''1'' else CHR ''0'', if sftp_enabled (sftp c) then CHR ''1'' else CHR ''0'',
        if log_level (logging c) = ''debug'' then CHR ''1'' else CHR ''0'']),
      decode = (\<lambda>s. case s of
        [f, g, l] \<Rightarrow> Some (with_level (if l = CHR ''1'' then ''debug'' else ''info'')
          (with_flags (f = CHR ''1'') (g = CHR ''1'') (config_default gui_process)))
      | _ \<Rightarrow> None)\<rparr>"

definition off_users :: user_manager where
  "off_users = \<lparr>users = [(''al'', demo_user\<lparr>u_enabled := False\<rparr>)]\<rparr>"

definition gui_control :: "string control_env" where
  "gui_control = demo_control\<lparr>de_process := gui_process, de_toml := page_toml,
     de_json := \<lparr>encode = (\<lambda>_. None), decode = (\<lambda>s. if s = ''{off}'' then Some off_users else None)\<rparr>\<rparr>"

definition demo_gui :: "string gui_env" where
  "demo_gui =
     \<lparr>ge_daemon = gui_control, ge_process = gui_process, ge_connects = True, ge_lock_free = True,
      ge_json_line = (\<lambda>m. Some ''{off}''), ge_ipnet = slash_nets (\<lambda>_. None) (\<lambda>_. None), ge_argon = demo_argon,
      ge_salt = 0, ge_now = 0, ge_share_group = False, ge_chgrp = (\<lambda>_ fs. fs), ge_groups = None,
      ge_ratio = (\<lambda>_ _. []), ge_show_error = (\<lambda>_. [])\<rparr>"

definition gui_backend :: backend where
  "gui_backend = (set_disk gui_fs demo_backend)\<lparr>bk_config := with_flags True True (config_default gui_process)\<rparr>"

definition gui_state :: app_state where
  "gui_state = \<lparr>as_config = with_flags False True (config_default gui_process), as_users = demo_users\<rparr>"

lemma gui_node:
  "fs_node gui_fs l = (if l = [] then Some (NDir demo_attr) else map_of gui_entries l)"
  by (simp add: fs_node_def gui_fs_def demo_fs_def hm_get_def)

lemma gui_disk: "no_faults gui_fs" "dirs_to gui_fs [''cfg'']" "dirs_to gui_fs [''run'', ''wftpd'']" "dirs_to gui_fs [''logs'']" "fs_wf gui_fs"
proof -
  show "no_faults gui_fs" by (simp add: no_faults_def gui_fs_def demo_fs_def)
  show "dirs_to gui_fs [''cfg'']" "dirs_to gui_fs [''run'', ''wftpd'']" "dirs_to gui_fs [''logs'']"
    by (auto simp: dirs_to_def prefix_one prefix_two gui_node gui_entries_def demo_entries_def is_dir_node_def)
  show "fs_wf gui_fs"
    unfolding fs_wf_def
    by (auto simp: gui_fs_def demo_fs_def gui_entries_def demo_entries_def hm_ok_def hm_keys_def hm_get_def split: if_splits)
qed

lemma gui_fields [simp]:
  "ge_daemon demo_gui = gui_control" "ge_process demo_gui = gui_process" "ge_lock_free demo_gui"
  "de_toml gui_control = page_toml" "de_process gui_control = gui_process" "bk_disk gui_backend = gui_fs"
  "ge_json_line demo_gui m = Some ''{off}''" "ge_argon demo_gui = demo_argon"
  by (simp_all add: demo_gui_def gui_control_def gui_backend_def set_disk_def)

lemma gui_paths:
  "config_path gui_process fs = dir_path ([''cfg''] @ [''config.toml''])" "users_path gui_process = dir_path ([''cfg''] @ [''users.json''])"
  "socket_path gui_process = dir_path ([''run'', ''wftpd''] @ [''wftpd.sock''])"
  by (simp_all add: config_path_def users_path_def config_dir_def socket_path_def runtime_dir_def
      override_dir_def set_var_def gui_process_def path_of_def comp_of_def path_join_def dir_path_def is_absolute_def)

lemma gui_quiet:
  "quiet_dir gui_fs [''cfg''] [temp_name ''config.toml'' ''tmp'', ''config.toml'']"
  "quiet_dir gui_fs [''cfg''] [temp_name ''users.json'' ''json.tmp'', ''users.json'']"
proof -
  have t: "temp_name ''users.json'' ''json.tmp'' = ''users.json.tmp''"
    by (simp add: temp_name_def split_ext_def split_once.simps)
  show "quiet_dir gui_fs [''cfg''] [temp_name ''config.toml'' ''tmp'', ''config.toml'']"
    "quiet_dir gui_fs [''cfg''] [temp_name ''users.json'' ''json.tmp'', ''users.json'']"
    using gui_disk by (simp_all add: quiet_dir_def file_slot_def gui_node gui_entries_def demo_entries_def demo_temp t)
qed

lemma gui_reach: "connect demo_gui gui_backend = Inr ()"
proof -
  have slot: "file_slot gui_fs ([''run'', ''wftpd''] @ [''wftpd.sock''])"
    by (simp add: file_slot_def gui_node gui_entries_def demo_entries_def)
  have "fs_exists gui_fs (dir_path ([''run'', ''wftpd''] @ [''wftpd.sock'']))"
    using gui_disk(1) locate_child [OF gui_disk(3) slot]
    by (simp add: fs_exists_def fs_metadata_def stat_at_def guarded_no_faults gui_node gui_entries_def demo_entries_def demo_fs_def hm_get_def)
  then show ?thesis by (simp add: connect_def gui_paths del: append_Cons append_Nil) (simp add: demo_gui_def)
qed

lemma gui_waits: "waits_run_tasks (daemon_of gui_control)"
  by (simp add: waits_run_tasks_def gui_control_def demo_control_def daemon_env.defs control_env.defs demo_daemon_def)

lemma gui_backend_ok: "backend_ok gui_backend"
  using demo_backend_ok by (simp add: gui_backend_def backend_ok_def set_disk_def demo_backend_def)

lemma gui_printable: "printable page_toml (with_flags f s (config_default gui_process))"
  "printable page_toml (with_level ''debug'' (with_flags f s (config_default gui_process)))"
  by (simp_all add: printable_def page_toml_def byte_in_def with_level_def with_flags_def config_default_def)

theorem gui_save_replaces_config_witness:
  "\<exists>st1 b1. push_config demo_gui (with_flags False False) gui_state gui_backend = (Saved, st1, b1) \<and>
    ftp_enabled (ftp (bk_config gui_backend)) \<and> \<not> ftp_enabled (ftp (bk_config b1)) \<and> \<not> is_ftp_running b1"
proof -
  have c: "with_flags False False (as_config gui_state) = with_flags False False (config_default gui_process)"
    by (simp add: gui_state_def with_flags_def)
  have v: "is_ok (config_validate gui_fs (with_flags False False (config_default gui_process)))"
    by (simp add: config_validate_def with_flags_def)
  show ?thesis
    using gui_save_replaces_config [of demo_gui gui_backend "[''cfg'']" "''config.toml''" "with_flags False False" gui_state]
      gui_reach gui_waits gui_backend_ok gui_quiet(1) gui_paths(1) gui_printable(1) v
    by (auto simp: c) (auto simp: gui_backend_def with_flags_def)
qed

theorem log_form_bypasses_daemon_witness:
  "\<exists>st1 b1. save_log_form demo_gui \<lparr>lf_dir = log_dir (logging (as_config gui_state)), lf_level = Some ''debug'', lf_max_size_mb = 10,
      lf_max_files = 10, lf_gui = True\<rparr> gui_state gui_backend = (st1, b1) \<and>
    log_level (logging (as_config st1)) = ''debug'' \<and> bk_config b1 = bk_config gui_backend \<and>
    log_level (logging (bk_config b1)) = ''info''"
proof -
  let ?w = "\<lparr>lf_dir = log_dir (logging (as_config gui_state)), lf_level = Some ''debug'', lf_max_size_mb = 10,
    lf_max_files = 10, lf_gui = True\<rparr>"
  obtain st1 b1 where run: "save_log_form demo_gui ?w gui_state gui_backend = (st1, b1)" by fastforce
  have st1: "as_config st1 = with_level ''debug'' (with_flags False True (config_default gui_process))"
    using run by (auto simp: save_log_form_def log_from_form_def Let_def with_level_def gui_state_def with_flags_def config_default_def)
  have c: "with_flags False s (with_flags True True x) = with_flags False s x" for s x by (simp add: with_flags_def)
  show ?thesis
    using log_form_bypasses_daemon [OF _ gui_backend_ok _ _ _ run, of "[''cfg'']" "''config.toml''"] run
      gui_quiet(1) gui_paths(1) gui_printable st1
    by (auto simp: c gui_backend_def) (auto simp: with_flags_def with_level_def config_default_def)
qed

theorem gui_toggle_replaces_users_witness:
  "\<exists>b1 b2. write_users demo_gui ''{off}'' gui_backend = (Inr ''{off}'', b1) \<and> bk_users b1 = off_users \<and>
    toggle_selected_user demo_gui ''al'' True gui_state gui_backend = (gui_state\<lparr>as_users := off_users\<rparr>, b2)"
proof -
  have u: "get_user (as_users gui_state) ''al'' = Some demo_user" "u_enabled demo_user"
    "set_user_enabled ''al'' False (as_users gui_state) = Inr off_users"
    by (simp_all add: gui_state_def demo_users_def get_user_def hm_get_def demo_user_def set_user_enabled_def with_user_def
        hm_insert_def off_users_def)
  have s: "decode (de_json gui_control) ''{off}'' = Some off_users" "utf8_valid ''{off}''" "trim ''{off}'' \<noteq> []"
    by (simp_all add: gui_control_def byte_in_def trim_id ws_front.simps ws_back.simps ws_ascii_def ws2_def ws3_def)
  show ?thesis
    using gui_toggle_replaces_users [of demo_gui gui_backend "[''cfg'']" "''users.json''" gui_state "''al''" demo_user off_users "''{off}''"]
      gui_reach gui_quiet(2) gui_paths(2) u s
    by auto
qed

theorem edit_form_keeps_permissions_witness:
  "quota_mb (collect_permissions (load_user_dialog_values demo_gui (Some ''al'')
      (gui_state\<lparr>as_users := \<lparr>users = [(''al'', demo_user\<lparr>u_permissions := permissions_full\<lparr>quota_mb := Some 0\<rparr>\<rparr>)]\<rparr>\<rparr>)
      (empty_form (Some ''al'')))) = Some 1"
proof -
  let ?u = "demo_user\<lparr>u_permissions := permissions_full\<lparr>quota_mb := Some 0\<rparr>\<rparr>"
  let ?st = "gui_state\<lparr>as_users := \<lparr>users = [(''al'', ?u)]\<rparr>\<rparr>"
  have "get_user (as_users ?st) ''al'' = Some ?u" by (simp add: get_user_def hm_get_def)
  from edit_form_keeps_permissions [OF gui_fields(3) this] show ?thesis by (simp add: Let_def)
qed

theorem gui_log_files_missed_witness:
  "program_log_files demo_gui (gui_state\<lparr>as_config := (config_default gui_process)\<lparr>logging := (logging (config_default gui_process))\<lparr>log_dir := ''/logs''\<rparr>\<rparr>\<rparr>)
     gui_fs = [\<lparr>lf_name = gui_current_log, lf_path = ''current''\<rparr>] \<and>
   log_file_of (dir_path [''logs'', ''wftpg.1.log'']) \<in> set (list_log_files gui_fs ''/logs'' ''wftpg'')"
proof -
  let ?st = "gui_state\<lparr>as_config := (config_default gui_process)\<lparr>logging := (logging (config_default gui_process))\<lparr>log_dir := ''/logs''\<rparr>\<rparr>\<rparr>"
  have d: "gui_log_dir demo_gui ?st = ''/logs''" "path_of ''/logs'' = dir_path [''logs'']"
    by (simp_all add: gui_log_dir_def path_of_def comp_of_def dir_path_def)
  have p: "push_seg (dir_path [''logs'']) ''wftpg.1.log'' = dir_path ([''logs''] @ [''wftpg.1.log''])"
    by (simp add: push_seg_def dir_path_def path_join_def path_of_def comp_of_def is_absolute_def)
  have slot: "file_slot gui_fs ([''logs''] @ [''wftpg.1.log''])" by (simp add: file_slot_def gui_node gui_entries_def demo_entries_def)
  have kind: "m_kind (node_meta gui_fs (NFile 3)) = KFile" by (simp add: node_meta_def gui_fs_def hm_get_def)
  have "is_log_file gui_fs ''wftpg'' (dir_path ([''logs''] @ [''wftpg.1.log'']))"
    using gui_disk(1) locate_child [OF gui_disk(4) slot] kind
    by (simp add: is_log_file_def fs_kind_is_def fs_metadata_def stat_at_def guarded_no_faults gui_node gui_entries_def demo_entries_def
        opt_filter_def file_name_def extension_def dir_path_def byte_in_def split_ext_def split_once.simps ascii_lower_def)
  moreover have "children gui_fs [''logs''] = [''wftpg.1.log'']"
    by (simp add: children_def gui_fs_def gui_entries_def demo_entries_def)
  then have "fs_read_dir gui_fs (dir_path [''logs'']) = Inr [''wftpg.1.log'']"
    using gui_disk(1) locate_dirs [OF gui_disk(4)]
    by (simp add: fs_read_dir_def guarded_no_faults gui_node gui_entries_def demo_entries_def)
  ultimately show ?thesis
    using gui_log_files_missed [of gui_fs demo_gui ?st "[''wftpg.1.log'']" "''wftpg.1.log''" "''wftpg''"] d p
    by (simp add: byte_in_def)
qed

end
