(* ===== verification/GuiLogin.thy ===== *)
theory GuiLogin
  imports GuiForms GuiProps
begin

text \<open>
  From the user dialog of the front end to a login at the daemon.
\<close>

text \<open>Claim C12: an account made in the dialog works.  When the daemon can be reached on a disk where no call fails,
  confirming the dialog for a new account with a password and a home that exists closes it; from then on the daemon
  accepts the name with this password, keeps the form's home and permissions for it, and
  accepts no name that is neither this one nor in the front end's copy.\<close>

theorem created_user_logs_in:
  fixes g :: "'k gui_env" and w :: user_form and b :: backend
  defines "e \<equiv> ge_daemon g" and "b0 \<equiv> set_disk (setup_shared_directory_permissions g (uf_home w) (bk_disk b)) b"
  assumes form: "uf_edit w = None" "uf_password w \<noteq> []"
    and added: "add_user (ge_argon g) (ge_salt g) (ge_now g) (bk_disk b) (uf_name w) (uf_password w) (uf_home w)
      (collect_permissions w) False (as_users st) = Inr m"
    and argon: "\<And>h. argon_hash (ge_argon g) (ge_salt g) (uf_password w) = Some h \<Longrightarrow>
      phc_parses (ge_argon g) h \<and> argon_verify (ge_argon g) (uf_password w) h"
    and reach: "connect g b0 = Inr ()" "ge_lock_free g"
    and q: "quiet_dir (bk_disk b0) d [temp_name n ''json.tmp'', n]" and path: "ctl_users_path e = dir_path (d @ [n])"
    and json: "ge_json_line g m = Some s" "decode (de_json e) s = Some m" "utf8_valid s" "trim s \<noteq> []"
  shows "\<exists>b1 u. submit_user_dialog g w st b = (Closes, st\<lparr>as_users := m\<rparr>, b1) \<and> bk_users b1 = m \<and>
    get_user m (uf_name w) = Some u \<and> u_home_dir u = uf_home w \<and> u_permissions u = collect_permissions w \<and>
    fst (um_authenticate (ge_argon g) js p now (uf_name w) (uf_password w) (bk_users b1) fs) \<and>
    (\<forall>x pw. x = uf_name w \<or> get_user (as_users st) x \<noteq> None \<or> \<not> fst (um_authenticate (ge_argon g) js p now x pw (bk_users b1) fs))"
proof -
  have name: "uf_name w \<noteq> []" "fs_is_dir (bk_disk b) (path_of (uf_home w))" "trim (uf_home w) \<noteq> []"
    using added by (simp_all add: add_user_result)
  have home: "uf_home w \<noteq> []" using name(3) trim_Nil by metis
  have exists: "fs_exists (bk_disk b) (path_of (uf_home w))"
    using name(2) by (simp add: fs_kind_is_def fs_exists_def split: sum.splits)
  obtain b1 where b1: "bk_users b1 = m" "\<And>a x t. push_users g a x t m b0 = snd (client_audit g ''gui-user'' a x t b1)"
  proof (rule push_users_quiet [OF reach(1) q path [unfolded e_def] json(1) json(2) [unfolded e_def] json(3,4)])
    fix b1
    assume "bk_users b1 = m" "\<And>a x t. push_users g a x t m b0 = snd (client_audit g ''gui-user'' a x t b1)"
    then show ?thesis by (rule that)
  qed
  define b2 where "b2 = push_users g ''USER_CREATE'' (uf_name w) (''User '' @ uf_name w @ '' '' @ ''created'') m b0"
  have users: "bk_users b2 = m" unfolding b2_def b1(2) audit_keeps_users by (rule b1(1))
  have submit: "submit_user_dialog g w st b = (Closes, st\<lparr>as_users := m\<rparr>, b2)"
    using form name(1,2) home exists added reach(2) by (simp add: submit_user_dialog_def changed_users_def b2_def b0_def)
  obtain u where u: "get_user m (uf_name w) = Some u" "u_enabled u" "verify_password (ge_argon g) (uf_password w) (u_password_hash u)"
    "u_home_dir u = uf_home w" "u_permissions u = collect_permissions w"
    using added argon by (auto simp: add_user_result get_user_def verify_password_def)
  have "get_user m x = get_user (as_users st) x" if "x \<noteq> uf_name w" for x
    using added that by (auto simp: add_user_result get_user_def)
  then have "x = uf_name w \<or> get_user (as_users st) x \<noteq> None \<or> \<not> fst (um_authenticate (ge_argon g) js p now x pw m fs)" for x pw
    by (cases "get_user (as_users st) x") (auto simp: authenticate_iff)
  with submit users u show ?thesis by (auto simp: authenticate_some)
qed


definition bo_form :: user_form where
  "bo_form = (empty_form None)\<lparr>uf_name := ''bo'', uf_password := ''pw'', uf_home := ''/home/al''\<rparr>"

definition bo_users :: user_manager where
  "bo_users = (case add_user demo_argon 0 0 gui_fs ''bo'' ''pw'' ''/home/al'' (collect_permissions bo_form) False demo_users of
     Inr m \<Rightarrow> m | Inl _ \<Rightarrow> demo_users)"

definition login_gui :: "string gui_env" where
  "login_gui = demo_gui\<lparr>ge_json_line := (\<lambda>_. Some ''{bo}''),
     ge_daemon := gui_control\<lparr>de_json := \<lparr>encode = (\<lambda>_. None), decode = (\<lambda>_. Some bo_users)\<rparr>\<rparr>\<rparr>"

lemma login_gui_fields [simp]:
  "ge_argon login_gui = demo_argon" "ge_salt login_gui = 0" "ge_now login_gui = 0" "ge_lock_free login_gui"
  "ge_json_line login_gui m = Some ''{bo}''" "connect login_gui b = connect demo_gui b"
  "ctl_users_path (ge_daemon login_gui) = ctl_users_path gui_control" "decode (de_json (ge_daemon login_gui)) s = Some bo_users"
  "setup_shared_directory_permissions login_gui h fs = fs"
  by (simp_all add: login_gui_def connect_def demo_gui_def setup_shared_directory_permissions_def Let_def)

lemma bo_added: "add_user demo_argon 0 0 gui_fs ''bo'' ''pw'' ''/home/al'' (collect_permissions bo_form) False demo_users = Inr bo_users"
proof -
  have d: "dirs_to gui_fs demo_home"
    by (auto simp: dirs_to_def prefix_two gui_node gui_entries_def demo_entries_def is_dir_node_def)
  have "path_of ''/home/al'' = dir_path demo_home" by (simp add: path_of_def comp_of_def dir_path_def)
  then have "fs_is_dir gui_fs (path_of ''/home/al'')"
    using locate_dirs [OF d] gui_disk(1)
    by (simp add: fs_kind_is_def fs_metadata_def stat_at_def guarded_no_faults gui_node gui_entries_def demo_entries_def node_meta_def)
  moreover have "trim ''/home/al'' = ''/home/al''"
    by (rule trim_id) (simp_all add: ws_front.simps ws_back.simps ws_ascii_def ws2_def ws3_def byte_in_def)
  moreover have "get_user demo_users ''bo'' = None" by (simp add: get_user_def demo_users_def hm_get_def)
  ultimately obtain m where
    "add_user demo_argon 0 0 gui_fs ''bo'' ''pw'' ''/home/al'' (collect_permissions bo_form) False demo_users = Inr m"
    by (simp add: add_user_result demo_argon_def)
  then show ?thesis by (simp add: bo_users_def)
qed

theorem created_user_logs_in_witness:
  "\<exists>b1. submit_user_dialog login_gui bo_form gui_state gui_backend = (Closes, gui_state\<lparr>as_users := bo_users\<rparr>, b1) \<and>
    fst (um_authenticate demo_argon demo_json [] 9 ''bo'' ''pw'' (bk_users b1) demo_fs)"
proof -
  have w: "uf_name bo_form = ''bo''" "uf_password bo_form = ''pw''" "uf_home bo_form = ''/home/al''" "uf_edit bo_form = None"
    by (simp_all add: bo_form_def empty_form_def)
  have s: "utf8_valid ''{bo}''" "trim ''{bo}'' \<noteq> []"
    by (simp_all add: byte_in_def trim_id ws_front.simps ws_back.simps ws_ascii_def ws2_def ws3_def)
  have same: "set_disk gui_fs gui_backend = gui_backend" by (simp add: set_disk_def gui_backend_def)
  show ?thesis
    using created_user_logs_in [of bo_form login_gui gui_backend gui_state bo_users "[''cfg'']" "''users.json''" "''{bo}''" demo_json "[]" 9 demo_fs]
      w s bo_added gui_reach gui_quiet(2) gui_paths(2)
    by (auto simp: gui_state_def demo_argon_def same)
qed

end
