(* ===== verification/GuiUserPage.thy ===== *)
theory GuiUserPage
  imports GuiLogin
begin

text \<open>
  The user page of \<open>user_tab.rs\<close> with its two modal dialogs, as a function of the events of its widgets.  The rows are a
  snapshot of the local copy; the buttons act on the row that is selected.
\<close>

section \<open>The page\<close>

record user_page =
  up_state :: app_state
  up_rows :: "user_row list"
  up_selected :: "nat option"
  up_dialog :: "user_form option"
  up_confirm :: "string option"

datatype user_event =
    AddPressed | EditPressed | DeletePressed | TogglePressed | RefreshPressed | RowSelected "nat option"
  | FormChanged user_form | DialogOk | DialogCancel | ConfirmOk | ConfirmCancel

definition selected_user :: "user_page \<Rightarrow> (string \<times> bool) option" where
  "selected_user p =
     (case up_selected p of
        None \<Rightarrow> None
      | Some i \<Rightarrow> if i < length (up_rows p) then Some (ur_name (up_rows p ! i), ur_enabled (up_rows p ! i)) else None)"

text \<open>Filling the list again drops the selection.\<close>

definition refill :: "'k gui_env \<Rightarrow> app_state \<Rightarrow> user_page \<Rightarrow> user_page" where
  "refill g st p = p\<lparr>up_state := st, up_rows := refresh_user_list g st, up_selected := None\<rparr>"

definition user_page_create :: "'k gui_env \<Rightarrow> app_state \<Rightarrow> user_page" where
  "user_page_create g st =
     \<lparr>up_state = st, up_rows = refresh_user_list g st, up_selected = None, up_dialog = None, up_confirm = None\<rparr>"

definition show_user_dialog :: "'k gui_env \<Rightarrow> string option \<Rightarrow> user_page \<Rightarrow> user_page" where
  "show_user_dialog g name p = p\<lparr>up_dialog := Some (load_user_dialog_values g name (up_state p) (empty_form name))\<rparr>"

text \<open>The name of an account that is edited cannot be changed.\<close>

definition editable :: "user_form \<Rightarrow> user_form \<Rightarrow> bool" where
  "editable w w1 \<longleftrightarrow> uf_edit w1 = uf_edit w \<and> (uf_edit w = None \<or> uf_name w1 = uf_name w)"

definition list_event :: "'k gui_env \<Rightarrow> user_event \<Rightarrow> user_page \<Rightarrow> backend \<Rightarrow> user_page \<times> backend" where
  "list_event g ev p b =
     (case ev of
        AddPressed \<Rightarrow> (show_user_dialog g None p, b)
      | EditPressed \<Rightarrow> (case selected_user p of None \<Rightarrow> (p, b) | Some (n, _) \<Rightarrow> (show_user_dialog g (Some n) p, b))
      | DeletePressed \<Rightarrow> (case selected_user p of None \<Rightarrow> (p, b) | Some (n, _) \<Rightarrow> (p\<lparr>up_confirm := Some n\<rparr>, b))
      | TogglePressed \<Rightarrow>
          (case selected_user p of
             None \<Rightarrow> (p, b)
           | Some (n, on) \<Rightarrow>
               (case toggle_selected_user g n on (up_state p) b of
                  (st, b1) \<Rightarrow>
                    (if ge_lock_free g \<and> is_ok (set_user_enabled n (\<not> on) (as_users (up_state p))) then refill g st p else p, b1)))
      | RefreshPressed \<Rightarrow> (refill g (up_state p) p, b)
      | RowSelected i \<Rightarrow> (p\<lparr>up_selected := i\<rparr>, b)
      | _ \<Rightarrow> (p, b))"

definition dialog_event :: "'k gui_env \<Rightarrow> user_event \<Rightarrow> user_form \<Rightarrow> user_page \<Rightarrow> backend \<Rightarrow> user_page \<times> backend" where
  "dialog_event g ev w p b =
     (case ev of
        FormChanged w1 \<Rightarrow> (if editable w w1 then p\<lparr>up_dialog := Some w1\<rparr> else p, b)
      | DialogOk \<Rightarrow>
          (case submit_user_dialog g w (up_state p) b of
             (StaysOpen _, st, b1) \<Rightarrow> (p\<lparr>up_state := st\<rparr>, b1)
           | (Closes, st, b1) \<Rightarrow> ((refill g st p)\<lparr>up_dialog := None\<rparr>, b1))
      | DialogCancel \<Rightarrow> (p\<lparr>up_dialog := None\<rparr>, b)
      | _ \<Rightarrow> (p, b))"

definition confirm_event :: "'k gui_env \<Rightarrow> user_event \<Rightarrow> string \<Rightarrow> user_page \<Rightarrow> backend \<Rightarrow> user_page \<times> backend" where
  "confirm_event g ev n p b =
     (case ev of
        ConfirmOk \<Rightarrow>
          (if \<not> ge_lock_free g then (p, b)
           else (case confirm_delete g n (up_state p) b of (st, b1) \<Rightarrow> ((refill g st p)\<lparr>up_confirm := None\<rparr>, b1)))
      | ConfirmCancel \<Rightarrow> (p\<lparr>up_confirm := None\<rparr>, b)
      | _ \<Rightarrow> (p, b))"

text \<open>An open dialog gets all events.\<close>

definition user_page_event :: "'k gui_env \<Rightarrow> user_event \<Rightarrow> user_page \<times> backend \<Rightarrow> user_page \<times> backend" where
  "user_page_event g ev s =
     (case s of (p, b) \<Rightarrow>
        (case (up_dialog p, up_confirm p) of
           (Some w, _) \<Rightarrow> dialog_event g ev w p b
         | (None, Some n) \<Rightarrow> confirm_event g ev n p b
         | (None, None) \<Rightarrow> list_event g ev p b))"

definition user_page_events :: "'k gui_env \<Rightarrow> user_event list \<Rightarrow> user_page \<times> backend \<Rightarrow> user_page \<times> backend" where
  "user_page_events g = fold (user_page_event g)"


section \<open>The copy\<close>

context account_op
begin

lemma attempt_ok: "um_ok m \<Longrightarrow> um_ok (attempt (op n) m)"
  by (auto simp: attempt_def dest: op_ok split: sum.split)

lemma attempt_frame: "x \<noteq> n \<Longrightarrow> get_user (attempt (op n) m) x = get_user m x"
  by (auto simp: attempt_def dest: op_frame split: sum.split)

end

text \<open>The step from one copy to the next keeps it well formed and changes at most one account.\<close>

definition one_account :: "string \<Rightarrow> user_manager \<Rightarrow> user_manager \<Rightarrow> bool" where
  "one_account n m m1 \<longleftrightarrow> (um_ok m \<longrightarrow> um_ok m1) \<and> (\<forall>x. x \<noteq> n \<longrightarrow> get_user m1 x = get_user m x)"

lemma one_account_refl: "one_account n m m"
  by (simp add: one_account_def)

lemma one_account_some [simp]: "\<exists>n. one_account n m m"
  using one_account_refl by blast

lemma one_account_ok: "one_account n m m1 \<Longrightarrow> um_ok m \<Longrightarrow> um_ok m1"
  by (simp add: one_account_def)

lemma one_account_op:
  "add_user ar salt now fs n pw home ps adm m = Inr m1 \<Longrightarrow> one_account n m m1"
  "set_user_enabled n e m = Inr m1 \<Longrightarrow> one_account n m m1"
  "remove_user n m = Inr m1 \<Longrightarrow> one_account n m m1"
  by (auto simp: one_account_def dest: add.op_ok add.op_frame enable.op_ok enable.op_frame remove.op_ok remove.op_frame)

lemma one_account_edit: "one_account (uf_name w) m (edited_users g fs w m)"
  by (auto simp: one_account_def edited_users_def passwd.attempt_ok home.attempt_ok perms.attempt_ok
      passwd.attempt_frame home.attempt_frame perms.attempt_frame)

lemma toggle_copy:
  "toggle_selected_user g n on st b = (st1, b1) \<Longrightarrow>
    as_config st1 = as_config st \<and> one_account n (as_users st) (as_users st1)"
  by (auto simp: toggle_selected_user_def one_account_refl dest: one_account_op split: if_splits sum.splits)

lemma delete_copy:
  "confirm_delete g n st b = (st1, b1) \<Longrightarrow> as_config st1 = as_config st \<and> one_account n (as_users st) (as_users st1)"
  by (auto simp: confirm_delete_def Let_def one_account_refl dest: one_account_op split: if_splits sum.splits)

lemma submit_copy:
  "submit_user_dialog g w st b = (r, st1, b1) \<Longrightarrow>
    as_config st1 = as_config st \<and> one_account (uf_name w) (as_users st) (as_users st1) \<and> (r = Closes \<or> st1 = st)"
  by (auto simp: submit_user_dialog_def changed_users_def one_account_refl one_account_edit dest: one_account_op
      split: if_splits sum.splits)

section \<open>Rows and dialogs\<close>

definition user_page_ok :: "'k gui_env \<Rightarrow> user_page \<Rightarrow> bool" where
  "user_page_ok g p \<longleftrightarrow>
     um_ok (as_users (up_state p)) \<and> up_rows p = refresh_user_list g (up_state p) \<and>
     (up_dialog p = None \<or> up_confirm p = None) \<and>
     (\<forall>w. up_dialog p = Some w \<longrightarrow> uf_edit w = None \<or> uf_edit w = Some (uf_name w))"

lemma form_name: "uf_edit (load_user_dialog_values g n st (empty_form n)) = n" "uf_name (load_user_dialog_values g n st (empty_form n)) = unwrap_or [] n"
  by (auto simp: load_user_dialog_values_def empty_form_def Let_def split: option.split)

lemma refill_fields [simp]:
  "up_state (refill g st p) = st" "up_rows (refill g st p) = refresh_user_list g st" "up_dialog (refill g st p) = up_dialog p"
  "up_confirm (refill g st p) = up_confirm p" "up_selected (refill g st p) = None"
  by (simp_all add: refill_def)

lemma dialog_event_ok:
  assumes ok: "user_page_ok g p" and w: "up_dialog p = Some w" and run: "dialog_event g ev w p b = (p1, b1)"
  shows "user_page_ok g p1 \<and> as_config (up_state p1) = as_config (up_state p) \<and>
    (\<exists>n. one_account n (as_users (up_state p)) (as_users (up_state p1)))"
proof (cases "ev = DialogOk")
  case True
  obtain r st b2 where s: "submit_user_dialog g w (up_state p) b = (r, st, b2)" by (metis prod_cases3)
  from submit_copy [OF s] ok w run True s show ?thesis
    by (cases r) (auto simp: user_page_ok_def dialog_event_def dest: one_account_ok)
next
  case False
  with ok w run show ?thesis
    by (cases ev) (auto simp: user_page_ok_def dialog_event_def editable_def split: if_splits)
qed

lemma confirm_event_ok:
  assumes ok: "user_page_ok g p" and n: "up_confirm p = Some n" "up_dialog p = None" and run: "confirm_event g ev n p b = (p1, b1)"
  shows "user_page_ok g p1 \<and> as_config (up_state p1) = as_config (up_state p) \<and>
    (\<exists>n. one_account n (as_users (up_state p)) (as_users (up_state p1)))"
proof (cases "ev = ConfirmOk \<and> ge_lock_free g")
  case True
  obtain st b2 where s: "confirm_delete g n (up_state p) b = (st, b2)" by fastforce
  from delete_copy [OF s] ok n run True s show ?thesis
    by (auto simp: user_page_ok_def confirm_event_def dest: one_account_ok)
next
  case False
  with ok n run show ?thesis
    by (cases ev) (auto simp: user_page_ok_def confirm_event_def)
qed

lemma list_event_ok:
  assumes ok: "user_page_ok g p" and n: "up_confirm p = None" "up_dialog p = None" and run: "list_event g ev p b = (p1, b1)"
  shows "user_page_ok g p1 \<and> as_config (up_state p1) = as_config (up_state p) \<and>
    (\<exists>n. one_account n (as_users (up_state p)) (as_users (up_state p1)))"
proof (cases "ev = TogglePressed")
  case True
  show ?thesis
  proof (cases "selected_user p")
    case None
    with ok run True show ?thesis by (auto simp: list_event_def)
  next
    case (Some e)
    obtain m on st b2 where e: "e = (m, on)" "toggle_selected_user g m on (up_state p) b = (st, b2)" by (metis surj_pair)
    from toggle_copy [OF e(2)] ok n run True Some e show ?thesis
      by (auto simp: user_page_ok_def list_event_def dest: one_account_ok split: if_splits)
  qed
next
  case False
  with ok n run show ?thesis
    by (cases ev)
      (auto simp: user_page_ok_def list_event_def show_user_dialog_def form_name split: option.splits)
qed

lemma user_page_event_ok:
  assumes ok: "user_page_ok g p" and run: "user_page_event g ev (p, b) = (p1, b1)"
  shows "user_page_ok g p1 \<and> as_config (up_state p1) = as_config (up_state p) \<and>
    (\<exists>n. one_account n (as_users (up_state p)) (as_users (up_state p1)))"
proof (cases "up_dialog p")
  case (Some w)
  with run show ?thesis by (intro dialog_event_ok [OF ok Some]) (simp add: user_page_event_def)
next
  case None
  show ?thesis
  proof (cases "up_confirm p")
    case (Some n)
    with run None show ?thesis by (intro confirm_event_ok [OF ok Some None]) (simp add: user_page_event_def)
  next
    case none: None
    with run None show ?thesis by (intro list_event_ok [OF ok none None]) (simp add: user_page_event_def)
  qed
qed


lemma user_page_events_ok:
  assumes "user_page_ok g (fst s)"
  shows "user_page_ok g (fst (user_page_events g evs s)) \<and> as_config (up_state (fst (user_page_events g evs s))) = as_config (up_state (fst s))"
  using assms
proof (induction evs arbitrary: s)
  case (Cons ev evs)
  obtain p b where s: "s = (p, b)" by fastforce
  obtain p1 b1 where e: "user_page_event g ev (p, b) = (p1, b1)" by fastforce
  from user_page_event_ok [OF _ e] Cons.prems s have "user_page_ok g p1" "as_config (up_state p1) = as_config (up_state p)" by auto
  with Cons.IH [of "(p1, b1)"] s e show ?case by (simp add: user_page_events_def)
qed (simp add: user_page_events_def)

text \<open>Claim C21: the user page is a view of its copy.  Through any events the rows are those of the present copy, the copy
  stays well formed and its configuration untouched, an open dialog for an account still carries its name, and the
  next event changes at most one account; pressing the toggle button on a selected row, when no dialog is
  open, flips exactly the flag the row shows.\<close>

theorem user_page_consistent:
  assumes start: "um_ok (as_users st)" and run: "user_page_events g evs (user_page_create g st, b) = (p, b1)"
  shows "user_page_ok g p \<and> as_config (up_state p) = as_config st \<and>
    (\<forall>ev. \<exists>n. \<forall>x. x = n \<or>
      get_user (as_users (up_state (fst (user_page_event g ev (p, b1))))) x = get_user (as_users (up_state p)) x) \<and>
    (ge_lock_free g \<longrightarrow> up_dialog p = None \<longrightarrow> up_confirm p = None \<longrightarrow>
      (\<forall>n on. selected_user p = Some (n, on) \<longrightarrow>
        (\<exists>u. get_user (as_users (up_state p)) n = Some u \<and> u_enabled u = on \<and>
          get_user (as_users (up_state (fst (user_page_event g TogglePressed (p, b1))))) n = Some (u\<lparr>u_enabled := \<not> on\<rparr>))))"
proof -
  have "user_page_ok g (user_page_create g st)" using start by (simp add: user_page_ok_def user_page_create_def)
  from user_page_events_ok [of g "(user_page_create g st, b)" evs] this run
  have ok: "user_page_ok g p" "as_config (up_state p) = as_config st" by (auto simp: user_page_create_def)
  have next_ev: "\<exists>n. \<forall>x. x = n \<or> get_user (as_users (up_state (fst (user_page_event g ev (p, b1))))) x = get_user (as_users (up_state p)) x" for ev
    using user_page_event_ok [OF ok(1), of ev b1] by (cases "user_page_event g ev (p, b1)") (auto simp: one_account_def)
  have flips: "\<exists>u. get_user (as_users (up_state p)) n = Some u \<and> u_enabled u = on \<and>
      get_user (as_users (up_state (fst (user_page_event g TogglePressed (p, b1))))) n = Some (u\<lparr>u_enabled := \<not> on\<rparr>)"
    if free: "ge_lock_free g" "up_dialog p = None" "up_confirm p = None" and sel: "selected_user p = Some (n, on)" for n on
  proof -
    let ?m = "as_users (up_state p)"
    have rows: "up_rows p = map user_row_of (users ?m)" "hm_ok (users ?m)"
      using ok(1) free(1) by (simp_all add: user_page_ok_def refresh_user_list_def list_users_def um_ok_def)
    obtain i where i: "i < length (users ?m)" "n = fst (users ?m ! i)" "on = u_enabled (snd (users ?m ! i))"
      using sel rows(1) by (auto simp: selected_user_def user_row_of_def split: option.splits if_splits)
    define u where "u = snd (users ?m ! i)"
    have "(n, u) \<in> set (users ?m)" using i(1,2) nth_mem [OF i(1)] by (simp add: u_def)
    then have u: "get_user ?m n = Some u" using rows(2) by (simp add: get_user_def hm_get_def hm_ok_def)
    have "set_user_enabled n (\<not> on) ?m = Inr (?m\<lparr>users := hm_insert n (u\<lparr>u_enabled := \<not> on\<rparr>) (users ?m)\<rparr>)"
      using u by (simp add: set_user_enabled_def with_user_def get_user_def)
    then have "get_user (as_users (up_state (fst (user_page_event g TogglePressed (p, b1))))) n = Some (u\<lparr>u_enabled := \<not> on\<rparr>)"
      using free sel by (simp add: user_page_event_def list_event_def toggle_selected_user_def get_user_def)
    with u i(3) show ?thesis by (auto simp: u_def)
  qed
  from ok next_ev flips show ?thesis by blast
qed

theorem user_page_consistent_witness:
  "up_rows (fst (user_page_events demo_gui [RowSelected (Some 0), TogglePressed, AddPressed, DialogCancel] (user_page_create demo_gui gui_state, gui_backend)))
    = refresh_user_list demo_gui (up_state (fst (user_page_events demo_gui [RowSelected (Some 0), TogglePressed, AddPressed, DialogCancel]
        (user_page_create demo_gui gui_state, gui_backend))))"
proof -
  have "um_ok (as_users gui_state)" by (simp add: gui_state_def)
  from user_page_consistent [OF this prod.collapse [symmetric]] show ?thesis unfolding user_page_ok_def by blast
qed

end
