(* ===== verification/GuiService.thy ===== *)
theory GuiService
  imports GuiProps
begin

text \<open>
  The service page of \<open>wftpg/src/ui/service_tab.rs\<close> as a state machine.  The main loop runs one closure at a time; a worker
  thread makes each blocking call and hands its result to a poll of the main loop, which ends when it has the result.
  An error dialog keeps its poll busy until it is closed, while the other polls go on.
\<close>

section \<open>The labels\<close>

datatype run_label = RunUnknown | Running | Stopped | NotConnected

datatype version_label = NoVersion | Version string | VersionError client_error

datatype autostart_label = AutoEnabled | AutoDisabled | AutoNotInstalled | AutoUnknown | AutoOther string

definition set_state_label :: "bool \<Rightarrow> run_label" where
  "set_state_label r = (if r then Running else Stopped)"

definition set_autostart_label :: "string \<Rightarrow> autostart_label" where
  "set_autostart_label s =
     (if s = ''enabled'' \<or> s = ''enabled-runtime'' then AutoEnabled
      else if s = ''disabled'' then AutoDisabled
      else if s = ''not-found'' \<or> s = ''not-loaded'' then AutoNotInstalled
      else if s = [] then AutoUnknown
      else AutoOther s)"

text \<open>The output of \<open>systemctl is-enabled\<close>, none if it cannot be run.\<close>

definition systemctl_is_enabled :: "string option \<Rightarrow> string" where
  "systemctl_is_enabled out = (case out of None \<Rightarrow> [] | Some s \<Rightarrow> trim (utf8_lossy s))"

section \<open>The page\<close>

text \<open>A worker is busy, has sent its result, or died without one.\<close>

datatype 'r worker = Busy | Sent 'r | Died

datatype action = Start | Stop | Restart

text \<open>The exit status of a command: whether it succeeded and how it prints.\<close>

datatype poll =
    PollStatus "((client_error + server_status) \<times> string) worker"
  | PollAction which action "(client_error + unit) worker"
  | PollSystemctl string "(string + bool \<times> string) worker"
  | PollDialog string

record service_page =
  sp_refreshing :: bool
  sp_polls :: "poll list"
  sp_ftp :: run_label
  sp_sftp :: run_label
  sp_version :: version_label
  sp_autostart :: autostart_label

text \<open>At most one query of the status is under way.\<close>

definition refresh_status :: "service_page \<Rightarrow> service_page" where
  "refresh_status p =
     (if sp_refreshing p then p
      else p\<lparr>sp_refreshing := True, sp_polls := sp_polls p @ [PollStatus Busy]\<rparr>)"

definition service_page_create :: service_page where
  "service_page_create =
     refresh_status \<lparr>sp_refreshing = False, sp_polls = [], sp_ftp = RunUnknown, sp_sftp = RunUnknown,
       sp_version = NoVersion, sp_autostart = AutoUnknown\<rparr>"

definition run_service_action :: "which \<Rightarrow> action \<Rightarrow> service_page \<Rightarrow> service_page" where
  "run_service_action w a p = p\<lparr>sp_polls := sp_polls p @ [PollAction w a Busy]\<rparr>"

definition run_systemctl :: "string \<Rightarrow> service_page \<Rightarrow> service_page" where
  "run_systemctl verb p = p\<lparr>sp_polls := sp_polls p @ [PollSystemctl verb Busy]\<rparr>"

definition service_call :: "'k gui_env \<Rightarrow> which \<Rightarrow> action \<Rightarrow> backend \<Rightarrow> (client_error + unit) \<times> backend" where
  "service_call g w a =
     (case a of Start \<Rightarrow> client_start_service g w | Stop \<Rightarrow> client_stop_service g w | Restart \<Rightarrow> client_restart_service g w)"

definition show_status :: "client_error + server_status \<Rightarrow> service_page \<Rightarrow> service_page" where
  "show_status r p =
     (case r of
        Inr s \<Rightarrow>
          p\<lparr>sp_ftp := set_state_label (ss_ftp_running s), sp_sftp := set_state_label (ss_sftp_running s),
            sp_version := Version (ss_version s)\<rparr>
      | Inl x \<Rightarrow> p\<lparr>sp_ftp := NotConnected, sp_sftp := NotConnected, sp_version := VersionError x\<rparr>)"

section \<open>The polls\<close>

definition end_poll :: "nat \<Rightarrow> service_page \<Rightarrow> service_page" where
  "end_poll i p = p\<lparr>sp_polls := take i (sp_polls p) @ drop (Suc i) (sp_polls p)\<rparr>"

definition open_dialog :: "nat \<Rightarrow> string \<Rightarrow> service_page \<Rightarrow> service_page" where
  "open_dialog i msg p = p\<lparr>sp_polls := (sp_polls p)[i := PollDialog msg]\<rparr>"

definition tick_status :: "nat \<Rightarrow> ((client_error + server_status) \<times> string) worker \<Rightarrow> service_page \<Rightarrow> service_page" where
  "tick_status i w p =
     (case w of
        Busy \<Rightarrow> p
      | Sent (r, auto) \<Rightarrow>
          end_poll i ((show_status r p)\<lparr>sp_autostart := set_autostart_label auto, sp_refreshing := False\<rparr>)
      | Died \<Rightarrow> end_poll i (p\<lparr>sp_refreshing := False\<rparr>))"

definition tick_action :: "'k gui_env \<Rightarrow> nat \<Rightarrow> (client_error + unit) worker \<Rightarrow> service_page \<Rightarrow> service_page" where
  "tick_action g i w p =
     (case w of
        Busy \<Rightarrow> p
      | Sent (Inl x) \<Rightarrow> open_dialog i (gui_action_failed @ ge_show_error g x) p
      | Sent (Inr _) \<Rightarrow> refresh_status (end_poll i p)
      | Died \<Rightarrow> open_dialog i gui_worker_died p)"

definition tick_systemctl :: "nat \<Rightarrow> string \<Rightarrow> (string + bool \<times> string) worker \<Rightarrow> service_page \<Rightarrow> service_page" where
  "tick_systemctl i verb w p =
     (case w of
        Busy \<Rightarrow> p
      | Sent (Inl x) \<Rightarrow> open_dialog i (gui_systemctl_error @ x) p
      | Sent (Inr (ok, s)) \<Rightarrow> if ok then refresh_status (end_poll i p) else open_dialog i (''systemctl --user '' @ verb @ '' wftpd'' @ gui_systemctl_failed @ s) p
      | Died \<Rightarrow> refresh_status (end_poll i p))"

definition tick :: "'k gui_env \<Rightarrow> nat \<Rightarrow> service_page \<Rightarrow> service_page" where
  "tick g i p =
     (case sp_polls p ! i of
        PollStatus w \<Rightarrow> tick_status i w p
      | PollAction _ _ w \<Rightarrow> tick_action g i w p
      | PollSystemctl verb w \<Rightarrow> tick_systemctl i verb w p
      | PollDialog _ \<Rightarrow> p)"

definition close_dialog :: "nat \<Rightarrow> service_page \<Rightarrow> service_page" where
  "close_dialog i p = refresh_status (end_poll i p)"

section \<open>The steps\<close>

text \<open>What a worker does is one step; \<open>systemctl\<close> and everything else outside may change the daemon at any time.\<close>

definition set_poll :: "nat \<Rightarrow> poll \<Rightarrow> service_page \<Rightarrow> service_page" where
  "set_poll i x p = p\<lparr>sp_polls := (sp_polls p)[i := x]\<rparr>"

inductive page_step :: "'k gui_env \<Rightarrow> service_page \<Rightarrow> backend \<Rightarrow> service_page \<Rightarrow> backend \<Rightarrow> bool" for g where
  refresh: "page_step g p b (refresh_status p) b"
| press: "page_step g p b (run_service_action w a p) b"
| press_systemctl: "page_step g p b (run_systemctl verb p) b"
| status: "i < length (sp_polls p) \<Longrightarrow> sp_polls p ! i = PollStatus Busy \<Longrightarrow>
    page_step g p b (set_poll i (PollStatus (Sent (client_get_status g b, systemctl_is_enabled out))) p) b"
| status_dies: "i < length (sp_polls p) \<Longrightarrow> sp_polls p ! i = PollStatus Busy \<Longrightarrow>
    page_step g p b (set_poll i (PollStatus Died) p) b"
| act: "i < length (sp_polls p) \<Longrightarrow> sp_polls p ! i = PollAction w a Busy \<Longrightarrow> service_call g w a b = (r, b1) \<Longrightarrow>
    page_step g p b (set_poll i (PollAction w a (Sent r)) p) b1"
| act_dies: "i < length (sp_polls p) \<Longrightarrow> sp_polls p ! i = PollAction w a Busy \<Longrightarrow>
    page_step g p b (set_poll i (PollAction w a Died) p) b"
| command: "i < length (sp_polls p) \<Longrightarrow> sp_polls p ! i = PollSystemctl verb Busy \<Longrightarrow> x \<noteq> Busy \<Longrightarrow>
    page_step g p b (set_poll i (PollSystemctl verb x) p) b1"
| poll: "i < length (sp_polls p) \<Longrightarrow> page_step g p b (tick g i p) b"
| close: "i < length (sp_polls p) \<Longrightarrow> sp_polls p ! i = PollDialog m \<Longrightarrow> page_step g p b (close_dialog i p) b"
| outside: "page_step g p b p b1"

text \<open>The pages that can be reached, with the states the daemon has been in.\<close>

inductive page_reached :: "'k gui_env \<Rightarrow> backend set \<Rightarrow> service_page \<Rightarrow> backend \<Rightarrow> bool" for g where
  created: "page_reached g {b} service_page_create b"
| step: "page_reached g B p b \<Longrightarrow> page_step g p b p1 b1 \<Longrightarrow> page_reached g (insert b1 B) p1 b1"


section \<open>One query at a time\<close>

fun is_status :: "poll \<Rightarrow> bool" where
  "is_status (PollStatus _) = True"
| "is_status _ = False"

definition statuses :: "service_page \<Rightarrow> nat" where
  "statuses p = length (filter is_status (sp_polls p))"

definition one_query :: "service_page \<Rightarrow> bool" where
  "one_query p \<longleftrightarrow> statuses p = (if sp_refreshing p then 1 else 0)"

lemma filter_removed:
  assumes "i < length xs"
  shows "length (filter P (take i xs @ drop (Suc i) xs)) + (if P (xs ! i) then 1 else 0) = length (filter P xs)"
proof -
  have "length (filter P xs) = length (filter P (take i xs @ xs ! i # drop (Suc i) xs))"
    using id_take_nth_drop [OF assms] by simp
  then show ?thesis by simp
qed

lemma filter_replaced:
  assumes "i < length xs" "P y = P (xs ! i)"
  shows "length (filter P (xs[i := y])) = length (filter P xs)"
proof -
  have count: "length (filter P zs) = length (filter (\<lambda>b. b) (map P zs))" for zs by (induction zs) auto
  have same: "map P (xs[i := y]) = map P xs" using assms by (simp add: map_update list_update_same_conv)
  show ?thesis unfolding count [of "xs[i := y]"] count [of xs] same ..
qed

lemma statuses_end:
  "i < length (sp_polls p) \<Longrightarrow> statuses (end_poll i p) + (if is_status (sp_polls p ! i) then 1 else 0) = statuses p"
  by (simp add: statuses_def end_poll_def filter_removed del: filter_append)

lemma statuses_set:
  "i < length (sp_polls p) \<Longrightarrow> is_status x = is_status (sp_polls p ! i) \<Longrightarrow> statuses (set_poll i x p) = statuses p"
  by (simp add: statuses_def set_poll_def filter_replaced)

lemma open_is_set: "open_dialog i m p = set_poll i (PollDialog m) p"
  by (simp add: open_dialog_def set_poll_def)

lemma page_flags [simp]:
  "sp_refreshing (end_poll i p) = sp_refreshing p" "sp_refreshing (set_poll i x p) = sp_refreshing p"
  "sp_refreshing (show_status r p) = sp_refreshing p" "sp_polls (show_status r p) = sp_polls p"
  by (auto simp: end_poll_def set_poll_def show_status_def split: sum.split)

lemma one_query_refresh: "one_query p \<Longrightarrow> one_query (refresh_status p)"
  by (simp add: one_query_def refresh_status_def statuses_def)

lemma one_query_ended:
  assumes "one_query p" "i < length (sp_polls p)" "\<not> is_status (sp_polls p ! i)"
  shows "one_query (end_poll i p)"
  using assms statuses_end [OF assms(2)] by (simp add: one_query_def)

lemma one_query_set:
  "one_query p \<Longrightarrow> i < length (sp_polls p) \<Longrightarrow> is_status x = is_status (sp_polls p ! i) \<Longrightarrow> one_query (set_poll i x p)"
  by (simp add: one_query_def statuses_set)

lemma one_query_answered:
  assumes "one_query p" "i < length (sp_polls p)" "is_status (sp_polls p ! i)" "sp_polls q = sp_polls p" "\<not> sp_refreshing q"
  shows "one_query (end_poll i q)"
proof -
  have "statuses q = statuses p" using assms(4) by (simp add: statuses_def)
  moreover have "statuses p \<le> 1" using assms(1) by (simp add: one_query_def split: if_splits)
  ultimately show ?thesis using statuses_end [of i q] assms by (simp add: one_query_def)
qed

lemma one_query_tick:
  assumes q: "one_query p" and i: "i < length (sp_polls p)"
  shows "one_query (tick g i p)"
proof (cases "sp_polls p ! i")
  case (PollStatus w)
  with q i show ?thesis
    by (auto simp: tick_def tick_status_def intro!: one_query_answered [OF q i] split: worker.split)
next
  case (PollAction x a w)
  with q i show ?thesis
    by (auto simp: tick_def tick_action_def open_is_set intro!: one_query_set one_query_refresh one_query_ended
        split: worker.split sum.split)
next
  case (PollSystemctl v w)
  with q i show ?thesis
    by (auto simp: tick_def tick_systemctl_def open_is_set intro!: one_query_set one_query_refresh one_query_ended
        split: worker.split sum.split)
next
  case (PollDialog m)
  with q show ?thesis by (simp add: tick_def)
qed

lemma one_query_step: "page_step g p b p1 b1 \<Longrightarrow> one_query p \<Longrightarrow> one_query p1"
proof (induction rule: page_step.induct)
  case (press p b w a)
  then show ?case by (simp add: one_query_def statuses_def run_service_action_def)
next
  case (press_systemctl p b verb)
  then show ?case by (simp add: one_query_def statuses_def run_systemctl_def)
next
  case (close i p m b)
  then show ?case by (simp add: close_dialog_def one_query_refresh one_query_ended)
qed (auto intro: one_query_refresh one_query_set one_query_tick)

section \<open>What the labels show\<close>

definition labels_of :: "client_error + server_status \<Rightarrow> run_label \<times> run_label \<times> version_label" where
  "labels_of r =
     (case r of
        Inr s \<Rightarrow> (set_state_label (ss_ftp_running s), set_state_label (ss_sftp_running s), Version (ss_version s))
      | Inl x \<Rightarrow> (NotConnected, NotConnected, VersionError x))"

definition labels :: "service_page \<Rightarrow> run_label \<times> run_label \<times> version_label" where
  "labels p = (sp_ftp p, sp_sftp p, sp_version p)"

lemma labels_frame [simp]:
  "labels (end_poll i p) = labels p" "labels (set_poll i x p) = labels p" "labels (refresh_status p) = labels p"
  "labels (show_status r p) = labels_of r" "labels (p\<lparr>sp_autostart := a\<rparr>) = labels p" "labels (p\<lparr>sp_refreshing := f\<rparr>) = labels p"
  by (auto simp: labels_def end_poll_def set_poll_def refresh_status_def show_status_def labels_of_def split: sum.split)

lemma polls_frame:
  "set (sp_polls (end_poll i p)) \<subseteq> set (sp_polls p)" "set (sp_polls (set_poll i x p)) \<subseteq> insert x (set (sp_polls p))"
  "set (sp_polls (refresh_status p)) \<subseteq> insert (PollStatus Busy) (set (sp_polls p))"
  using set_take_subset [of i "sp_polls p"] set_drop_subset [of "Suc i" "sp_polls p"] set_update_subset_insert [of "sp_polls p" i x]
  by (auto simp: end_poll_def set_poll_def refresh_status_def)

text \<open>Every answer on its way, and what the labels show, is the daemon's status in one of the given states.\<close>

definition truthful :: "'k gui_env \<Rightarrow> backend set \<Rightarrow> service_page \<Rightarrow> bool" where
  "truthful g B p \<longleftrightarrow>
     (labels p = (RunUnknown, RunUnknown, NoVersion) \<or> labels p \<in> labels_of ` client_get_status g ` B) \<and>
     (\<forall>r a. PollStatus (Sent (r, a)) \<in> set (sp_polls p) \<longrightarrow> r \<in> client_get_status g ` B)"

lemma truthful_mono: "truthful g B p \<Longrightarrow> truthful g (insert b B) p"
  by (auto simp: truthful_def)

lemma truthful_frame:
  assumes "truthful g B p" "labels q = labels p" "\<And>r a. PollStatus (Sent (r, a)) \<in> set (sp_polls q) \<Longrightarrow> PollStatus (Sent (r, a)) \<in> set (sp_polls p)"
  shows "truthful g B q"
  using assms unfolding truthful_def by metis


lemma truthful_end: "truthful g B p \<Longrightarrow> truthful g B (end_poll i p)"
  by (erule truthful_frame) (use polls_frame(1) in auto)

lemma truthful_refresh: "truthful g B p \<Longrightarrow> truthful g B (refresh_status p)"
  by (erule truthful_frame) (use polls_frame(3) in auto)

lemma truthful_set:
  assumes "truthful g B p" "\<And>r a. x \<noteq> PollStatus (Sent (r, a))"
  shows "truthful g B (set_poll i x p)"
  by (rule truthful_frame [OF assms(1)]) (use assms(2) polls_frame(2) [of i x p] in auto)

lemma truthful_tick:
  assumes t: "truthful g B p" and i: "i < length (sp_polls p)"
  shows "truthful g B (tick g i p)"
proof (cases "sp_polls p ! i")
  case (PollStatus w)
  have answer: "truthful g B (end_poll i ((show_status r p)\<lparr>sp_autostart := a, sp_refreshing := False\<rparr>))" if "w = Sent (r, auto)" for r a auto
  proof (rule truthful_end)
    have "r \<in> client_get_status g ` B" using t i PollStatus that nth_mem [OF i] unfolding truthful_def by metis
    with t show "truthful g B ((show_status r p)\<lparr>sp_autostart := a, sp_refreshing := False\<rparr>)" by (auto simp: truthful_def)
  qed
  have "truthful g B (p\<lparr>sp_refreshing := False\<rparr>)" by (rule truthful_frame [OF t]) simp_all
  with t PollStatus answer show ?thesis
    by (auto simp: tick_def tick_status_def intro!: truthful_end split: worker.split)
next
  case (PollAction x a w)
  with t show ?thesis
    by (auto simp: tick_def tick_action_def open_is_set intro!: truthful_set truthful_refresh truthful_end split: worker.split sum.split)
next
  case (PollSystemctl v w)
  with t show ?thesis
    by (auto simp: tick_def tick_systemctl_def open_is_set intro!: truthful_set truthful_refresh truthful_end
        split: worker.split sum.split)
next
  case (PollDialog m)
  with t show ?thesis by (simp add: tick_def)
qed

lemma truthful_step: "page_step g p b p1 b1 \<Longrightarrow> truthful g B p \<Longrightarrow> b \<in> B \<Longrightarrow> truthful g B p1"
proof (induction rule: page_step.induct)
  case (press p b w a)
  then show ?case by (intro truthful_frame [OF press(1)]) (auto simp: labels_def run_service_action_def)
next
  case (press_systemctl p b verb)
  then show ?case by (intro truthful_frame [OF press_systemctl(1)]) (auto simp: labels_def run_systemctl_def)
next
  case (status i p b out)
  then show ?case
    using polls_frame(2) [of i "PollStatus (Sent (client_get_status g b, systemctl_is_enabled out))" p]
    by (fastforce simp: truthful_def)
next
  case (close i p m b)
  then show ?case by (simp add: close_dialog_def truthful_refresh truthful_end)
qed (auto intro: truthful_refresh truthful_set truthful_tick)

lemma reached_inv: "page_reached g B p b \<Longrightarrow> one_query p \<and> truthful g B p \<and> b \<in> B"
proof (induction rule: page_reached.induct)
  case (created b)
  show ?case by (simp add: one_query_def statuses_def truthful_def labels_def service_page_create_def refresh_status_def)
next
  case (step B p b p1 b1)
  then show ?case by (auto intro: one_query_step truthful_mono truthful_step)
qed

text \<open>Claim C18: the service page is consistent.  In whatever order buttons are pressed, workers finish or die, polls run and
  the daemon changes, a query of the status is under way exactly if the flag is set, and never two; and the labels of
  both services and of the version are those at the start, or show together one answer of the daemon in a state
  it has been in since the page was made.\<close>

theorem service_page_consistent:
  assumes "page_reached g B p b"
  shows "statuses p = (if sp_refreshing p then 1 else 0) \<and>
    (labels p = (RunUnknown, RunUnknown, NoVersion) \<or> (\<exists>b0 \<in> B. labels p = labels_of (client_get_status g b0)))"
  using reached_inv [OF assms] by (auto simp: one_query_def truthful_def)

section \<open>What a refresh can miss\<close>

abbreviation page_steps :: "'k gui_env \<Rightarrow> service_page \<times> backend \<Rightarrow> service_page \<times> backend \<Rightarrow> bool" where
  "page_steps g \<equiv> (\<lambda>(p, b) (p1, b1). page_step g p b p1 b1)\<^sup>*\<^sup>*"

lemma steps_trans: "page_steps g x y \<Longrightarrow> page_steps g y z \<Longrightarrow> page_steps g x z"
  by (rule rtranclp_trans)

lemma one_step: "page_step g p b p1 b1 \<Longrightarrow> page_steps g (p, b) (p1, b1)"
  by (rule r_into_rtranclp) simp

text \<open>The query under way is answered and shown.\<close>

lemma finish_query:
  assumes q: "one_query p" and flag: "sp_refreshing p"
  obtains p1 where "page_steps g (p, b) (p1, b)" "one_query p1" "\<not> sp_refreshing p1"
proof -
  from q flag have "filter is_status (sp_polls p) \<noteq> []" by (auto simp: one_query_def statuses_def)
  then obtain i where i: "i < length (sp_polls p)" "is_status (sp_polls p ! i)" by (auto simp: filter_empty_conv in_set_conv_nth)
  then obtain w where w: "sp_polls p ! i = PollStatus w" by (cases "sp_polls p ! i") auto
  have ends: "\<exists>p1. page_steps g (p2, b) (p1, b) \<and> one_query p1 \<and> \<not> sp_refreshing p1"
    if "one_query p2" "i < length (sp_polls p2)" "sp_polls p2 ! i = PollStatus x" "x \<noteq> Busy" for p2 x
  proof -
    have "\<not> sp_refreshing (tick g i p2)" using that by (cases x) (auto simp: tick_def tick_status_def)
    moreover have "page_steps g (p2, b) (tick g i p2, b)" using that(2) by (intro one_step page_step.poll)
    ultimately show ?thesis using one_query_tick [OF that(1,2)] by blast
  qed
  show thesis
  proof (cases "w = Busy")
    case True
    let ?p2 = "set_poll i (PollStatus Died) p"
    have s: "page_steps g (p, b) (?p2, b)" using i(1) w True by (intro one_step page_step.status_dies) auto
    have "one_query ?p2" using q i w by (simp add: one_query_set)
    then obtain p1 where "page_steps g (?p2, b) (p1, b)" "one_query p1" "\<not> sp_refreshing p1"
      using ends [of ?p2 Died] i(1) by (auto simp: set_poll_def)
    with s that show ?thesis by (blast intro: steps_trans)
  next
    case False
    with ends [OF q i(1) w] that show ?thesis by blast
  qed
qed

text \<open>A query that starts now and is answered at once.\<close>

lemma fresh_query:
  assumes "\<not> sp_refreshing p"
  shows "\<exists>p1. page_steps g (p, b) (p1, b) \<and> \<not> sp_refreshing p1 \<and> sp_polls p1 = sp_polls p \<and>
    labels p1 = labels_of (client_get_status g b)"
proof -
  let ?n = "length (sp_polls p)" and ?r = "client_get_status g b"
  let ?p1 = "p\<lparr>sp_refreshing := True, sp_polls := sp_polls p @ [PollStatus Busy]\<rparr>"
  let ?p2 = "set_poll ?n (PollStatus (Sent (?r, systemctl_is_enabled None))) ?p1"
  have "page_step g p b ?p1 b" using page_step.refresh [of g p b] assms by (simp add: refresh_status_def)
  moreover have "page_step g ?p1 b ?p2 b" by (rule page_step.status) simp_all
  moreover have "page_step g ?p2 b (tick g ?n ?p2) b" by (rule page_step.poll) (simp add: set_poll_def)
  ultimately have "page_steps g (p, b) (tick g ?n ?p2, b)" by (blast intro: one_step steps_trans)
  moreover have p2: "sp_polls ?p2 ! ?n = PollStatus (Sent (?r, systemctl_is_enabled None))" "take ?n (sp_polls ?p2) = sp_polls p"
    "drop (Suc ?n) (sp_polls ?p2) = []" by (simp_all add: set_poll_def nth_append)
  then have "\<not> sp_refreshing (tick g ?n ?p2)" "sp_polls (tick g ?n ?p2) = sp_polls p" "labels (tick g ?n ?p2) = labels_of ?r"
    by (simp_all add: tick_def tick_status_def) (simp add: end_poll_def)
  ultimately show ?thesis by blast
qed

text \<open>Claim C19: the service page can always catch up.  From every reachable page there are steps, none of which changes the
  daemon, after which no query is under way and the labels show the daemon's present status.\<close>

theorem service_page_catches_up:
  assumes "page_reached g B p b"
  shows "\<exists>p1. page_steps g (p, b) (p1, b) \<and> \<not> sp_refreshing p1 \<and> labels p1 = labels_of (client_get_status g b)"
proof -
  have q: "one_query p" using reached_inv [OF assms] by simp
  obtain p2 where "page_steps g (p, b) (p2, b)" "\<not> sp_refreshing p2"
  proof (cases "sp_refreshing p")
    case True
    then show ?thesis by (rule finish_query [OF q, of g b]) (rule that)
  next
    case False
    then show ?thesis by (intro that [of p]) simp_all
  qed
  with fresh_query [of p2 g b] show ?thesis by (blast intro: steps_trans)
qed


text \<open>Claim C20: the refresh after an action may show the state before it.  A page is created and its first query reads the
  daemon's status; a button is pressed and the daemon carries the action out; the poll of the action then starts no
  query of its own, as one is under way, and the answer of that one is shown.  Nothing is under way any more
  and the labels show the status before the action.\<close>

theorem service_refresh_stale:
  assumes ran: "service_call g w a b = (Inr (), b1)"
  shows "\<exists>p. page_reached g {b, b1} p b1 \<and> sp_polls p = [] \<and> \<not> sp_refreshing p \<and>
    labels p = labels_of (client_get_status g b)"
proof -
  let ?s = "PollStatus (Sent (client_get_status g b, systemctl_is_enabled None))"
  let ?p0 = service_page_create and ?act = "PollAction w a"
  let ?p1 = "?p0\<lparr>sp_polls := [?s]\<rparr>"
  let ?p2 = "?p1\<lparr>sp_polls := [?s, ?act Busy]\<rparr>" and ?p3 = "?p1\<lparr>sp_polls := [?s, ?act (Sent (Inr ()))]\<rparr>"
  have new: "sp_polls ?p0 = [PollStatus Busy]" "sp_refreshing ?p0"
    by (simp_all add: service_page_create_def refresh_status_def)
  have s1: "page_step g ?p0 b ?p1 b" using page_step.status [of 0 ?p0 g b None] new by (simp add: set_poll_def)
  have s2: "page_step g ?p1 b ?p2 b" using page_step.press [of g ?p1 b w a] by (simp add: run_service_action_def)
  have s3: "page_step g ?p2 b ?p3 b1" using page_step.act [of 1 ?p2 w a g b "Inr ()" b1] ran by (simp add: set_poll_def)
  have s4: "page_step g ?p3 b1 ?p1 b1"
    using page_step.poll [of 1 ?p3 g b1] new(2) by (simp add: tick_def tick_action_def end_poll_def refresh_status_def)
  have s5: "page_step g ?p1 b1 (tick g 0 ?p1) b1" by (rule page_step.poll) simp
  note page_reached.created [of g b]
  from page_reached.step [OF page_reached.step [OF page_reached.step [OF page_reached.step [OF page_reached.step [OF this s1] s2] s3] s4] s5]
  have "page_reached g (insert b1 (insert b1 (insert b1 (insert b (insert b {b}))))) (tick g 0 ?p1) b1" .
  moreover have "insert b1 (insert b1 (insert b1 (insert b (insert b {b})))) = {b, b1}" by auto
  moreover have "sp_polls (tick g 0 ?p1) = []" "\<not> sp_refreshing (tick g 0 ?p1)"
    "labels (tick g 0 ?p1) = labels_of (client_get_status g b)"
    by (simp_all add: tick_def tick_status_def) (simp add: end_poll_def)
  ultimately show ?thesis by metis
qed

section \<open>A page of the demonstration daemon\<close>

theorem service_page_consistent_witness: "statuses service_page_create = 1"
  using service_page_consistent [OF page_reached.created [of demo_gui gui_backend]]
  by (simp add: service_page_create_def refresh_status_def)

theorem service_page_catches_up_witness:
  "\<exists>p. page_steps demo_gui (service_page_create, gui_backend) (p, gui_backend) \<and> \<not> sp_refreshing p"
  using service_page_catches_up [OF page_reached.created [of demo_gui gui_backend]] by blast

theorem service_refresh_stale_witness:
  "\<exists>b1 p. service_call demo_gui WAll Stop gui_backend = (Inr (), b1) \<and> page_reached demo_gui {gui_backend, b1} p b1 \<and>
    sp_polls p = []"
proof -
  obtain b1 where "service_call demo_gui WAll Stop gui_backend = (Inr (), b1)"
    by (simp add: service_call_def client_stop_service_def op_call_def rpc_call_def gui_reach stop_service_def op_outcome_def op_ok_def)
  with service_refresh_stale [OF this] show ?thesis by blast
qed

end
