(* ===== verification/GuiLogPage.thy ===== *)
theory GuiLogPage
  imports GuiLogs GuiService
begin

text \<open>
  The log pages of \<open>log_tab.rs\<close> and \<open>file_log_tab.rs\<close> as a state machine: the chosen source, what the table shows, and
  the loads under way.  A load clears the table at once and fills it when its answer arrives; nothing keeps a second
  load from starting before that.  The argument \<open>q\<close> gives the rows for a source and a state of the daemon, \<open>log_rows\<close>
  or \<open>file_op_rows\<close> for a front end.
\<close>

section \<open>The page\<close>

datatype shown = Cleared | Loading | Rows "string list list"

record log_page =
  lp_source :: string
  lp_auto :: bool
  lp_shown :: shown
  lp_loads :: "(string \<times> string list list worker) list"

definition log_page_create :: log_page where
  "log_page_create = \<lparr>lp_source = ''current'', lp_auto = True, lp_shown = Cleared, lp_loads = []\<rparr>"

definition populate_log_store :: "string \<Rightarrow> log_page \<Rightarrow> log_page" where
  "populate_log_store src p = p\<lparr>lp_shown := Loading, lp_loads := lp_loads p @ [(src, Busy)]\<rparr>"

definition log_refresh_clicked :: "log_page \<Rightarrow> log_page" where
  "log_refresh_clicked p = populate_log_store (lp_source p) p"

definition log_clear_clicked :: "log_page \<Rightarrow> log_page" where
  "log_clear_clicked p = p\<lparr>lp_shown := Cleared\<rparr>"

definition log_timer :: "log_page \<Rightarrow> log_page" where
  "log_timer p = (if lp_auto p \<and> lp_source p = ''current'' then populate_log_store (lp_source p) p else p)"

definition log_source_changed :: "string \<Rightarrow> log_page \<Rightarrow> log_page" where
  "log_source_changed src p = populate_log_store src (p\<lparr>lp_source := src\<rparr>)"

text \<open>The poll takes an answer; it makes no difference between no answer yet and a worker that died.\<close>

definition log_poll :: "nat \<Rightarrow> log_page \<Rightarrow> log_page" where
  "log_poll i p =
     (case lp_loads p ! i of
        (_, Sent rows) \<Rightarrow> p\<lparr>lp_shown := Rows rows, lp_loads := take i (lp_loads p) @ drop (Suc i) (lp_loads p)\<rparr>
      | _ \<Rightarrow> p)"

definition set_load :: "nat \<Rightarrow> string list list worker \<Rightarrow> log_page \<Rightarrow> log_page" where
  "set_load i w p = p\<lparr>lp_loads := (lp_loads p)[i := (fst (lp_loads p ! i), w)]\<rparr>"

inductive log_step ::
  "(string \<Rightarrow> backend \<Rightarrow> string list list) \<Rightarrow> log_page \<Rightarrow> backend \<Rightarrow> log_page \<Rightarrow> backend \<Rightarrow> bool" for q where
  refresh: "log_step q p b (log_refresh_clicked p) b"
| clear: "log_step q p b (log_clear_clicked p) b"
| timer: "log_step q p b (log_timer p) b"
| choose: "log_step q p b (log_source_changed src p) b"
| auto: "log_step q p b (p\<lparr>lp_auto := a\<rparr>) b"
| answer: "i < length (lp_loads p) \<Longrightarrow> lp_loads p ! i = (src, Busy) \<Longrightarrow> log_step q p b (set_load i (Sent (q src b)) p) b"
| die: "i < length (lp_loads p) \<Longrightarrow> lp_loads p ! i = (src, Busy) \<Longrightarrow> log_step q p b (set_load i Died p) b"
| poll: "i < length (lp_loads p) \<Longrightarrow> log_step q p b (log_poll i p) b"
| outside: "log_step q p b p b1"

text \<open>The pages that can be reached, with the sources chosen and the states of the daemon so far.\<close>

inductive log_reached ::
  "(string \<Rightarrow> backend \<Rightarrow> string list list) \<Rightarrow> string set \<Rightarrow> backend set \<Rightarrow> log_page \<Rightarrow> backend \<Rightarrow> bool" for q where
  created: "log_reached q {''current''} {b} log_page_create b"
| step: "log_reached q S B p b \<Longrightarrow> log_step q p b p1 b1 \<Longrightarrow> log_reached q (insert (lp_source p1) S) (insert b1 B) p1 b1"

section \<open>What the table shows\<close>

definition log_inv :: "(string \<Rightarrow> backend \<Rightarrow> string list list) \<Rightarrow> string set \<Rightarrow> backend set \<Rightarrow> log_page \<Rightarrow> bool" where
  "log_inv q S B p \<longleftrightarrow>
     lp_source p \<in> S \<and> (\<forall>src w. (src, w) \<in> set (lp_loads p) \<longrightarrow> src \<in> S) \<and>
     (\<forall>src rows. (src, Sent rows) \<in> set (lp_loads p) \<longrightarrow> (\<exists>b \<in> B. rows = q src b)) \<and>
     (\<forall>rows. lp_shown p = Rows rows \<longrightarrow> (\<exists>src \<in> S. \<exists>b \<in> B. rows = q src b))"

lemma log_inv_mono: "log_inv q S B p \<Longrightarrow> S \<subseteq> S1 \<Longrightarrow> B \<subseteq> B1 \<Longrightarrow> log_inv q S1 B1 p"
  unfolding log_inv_def by blast

lemma log_inv_load:
  assumes "log_inv q S B p" "i < length (lp_loads p)" "lp_loads p ! i = (src, w0)" "\<And>rows. w = Sent rows \<Longrightarrow> \<exists>b \<in> B. rows = q src b"
  shows "log_inv q S B (set_load i w p)"
proof -
  have "(src, w0) \<in> set (lp_loads p)" using assms(3) nth_mem [OF assms(2)] by simp
  then have "src \<in> S" using assms(1) by (auto simp: log_inv_def)
  moreover have "set (lp_loads (set_load i w p)) \<subseteq> insert (src, w) (set (lp_loads p))"
    using assms(3) set_update_subset_insert [of "lp_loads p" i "(src, w)"] by (simp add: set_load_def)
  moreover have "lp_source (set_load i w p) = lp_source p" "lp_shown (set_load i w p) = lp_shown p"
    by (simp_all add: set_load_def)
  ultimately show ?thesis using assms(1,4) unfolding log_inv_def by auto
qed

lemma log_inv_poll:
  assumes "log_inv q S B p" "i < length (lp_loads p)"
  shows "log_inv q S B (log_poll i p)"
proof -
  obtain src w where w: "lp_loads p ! i = (src, w)" by fastforce
  then have mem: "(src, w) \<in> set (lp_loads p)" using nth_mem [OF assms(2)] by simp
  show ?thesis
  proof (cases w)
    case (Sent rows)
    have "src \<in> S" "\<exists>b \<in> B. rows = q src b" using mem Sent assms(1) by (auto simp: log_inv_def)
    moreover have "set (take i (lp_loads p)) \<subseteq> set (lp_loads p)" "set (drop (Suc i) (lp_loads p)) \<subseteq> set (lp_loads p)"
      by (rule set_take_subset set_drop_subset)+
    ultimately show ?thesis using assms(1) w Sent unfolding log_inv_def log_poll_def by auto
  qed (use assms(1) w in \<open>simp_all add: log_poll_def\<close>)
qed

lemma log_step_inv:
  assumes "log_step q p b p1 b1" "log_inv q S B p" "b \<in> B"
  shows "log_inv q (insert (lp_source p1) S) (insert b1 B) p1"
  using assms
proof (induction rule: log_step.induct)
  case (answer i p src b)
  then have "log_inv q S B (set_load i (Sent (q src b)) p)" by (intro log_inv_load [OF answer(3,1,2)]) auto
  then show ?case by (rule log_inv_mono) auto
next
  case (die i p src b)
  then have "log_inv q S B (set_load i Died p)" by (intro log_inv_load [OF die(3,1,2)]) auto
  then show ?case by (rule log_inv_mono) auto
next
  case (poll i p b)
  then have "log_inv q S B (log_poll i p)" by (intro log_inv_poll)
  then show ?case by (rule log_inv_mono) auto
qed (fastforce simp: log_inv_def log_refresh_clicked_def log_clear_clicked_def log_timer_def log_source_changed_def populate_log_store_def)+

text \<open>the rows of a log page are real.  In whatever order buttons are pressed, sources chosen, timers run and
  answers arrive, a page that shows rows shows those that one of the sources chosen so far had in one of the
  states the daemon has been in; a cleared or loading table shows none.\<close>

theorem log_page_rows_real:
  assumes "log_reached q S B p b"
  shows "lp_shown p = Cleared \<or> lp_shown p = Loading \<or> (\<exists>src \<in> S. \<exists>b0 \<in> B. lp_shown p = Rows (q src b0))"
proof -
  have "log_inv q S B p \<and> b \<in> B"
    using assms
  proof (induction rule: log_reached.induct)
    case (created b)
    show ?case by (simp add: log_inv_def log_page_create_def)
  next
    case (step S B p b p1 b1)
    then show ?case using log_step_inv by blast
  qed
  then show ?thesis by (cases "lp_shown p") (auto simp: log_inv_def)
qed

section \<open>What can go wrong\<close>


text \<open>A load whose worker died is polled for ever.\<close>

lemma other_load_stays:
  assumes "(src, Died) \<in> set (lp_loads p)" "lp_loads p ! i = (s, Busy)"
  shows "(src, Died) \<in> set (lp_loads (set_load i w p))"
proof -
  obtain k where "k < length (lp_loads p)" "lp_loads p ! k = (src, Died)" using assms(1) by (auto simp: in_set_conv_nth)
  moreover from this assms(2) have "k \<noteq> i" by auto
  ultimately show ?thesis by (auto simp: set_load_def in_set_conv_nth intro!: exI [of _ k])
qed

lemma dead_load_stays:
  assumes "log_step q p b p1 b1" "(src, Died) \<in> set (lp_loads p)"
  shows "(src, Died) \<in> set (lp_loads p1)"
  using assms
proof (induction rule: log_step.induct)
  case (poll i p b)
  show ?case
  proof (cases "lp_loads p ! i")
    case (Pair s w)
    have "set (lp_loads p) = insert (lp_loads p ! i) (set (take i (lp_loads p) @ drop (Suc i) (lp_loads p)))"
      by (subst (1) id_take_nth_drop [OF poll(1)]) auto
    with poll(2) Pair show ?thesis by (cases w) (auto simp: log_poll_def)
  qed
qed (auto simp: other_load_stays log_refresh_clicked_def log_clear_clicked_def log_timer_def log_source_changed_def populate_log_store_def)

section \<open>A page of the demonstration daemon\<close>

theorem log_page_rows_real_witness: "lp_shown log_page_create = Cleared"
  using log_page_rows_real [OF log_reached.created [of "log_rows demo_gui" gui_backend]]
  by (simp add: log_page_create_def)

end
