(* ===== verification/GuiSecurity.thy ===== *)
theory GuiSecurity
  imports GuiProps
begin

text \<open>
  The lists of \<open>security_tab.rs\<close> as a page: the rows a list shows, the selected row and the text of the entry, with the
  seven buttons.  A press changes the local copy and sends it; only an accepted change refreshes the rows.
\<close>

record filter_list =
  fl_rows :: "string list"
  fl_selected :: "nat option"
  fl_text :: string

record filter_page =
  fp_white :: filter_list
  fp_black :: filter_list

datatype filter_button = WhiteAdd | WhiteDelete | WhiteClear | WhiteAllowAll | BlackAdd | BlackDelete | BlackClear

text \<open>Clearing the store drops the selection; the rows are filled when the copy is not locked.\<close>

definition refresh_whitelist :: "'k gui_env \<Rightarrow> app_state \<Rightarrow> filter_list \<Rightarrow> filter_list" where
  "refresh_whitelist g st l =
     l\<lparr>fl_rows := (if ge_lock_free g then allowed_ips (security (as_config st)) else []), fl_selected := None\<rparr>"

definition refresh_blacklist :: "'k gui_env \<Rightarrow> app_state \<Rightarrow> filter_list \<Rightarrow> filter_list" where
  "refresh_blacklist g st l =
     l\<lparr>fl_rows := (if ge_lock_free g then denied_ips (security (as_config st)) else []), fl_selected := None\<rparr>"

definition filter_page_create :: "'k gui_env \<Rightarrow> app_state \<Rightarrow> filter_page" where
  "filter_page_create g st =
     \<lparr>fp_white = refresh_whitelist g st \<lparr>fl_rows = [], fl_selected = None, fl_text = []\<rparr>,
      fp_black = refresh_blacklist g st \<lparr>fl_rows = [], fl_selected = None, fl_text = []\<rparr>\<rparr>"

definition selected_row :: "filter_list \<Rightarrow> string option" where
  "selected_row l =
     (case fl_selected l of None \<Rightarrow> None | Some i \<Rightarrow> if i < length (fl_rows l) then Some (fl_rows l ! i) else None)"

definition delete_selected ::
  "(string \<Rightarrow> app_state \<Rightarrow> backend \<Rightarrow> save_outcome \<times> app_state \<times> backend) \<Rightarrow> filter_list \<Rightarrow>
    app_state \<Rightarrow> backend \<Rightarrow> save_outcome \<times> app_state \<times> backend" where
  "delete_selected del l st b = (case selected_row l of None \<Rightarrow> (NotTried, st, b) | Some ip \<Rightarrow> del ip st b)"

fun press_change ::
  "'k gui_env \<Rightarrow> filter_page \<Rightarrow> filter_button \<Rightarrow> app_state \<Rightarrow> backend \<Rightarrow> save_outcome \<times> app_state \<times> backend" where
  "press_change g p WhiteAdd = whitelist_add g (fl_text (fp_white p))"
| "press_change g p WhiteDelete = delete_selected (whitelist_delete g) (fp_white p)"
| "press_change g p WhiteClear = whitelist_clear g"
| "press_change g p WhiteAllowAll = whitelist_allow_all g"
| "press_change g p BlackAdd = blacklist_add g (fl_text (fp_black p))"
| "press_change g p BlackDelete = delete_selected (blacklist_delete g) (fp_black p)"
| "press_change g p BlackClear = blacklist_clear g"

definition clear_entry :: "bool \<Rightarrow> filter_list \<Rightarrow> filter_list" where
  "clear_entry added l = (if added then l\<lparr>fl_text := []\<rparr> else l)"

definition refreshed :: "'k gui_env \<Rightarrow> filter_button \<Rightarrow> app_state \<Rightarrow> filter_page \<Rightarrow> filter_page" where
  "refreshed g x st p =
     (if x \<in> {BlackAdd, BlackDelete, BlackClear}
      then p\<lparr>fp_black := clear_entry (x = BlackAdd) (refresh_blacklist g st (fp_black p))\<rparr>
      else p\<lparr>fp_white := clear_entry (x = WhiteAdd) (refresh_whitelist g st (fp_white p))\<rparr>)"

definition filter_press ::
  "'k gui_env \<Rightarrow> filter_button \<Rightarrow> filter_page \<Rightarrow> app_state \<Rightarrow> backend \<Rightarrow> filter_page \<times> app_state \<times> backend" where
  "filter_press g x p st b =
     (case press_change g p x st b of
        (Saved, st1, b1) \<Rightarrow> (refreshed g x st1 p, st1, b1)
      | (_, st1, b1) \<Rightarrow> (p, st1, b1))"

text \<open>After an accepted press the list of the button shows the local copy; any other press leaves the page.\<close>

lemma filter_press_page:
  assumes "filter_press g x p st b = (p1, st1, b1)" "ge_lock_free g"
  shows "p1 = p \<or>
    (if x \<in> {BlackAdd, BlackDelete, BlackClear}
     then fl_rows (fp_black p1) = denied_ips (security (as_config st1)) \<and> fp_white p1 = fp_white p
     else fl_rows (fp_white p1) = allowed_ips (security (as_config st1)) \<and> fp_black p1 = fp_black p)"
  using assms
  by (auto simp: filter_press_def refreshed_def refresh_whitelist_def refresh_blacklist_def clear_entry_def
      split: prod.splits save_outcome.splits if_splits)

section \<open>What a press asks for\<close>

definition deny_address :: "string \<Rightarrow> config \<Rightarrow> config" where
  "deny_address ip c =
     c\<lparr>security := (security c)\<lparr>denied_ips :=
        (if ip \<in> set (denied_ips (security c)) then denied_ips (security c) else denied_ips (security c) @ [ip])\<rparr>\<rparr>"

lemma blacklist_add_change:
  assumes "ip \<noteq> []" "validate_ip_or_cidr (ge_ipnet g) ip"
  shows "blacklist_add g ip = push_config g (deny_address ip)"
proof -
  have "(\<lambda>c. c\<lparr>security := if ip \<in> set (denied_ips (security c)) then security c
      else (security c)\<lparr>denied_ips := denied_ips (security c) @ [ip]\<rparr>\<rparr>) = deny_address ip"
    by (rule ext) (simp add: deny_address_def)
  with assms show ?thesis
    by (intro ext) (simp add: blacklist_add_def add_address_def push_security_config_def)
qed

lemma denied_after: "ip \<in> set (denied_ips (security (deny_address ip c)))"
  by (simp add: deny_address_def)

lemma denied_login:
  assumes "ip \<in> set (denied_ips (security c))" "ip_matches_cidr (le_ipnet le) (cr_source_ip cr) ip"
  shows "ftp_authenticate le (authenticator_new c) name cr m fs = Some (Inl IpDisallowed, m, fs)"
  using assms by (auto simp: ftp_authenticate_def ftp_ip_allowed_def authenticator_new_def is_ip_allowed_for_def list_ex_iff)

text \<open>A change that is accepted is the configuration of the daemon, one that cannot be sent stays in the local copy.\<close>

lemma push_config_daemon:
  fixes g :: "'k gui_env"
  assumes "connect g b = Inr ()" "ge_lock_free g" and w: "waits_run_tasks (daemon_of (ge_daemon g))" and ok: "backend_ok b"
    and "quiet_dir (bk_disk b) d [temp_name n ''tmp'', n]" "ctl_config_path (ge_daemon g) b = dir_path (d @ [n])"
    and "printable (de_toml (ge_daemon g)) (f (as_config st))" "is_ok (config_validate (bk_disk b) (f (as_config st)))"
  obtains b1 where "push_config g f st b = (Saved, st\<lparr>as_config := f (as_config st)\<rparr>, b1)" "bk_config b1 = f (as_config st)"
proof (rule push_config_saved [where f = f, OF assms(1,2,5-8)])
  fix fs'
  let ?b = "(set_disk fs' b)\<lparr>bk_config := f (as_config st)\<rparr>"
  assume "push_config g f st b = (Saved, st\<lparr>as_config := f (as_config st)\<rparr>, apply_enabled_flags (daemon_of (ge_daemon g)) ?b)"
  moreover have "backend_ok ?b" using ok by simp
  ultimately show thesis using apply_flags_rest [OF w, of ?b] by (intro that) simp_all
qed

lemma push_config_unsent:
  "connect g b = Inl x \<Longrightarrow> ge_lock_free g \<Longrightarrow> push_config g f st b = (SaveFailed x, st\<lparr>as_config := f (as_config st)\<rparr>, b)"
  by (simp add: push_config_def with_config_def write_config_def rpc_call_def)

section \<open>Properties\<close>

text \<open>Claim C22: an address put on the deny list by the page is refused.  When the daemon can be reached and accepts the
  configuration, the page then shows the daemon's deny list with the address in it and an empty entry, and an FTP
  server built from the daemon's configuration refuses every login from an address the entry matches, whatever the
  name, the password and the accounts.\<close>

theorem denied_entry_refuses:
  fixes g :: "'k gui_env"
  defines "e \<equiv> ge_daemon g"
  assumes reach: "connect g b = Inr ()" "ge_lock_free g" and w: "waits_run_tasks (daemon_of e)" and ok: "backend_ok b"
    and q: "quiet_dir (bk_disk b) d [temp_name n ''tmp'', n]" and path: "ctl_config_path e b = dir_path (d @ [n])"
    and entry: "fl_text (fp_black p) = ip" "ip \<noteq> []" "validate_ip_or_cidr (ge_ipnet g) ip"
    and print: "printable (de_toml e) (deny_address ip (as_config st))"
    and valid: "is_ok (config_validate (bk_disk b) (deny_address ip (as_config st)))"
  shows "\<exists>p1 st1 b1. filter_press g BlackAdd p st b = (p1, st1, b1) \<and>
    fl_rows (fp_black p1) = denied_ips (security (bk_config b1)) \<and> fl_text (fp_black p1) = [] \<and>
    ip \<in> set (denied_ips (security (bk_config b1))) \<and> fp_white p1 = fp_white p \<and>
    (\<forall>le name cr m fs. ip_matches_cidr (le_ipnet le) (cr_source_ip cr) ip \<longrightarrow>
       ftp_authenticate le (authenticator_new (bk_config b1)) name cr m fs = Some (Inl IpDisallowed, m, fs))"
proof -
  let ?st1 = "st\<lparr>as_config := deny_address ip (as_config st)\<rparr>"
  obtain b1 where s: "push_config g (deny_address ip) st b = (Saved, ?st1, b1)" "bk_config b1 = deny_address ip (as_config st)"
    by (rule push_config_daemon [where f = "deny_address ip", OF reach w [unfolded e_def] ok q path [unfolded e_def] print [unfolded e_def] valid])
  then have "filter_press g BlackAdd p st b = (refreshed g BlackAdd ?st1 p, ?st1, b1)"
    by (simp add: filter_press_def entry blacklist_add_change)
  moreover have "fl_rows (fp_black (refreshed g BlackAdd ?st1 p)) = denied_ips (security (bk_config b1))"
    "fl_text (fp_black (refreshed g BlackAdd ?st1 p)) = []" "fp_white (refreshed g BlackAdd ?st1 p) = fp_white p"
    using s reach(2) by (simp_all add: refreshed_def clear_entry_def refresh_blacklist_def)
  moreover have "ip \<in> set (denied_ips (security (bk_config b1)))" by (simp add: s(2) denied_after)
  ultimately show ?thesis using denied_login by blast
qed

text \<open>Claim C23: a press that failed takes effect later.  When the daemon cannot be reached, adding an address to the deny
  list leaves the page and the daemon as they were, with the address still in the entry, but the local copy has it:
  the next change any page sends, of anything but the deny list, puts the address on the daemon's list as well,
  while the rows of the page still do not show it.\<close>

theorem failed_entry_sent_later:
  fixes g :: "'k gui_env" and f :: "config \<Rightarrow> config"
  defines "e \<equiv> ge_daemon g"
  assumes cut: "connect g0 b = Inl x" "ge_lock_free g0"
    and entry: "fl_text (fp_black p) = ip" "ip \<noteq> []" "validate_ip_or_cidr (ge_ipnet g0) ip"
    and new: "ip \<notin> set (denied_ips (security (as_config st)))" "fl_rows (fp_black p) = denied_ips (security (as_config st))"
    and reach: "connect g b = Inr ()" "ge_lock_free g" and w: "waits_run_tasks (daemon_of e)" and ok: "backend_ok b"
    and q: "quiet_dir (bk_disk b) d [temp_name n ''tmp'', n]" and path: "ctl_config_path e b = dir_path (d @ [n])"
    and other: "\<And>c. denied_ips (security (f c)) = denied_ips (security c)"
    and print: "printable (de_toml e) (f (deny_address ip (as_config st)))"
    and valid: "is_ok (config_validate (bk_disk b) (f (deny_address ip (as_config st))))"
  shows "\<exists>st1 st2 b2. filter_press g0 BlackAdd p st b = (p, st1, b) \<and> push_config g f st1 b = (Saved, st2, b2) \<and>
    denied_ips (security (bk_config b2)) = fl_rows (fp_black p) @ [ip] \<and> ip \<notin> set (fl_rows (fp_black p))"
proof -
  let ?st = "st\<lparr>as_config := deny_address ip (as_config st)\<rparr>"
  have "filter_press g0 BlackAdd p st b = (p, ?st, b)"
    by (simp add: filter_press_def entry blacklist_add_change push_config_unsent [OF cut])
  moreover obtain b2 where "push_config g f ?st b = (Saved, ?st\<lparr>as_config := f (as_config ?st)\<rparr>, b2)" "bk_config b2 = f (as_config ?st)"
    by (rule push_config_daemon [where f = f and st = ?st, OF reach w [unfolded e_def] ok q path [unfolded e_def]])
      (use print valid in \<open>simp_all add: e_def\<close>)
  moreover from this have "denied_ips (security (bk_config b2)) = fl_rows (fp_black p) @ [ip]"
    using new by (simp add: other) (simp add: deny_address_def)
  ultimately show ?thesis using new by (metis)
qed

section \<open>A page\<close>

text \<open>A front end whose configuration text stands for the configuration it sends.\<close>

definition filter_gui :: "config \<Rightarrow> string gui_env" where
  "filter_gui c = demo_gui\<lparr>ge_daemon := gui_control\<lparr>de_toml := \<lparr>encode = (\<lambda>_. Some ''x''), decode = (\<lambda>_. Some c)\<rparr>\<rparr>,
     ge_ipnet := \<lparr>net4 = (\<lambda>_. None), net6 = (\<lambda>_. None)\<rparr>\<rparr>"

definition filter_demo :: filter_page where
  "filter_demo = \<lparr>fp_white = \<lparr>fl_rows = [], fl_selected = None, fl_text = []\<rparr>,
     fp_black = \<lparr>fl_rows = [], fl_selected = None, fl_text = ''10.0.0.9''\<rparr>\<rparr>"

lemma filter_gui_facts:
  "connect (filter_gui c) gui_backend = Inr ()" "ge_lock_free (filter_gui c)"
  "waits_run_tasks (daemon_of (ge_daemon (filter_gui c)))"
  "ctl_config_path (ge_daemon (filter_gui c)) gui_backend = dir_path ([''cfg''] @ [''config.toml''])"
  "printable (de_toml (ge_daemon (filter_gui c))) c"
  "validate_ip_or_cidr (ge_ipnet (filter_gui c)) ''10.0.0.9''"
proof -
  show "connect (filter_gui c) gui_backend = Inr ()" using gui_reach by (simp add: connect_def filter_gui_def Let_def split: if_splits)
  show "waits_run_tasks (daemon_of (ge_daemon (filter_gui c)))"
    by (simp add: filter_gui_def waits_run_tasks_def gui_control_def demo_control_def daemon_env.defs control_env.defs demo_daemon_def)
  have "parse_ipv4 ''10.0.0.9'' \<noteq> None" by code_simp
  then show "validate_ip_or_cidr (ge_ipnet (filter_gui c)) ''10.0.0.9''" by (simp add: validate_ip_or_cidr_def)
  show "ctl_config_path (ge_daemon (filter_gui c)) gui_backend = dir_path ([''cfg''] @ [''config.toml''])"
    using gui_paths(1) by (simp add: filter_gui_def)
qed (simp_all add: filter_gui_def printable_def byte_in_def)

lemma filter_demo_config:
  "denied_ips (security (as_config gui_state)) = []"
  "is_ok (config_validate gui_fs (deny_address ip (as_config gui_state)))"
  by (simp_all add: gui_state_def deny_address_def config_validate_def with_flags_def config_default_def)

theorem denied_entry_refuses_witness:
  "\<exists>p1 st1 b1. filter_press (filter_gui (deny_address ''10.0.0.9'' (as_config gui_state))) BlackAdd filter_demo gui_state gui_backend
      = (p1, st1, b1) \<and>
    ftp_authenticate demo_login (authenticator_new (bk_config b1)) ''al'' \<lparr>cr_password = Some ''pw'', cr_source_ip = ''10.0.0.9''\<rparr>
      demo_users demo_fs = Some (Inl IpDisallowed, demo_users, demo_fs)"
proof -
  have m: "ip_matches_cidr (le_ipnet demo_login) ''10.0.0.9'' ''10.0.0.9''"
    by (simp add: ip_matches_cidr_def demo_login_def split: option.split)
  show ?thesis
    using denied_entry_refuses [of "filter_gui (deny_address ''10.0.0.9'' (as_config gui_state))" gui_backend "[''cfg'']"
        "''config.toml''" filter_demo "''10.0.0.9''" gui_state] filter_gui_facts gui_backend_ok gui_quiet(1)
      filter_demo_config(2) m
    by (fastforce simp: filter_demo_def)
qed

definition open_to_all :: "config \<Rightarrow> config" where
  "open_to_all c = c\<lparr>security := (security c)\<lparr>allowed_ips := [''0.0.0.0/0'']\<rparr>\<rparr>"

theorem failed_entry_sent_later_witness:
  "\<exists>(g0 :: string gui_env) (g :: string gui_env) st1 st2 b2. filter_press g0 BlackAdd filter_demo gui_state gui_backend = (filter_demo, st1, gui_backend) \<and>
    push_config g open_to_all st1 gui_backend = (Saved, st2, b2) \<and> denied_ips (security (bk_config b2)) = [''10.0.0.9'']"
proof -
  let ?c = "open_to_all (deny_address ''10.0.0.9'' (as_config gui_state))"
  let ?g = "filter_gui ?c" and ?g0 = "(filter_gui ?c)\<lparr>ge_connects := False\<rparr>"
  have g0: "connect ?g0 gui_backend = Inl (NoConnection (socket_path gui_process))" "ge_lock_free ?g0"
    "validate_ip_or_cidr (ge_ipnet ?g0) ''10.0.0.9''"
    using filter_gui_facts(1,2,6) [of ?c] by (simp_all add: connect_def filter_gui_def Let_def split: if_splits)
  have page: "fl_text (fp_black filter_demo) = ''10.0.0.9''" "''10.0.0.9'' \<noteq> []"
    "''10.0.0.9'' \<notin> set (denied_ips (security (as_config gui_state)))"
    "fl_rows (fp_black filter_demo) = denied_ips (security (as_config gui_state))"
    by (simp_all add: filter_demo_def filter_demo_config(1))
  have q: "quiet_dir (bk_disk gui_backend) [''cfg''] [temp_name ''config.toml'' ''tmp'', ''config.toml'']"
    using gui_quiet(1) by simp
  have valid: "is_ok (config_validate (bk_disk gui_backend) ?c)"
    by (simp add: open_to_all_def gui_state_def deny_address_def config_validate_def with_flags_def config_default_def)
  have other: "denied_ips (security (open_to_all c)) = denied_ips (security c)" for c by (simp add: open_to_all_def)
  have rows: "fl_rows (fp_black filter_demo) @ [''10.0.0.9''] = [''10.0.0.9'']" by (simp add: filter_demo_def)
  from failed_entry_sent_later [where f = open_to_all, OF g0(1,2) page(1,2) g0(3) page(3,4) filter_gui_facts(1-3) gui_backend_ok q
      filter_gui_facts(4) other filter_gui_facts(5) valid]
  show ?thesis unfolding rows by blast
qed

end
