(* ===== verification/GuiSpin.thy ===== *)
theory GuiSpin
  imports GuiForms GuiLogs Complex_Main
begin

text \<open>
  The conversions of \<open>wftpg/src/ui/utils.rs\<close> between integers and the floating point values of the spin buttons.  A
  float is not a number, infinite, or a rational value; rounding, the bounds and the texts of whole numbers are exact.
  Together with the bounds of a button they are the functions the pages are modelled with.
\<close>

datatype f64 = NaN | NegInf | PosInf | Fin rat

text \<open>\<open>f64::round\<close>: halves away from zero.\<close>

fun f_round :: "f64 \<Rightarrow> f64" where
  "f_round (Fin x) = Fin (of_int (if 0 \<le> x then \<lfloor>x + 1 / 2\<rfloor> else \<lceil>x - 1 / 2\<rceil>))"
| "f_round v = v"

fun f_clamp :: "rat \<Rightarrow> rat \<Rightarrow> f64 \<Rightarrow> f64" where
  "f_clamp lo hi (Fin x) = Fin (if x < lo then lo else if hi < x then hi else x)"
| "f_clamp lo hi NegInf = Fin lo"
| "f_clamp lo hi PosInf = Fin hi"
| "f_clamp lo hi NaN = NaN"

text \<open>Printing and parsing again: a whole number prints as its digits, anything else does not parse.\<close>

fun reparse :: "f64 \<Rightarrow> int option" where
  "reparse (Fin x) = (if of_int \<lfloor>x\<rfloor> = x then Some \<lfloor>x\<rfloor> else None)"
| "reparse _ = None"

definition spin_f64_from :: "u64 \<Rightarrow> f64" where
  "spin_f64_from v = Fin (of_nat (min (unat v) (2 ^ 32 - 1)))"

definition spin_u64 :: "f64 \<Rightarrow> u64" where
  "spin_u64 v = of_int (unwrap_or 0 (reparse (f_clamp 0 (9 * 10 ^ 15) (f_round v))))"

definition spin_u32 :: "f64 \<Rightarrow> u32" where
  "spin_u32 v = (if unat (spin_u64 v) < 2 ^ 32 then ucast (spin_u64 v) else - 1)"

definition spin_usize :: "f64 \<Rightarrow> u64" where
  "spin_usize v = spin_u64 v"

definition spin_u16 :: "f64 \<Rightarrow> u16" where
  "spin_u16 v = (if unat (spin_u32 v) < 2 ^ 16 then ucast (spin_u32 v) else - 1)"

definition f64_to_i32 :: "f64 \<Rightarrow> int" where
  "f64_to_i32 v = unwrap_or (2 ^ 31 - 1) (reparse (f_clamp 0 (2 * 10 ^ 9) (f_round v)))"

text \<open>A spin button keeps the value it is given within its bounds.\<close>

definition spin_button :: "'n::len word \<Rightarrow> 'n word \<Rightarrow> f64 \<Rightarrow> f64" where
  "spin_button lo hi = f_clamp (of_nat (unat lo)) (of_nat (unat hi))"

lemma f_round_nat [simp]: "f_round (Fin (of_nat n)) = Fin (of_nat n)"
proof -
  have "\<lfloor>(of_nat n :: rat) + 1 / 2\<rfloor> = int n" by (rule floor_unique) simp_all
  then show ?thesis by simp
qed

lemma spin_u64_nat: "n \<le> 9 * 10 ^ 15 \<Longrightarrow> spin_u64 (Fin (of_nat n)) = of_nat n"
proof -
  assume "n \<le> 9 * 10 ^ 15"
  then have "(of_nat n :: rat) \<le> of_nat (9 * 10 ^ 15)" by (simp only: of_nat_le_iff)
  then show ?thesis unfolding spin_u64_def f_round_nat by simp
qed

lemma clamp_nat: "lo \<le> hi \<Longrightarrow> f_clamp (of_nat lo) (of_nat hi) (Fin (of_nat n)) = Fin (of_nat (max lo (min hi n)))"
  by (auto simp: max_def min_def)

text \<open>What a page reads back from a button it has set is what the pages are modelled with.\<close>

lemma spin_set_reads:
  assumes "lo \<le> hi" "unat hi \<le> 9 * 10 ^ 15"
  shows "spin_u64 (spin_button lo hi (spin_f64_from v)) = spin_set lo hi v"
proof -
  let ?n = "max (unat lo) (min (unat hi) (min (unat v) (2 ^ 32 - 1)))"
  have "spin_button lo hi (spin_f64_from v) = Fin (of_nat ?n)"
    using assms(1) clamp_nat [of "unat lo" "unat hi"] by (simp only: spin_button_def spin_f64_from_def word_le_nat_alt)
  moreover have "?n \<le> 9 * 10 ^ 15" using assms by (auto simp: word_le_nat_alt)
  ultimately have "spin_u64 (spin_button lo hi (spin_f64_from v)) = of_nat ?n" using spin_u64_nat by metis
  also have "\<dots> = spin_set lo hi v"
    by (simp add: unat_spin [of lo hi v, symmetric])
  finally show ?thesis .
qed

end
