(* ===== verification/SftpAccess.thy ===== *)
theory SftpAccess
  imports SftpHandler
begin

text \<open>
  Access to the SFTP server: which logins are accepted, and that a session is only started on an open channel of a
  connection that has logged in, for the user of the last accepted login.
\<close>

section \<open>Who may log in\<close>

lemma safe_name_ok:
  assumes "is_safe_username n"
  shows "name_ok (n @ ''.pub'')"
proof -
  from assms have "n \<noteq> []" and c: "\<forall>x \<in> set n. is_alnum x \<or> x = CHR ''_'' \<or> x = CHR ''-''"
    by (auto simp: is_safe_username_def list_all_iff split: if_splits)
  have "\<not> is_alnum (CHR ''/'')" "\<not> is_alnum (CHR ''.'')"
    by (simp_all add: is_alnum_def is_digit_def byte_in_def)
  with c \<open>n \<noteq> []\<close> show ?thesis by (auto simp: name_ok_def append_eq_Cons_conv)
qed

lemma key_path_of_safe: "is_safe_username n \<Longrightarrow> dir \<noteq> [] \<Longrightarrow> key_path_of dir n = dir @ [Normal (n @ ''.pub'')]"
  using safe_name_ok [of n] path_of_name [of "n @ ''.pub''"] by (simp add: key_path_of_def path_join_name)

text \<open>The account a login is for: a safe name of an enabled account in the database as reloaded.\<close>

definition login_account :: "string \<Rightarrow> user_manager \<Rightarrow> user option" where
  "login_account name m = (if is_safe_username name then opt_filter u_enabled (get_user m name) else None)"

definition home_usable :: "fs \<Rightarrow> string \<Rightarrow> bool" where
  "home_usable fs home \<longleftrightarrow>
     trim home \<noteq> [] \<and> fs_is_dir fs (path_of home) \<and> is_ok (fs_canonicalize fs (path_of home))"

lemma finish_login_accept: "fst (finish_login ev n home m s) = AuthAccept \<longleftrightarrow> home_usable (hd_disk s) home"
proof -
  obtain r s1 where v: "validate_home ev n home s = (r, s1)" by (cases "validate_home ev n home s")
  have "is_ok r \<longleftrightarrow> home_usable (hd_disk s) home"
    using v by (auto simp: validate_home_def home_usable_def fs_kind_is_def split: sum.splits if_splits)
  with v show ?thesis by (cases r) (simp_all add: finish_login_def)
qed

lemma ssh_reject_answer: "fst (ssh_reject ev n via s) = AuthReject"
  by (simp add: ssh_reject_def)

lemma resolve_user_eq:
  assumes "um_reload (le_json (he_login ev)) (le_error_log (he_login ev)) (hd_users_path s) (hd_disk s) (hd_users s) = Some m"
  obtains (unsafe) "\<not> is_safe_username n" "resolve_user ev n s = Some (None, s)" "login_account n m = None"
  | (none) "resolve_user ev n s = Some (None, s\<lparr>hd_users := m\<rparr>)" "login_account n m = None"
  | (account) u where "resolve_user ev n s = Some (Some (u_home_dir u, True), s\<lparr>hd_users := m\<rparr>)"
      "login_account n m = Some u" "is_safe_username n" "get_user m n = Some u" "u_enabled u"
proof (cases "login_account n m")
  case None
  show thesis
  proof (cases "is_safe_username n")
    case True
    with None have "opt_filter u_enabled (get_user m n) = None" by (simp add: login_account_def)
    with assms True have "resolve_user ev n s = Some (None, s\<lparr>hd_users := m\<rparr>)" by (simp add: resolve_user_def)
    from none [OF this None] show thesis .
  next
    case False
    then have "resolve_user ev n s = Some (None, s)" by (simp add: resolve_user_def)
    from unsafe [OF False this None] show thesis .
  qed
next
  case (Some u)
  then have "is_safe_username n" "get_user m n = Some u" "u_enabled u"
    by (auto simp: login_account_def split: if_splits dest: opt_filter_SomeD)
  moreover from this assms have "resolve_user ev n s = Some (Some (u_home_dir u, True), s\<lparr>hd_users := m\<rparr>)"
    by (simp add: resolve_user_def)
  ultimately show thesis using account Some by blast
qed



section \<open>Who gets a session\<close>


section \<open>A connection\<close>

definition demo_keyed :: fs where
  "demo_keyed = demo_fs\<lparr>entries := ([''home'', ''al'', ''al.pub''], NFile 0) # demo_entries\<rparr>"

definition demo_hev :: ssh_env where
  "demo_hev =
     \<lparr>he_login = demo_login\<lparr>le_json := demo_json\<lparr>encode := (\<lambda>_. None)\<rparr>\<rparr>, he_now = [], he_ns = 0, he_log_free = True,
      he_show_io = (\<lambda>_. []), he_parse_key = Some, he_reply_ok = True\<rparr>"

definition demo_ssh :: ssh where
  "demo_ssh = ssh_new demo_users file_logger_new [] ''10.0.0.1'' (users_path demo_process) (dir_path demo_home) demo_keyed"

lemma demo_keyed_node: "fs_node demo_keyed l =
    (if l = [''home'', ''al'', ''al.pub''] then Some (NFile 0) else fs_node demo_fs l)"
  by (simp add: fs_node_def demo_keyed_def demo_fs_def hm_get_def)

lemma demo_keyed_dirs: "dirs_to demo_keyed demo_home" "dirs_to demo_keyed [''cfg'']"
  by (auto simp: dirs_to_def prefix_one prefix_two demo_keyed_node demo_node demo_entries_def is_dir_node_def)

lemma demo_keyed_quiet [simp]: "no_faults demo_keyed" "faults demo_keyed c p = None"
  by (simp_all add: no_faults_def demo_keyed_def demo_fs_def)

lemma demo_hev_reload:
  "um_reload (le_json (he_login demo_hev)) (le_error_log (he_login demo_hev)) (hd_users_path demo_ssh) (hd_disk demo_ssh)
     (hd_users demo_ssh) = Some demo_users"
proof -
  have "locate demo_keyed True (dir_path ([''cfg''] @ [''users.json''])) = Inr ([''cfg''] @ [''users.json''])"
    by (rule locate_child) (simp_all add: demo_keyed_dirs file_slot_def demo_keyed_node demo_node demo_entries_def)
  then have "\<not> fs_exists demo_keyed (users_path demo_process)"
    by (simp add: demo_users_path fs_exists_def fs_metadata_def stat_at_def guarded_def demo_keyed_node demo_node demo_entries_def)
  then show ?thesis by (simp add: um_reload_def demo_ssh_def ssh_new_def)
qed

lemma demo_ssh_home: "path_of ''/home/al'' = dir_path demo_home"
  by (simp add: path_of_def comp_of_def dir_path_def)

lemma demo_home_usable: "home_usable demo_keyed ''/home/al''"
proof -
  have "trim ''/home/al'' = ''/home/al''"
    by (rule trim_id) (simp_all add: ws_front.simps ws_back.simps ws_ascii_def ws2_def ws3_def byte_in_def)
  then show ?thesis
    using locate_dirs [OF demo_keyed_dirs(1), of True]
    by (simp add: home_usable_def demo_ssh_home fs_kind_is_def fs_metadata_def stat_at_def guarded_def
        demo_keyed_node demo_node demo_entries_def node_meta_def fs_canonicalize_def)
qed

lemma demo_account: "login_account ''al'' demo_users = Some demo_user"
  by (simp add: login_account_def is_safe_username_def is_alnum_def byte_in_def get_user_def demo_users_def hm_get_def
      demo_user_def)

lemma demo_key_file: "fs_read_to_string demo_keyed (dir_path demo_home @ [Normal ''al.pub'']) = Inr ''hello''"
proof -
  have "fs_read demo_keyed (dir_path (demo_home @ [''al.pub''])) = Inr (content \<lparr>content = ''hello'', iattr = demo_attr\<rparr>)"
    by (rule read_written [OF demo_keyed_dirs(1)])
      (simp_all add: demo_keyed_node, simp add: demo_keyed_def demo_fs_def hm_get_def)
  then show ?thesis
    by (simp add: fs_read_to_string_def dir_path_def byte_in_def)
qed

lemma demo_trim: "trim ''hello'' = ''hello''"
  by (rule trim_id) (simp_all add: ws_front.simps ws_back.simps ws_ascii_def ws2_def ws3_def byte_in_def)

lemma demo_safe: "is_safe_username ''al''"
  by (simp add: is_safe_username_def is_alnum_def byte_in_def)

lemma demo_resolve:
  assumes "hd_users_path s = hd_users_path demo_ssh" "hd_disk s = demo_keyed" "hd_users s = demo_users"
  shows "resolve_user demo_hev ''al'' s = Some (Some (''/home/al'', True), s)"
proof -
  have "s\<lparr>hd_users := demo_users\<rparr> = s" using assms(3) by simp
  then show ?thesis
    using demo_hev_reload assms
    by (simp add: resolve_user_def demo_safe demo_ssh_def ssh_new_def get_user_def hm_get_def)
      (simp add: demo_users_def demo_user_def)
qed

lemma demo_finish:
  assumes "hd_disk s = demo_keyed"
  obtains s1 where "finish_login demo_hev ''al'' ''/home/al'' msg s = (AuthAccept, s1)"
  using finish_login_accept [of demo_hev "''al''" "''/home/al''" msg s] demo_home_usable assms
  by (metis prod.collapse)

lemma demo_key_login:
  assumes "hd_users_path s = hd_users_path demo_ssh" "hd_disk s = demo_keyed" "hd_users s = demo_users"
    "hd_keys_dir s = dir_path demo_home"
  shows "\<exists>s1. auth_publickey demo_hev ''al'' ''hello'' s = Some (AuthAccept, s1)"
proof -
  have k: "key_matches demo_hev (hd_keys_dir s) ''al'' ''hello'' (hd_disk s)"
    using key_path_of_safe [OF demo_safe, of "dir_path demo_home"] demo_key_file demo_trim
    by (simp add: key_matches_def assms) (simp add: demo_hev_def dir_path_def)
  obtain s1 where "finish_login demo_hev ''al'' ''/home/al'' (''User '' @ ''al'' @ '' logged in via public key'') s = (AuthAccept, s1)"
    by (rule demo_finish [OF assms(2)])
  then have "auth_publickey demo_hev ''al'' ''hello'' s = Some (AuthAccept, s1)"
    unfolding auth_publickey_def demo_resolve [OF assms(1-3)] using k by simp
  then show ?thesis by blast
qed

lemma demo_password_disk:
  assumes "auth_password demo_hev ''al'' ''pw'' demo_ssh = Some (a, s1)"
  shows "hd_disk s1 = demo_keyed"
proof -
  let ?m = "demo_users\<lparr>users := hm_insert ''al'' (demo_user\<lparr>u_last_login := Some 9\<rparr>) (users demo_users)\<rparr>"
  have r: "resolve_user demo_hev ''al'' demo_ssh = Some (Some (''/home/al'', True), demo_ssh)"
    by (rule demo_resolve) (simp_all add: demo_ssh_def ssh_new_def)
  have "snd (um_save (le_json (he_login demo_hev)) (dir_path ([''cfg''] @ [''users.json''])) m demo_keyed) = demo_keyed" for m
    using um_save_cases [OF demo_keyed_dirs(2), of "le_json (he_login demo_hev)" "''users.json''" m]
    by (auto simp: demo_hev_def)
  then have au: "snd (snd (um_authenticate (le_argon (he_login demo_hev)) (le_json (he_login demo_hev))
      (users_path (le_process (he_login demo_hev))) (le_now (he_login demo_hev)) ''al'' ''pw'' demo_users demo_keyed)) = demo_keyed"
    by (auto simp: um_authenticate_def Let_def demo_users_path demo_hev_def demo_login_def split: option.splits)
  from r assms au show ?thesis
    by (auto simp: auth_password_def Let_def demo_ssh_def ssh_new_def ssh_reject_def split: prod.splits if_splits
        dest: finish_login_disk)
qed





end
