(* ===== verification/SftpLife.thy ===== *)
theory SftpLife
  imports SftpServer SftpAccess
begin

text \<open>
  Properties of the SFTP server as a whole: its host key is stable and readable by its owner alone, and overlapping
  starts of the service lose a listener.
\<close>

section \<open>Writing a file with a mode\<close>

lemma read_view:
  assumes d: "dirs_to fs d" and nf: "no_faults fs" and v: "fs_view fs (d @ [n]) = Some (VFile (Some ind))"
  shows "fs_read fs (dir_path (d @ [n])) = Inr (content ind)"
    and "\<exists>m. fs_metadata fs (dir_path (d @ [n])) = Inr m \<and> m_kind m = KFile \<and> m_attr m = iattr ind"
proof -
  from v obtain i where i: "fs_node fs (d @ [n]) = Some (NFile i)" "hm_get (inodes fs) i = Some ind"
    by (auto simp: fs_view_def split: option.splits node.splits)
  show "fs_read fs (dir_path (d @ [n])) = Inr (content ind)" by (rule read_written [OF d nf i])
  have "file_slot fs (d @ [n])" using i by (simp add: file_slot_def)
  then show "\<exists>m. fs_metadata fs (dir_path (d @ [n])) = Inr m \<and> m_kind m = KFile \<and> m_attr m = iattr ind"
    using locate_child [OF d, of n True] i nf
    by (simp add: fs_metadata_def stat_at_def guarded_no_faults node_meta_def)
qed

lemma view_inode_other:
  assumes wf: "fs_wf fs" and i: "fs_node fs l = Some (NFile i)" and ne: "l2 \<noteq> l"
  shows "fs_view (fs\<lparr>inodes := hm_insert i x (inodes fs)\<rparr>) l2 = fs_view fs l2"
proof -
  have n: "fs_node (fs\<lparr>inodes := hm_insert i x (inodes fs)\<rparr>) l2 = fs_node fs l2" by (simp add: fs_node_def)
  show ?thesis
  proof (cases "fs_node fs l2 = Some (NFile i)")
    case True
    with fs_wf_inj [OF wf i] ne show ?thesis by blast
  next
    case False
    with n show ?thesis by (auto simp: fs_view_def split: option.splits node.splits)
  qed
qed

lemma write_with_mode_ok:
  assumes wf: "fs_wf fs" and d: "dirs_to fs d" and nf: "no_faults fs" and slot: "file_slot fs (d @ [n])"
  obtains fs2 a where "write_with_mode (dir_path (d @ [n])) s m fs = (Inr (), fs2)" "fs_wf fs2" "no_faults fs2"
    "dirs_to fs2 d" "fs_view fs2 (d @ [n]) = Some (VFile (Some \<lparr>content = s, iattr = a\<rparr>))" "a_mode a = m"
    "\<And>l. l \<noteq> d @ [n] \<Longrightarrow> fs_view fs2 l = fs_view fs l" "\<And>l. l \<noteq> d @ [n] \<Longrightarrow> fs_node fs2 l = fs_node fs l"
proof -
  let ?l = "d @ [n]" and ?w = "written fs (d @ [n]) s"
  obtain i ind where i: "fs_node ?w ?l = Some (NFile i)" "hm_get (inodes ?w) i = Some ind" "content ind = s"
    using written_content [OF wf slot] by blast
  have wfw: "fs_wf ?w" by (rule written_wf [OF wf]) simp
  have node: "fs_node ?w l = fs_node fs l" if "l \<noteq> ?l" for l using that by (simp add: written_node)
  have dw: "dirs_to ?w d" by (rule dirs_to_node [OF d]) (auto intro!: node simp: prefix_def)
  have nfw: "no_faults ?w" using nf written_env [of fs ?l s] by (simp add: no_faults_def same_env_def)
  have loc: "locate ?w True (dir_path ?l) = Inr ?l" by (rule locate_child [OF dw]) (simp add: file_slot_def i)
  let ?x = "ind\<lparr>iattr := set_mode m (iattr ind)\<rparr>"
  let ?fs = "?w\<lparr>inodes := hm_insert i ?x (inodes ?w)\<rparr>"
  have nodes: "fs_node ?fs l = fs_node ?w l" for l by (simp add: fs_node_def)
  have "write_with_mode (dir_path ?l) s m fs = (Inr (), ?fs)"
    using fs_write_file [OF wf d slot nf] loc i nfw
    by (simp add: write_with_mode_def fs_set_permissions_def guarded_no_faults)
  moreover have "fs_wf ?fs" by (rule fs_wf_inodes [OF wfw]) (simp add: i)
  moreover have "no_faults ?fs" using nfw by (simp add: no_faults_def)
  moreover have "dirs_to ?fs d" by (rule dirs_to_node [OF dw]) (simp add: nodes)
  moreover have "?x = \<lparr>content = s, iattr = set_mode m (iattr ind)\<rparr>" using i(3) by (cases ind) simp
  then have "fs_view ?fs ?l = Some (VFile (Some \<lparr>content = s, iattr = set_mode m (iattr ind)\<rparr>))"
    by (simp add: fs_view_def nodes i)
  moreover have "a_mode (set_mode m (iattr ind)) = m" by (simp add: set_mode_def)
  moreover have "fs_view ?fs l = fs_view fs l" if "l \<noteq> ?l" for l
    using view_inode_other [OF wfw i(1) that] written_elsewhere [OF wf slot that] by simp
  moreover have "fs_node ?fs l = fs_node fs l" if "l \<noteq> ?l" for l using nodes node [OF that] by simp
  ultimately show thesis by (rule that)
qed

text \<open>Claim C28: the host key is made once and kept.  When the key file does not exist in a directory reached
  without links and no call fails, the start generates a key and writes it, readable by its owner alone; every
  later start, whatever its source of randomness, loads this very key and changes nothing on the disk, given that
  the text written for a key is read back as this key.\<close>

theorem host_key_persists:
  assumes "fs_wf fs" "no_faults fs" "dirs_to fs d" "path_of p = dir_path (d @ [n])" "fs_node fs (d @ [n]) = None"
    and "file_slot fs (d @ [temp_name n ''pub''])" "temp_name n ''pub'' \<noteq> n"
    and "key_random kl = Some k" "key_to_openssh kl k = Some s" "key_public kl k = Some ps"
    and "key_from_openssh kl s = Some k" "utf8_valid s"
  shows "\<exists>fs1. load_or_generate_host_key kl p fs = (Inr k, fs1) \<and>
    (\<exists>m. fs_metadata fs1 (path_of p) = Inr m \<and> m_kind m = KFile \<and> a_mode (m_attr m) = 0x180) \<and>
    (\<forall>kl2. key_from_openssh kl2 = key_from_openssh kl \<longrightarrow> load_or_generate_host_key kl2 p fs1 = (Inr k, fs1))"
proof -
  let ?p = "dir_path (d @ [n])" and ?t = "temp_name n ''pub''"
  have slot: "file_slot fs (d @ [n])" using assms(5) by (simp add: file_slot_def)
  have no: "\<not> fs_exists fs ?p"
    using locate_child [OF assms(3) slot, of True] assms(2,5)
    by (simp add: fs_exists_def fs_metadata_def stat_at_def guarded_no_faults)
  have parent: "create_parent ?p fs = (Inr (), fs)"
    by (simp add: create_parent_def create_dir_all_ok [OF assms(3,2)])
  obtain fs1 a where w1: "write_with_mode ?p s 0x180 fs = (Inr (), fs1)" "fs_wf fs1" "no_faults fs1" "dirs_to fs1 d"
    and v1: "fs_view fs1 (d @ [n]) = Some (VFile (Some \<lparr>content = s, iattr = a\<rparr>))" "a_mode a = 0x180"
    and n1: "\<And>l. l \<noteq> d @ [n] \<Longrightarrow> fs_node fs1 l = fs_node fs l"
    by (rule write_with_mode_ok [OF assms(1,3,2) slot, of s "0x180"]) blast
  have slot1: "file_slot fs1 (d @ [?t])" using assms(6,7) n1 by (simp add: file_slot_def)
  obtain fs2 b where w2: "write_with_mode (dir_path (d @ [?t])) ps 0x1A4 fs1 = (Inr (), fs2)" "no_faults fs2" "dirs_to fs2 d"
    and v2: "\<And>l. l \<noteq> d @ [?t] \<Longrightarrow> fs_view fs2 l = fs_view fs1 l"
    by (rule write_with_mode_ok [OF w1(2,4,3) slot1, of ps "0x1A4"]) blast
  have gen: "load_or_generate_host_key kl p fs = (Inr k, fs2)"
    using assms(8-10) no parent w1(1) w2(1)
    by (simp add: load_or_generate_host_key_def generate_host_key_def assms(4) with_extension_dir)
  have v: "fs_view fs2 (d @ [n]) = Some (VFile (Some \<lparr>content = s, iattr = a\<rparr>))" using v1 v2 assms(7) by simp
  note rd = read_view [OF w2(3,2) v]
  then obtain m where m: "fs_metadata fs2 ?p = Inr m" "m_kind m = KFile" "a_mode (m_attr m) = 0x180" using v1(2) by auto
  have "load_or_generate_host_key kl2 p fs2 = (Inr k, fs2)" if "key_from_openssh kl2 = key_from_openssh kl" for kl2
    using that rd(1) m assms(11,12)
    by (simp add: load_or_generate_host_key_def assms(4) load_host_key_def fs_read_to_string_def tighten_mode_def
        fs_exists_def)
  with gen m show ?thesis by (auto simp: assms(4))
qed

definition demo_keys :: "string key_lib" where
  "demo_keys = \<lparr>key_random = Some ''k'', key_to_openssh = Some, key_from_openssh = Some, key_public = Some\<rparr>"

theorem host_key_persists_witness:
  "\<exists>fs1. load_or_generate_host_key demo_keys ''/cfg/host'' demo_fs = (Inr ''k'', fs1) \<and>
    load_or_generate_host_key (demo_keys\<lparr>key_random := Some ''other''\<rparr>) ''/cfg/host'' fs1 = (Inr ''k'', fs1)"
proof -
  have p: "path_of ''/cfg/host'' = dir_path ([''cfg''] @ [''host''])" by (simp add: path_of_def comp_of_def dir_path_def)
  have t: "temp_name ''host'' ''pub'' = ''host.pub''"
    by (simp add: temp_name_def split_ext_def split_once.simps)
  have "\<exists>fs1. load_or_generate_host_key demo_keys ''/cfg/host'' demo_fs = (Inr ''k'', fs1) \<and>
    (\<exists>m. fs_metadata fs1 (path_of ''/cfg/host'') = Inr m \<and> m_kind m = KFile \<and> a_mode (m_attr m) = 0x180) \<and>
    (\<forall>kl2. key_from_openssh kl2 = key_from_openssh demo_keys \<longrightarrow>
      load_or_generate_host_key kl2 ''/cfg/host'' fs1 = (Inr ''k'', fs1))"
    by (rule host_key_persists [OF _ _ _ p, where s = "''k''" and ps = "''k''"])
      (simp_all add: t demo_keys_def demo_node demo_entries_def byte_in_def)
  then show ?thesis by (auto simp: demo_keys_def)
qed


section \<open>Overlapping starts\<close>

text \<open>A disk whose host key is there with the right mode.\<close>

definition demo_keyed_host :: fs where
  "demo_keyed_host =
     demo_fs\<lparr>inodes := [(0, \<lparr>content = ''hello'', iattr = demo_attr\<lparr>a_mode := 0x180\<rparr>\<rparr>)]\<rparr>"

definition demo_sftp_start :: "string sftp_start_env" where
  "demo_sftp_start =
     \<lparr>se_config = (config_default demo_process)\<lparr>sftp := (sftp (config_default demo_process))\<lparr>host_key_path := ''/home/al/f''\<rparr>\<rparr>,
      se_config_free = True, se_keys = demo_keys, se_addr_ok = (\<lambda>_. True)\<rparr>"

lemma demo_host_key: "load_or_generate_host_key demo_keys ''/home/al/f'' demo_keyed_host = (Inr ''hello'', demo_keyed_host)"
proof -
  have p: "path_of ''/home/al/f'' = dir_path (demo_home @ [''f''])" by (simp add: path_of_def comp_of_def dir_path_def)
  have node: "fs_node demo_keyed_host l = fs_node demo_fs l" for l by (simp add: fs_node_def demo_keyed_host_def)
  have d: "dirs_to demo_keyed_host demo_home" by (rule dirs_to_node [of demo_fs]) (simp_all add: node)
  have nf: "no_faults demo_keyed_host" by (simp add: no_faults_def demo_keyed_host_def)
  have v: "fs_view demo_keyed_host (demo_home @ [''f'']) =
      Some (VFile (Some \<lparr>content = ''hello'', iattr = demo_attr\<lparr>a_mode := 0x180\<rparr>\<rparr>))"
    by (simp add: fs_view_def node demo_node demo_entries_def) (simp add: demo_keyed_host_def hm_get_def)
  note rd = read_view [OF d nf v]
  then obtain m where m: "fs_metadata demo_keyed_host (dir_path (demo_home @ [''f''])) = Inr m" "a_mode (m_attr m) = 0x180"
    by auto
  have "utf8_valid ''hello''" by (simp add: byte_in_def)
  with rd(1) m show ?thesis
    by (simp add: load_or_generate_host_key_def p fs_exists_def load_host_key_def fs_read_to_string_def tighten_mode_def
        demo_keys_def)
qed

lemma demo_sftp_launch:
  assumes "rt_disk rt = demo_keyed_host"
  shows "\<exists>s1 rt1. sftp_start demo_sftp_start s rt = (Inr (), s1, rt1) \<and> rt_disk rt1 = demo_keyed_host"
proof -
  have "rt_disk (tell x r) = rt_disk r" "rt_disk (set_flag i b r) = rt_disk r" "rt_disk (spawn_listener t a i r) = rt_disk r"
    for x r i b t a by (auto simp: tell_def put_task_def set_flag_def spawn_listener_def split: option.splits)
  with assms demo_host_key show ?thesis
    by (simp add: sftp_start_def demo_sftp_start_def new_channels_def Let_def)
qed

text \<open>Claim C11: overlapping starts of the SFTP service lose a listener.  Two starts that both see the empty slot
  can leave, with no call under way, an instance in the slot that is not running while the listener of the other
  one serves; whatever calls follow, nobody ever tells that listener to stop.\<close>

theorem sftp_overlapping_starts_leak:
  "\<exists>st s t k. slot_steps (sftp_service pr :: (string sftp_start_env, _, _) service) (slot_idle demo_keyed_host) st \<and>
     ss_slot st = Some s \<and> ss_calls st = [] \<and> \<not> sftp_is_running s (ss_rt st) \<and>
     hm_get (tasks (ss_rt st)) t = Some k \<and> tk_phase k = Listening \<and>
     {st1. slot_steps (sftp_service pr :: (string sftp_start_env, _, _) service) st st1} \<subseteq> {st1. untold (ss_rt st1) t}"
proof -
  let ?rt = "rt_start demo_keyed_host" and ?e = demo_sftp_start
  have nd: "rt_disk r1 = rt_disk r" if "sftp_server_new pr r = (s, r1)" for r r1 s
    using that by (auto simp: sftp_server_new_def sftp_server_with_paths_def new_flag_def set_flag_def)
  obtain s1 rt1 where n1: "sftp_server_new pr ?rt = (s1, rt1)" by fastforce
  then obtain sa rt2 where l1: "sftp_start ?e s1 rt1 = (Inr (), sa, rt2)" "rt_disk rt2 = demo_keyed_host"
    using demo_sftp_launch [of rt1 s1] nd [OF n1] by (auto simp: rt_start_def)
  obtain s2 rt3 where n2: "sftp_server_new pr rt2 = (s2, rt3)" by fastforce
  then obtain sb rt4 where l2: "sftp_start ?e s2 rt3 = (Inr (), sb, rt4)"
    using demo_sftp_launch [of rt3 s2] nd [OF n2] l1(2) by auto
  have free: "tasks ?rt = []" by (simp add: rt_start_def)
  have ops: "sv_new (sftp_service pr :: (string sftp_start_env, _, _) service) = sftp_server_new pr"
    "sv_start (sftp_service pr :: (string sftp_start_env, _, _) service) = sftp_start"
    "sv_running (sftp_service pr :: (string sftp_start_env, _, _) service) = sftp_is_running" by simp_all
  from sftp_slot.overlapping_starts [of pr ?rt s1 rt1 ?e sa rt2 s2 rt3 sb rt4, unfolded ops,
      OF n1 l1(1) n2 l2 rt_start_ok free, folded slot_idle_def]
  obtain st t k where st: "slot_steps (sftp_service pr :: (string sftp_start_env, _, _) service) (slot_idle demo_keyed_host) st"
    "rt_ok (ss_rt st)" "ss_slot st = Some sb" "ss_calls st = []" "\<not> sftp_is_running sb (ss_rt st)"
    "hm_get (tasks (ss_rt st)) t = Some k" "tk_phase k = Listening" "leaked sn_tx st t"
    by blast
  have "untold (ss_rt st1) t" if "slot_steps (sftp_service pr :: (string sftp_start_env, _, _) service) st st1" for st1
    using sftp_slot.leaked_steps [OF that st(2,8)] by (simp add: leaked_def)
  with st show ?thesis by (intro exI [of _ st] exI [of _ sb] exI [of _ t] exI [of _ k]) auto
qed

end
