(* ===== verification/SftpData.thy ===== *)
theory SftpData
  imports SftpProps
begin

text \<open>
  The SFTP requests as operations: permissions, the handle table, reading back what was written, the quota,
  enumeration of directories, and the digest extension.
\<close>

section \<open>Permissions\<close>

text \<open>What the user has to be allowed for a request; \<open>None\<close> is a request that asks no permission.\<close>

fun sftp_needs :: "sftp_op \<Rightarrow> (permissions \<Rightarrow> bool) option" where
  "sftp_needs (OpOpen _ f) = Some (\<lambda>p. open_allowed p f)"
| "sftp_needs (OpStat _) = Some can_list"
| "sftp_needs (OpLstat _) = Some can_list"
| "sftp_needs (OpOpendir _) = Some can_list"
| "sftp_needs (OpSetstat _ _) = Some can_write"
| "sftp_needs (OpSymlink _ _) = Some can_write"
| "sftp_needs (OpRemove _) = Some can_delete"
| "sftp_needs (OpMkdir _) = Some can_mkdir"
| "sftp_needs (OpRmdir _) = Some can_rmdir"
| "sftp_needs (OpRename _ _) = Some can_rename"
| "sftp_needs _ = None"

text \<open>Claim C32: an SFTP request the user has no permission for is refused with \<open>PermissionDenied\<close>: the disk,
  the open handles, the users and the quota cache are unchanged, and at most one record of the refusal is
  in the audit log.\<close>

theorem sftp_denied_no_effect:
  assumes "sftp_needs op = Some may" "\<not> may (sftp_permissions s)"
  shows "\<exists>s'. sftp_request ev op s = Some (Inl StPermissionDenied, s') \<and>
    s' = s\<lparr>slog := slog s'\<rparr> \<and> (slog s' = slog s \<or> (\<exists>i. slog s' = fl_log (se_now ev) i (slog s) \<and> \<not> fi_success i))"
  using assms
  by (cases op)
    (auto simp: sftp_open_def sftp_stat_def sftp_lstat_def attrs_reply_def sftp_opendir_def sftp_setstat_def
      sftp_symlink_def sftp_remove_def sftp_mkdir_def sftp_rmdir_def sftp_simple_def sftp_rename_def sftp_audit_def)

theorem sftp_denied_no_effect_witness:
  "\<exists>s'. sftp_request demo_senv (OpRemove ''f'') (demo_sftp\<lparr>susers := um_new\<rparr>) = Some (Inl StPermissionDenied, s')"
proof -
  have "\<not> can_delete (sftp_permissions (demo_sftp\<lparr>susers := um_new\<rparr>))"
    by (simp add: sftp_permissions_def get_user_def um_new_def permissions_default_def)
  then show ?thesis
    using sftp_denied_no_effect [of "OpRemove ''f''" can_delete "demo_sftp\<lparr>susers := um_new\<rparr>" demo_senv] by auto
qed

section \<open>Handles\<close>

text \<open>Claim C35: handles are fresh.  While fewer than \<open>2 ^ 64 - 1\<close> handles are open, the search for a handle name
  ends, and the name it gives is not in use; adding the entry changes no other handle.\<close>

theorem handle_fresh:
  assumes "length (sf_handles s) < 2 ^ 64 - 1"
  shows "\<exists>h s'. add_handle e s = Some (Inr (RHandle h), s') \<and> hm_get (sf_handles s) h = None \<and>
    hm_get (sf_handles s') h = Some e \<and> (\<forall>h'. h' = h \<or> hm_get (sf_handles s') h' = hm_get (sf_handles s) h') \<and>
    sdisk s' = sdisk s"
proof -
  obtain h n where f: "free_handle (Suc (length (sf_handles s))) (sf_handles s) (sf_next_handle s) = Some (h, n)"
    using free_handle_found [OF assms] by blast
  with free_handle_fresh [OF f] show ?thesis
    by (simp add: add_handle_def next_handle_id_def del: free_handle.simps)
qed

theorem handle_fresh_witness:
  "\<exists>h s'. add_handle (ODir [] []) demo_sftp = Some (Inr (RHandle h), s') \<and> hm_get (sf_handles s') h = Some (ODir [] [])"
  using handle_fresh [of demo_sftp "ODir [] []"] by auto

text \<open>closing.  A closed handle is gone: closing it again, reading, writing, \<open>fstat\<close> and \<open>readdir\<close> on it
  are answered with \<open>NoSuchFile\<close> and leave the session as it is.\<close>

theorem closed_handle_unusable:
  assumes "sftp_close h s = Some (Inr ROk, s')"
  shows "sftp_close h s' = Some (Inl StNoSuchFile, s') \<and> sftp_read ev h off len s' = Some (Inl StNoSuchFile, s') \<and>
    sftp_write ev h off [] s' = Some (Inl StNoSuchFile, s') \<and> sftp_fstat h s' = Some (Inl StNoSuchFile, s') \<and>
    sftp_readdir h s' = Some (Inl StNoSuchFile, s')"
proof -
  have "hm_get (sf_handles s') h = None"
    using assms by (auto simp: sftp_close_def Let_def split: option.splits open_entry.splits if_splits)
  then show ?thesis
    by (simp add: sftp_close_def sftp_read_def sftp_write_def quota_ok_def sftp_fstat_def sftp_readdir_def)
qed

theorem closed_handle_unusable_witness:
  "sftp_close ''h1'' (demo_sftp\<lparr>sf_handles := []\<rparr>) = Some (Inl StNoSuchFile, demo_sftp\<lparr>sf_handles := []\<rparr>)"
proof -
  have "sftp_close ''h1'' (demo_sftp\<lparr>sf_handles := [(''h1'', ODir [] [])]\<rparr>) = Some (Inr ROk, demo_sftp\<lparr>sf_handles := []\<rparr>)"
    by (simp add: sftp_close_def hm_get_def hm_remove_def)
  from closed_handle_unusable [OF this, of demo_senv 0 0] show ?thesis by simp
qed

section \<open>Writing and reading back\<close>

lemma fs_write_at_success:
  assumes "fs_write_at f off bs fs = (Inr (), fs1)" "bs \<noteq> []"
  shows "\<exists>i. fh_ino f = Some i \<and> seek_ok off \<and>
    fs1 = put_content i (if fh_append f then handle_content fs f @ bs else splice (unat off) bs (handle_content fs f)) fs"
proof (cases "guarded fs CWrite (fh_path f) (ok_or IsADirectory (fh_ino f))")
  case (Inr i)
  then have "fh_ino f = Some i" by (cases "fh_ino f") (auto dest: guarded_InrD)
  with Inr assms show ?thesis by (auto simp: fs_write_at_def Let_def split: if_splits)
qed (use assms in \<open>auto simp: fs_write_at_def split: if_splits\<close>)

lemma read_spliced: "take (length bs) (drop off (splice off bs old)) = bs"
  by (simp add: splice_def)


definition rw_flags :: open_flags where
  "rw_flags = read_flags\<lparr>of_write := True\<rparr>"

definition demo_open :: sftp where
  "demo_open = demo_sftp\<lparr>sf_handles := [(''h1'', OFile (new_handle (Some 0) (dir_path (demo_home @ [''f''])) (sftp_opts rw_flags)) True)]\<rparr>"

lemma demo_open_simps [simp]:
  "sdisk demo_open = demo_fs" "sf_home demo_open = ''/home/al''" "sftp_permissions demo_open = permissions_full"
  "hm_get (sf_handles demo_open) ''h1'' = Some (OFile (new_handle (Some 0) (dir_path (demo_home @ [''f''])) (sftp_opts rw_flags)) True)"
  by (simp_all add: demo_open_def hm_get_def)
    (simp add: sftp_permissions_def demo_sftp_def sftp_new_def get_user_def demo_users_def hm_get_def demo_user_def)

lemma rw_handle [simp]:
  "fh_ino (new_handle i p (sftp_opts rw_flags)) = i" "fh_read (new_handle i p (sftp_opts rw_flags))"
  "fh_write (new_handle i p (sftp_opts rw_flags))" "\<not> fh_append (new_handle i p (sftp_opts rw_flags))"
  by (simp_all add: new_handle_def sftp_opts_def rw_flags_def read_flags_def)

lemma demo_write:
  assumes "bs \<noteq> []" "hm_get (sf_handles s) h = Some (OFile (new_handle (Some i) p (sftp_opts rw_flags)) w)"
    and q: "quota_ok ev (of_nat (length bs)) s = Some (True, s1)" and "no_faults (sdisk s)" "seek_ok off"
  shows "\<exists>s'. sftp_write ev h off bs s = Some (Inr ROk, s')"
proof -
  let ?f = "new_handle (Some i) p (sftp_opts rw_flags)"
  note same = quota_ok_same [OF q]
  obtain c where w: "fs_write_at ?f off bs (sdisk s1) = (Inr (), put_content i c (sdisk s1))"
    using assms same by (simp add: fs_write_at_def guarded_no_faults Let_def)
  have "no_faults (put_content i c (sdisk s1))"
    using no_faults_env [OF same_env_prims(4)] assms(4) same by simp
  with w q same assms(2) show ?thesis by (simp add: sftp_write_def guarded_no_faults)
qed


section \<open>Quota\<close>

lemma below_put [simp]: "below (put_content i c fs) d = below fs d"
  by (simp add: below_def put_content_def split: option.split)

lemma size_at_put:
  "hm_get (inodes fs) i = Some ind \<Longrightarrow>
    size_at (put_content i c fs) l = (if fs_node fs l = Some (NFile i) then length c else size_at fs l)"
  by (auto simp: size_at_def fs_node_put inodes_put split: option.split node.split)

lemma bytes_below_put:
  assumes "fs_wf fs" "hm_get (inodes fs) i = Some ind" "length c \<le> length (content ind) + n"
  shows "bytes_below (put_content i c fs) d \<le> bytes_below fs d + n"
proof (cases "\<exists>l \<in> below fs d. fs_node fs l = Some (NFile i)")
  case False
  then have "(\<Sum>l \<in> below fs d. size_at (put_content i c fs) l) = (\<Sum>l \<in> below fs d. size_at fs l)"
    using assms(2) by (intro sum.cong) (auto simp: size_at_put)
  then show ?thesis by (simp add: bytes_below_def)
next
  case True
  then obtain l where l: "l \<in> below fs d" "fs_node fs l = Some (NFile i)" by blast
  have "(\<Sum>k \<in> below fs d - {l}. size_at (put_content i c fs) k) = (\<Sum>k \<in> below fs d - {l}. size_at fs k)"
  proof (rule sum.cong)
    fix k assume "k \<in> below fs d - {l}"
    then have "fs_node fs k \<noteq> Some (NFile i)" using fs_wf_inj [OF assms(1) l(2)] by blast
    then show "size_at (put_content i c fs) k = size_at fs k" using assms(2) by (simp add: size_at_put)
  qed simp
  moreover have "size_at (put_content i c fs) l = length c" "size_at fs l = length (content ind)"
    using assms(2) l(2) by (simp_all add: size_at_put) (simp add: size_at_def)
  ultimately show ?thesis
    using assms(3) l(1) by (simp add: bytes_below_def sum.remove [where x = l])
qed

lemma length_splice: "length (splice off bs old) = max (length old) (off + length bs)"
  by (auto simp: splice_def max_def)



end
