(* ===== verification/SftpExtended.thy ===== *)
theory SftpExtended
  imports SftpProps
begin

text \<open>
  The digest extension (\<open>extended.rs\<close>): the request's encoding, the hashing loop, and the whole request; and
  the enumeration of a directory in batches.
\<close>

section \<open>Big-endian numbers\<close>

lemma length_be_bytes [simp]: "length (be_bytes k n) = k"
  by (induction k arbitrary: n) simp_all

lemma be_value_append: "be_value (s @ [c]) = be_value s * 256 + of_char c"
  by (simp add: be_value_def)

lemma be_value_bytes: "be_value (be_bytes k n) = n mod 256 ^ k"
proof (induction k arbitrary: n)
  case 0
  then show ?case by (simp add: be_value_def)
next
  case (Suc k)
  have "n mod 256 ^ Suc k = n div 256 mod 256 ^ k * 256 + n mod 256"
    using mod_mult2_eq [of n 256 "256 ^ k"] by (simp add: mult.commute)
  then show ?case by (simp add: be_value_append Suc.IH of_char_mod_256)
qed

lemma get_range_here [simp]: "length a = from \<Longrightarrow> length b = n \<Longrightarrow> get_range from n (a @ b @ c) = Some b"
  by (simp add: get_range_def)

definition digest_request :: "string \<Rightarrow> u64 \<Rightarrow> u64 \<Rightarrow> string" where
  "digest_request p off len = be_bytes 4 (length p) @ p @ be_bytes 8 (unat off) @ be_bytes 8 (unat len)"

lemma unat_64_mod [simp]: "unat (x :: u64) mod 18446744073709551616 = unat x"
  using unat_lt64 [of x] by simp

lemma read_digest_request:
  assumes "utf8_valid p" "length p < 2 ^ 32"
  shows "parse_digest_request (digest_request p off len) = Some (p, off, len)"
proof -
  let ?d = "digest_request p off len"
  have "read_u32 ?d 0 = Some (length p)"
    using assms(2) get_range_here [of "[]" 0 "be_bytes 4 (length p)" 4 "p @ be_bytes 8 (unat off) @ be_bytes 8 (unat len)"]
    by (simp add: read_u32_def digest_request_def be_value_bytes)
  moreover have "get_range 4 (length p) ?d = Some p"
    using get_range_here [of "be_bytes 4 (length p)" 4 p "length p"] by (simp add: digest_request_def)
  moreover have "read_u64 ?d (4 + length p) = Some (unat off)"
    using get_range_here [of "be_bytes 4 (length p) @ p" "4 + length p" "be_bytes 8 (unat off)" 8 "be_bytes 8 (unat len)"]
    by (simp add: read_u64_def digest_request_def be_value_bytes)
  moreover have "read_u64 ?d (12 + length p) = Some (unat len)"
    using get_range_here [of "be_bytes 4 (length p) @ p @ be_bytes 8 (unat off)" "12 + length p" "be_bytes 8 (unat len)" 8 "[]"]
    by (simp add: read_u64_def digest_request_def be_value_bytes)
  ultimately show ?thesis using assms(1) by (simp add: parse_digest_request_def)
qed

section \<open>The loop\<close>

text \<open>The part of the file a request asks for.\<close>

definition digest_range :: "nat \<Rightarrow> string \<Rightarrow> string" where
  "digest_range n bs = (if n = 0 then bs else take n bs)"

lemma digest_loop_range: "digest_loop bs n hashed = hashed @ digest_range n bs"
proof (induction bs n hashed rule: digest_loop.induct)
  case (1 bs n hashed)
  let ?want = "if n = 0 then 8192 else min 8192 n" and ?got = "take (if n = 0 then 8192 else min 8192 n) bs"
  show ?case
  proof (cases "?got = [] \<or> (0 < n \<and> n - length ?got = 0)")
    case True
    show ?thesis
    proof (cases "bs = []")
      case empty: True
      then show ?thesis by (subst digest_loop.simps) (simp add: digest_range_def)
    next
      case bs: False
      then have "?got \<noteq> []" by (cases "n = 0") simp_all
      with True have n: "0 < n" "n \<le> length ?got" by auto
      then have "?got = take n bs" by (auto simp: min_def split: if_splits)
      with n \<open>?got \<noteq> []\<close> show ?thesis by (subst digest_loop.simps) (simp add: digest_range_def Let_def)
    qed
  next
    case False
    then have "digest_loop bs n hashed = digest_loop (drop ?want bs) (if 0 < n then n - length ?got else n) (hashed @ ?got)"
      using digest_loop.simps [of bs n hashed] by (cases "0 < n") (simp_all only: Let_def de_Morgan_disj simp_thms if_True if_False)
    also have "\<dots> = (hashed @ ?got) @ digest_range (if 0 < n then n - length ?got else n) (drop ?want bs)"
      using "1.IH" False by (cases "0 < n") (auto simp: Let_def)
    also have "\<dots> = hashed @ digest_range n bs"
    proof (cases "n = 0")
      case True
      then show ?thesis by (simp add: digest_range_def)
    next
      case n: False
      show ?thesis
      proof (cases "length bs < ?want")
        case True
        then show ?thesis using n by (simp add: digest_range_def)
      next
        case len: False
        then have "length ?got = ?want" by simp
        with False n have "?want < n" by (auto simp: min_def split: if_splits)
        then have "take n bs = ?got @ take (n - ?want) (drop ?want bs)"
          by (metis append_take_drop_id le_add_diff_inverse less_imp_le take_add)
        moreover have "8192 < n" using \<open>?want < n\<close> n by (simp add: min_def split: if_splits)
        ultimately show ?thesis using n \<open>length ?got = ?want\<close> by (simp add: digest_range_def)
      qed
    qed
    finally show ?thesis .
  qed
qed

section \<open>Batches of directory entries\<close>

text \<open>A client that asks for entries until the end of the directory, at most \<open>n\<close> times.\<close>

fun collect_dir :: "nat \<Rightarrow> string \<Rightarrow> sftp \<Rightarrow> string list option" where
  "collect_dir 0 h s = None"
| "collect_dir (Suc n) h s =
     (case sftp_readdir h s of
        Some (Inr (RName es), s') \<Rightarrow> map_option ((@) (map fst es)) (collect_dir n h s')
      | Some (Inl StEof, _) \<Rightarrow> Some []
      | _ \<Rightarrow> None)"

lemma collect_dir_all:
  "hm_get (sf_handles s) h = Some (ODir q ns) \<Longrightarrow> faults (sdisk s) CNextEntry q = None \<Longrightarrow> length ns < 100 * n \<Longrightarrow>
    collect_dir (Suc n) h s = Some (map utf8_lossy ns)"
proof (induction n arbitrary: ns s)
  case 0
  then show ?case by simp
next
  case (Suc n)
  show ?case
  proof (cases "ns = []")
    case True
    with Suc.prems show ?thesis by (simp add: sftp_readdir_def guarded_def)
  next
    case False
    let ?s = "s\<lparr>sf_handles := hm_insert h (ODir q (drop 100 ns)) (sf_handles s)\<rparr>"
    have r: "sftp_readdir h s = Some (Inr (RName (map (\<lambda>n. (utf8_lossy n, dir_entry_attrs (sdisk s) q n)) (take 100 ns))), ?s)"
      using Suc.prems(1,2) False by (simp add: sftp_readdir_def guarded_def)
    have h: "hm_get (sf_handles ?s) h = Some (ODir q (drop 100 ns))" by simp
    show ?thesis
    proof (cases "n = 0")
      case True
      with Suc.prems(3) have "drop 100 ns = []" by simp
      with h Suc.prems(2) have "sftp_readdir h ?s = Some (Inl StEof, ?s)" by (simp add: sftp_readdir_def guarded_def)
      moreover have "take 100 ns = ns" using True Suc.prems(3) by simp
      ultimately show ?thesis using r True by (simp add: comp_def)
    next
      case False
      with Suc.prems(3) have "length (drop 100 ns) < 100 * n" by simp
      from Suc.IH [OF h _ this] Suc.prems(2) r have "collect_dir (Suc (Suc n)) h s = Some (map utf8_lossy (take 100 ns) @ map utf8_lossy (drop 100 ns))"
        by (simp add: comp_def)
      then show ?thesis by (metis append_take_drop_id map_append)
    qed
  qed
qed

section \<open>Properties\<close>

text \<open>a digest request is answered with the hash of exactly the bytes it asks for.  For a file that can be
  opened and read, the reply is the hexadecimal hash of the range from the offset, of the length given or
  up to the end for length zero, whatever the size of the file (the loop reads 8 KiB at a time and ends).\<close>

theorem sftp_digest_of_range:
  assumes "utf8_valid p" "length p < 2 ^ 32" "sftp_resolve (sftp_home s) p = Inr q"
    and "fs_open opts_read_only q (sdisk s) = (Inr h, fs1)"
    and "fs_read_at h off (length (handle_content (sdisk s) h)) (sdisk s) = Inr bs"
  shows "sftp_extended ev ''sha256sum@openssh.com'' (digest_request p off len) s =
      Some (Inr (RExtended (se_hex ev (se_sha256 ev (digest_range (unat len) bs)))), s) \<and>
    sftp_extended ev ''md5sum@openssh.com'' (digest_request p off len) s =
      Some (Inr (RExtended (se_hex ev (se_md5 ev (digest_range (unat len) bs)))), s)"
  using assms(3-5)
  by (simp add: sftp_extended_def extended_digest_def read_digest_request [OF assms(1,2)] digest_file_def digest_loop_range)

theorem sftp_digest_of_range_witness:
  "map_option fst (sftp_extended demo_senv ''md5sum@openssh.com'' (digest_request ''f'' 1 3) demo_sftp) =
    Some (Inr (RExtended ''ell''))"
proof -
  let ?q = "dir_path (demo_home @ [''f''])"
  have res: "sftp_resolve (sftp_home demo_sftp) ''f'' = Inr ?q"
    unfolding sftp_home_def demo_sftp_simps demo_home_path by code_simp
  have node: "fs_node demo_fs (demo_home @ [''f'']) = Some (NFile 0)" by (simp add: demo_node demo_entries_def)
  have "locate demo_fs True ?q = Inr (demo_home @ [''f''])"
    by (rule locate_child [OF demo_dirs(2)]) (simp only: file_slot_def node option.case node.case)
  with node have o: "fs_open opts_read_only ?q (sdisk demo_sftp) = (Inr (new_handle (Some 0) ?q opts_read_only), demo_fs)"
    by (simp add: fs_open_def guarded_def)
  have c: "handle_content demo_fs (new_handle (Some 0) ?q opts_read_only) = ''hello''"
    by (simp add: handle_content_def new_handle_def) (simp add: demo_fs_def hm_get_def)
  then have r: "fs_read_at (new_handle (Some 0) ?q opts_read_only) 1 (length (handle_content (sdisk demo_sftp)
      (new_handle (Some 0) ?q opts_read_only))) (sdisk demo_sftp) = Inr ''ello''"
    by (simp add: fs_read_at_def seek_ok_def guarded_def) (simp add: new_handle_def opts_read_only_def opts_new_def)
  have range: "digest_range 3 ''ello'' = ''ell''" by code_simp
  show ?thesis
    using sftp_digest_of_range [OF _ _ res o r, of demo_senv 3]
    by (simp add: byte_in_def demo_senv_def range)
qed

text \<open>a directory is listed completely.  The batches of an open directory, asked for until the end, are
  the names it was opened with, each once and in order, and the end is reached after one request
  per hundred names and one more.\<close>

theorem sftp_readdir_complete:
  assumes "hm_get (sf_handles s) h = Some (ODir q ns)" "faults (sdisk s) CNextEntry q = None" "length ns < 100 * n"
  shows "collect_dir (Suc n) h s = Some (map utf8_lossy ns)"
  using assms by (rule collect_dir_all)

theorem sftp_readdir_complete_witness:
  "collect_dir 2 ''h1'' (demo_sftp\<lparr>sf_handles := [(''h1'', ODir (dir_path demo_home) [''f'', ''g''])]\<rparr>) = Some [''f'', ''g'']"
proof -
  have "utf8_lossy ''f'' = ''f''" "utf8_lossy ''g'' = ''g''"
    by code_simp+
  moreover have quiet: "faults (sdisk demo_sftp) c p = None" for c p
    by (simp add: demo_sftp_def sftp_new_def demo_fs_def)
  ultimately show ?thesis
    using sftp_readdir_complete [of "demo_sftp\<lparr>sf_handles := [(''h1'', ODir (dir_path demo_home) [''f'', ''g''])]\<rparr>"
        "''h1''" "dir_path demo_home" "[''f'', ''g'']" 1] quiet
    by (simp add: hm_get_def numeral_2_eq_2)
qed

end
