(* ===== verification/Spec2Isabelle.thy ===== *)
theory Spec2Isabelle
  imports DaemonRun GuiUserPage GuiLogPage GuiSecurity GuiSpin SftpLife SftpData SftpExtended FtpSession LoginTracker SpeedLimiter
begin

text \<open>
  WFTPD is an FTP and SFTP server suite in Rust.  The daemon \<open>wftpd\<close> runs an FTP server (\<open>ftp/\<close>, a storage backend and
  an authenticator under libunftp) and an SFTP server (\<open>sftp/\<close>, a connection handler under russh and the file
  requests under russh-sftp), both over the shared parts in \<open>common/\<close>; the front end \<open>wftpg\<close> talks to it through a
  control service (\<open>proto/\<close>, tonic).  The theories follow the crates, bottom up; every operation of the sources has a
  definition of its name, state is passed explicitly, errors are values of a sum type, and a panic is \<open>None\<close>.

  Base.  \<open>Prelude\<close>: machine integers with the saturating operations of the sources, hash maps, byte strings,
  UTF-8, trimming and splitting.  \<open>Messages\<close>: the message constants as bytes.  \<open>RustPath\<close>: the paths of \<open>std::path\<close>.
  \<open>FsModel\<close>: a POSIX file system with links, inodes, open handles and, as a parameter, calls that fail; \<open>FsFacts\<close> its
  well-formedness and frame lemmas, \<open>FsConfine\<close> that every call given a location below a link-free root changes
  nothing outside it, \<open>AtomicSave\<close> the write-then-rename sequence all savers share.  \<open>Confinement\<close>: the lexical walk
  of client paths.  \<open>RingBuffer\<close>: the bounded log as a locale, met by the audit log and by the program log.
  \<open>Demo\<close>: the concrete data of the witnesses.

  Shared parts (\<open>common/src\<close>).  \<open>Users\<close> is \<open>users.rs\<close>: accounts, permissions, and the operations as instances of
  one locale of account operations.  \<open>Paths\<close> is \<open>paths.rs\<close>, \<open>Config\<close> and \<open>IpFilter\<close> are \<open>config.rs\<close>.
  \<open>LoginTracker\<close>, \<open>SpeedLimiter\<close>, \<open>Quota\<close>, \<open>FileLogger\<close> and \<open>TracingLogger\<close> are the files of these names.  Their lemmas
  show the meaning of a login, round trips of saving and loading, that a failed save keeps the old file, the
  precedence of the filter lists, the rate a throttled client can reach, and that each log is the end of its history.

  FTP (\<open>ftp/src\<close>).  \<open>FtpAuth\<close> is \<open>auth.rs\<close> and the options and builder of \<open>server.rs\<close>; \<open>FtpStorage\<close> is \<open>storage.rs\<close>,
  and \<open>FtpSession\<close> runs its requests as a session: no sequence of them changes anything outside the root.
  \<open>FtpServer\<close> is the life cycle of \<open>server.rs\<close>.

  SFTP (\<open>sftp/src\<close>).  \<open>SftpOps\<close>, \<open>SftpProtocol\<close> and the extensions in \<open>SftpExtended\<close> are \<open>ops/mod.rs\<close>, \<open>ops/protocol.rs\<close>
  and \<open>ops/extended.rs\<close>; \<open>SftpSession\<close> is a session of any requests, \<open>SftpProps\<close> and \<open>SftpData\<close> what it keeps, what it
  returns, and the two ways out of the home.  \<open>SftpHandler\<close> is \<open>handler.rs\<close> as a state machine over the calls of
  russh, and \<open>SftpAccess\<close> says who gets a file session.  \<open>SftpServer\<close> is \<open>server.rs\<close> with the host key, and \<open>SftpLife\<close>
  its properties.

  Tasks and slots.  \<open>Runtime\<close> models the tokio tasks of the listeners as a step relation (a task binds or fails, ends,
  closes) over flags and channels; \<open>Service\<close> the slot of \<open>state.rs\<close> that starts and stops one server, one call at a
  time (\<open>slot_start\<close>, \<open>slot_stop\<close>) and with overlapping calls (\<open>slot_step\<close>).  The contract of a server is the locale
  \<open>service_laws\<close>; \<open>dropping_service\<close> and \<open>keeping_service\<close> extend it by what dropping an instance does, and they are
  interpreted by the FTP and the SFTP server.  This is where the two differ: a listener of FTP can always be
  stopped, one of SFTP can be lost.

  Daemon (\<open>wftpd/src\<close>, \<open>proto/src\<close>).  \<open>Backend\<close> is \<open>state.rs\<close> and \<open>main.rs\<close>, \<open>Logs\<close> is \<open>logs.rs\<close>, \<open>Convert\<close> is
  \<open>proto/src/convert.rs\<close>, \<open>Control\<close> is \<open>control.rs\<close> with every request.  \<open>ControlProps\<close> shows what the requests leave
  in memory, on the disk and in the slots; \<open>DaemonRun\<close> composes start-up, any requests and the shutdown.

  Front end (\<open>wftpg/src\<close>).  \<open>GuiClient\<close> is \<open>lib.rs\<close> and \<open>client.rs\<close>: a local copy of configuration and users, and the
  calls, each of which runs the daemon's handler on the daemon's state.  A page is a record of what its widgets hold,
  and a press of its button a function of the form, the copy and the daemon: \<open>GuiConfig\<close> is \<open>server_tab.rs\<close>,
  \<open>security_tab.rs\<close> and the settings of \<open>log_tab.rs\<close>, \<open>GuiForms\<close> what these pages load into their widgets, \<open>GuiUsers\<close>
  the user pages with \<open>suggested_dirs.rs\<close> and the start of \<open>main_window.rs\<close>, \<open>GuiLogs\<close> the log pages, \<open>GuiMessages\<close>
  their constants.  \<open>GuiProps\<close> composes front end and daemon: what a saved page makes of the daemon's state, what it
  overwrites, which log files it misses; \<open>GuiForms\<close> also says which configurations survive an untouched page.
  \<open>GuiService\<close> is \<open>service_tab.rs\<close> as a step relation over the polls of the main loop and the workers, with its
  invariant, what its labels can show, and that they can always catch up; \<open>GuiLogPage\<close> is the same for the loads of the
  log pages, and \<open>GuiUserPage\<close> runs the user page with its modal dialogs on any events.  \<open>GuiSecurity\<close> is the filter lists
  of the security page with their rows, from a press to the FTP login it refuses, and what a failed press leaves behind.
  \<open>GuiSpin\<close> is \<open>utils.rs\<close>: the conversions of the spin buttons through floating point are the functions the pages are
  modelled with.  \<open>GuiLogin\<close> follows an account from the user dialog to a login at the daemon.

  Parameters.  Code that is not in the repository is an argument of the definitions that use it: the codecs of TOML
  and JSON, Argon2 (\<open>argon\<close>), the parser of network prefixes, the key library of russh, the digests, the appenders
  and the target filter of tracing, \<open>Display\<close> of errors, clocks, and which calls of the operating system fail.  What a
  property needs of them is one of its hypotheses (a printed configuration parses to itself, say), and its witness
  gives a concrete instance.

  Bounds and fuel.  Following links is bounded as in the kernel, with an error beyond it.  The walk of a home directory
  has fuel; for a link-free home every fuel above its depth gives the sum of the sizes, which is proved, not
  assumed.  The search for a free handle name ends after at most one step per handle in use.  Loops over bytes or
  lines are structural.  Integers keep the width of the source where it matters (quota, offsets, tokens, counters).

  Sequential calls.  A request runs from start to end; overlapping calls are modelled where the sources let them
  interfere on purpose, in the slots.  The events of the program log are modelled where they are the only record of
  an operation (the audit events); the messages that only trace the flow are left out.

  Not modelled: of \<open>wftpg\<close> the layout of the widgets, the file choosers, the window with its size and its icon, which are
  calls of GTK alone; \<open>proto\<close>'s generated message types, beyond the records of the conversions; the libraries
  named above; packaging.
\<close>

end
